(* ===== verification/Go_Prelude.thy ===== *)
theory Go_Prelude
  imports Main
begin

text \<open>
  Prelude: the Go notions every component uses (error values, outcomes of a call that may fail or
  panic, nil and non-nil slices, fixed-width integers) and the generic facts on lists, filters and
  prefixes that the component theories share.
\<close>

named_theorems handler_defs "definitions of the HTTP handlers and of the responder they call"
named_theorems store_defs "definitions of the PostgreSQL store operations"
named_theorems page_simps "simplification rules of pages and page requests"

section \<open>Errors\<close>

text \<open>
  Error values as the program tells them apart: the sentinels it compares with \<open>errors.Is\<close>, leaf
  errors that only carry a text, \<open>fmt.Errorf("%s: %w", p, e)\<close> and \<open>errors.Join\<close>.
\<close>

datatype go_error =
    ErrNotFound
  | ErrNoRows
  | DeadlineExceeded
  | Canceled
  | ErrorText string
  | Wrapped string go_error
  | Joined "go_error list"

fun join_with :: "string \<Rightarrow> string list \<Rightarrow> string" where
  "join_with sep [] = []"
| "join_with sep [x] = x"
| "join_with sep (x # y # ys) = x @ sep @ join_with sep (y # ys)"

fun error_text :: "go_error \<Rightarrow> string" where
  "error_text ErrNotFound = ''resource not found''"
| "error_text ErrNoRows = ''no rows in result set''"
| "error_text DeadlineExceeded = ''context deadline exceeded''"
| "error_text Canceled = ''context canceled''"
| "error_text (ErrorText s) = s"
| "error_text (Wrapped p e) = p @ '': '' @ error_text e"
| "error_text (Joined es) = join_with [CHR 0x0A] (map error_text es)"

fun errors_is :: "go_error \<Rightarrow> go_error \<Rightarrow> bool" where
  "errors_is (Wrapped p e) target \<longleftrightarrow> Wrapped p e = target \<or> errors_is e target"
| "errors_is (Joined es) target \<longleftrightarrow> Joined es = target \<or> (\<exists>e \<in> set es. errors_is e target)"
| "errors_is e target \<longleftrightarrow> e = target"

section \<open>Outcomes of a call\<close>

text \<open>A Go call returns a value, returns an error, or panics; the panic carries its message.\<close>

datatype 'a outcome = Ok 'a | Fail go_error | Panic string

fun outcome_bind :: "'a outcome \<Rightarrow> ('a \<Rightarrow> 'b outcome) \<Rightarrow> 'b outcome" where
  "outcome_bind (Ok x) k = k x"
| "outcome_bind (Fail e) k = Fail e"
| "outcome_bind (Panic m) k = Panic m"

lemma outcome_bind_Ok_iff [simp]:
  "outcome_bind r k = Ok y \<longleftrightarrow> (\<exists>x. r = Ok x \<and> k x = Ok y)"
  by (cases r) auto

lemma outcome_bind_Ok_id [simp]: "outcome_bind r Ok = r"
  by (cases r) auto

lemma outcome_bind_assoc:
  "outcome_bind (outcome_bind r k) l = outcome_bind r (\<lambda>x. outcome_bind (k x) l)"
  by (cases r) auto

section \<open>Slices\<close>

text \<open>A nil slice and an empty one have the same length but not the same JSON encoding.\<close>

datatype 'a slice = NilSlice | Slice "'a list"

primrec elems :: "'a slice \<Rightarrow> 'a list" where
  "elems NilSlice = []"
| "elems (Slice xs) = xs"

definition slice_len :: "'a slice \<Rightarrow> int" where
  "slice_len s = int (length (elems s))"

lemma slice_len_simps [simp]:
  "slice_len NilSlice = 0" "slice_len (Slice xs) = int (length xs)"
  by (simp_all add: slice_len_def)

section \<open>Fixed-width integers\<close>

text \<open>Values of \<open>int\<close>/\<open>int64\<close> and \<open>int32\<close> are integers; arithmetic and conversions wrap.\<close>

definition wrap64 :: "int \<Rightarrow> int" where
  "wrap64 x = signed_take_bit 63 x"

definition wrap32 :: "int \<Rightarrow> int" where
  "wrap32 x = signed_take_bit 31 x"

lemma wrap64_id: "- (2 ^ 63) \<le> x \<Longrightarrow> x < 2 ^ 63 \<Longrightarrow> wrap64 x = x"
  by (simp add: wrap64_def signed_take_bit_int_eq_self)

lemma wrap32_id: "- (2 ^ 31) \<le> x \<Longrightarrow> x < 2 ^ 31 \<Longrightarrow> wrap32 x = x"
  by (simp add: wrap32_def signed_take_bit_int_eq_self)

section \<open>Strictly ascending lists\<close>

text \<open>
  The database answers every collection query with a list that is strictly ascending in its key.
  These facts say how filters and limits act on such a list.
\<close>

abbreviation ascending :: "'k::linorder list \<Rightarrow> bool" where
  "ascending \<equiv> sorted_wrt (<)"

lemma ascending_distinct: "ascending ks \<Longrightarrow> distinct ks"
  by (induction ks) auto

lemma ascending_map_filter: "ascending (map f xs) \<Longrightarrow> ascending (map f (filter P xs))"
  by (induction xs) auto

lemma ascending_map_take: "ascending (map f xs) \<Longrightarrow> ascending (map f (take n xs))"
  by (metis sorted_wrt_take take_map)

lemma ascending_after_split:
  assumes "ascending (map f (xs @ x # ys))"
  shows "filter (\<lambda>y. f x < f y) (xs @ x # ys) = ys"
  using assms by (auto simp: sorted_wrt_append filter_empty_conv intro!: filter_True)

lemma ascending_eq_of_set:
  "ascending xs \<Longrightarrow> ascending ys \<Longrightarrow> set xs = set ys \<Longrightarrow> xs = ys"
  by (meson sorted_distinct_set_unique strict_sorted_iff)

lemma filter_after_after:
  fixes k k' :: "'k::linorder"
  assumes "k \<le> k'"
  shows "filter (\<lambda>x. k' < f x) (filter (\<lambda>x. k < f x) xs) = filter (\<lambda>x. k' < f x) xs"
  using assms by (auto intro: filter_cong)

end
