(* ===== verification/Catalog.thy ===== *)
theory Catalog
  imports Go_Prelude
begin

text \<open>
  \<open>internal/catalog/catalog.go\<close>: the API-domain request and response types, pages and their
  continuation cursors, and the read port \<open>Repository\<close> as a record of functions. A pointer field is
  an \<open>option\<close>, an embedded struct is a record extension, a slice is a \<open>slice\<close> (nil or not), and a
  \<open>time.Time\<close> is its instant in nanoseconds. The interface method \<open>pageID\<close> (\<open>pageHash\<close>) of a page
  item is passed to the generic functions as an argument.
\<close>

section \<open>Page requests\<close>

type_synonym go_time = int

record PageRequest =
  AfterID :: int
  Size :: int

definition FetchSize :: "PageRequest \<Rightarrow> int" where
  "FetchSize p = wrap64 (Size p + 1)"

record HashPageRequest =
  AfterHash :: "int option"
  HashSize :: int

definition HashFetchSize :: "HashPageRequest \<Rightarrow> int" where
  "HashFetchSize p = wrap64 (HashSize p + 1)"

lemma FetchSize_small [page_simps]: "0 \<le> Size p \<Longrightarrow> Size p < 2 ^ 62 \<Longrightarrow> FetchSize p = Size p + 1"
  by (simp add: FetchSize_def wrap64_id)

lemma HashFetchSize_small [page_simps]:
  "0 \<le> HashSize p \<Longrightarrow> HashSize p < 2 ^ 62 \<Longrightarrow> HashFetchSize p = HashSize p + 1"
  by (simp add: HashFetchSize_def wrap64_id)

section \<open>Pages\<close>

record 'a Page =
  Items :: "'a slice"
  HasMore :: bool

text \<open>
  Slicing \<open>items[:requestedSize]\<close> panics for a negative bound; an upper bound is no concern because
  the slice is longer than \<open>requestedSize\<close> when it is cut.
\<close>

definition slice_upto :: "'a slice \<Rightarrow> int \<Rightarrow> 'a slice outcome" where
  "slice_upto s n =
     (if n < 0 then Panic ''runtime error: slice bounds out of range''
      else Ok (Slice (take (nat n) (elems s))))"

definition NewPage :: "'a slice \<Rightarrow> int \<Rightarrow> 'a Page outcome" where
  "NewPage items requestedSize =
     (let hasMore = slice_len items > requestedSize in
      if hasMore
      then outcome_bind (slice_upto items requestedSize)
             (\<lambda>cut. Ok \<lparr>Items = cut, HasMore = hasMore\<rparr>)
      else Ok \<lparr>Items = items, HasMore = hasMore\<rparr>)"

definition NextAfterID :: "('a \<Rightarrow> int) \<Rightarrow> 'a Page \<Rightarrow> int option" where
  "NextAfterID pageID p =
     (if \<not> HasMore p \<or> slice_len (Items p) = 0 then None
      else Some (pageID (last (elems (Items p)))))"

record 'a HashPage =
  HashItems :: "'a slice"
  HashHasMore :: bool

definition NewHashPage :: "'a slice \<Rightarrow> int \<Rightarrow> 'a HashPage outcome" where
  "NewHashPage items requestedSize =
     (let hasMore = slice_len items > requestedSize in
      if hasMore
      then outcome_bind (slice_upto items requestedSize)
             (\<lambda>cut. Ok \<lparr>HashItems = cut, HashHasMore = hasMore\<rparr>)
      else Ok \<lparr>HashItems = items, HashHasMore = hasMore\<rparr>)"

definition NextAfterHash :: "('a \<Rightarrow> int) \<Rightarrow> 'a HashPage \<Rightarrow> int option" where
  "NextAfterHash pageHash p =
     (if \<not> HashHasMore p \<or> slice_len (HashItems p) = 0 then None
      else Some (pageHash (last (elems (HashItems p)))))"

lemma NewPage_nil [page_simps]:
  "0 \<le> n \<Longrightarrow> NewPage NilSlice n = Ok \<lparr>Items = NilSlice, HasMore = False\<rparr>"
  by (simp add: NewPage_def)

lemma NewPage_negative:
  "n < 0 \<Longrightarrow> NewPage s n = Panic ''runtime error: slice bounds out of range''"
  by (simp add: NewPage_def slice_upto_def slice_len_def)

lemma NewPage_Slice [page_simps]:
  "0 \<le> n \<Longrightarrow> NewPage (Slice xs) n = Ok \<lparr>Items = Slice (take (nat n) xs), HasMore = int (length xs) > n\<rparr>"
  by (auto simp: NewPage_def slice_upto_def Let_def)

lemma NewHashPage_Slice [page_simps]:
  "0 \<le> n \<Longrightarrow>
   NewHashPage (Slice xs) n = Ok \<lparr>HashItems = Slice (take (nat n) xs), HashHasMore = int (length xs) > n\<rparr>"
  by (auto simp: NewHashPage_def slice_upto_def Let_def)

section \<open>Filters and lookups\<close>

record ArtistFilter =
  ArtistFilter_Name :: string
  ArtistFilter_RealName :: string

record LabelFilter =
  LabelFilter_Name :: string

record MasterFilter =
  MasterFilter_Title :: string
  MasterFilter_Year :: "int option"

record ReleaseFilter =
  ReleaseFilter_Title :: string
  ReleaseFilter_Country :: string
  ReleaseFilter_Year :: "int option"
  ReleaseFilter_Month :: "int option"
  ReleaseFilter_Master :: "bool option"

record CatalogNumberLookup =
  LabelID :: int
  CatalogNumber :: string

record IdentifierLookup =
  Identifier_Type :: string
  Identifier_Value :: string

section \<open>Snapshot\<close>

record SnapshotEntity =
  EntityType :: string
  EntityStatus :: string
  DumpDate :: "string option"
  AppliedAt :: "go_time option"
  Processor :: "string option"
  ProcessorVersion :: "string option"

record CatalogSnapshot =
  SnapshotReady :: bool
  SnapshotStatus :: string
  UpdatedAt :: go_time
  Entities :: "SnapshotEntity slice"

section \<open>Artists\<close>

record Artist =
  Artist_ID :: int
  Artist_Name :: "string option"
  Artist_RealName :: "string option"
  Artist_Profile :: "string option"
  Artist_DataQuality :: "string option"

record ArtistReference =
  ArtistRef_ID :: int
  ArtistRef_Name :: "string option"
  ArtistRef_ResourceURL :: string

record ArtistDetail = Artist +
  Artist_Members :: "ArtistReference slice"
  Artist_Groups :: "ArtistReference slice"
  Artist_Aliases :: "ArtistReference slice"
  Artist_NameVariations :: "string slice"
  Artist_URLs :: "string slice"
  Artist_URI :: string
  Artist_ReleaseURL :: string

record ArtistRelease =
  ArtistRelease_ID :: int
  ArtistRelease_Role :: "string option"
  ArtistRelease_Title :: "string option"
  ArtistRelease_Country :: "string option"
  ArtistRelease_DataQuality :: "string option"
  ArtistRelease_Year :: "int option"
  ArtistRelease_Month :: "int option"
  ArtistRelease_Day :: "int option"
  ArtistRelease_ListedDate :: "string option"
  ArtistRelease_IsMaster :: "bool option"
  ArtistRelease_MasterID :: "int option"
  ArtistRelease_Notes :: "string option"
  ArtistRelease_Status :: "string option"
  ArtistRelease_ResourceURL :: string

section \<open>Labels\<close>

record Label =
  Label_ID :: int
  Label_ContactInfo :: "string option"
  Label_DataQuality :: "string option"
  Label_Name :: "string option"
  Label_Profile :: "string option"

record LabelReference =
  LabelRef_ID :: int
  LabelRef_Name :: "string option"
  LabelRef_ResourceURL :: string

record LabelDetail = Label +
  Label_Parent :: "LabelReference option"
  Label_Sublabels :: "LabelReference slice"
  Label_URLs :: "string slice"
  Label_URI :: string
  Label_ReleaseURL :: string

record LabelRelease =
  LabelRelease_ID :: int
  LabelRelease_Artist :: "string option"
  LabelRelease_Title :: "string option"
  LabelRelease_Year :: "int option"
  LabelRelease_Status :: "string option"
  LabelRelease_CatalogNumbers :: "string slice"
  LabelRelease_Format :: "string option"

section \<open>Masters\<close>

record Master =
  Master_ID :: int
  Master_DataQuality :: "string option"
  Master_Title :: "string option"
  Master_ReleasedYear :: "int option"

record MasterVideo =
  MasterVideo_URL :: "string option"
  MasterVideo_Description :: "string option"
  MasterVideo_Title :: "string option"

record MasterDetail =
  MasterDetail_ID :: int
  MasterDetail_Title :: "string option"
  MasterDetail_DataQuality :: "string option"
  MasterDetail_MainRelease :: "int option"
  MasterDetail_Year :: "int option"
  MasterDetail_Genres :: "string slice"
  MasterDetail_Styles :: "string slice"
  MasterDetail_Artists :: "ArtistReference slice"
  MasterDetail_Videos :: "MasterVideo slice"

record MasterRelease =
  MasterRelease_ID :: int
  MasterRelease_Title :: "string option"
  MasterRelease_Artists :: "string slice"
  MasterRelease_ArtistIDs :: "int slice"
  MasterRelease_Year :: "int option"
  MasterRelease_ResourceURL :: string

section \<open>Releases\<close>

record Release =
  Release_ID :: int
  Release_Title :: "string option"
  Release_Country :: "string option"
  Release_DataQuality :: "string option"
  Release_Year :: "int option"
  Release_Month :: "int option"
  Release_Day :: "int option"
  Release_ListedDate :: "string option"
  Release_IsMaster :: "bool option"
  Release_MasterID :: "int option"
  Release_Notes :: "string option"
  Release_Status :: "string option"

record ReleaseArtist =
  ReleaseArtist_ID :: int
  ReleaseArtist_Name :: "string option"
  ReleaseArtist_Role :: "string option"
  ReleaseArtist_ResourceURL :: string

record ReleaseLabel =
  ReleaseLabel_ID :: int
  ReleaseLabel_Name :: "string option"
  ReleaseLabel_CategoryNotation :: "string option"
  ReleaseLabel_ResourceURL :: string

record ReleaseFormat =
  ReleaseFormat_Name :: "string option"
  ReleaseFormat_Quantity :: "string option"
  ReleaseFormat_Descriptions :: "string slice"

record ReleaseVideo =
  ReleaseVideo_Title :: "string option"
  ReleaseVideo_URL :: "string option"
  ReleaseVideo_Description :: "string option"

record ReleaseTrack =
  Track_Hash :: int
  Track_Duration :: "string option"
  Track_Position :: "string option"
  Track_Title :: "string option"

record ReleaseIdentifier =
  Ident_Hash :: int
  Ident_Description :: "string option"
  Ident_Type :: "string option"
  Ident_Value :: "string option"

record ReleaseDetail = Release +
  Release_Artists :: "ReleaseArtist slice"
  Release_Labels :: "ReleaseLabel slice"
  Release_Companies :: "ReleaseLabel slice"
  Release_Formats :: "ReleaseFormat slice"
  Release_Styles :: "string slice"
  Release_Genres :: "string slice"
  Release_Videos :: "ReleaseVideo slice"

section \<open>The read port\<close>

text \<open>
  \<open>Repository\<close> joins the five reader interfaces. The context argument is not modelled: what a
  deadline or a cancellation does to a call is an error outcome (\<open>DeadlineExceeded\<close>, \<open>Canceled\<close>).
\<close>

record Repository =
  Repo_Snapshot :: "CatalogSnapshot outcome"
  Repo_SearchArtists :: "ArtistFilter \<Rightarrow> PageRequest \<Rightarrow> Artist Page outcome"
  Repo_Artist :: "int \<Rightarrow> ArtistDetail outcome"
  Repo_ArtistReleases :: "int \<Rightarrow> PageRequest \<Rightarrow> ArtistRelease Page outcome"
  Repo_SearchLabels :: "LabelFilter \<Rightarrow> PageRequest \<Rightarrow> Label Page outcome"
  Repo_Label :: "int \<Rightarrow> LabelDetail outcome"
  Repo_LabelReleases :: "int \<Rightarrow> PageRequest \<Rightarrow> LabelRelease Page outcome"
  Repo_SearchMasters :: "MasterFilter \<Rightarrow> PageRequest \<Rightarrow> Master Page outcome"
  Repo_Master :: "int \<Rightarrow> MasterDetail outcome"
  Repo_MasterReleases :: "int \<Rightarrow> PageRequest \<Rightarrow> MasterRelease Page outcome"
  Repo_SearchReleases :: "ReleaseFilter \<Rightarrow> PageRequest \<Rightarrow> Release Page outcome"
  Repo_ReleasesByCatalogNumber :: "CatalogNumberLookup \<Rightarrow> PageRequest \<Rightarrow> Release Page outcome"
  Repo_ReleasesByIdentifier :: "IdentifierLookup \<Rightarrow> PageRequest \<Rightarrow> Release Page outcome"
  Repo_Release :: "int \<Rightarrow> ReleaseDetail outcome"
  Repo_ReleaseTracks :: "int \<Rightarrow> HashPageRequest \<Rightarrow> ReleaseTrack HashPage outcome"
  Repo_ReleaseIdentifiers :: "int \<Rightarrow> HashPageRequest \<Rightarrow> ReleaseIdentifier HashPage outcome"

end
