(* ===== verification/Keyset.thy ===== *)
theory Keyset
  imports Catalog
begin

text \<open>
  The contract of keyset pagination between the store, which answers one page, and a client, which
  follows the continuation cursors. \<open>rows\<close> is the full result of a query, ascending in its key.
  A page holds the first rows after the cursor and says whether more follow.
\<close>

section \<open>Following continuation cursors\<close>

text \<open>
  \<open>follow n get c\<close> requests pages from cursor \<open>c\<close> on and joins their items, with at most \<open>n\<close> requests;
  \<open>None\<close> if a request fails or the requests run out.
\<close>

fun follow :: "nat \<Rightarrow> ('c \<Rightarrow> ('a list \<times> 'c option) option) \<Rightarrow> 'c \<Rightarrow> 'a list option" where
  "follow 0 get c = None"
| "follow (Suc n) get c =
     (case get c of
        None \<Rightarrow> None
      | Some (xs, None) \<Rightarrow> Some xs
      | Some (xs, Some c') \<Rightarrow> map_option (\<lambda>ys. xs @ ys) (follow n get c'))"

lemma follow_complete:
  assumes page: "\<And>c. ok c \<Longrightarrow> get c = Some (take s (rest c),
       if length (rest c) > s then Some (next (last (take s (rest c)))) else None)"
    and rest: "\<And>c. ok c \<Longrightarrow> length (rest c) > s \<Longrightarrow>
       ok (next (last (take s (rest c)))) \<and> rest (next (last (take s (rest c)))) = drop s (rest c)"
    and "ok c" "0 < n" "length (rest c) \<le> n * s"
  shows "follow n get c = Some (rest c)"
  using assms(3-5)
proof (induction n arbitrary: c)
  case 0
  then show ?case by simp
next
  case (Suc n)
  show ?case
  proof (cases "length (rest c) > s")
    case False
    then show ?thesis by (simp add: page [OF Suc.prems(1)])
  next
    case True
    let ?c = "next (last (take s (rest c)))"
    have ok: "ok ?c" and tail: "rest ?c = drop s (rest c)"
      using rest [OF Suc.prems(1) True] by simp_all
    have "0 < n" "length (rest ?c) \<le> n * s"
      using Suc.prems(3) True by (cases n; simp add: tail)+
    then have "follow n get ?c = Some (drop s (rest c))" by (simp add: Suc.IH ok tail)
    with True show ?thesis by (simp add: page [OF Suc.prems(1)])
  qed
qed

lemma int_le_mult_nat: "int m \<le> int n * z \<Longrightarrow> 1 \<le> z \<Longrightarrow> m \<le> n * nat z"
  by (simp add: nat_le_iff [symmetric] nat_mult_distrib nat_int_comparison(3))

text \<open>The rows after the last row of a page are the rows the page left out.\<close>

lemma filter_after_last:
  assumes "ascending (map key xs)" "1 \<le> s" "s < length xs"
  shows "filter (\<lambda>x. key (last (take s xs)) < key x) xs = drop s xs"
proof -
  let ?i = "s - 1"
  have i: "?i < length xs" using assms by simp
  have "last (take s xs) = xs ! ?i"
    using assms by (cases "take s xs = []") (auto simp: last_conv_nth min_def)
  moreover have "xs = take ?i xs @ xs ! ?i # drop s xs"
    using id_take_nth_drop [OF i] assms(2) by simp
  ultimately show ?thesis
    using ascending_after_split [of key "take ?i xs" "xs ! ?i" "drop s xs"] assms(1) by metis
qed

lemma last_take_in_set: "1 \<le> n \<Longrightarrow> n < length xs \<Longrightarrow> last (take n xs) \<in> set xs"
  by (rule in_set_takeD [where n = n], rule last_in_set) (cases xs; auto)

definition rows_after :: "('a \<Rightarrow> int) \<Rightarrow> int option \<Rightarrow> 'a list \<Rightarrow> 'a list" where
  "rows_after key c xs = filter (\<lambda>x. case c of None \<Rightarrow> True | Some k \<Rightarrow> k < key x) xs"

text \<open>
  One request of a client: the items of the page and the cursor to go on with. An identifier cursor
  starts at 0, a hash cursor at \<open>None\<close>.
\<close>

definition request_page ::
  "('a \<Rightarrow> int) \<Rightarrow> (PageRequest \<Rightarrow> 'a Page outcome) \<Rightarrow> int \<Rightarrow> int \<Rightarrow> ('a list \<times> int option) option" where
  "request_page key page sz c =
     (case page \<lparr>AfterID = c, Size = sz\<rparr> of
        Ok p \<Rightarrow> Some (elems (Items p), NextAfterID key p) | _ \<Rightarrow> None)"

definition request_hash_page ::
  "('a \<Rightarrow> int) \<Rightarrow> (HashPageRequest \<Rightarrow> 'a HashPage outcome) \<Rightarrow> int \<Rightarrow> int option \<Rightarrow>
   ('a list \<times> int option option) option" where
  "request_hash_page key page sz c =
     (case page \<lparr>AfterHash = c, HashSize = sz\<rparr> of
        Ok p \<Rightarrow> Some (elems (HashItems p), map_option Some (NextAfterHash key p)) | _ \<Rightarrow> None)"

section \<open>The contract\<close>

text \<open>
  \<open>q\<close> ranges over the queries of an operation; \<open>ok s q\<close> says that store \<open>s\<close> can answer \<open>q\<close>.
\<close>

locale keyed_rows =
  fixes ok :: "'s \<Rightarrow> 'q \<Rightarrow> bool"
    and rows :: "'s \<Rightarrow> 'q \<Rightarrow> 'a list"
    and key :: "'a \<Rightarrow> int"
    and lowest :: int
  assumes rows_ascending: "ok s q \<Longrightarrow> ascending (map key (rows s q))"
    and rows_above: "ok s q \<Longrightarrow> x \<in> set (rows s q) \<Longrightarrow> lowest \<le> key x"
    and rows_below: "ok s q \<Longrightarrow> x \<in> set (rows s q) \<Longrightarrow> key x < 2 ^ 31"
begin

lemma after_ascending: "ok s q \<Longrightarrow> ascending (map key (rows_after key c (rows s q)))"
  by (simp add: rows_after_def rows_ascending ascending_map_filter)

lemma after_last:
  assumes "ok s q" "1 \<le> n" "n < length (rows_after key c (rows s q))"
  shows "rows_after key (Some (key (last (take n (rows_after key c (rows s q)))))) (rows s q) = drop n (rows_after key c (rows s q))"
proof -
  let ?l = "last (take n (rows_after key c (rows s q)))"
  have "?l \<in> set (rows_after key c (rows s q))" using assms(2,3) by (rule last_take_in_set)
  then have "filter (\<lambda>x. key ?l < key x) (rows_after key c (rows s q)) = rows_after key (Some (key ?l)) (rows s q)"
    unfolding rows_after_def filter_filter by (intro filter_cong) (auto split: option.splits)
  moreover have "filter (\<lambda>x. key ?l < key x) (rows_after key c (rows s q)) = drop n (rows_after key c (rows s q))"
    using assms by (intro filter_after_last after_ascending)
  ultimately show ?thesis by simp
qed

lemma after_key_range:
  assumes "ok s q" "1 \<le> n" "n < length (rows_after key c (rows s q))"
  shows "lowest \<le> key (last (take n (rows_after key c (rows s q)))) \<and> key (last (take n (rows_after key c (rows s q)))) < 2 ^ 31"
proof -
  have "last (take n (rows_after key c (rows s q))) \<in> set (rows s q)"
    using last_take_in_set [OF assms(2,3)] by (simp add: rows_after_def)
  from rows_above [OF assms(1) this] rows_below [OF assms(1) this] show ?thesis by (rule conjI)
qed

end

text \<open>Operations paged by resource identifier; identifiers are positive, so \<open>after_id = 0\<close> starts.\<close>

locale id_pages = keyed_rows ok rows key 1
  for ok :: "'s \<Rightarrow> 'q \<Rightarrow> bool" and rows :: "'s \<Rightarrow> 'q \<Rightarrow> 'a list" and key :: "'a \<Rightarrow> int" +
  fixes page :: "'s \<Rightarrow> 'q \<Rightarrow> PageRequest \<Rightarrow> 'a Page outcome"
  assumes page_rows:
    "ok s q \<Longrightarrow> 1 \<le> Size r \<Longrightarrow> Size r < 2 ^ 62 \<Longrightarrow>
     page s q r = Ok \<lparr>Items = Slice (take (nat (Size r)) (filter (\<lambda>x. AfterID r < key x) (rows s q))),
       HasMore = int (length (filter (\<lambda>x. AfterID r < key x) (rows s q))) > Size r\<rparr>"
begin

lemma page_bounded:
  assumes "ok s q" "1 \<le> Size r" "Size r < 2 ^ 62" "page s q r = Ok p"
  shows "slice_len (Items p) \<le> Size r"
    and "x \<in> set (elems (Items p)) \<Longrightarrow> AfterID r < key x \<and> x \<in> set (rows s q)"
    and "ascending (map key (elems (Items p)))"
proof -
  have p: "Items p = Slice (take (nat (Size r)) (filter (\<lambda>x. AfterID r < key x) (rows s q)))"
    using page_rows [OF assms(1-3)] assms(4) by auto
  show "slice_len (Items p) \<le> Size r" using assms(2) by (simp add: p)
  show "ascending (map key (elems (Items p)))"
    unfolding p elems.simps using assms(1)
    by (intro ascending_map_take ascending_map_filter rows_ascending)
  assume "x \<in> set (elems (Items p))"
  then have "x \<in> set (filter (\<lambda>x. AfterID r < key x) (rows s q))"
    unfolding p elems.simps by (rule in_set_takeD)
  then show "AfterID r < key x \<and> x \<in> set (rows s q)" by simp
qed

lemma page_get_eq:
  assumes "ok s q" "1 \<le> sz" "sz < 2 ^ 62"
  shows "request_page key (page s q) sz c = Some (take (nat sz) (rows_after key (Some c) (rows s q)),
     if length (rows_after key (Some c) (rows s q)) > nat sz
     then Some (key (last (take (nat sz) (rows_after key (Some c) (rows s q))))) else None)"
proof -
  have "page s q \<lparr>AfterID = c, Size = sz\<rparr> = Ok \<lparr>Items = Slice (take (nat sz) (rows_after key (Some c) (rows s q))),
      HasMore = int (length (rows_after key (Some c) (rows s q))) > sz\<rparr>"
    using assms page_rows [of s q "\<lparr>AfterID = c, Size = sz\<rparr>"] by (simp add: rows_after_def)
  moreover have "nat sz < length (rows_after key (Some c) (rows s q)) \<longleftrightarrow> sz < int (length (rows_after key (Some c) (rows s q)))"
    using assms(2) by linarith
  ultimately show ?thesis using assms(2) unfolding request_page_def NextAfterID_def by simp
qed

text \<open>Every row exactly once, in ascending order, however the client chooses the page size.\<close>

lemma walk_complete:
  assumes "ok s q" "1 \<le> sz" "sz < 2 ^ 62" "0 < n" "int (length (rows s q)) \<le> int n * sz"
  shows "follow n (request_page key (page s q) sz) 0 = Some (rows s q)"
proof -
  have size: "1 \<le> nat sz" using assms(2) by simp
  have all: "rows_after key (Some 0) (rows s q) = rows s q"
    unfolding rows_after_def using rows_above [OF assms(1)] by (intro filter_True) force
  have "follow n (request_page key (page s q) sz) 0 = Some (rows_after key (Some 0) (rows s q))"
  proof (rule follow_complete [where ok = "\<lambda>_. True"])
    show "length (rows_after key (Some 0) (rows s q)) \<le> n * nat sz"
      using assms(2,5) by (simp add: all int_le_mult_nat)
  qed (simp_all only: page_get_eq [OF assms(1-3)] simp_thms \<open>0 < n\<close>, rule after_last [OF assms(1) size])
  then show ?thesis by (simp add: all)
qed

end

text \<open>Operations paged by the compatibility slot of a relation row; no cursor starts.\<close>

locale hash_pages = keyed_rows ok rows key "- (2 ^ 31)"
  for ok :: "'s \<Rightarrow> 'q \<Rightarrow> bool" and rows :: "'s \<Rightarrow> 'q \<Rightarrow> 'a list" and key :: "'a \<Rightarrow> int" +
  fixes page :: "'s \<Rightarrow> 'q \<Rightarrow> HashPageRequest \<Rightarrow> 'a HashPage outcome"
  assumes hash_page_rows:
    "ok s q \<Longrightarrow> 1 \<le> HashSize r \<Longrightarrow> HashSize r < 2 ^ 62 \<Longrightarrow>
     page s q r = Ok \<lparr>HashItems = Slice (take (nat (HashSize r)) (rows_after key (AfterHash r) (rows s q))),
       HashHasMore = int (length (rows_after key (AfterHash r) (rows s q))) > HashSize r\<rparr>"
begin

lemma hash_page_get_eq:
  assumes "ok s q" "1 \<le> sz" "sz < 2 ^ 62"
  shows "request_hash_page key (page s q) sz c = Some (take (nat sz) (rows_after key c (rows s q)),
     if length (rows_after key c (rows s q)) > nat sz
     then Some (Some (key (last (take (nat sz) (rows_after key c (rows s q)))))) else None)"
proof -
  have "nat sz < length (rows_after key c (rows s q)) \<longleftrightarrow> sz < int (length (rows_after key c (rows s q)))"
    using assms(2) by linarith
  then show ?thesis
    using assms hash_page_rows [of s q "\<lparr>AfterHash = c, HashSize = sz\<rparr>"]
    unfolding request_hash_page_def NextAfterHash_def by simp
qed

lemma hash_walk_complete:
  assumes "ok s q" "1 \<le> sz" "sz < 2 ^ 62" "0 < n"
    "int (length (rows s q)) \<le> int n * sz"
  shows "follow n (request_hash_page key (page s q) sz) None = Some (rows s q)"
proof -
  have size: "1 \<le> nat sz" using assms(2) by simp
  have all: "rows_after key None (rows s q) = rows s q" by (simp add: rows_after_def)
  have "follow n (request_hash_page key (page s q) sz) None = Some (rows_after key None (rows s q))"
  proof (rule follow_complete [where ok = "\<lambda>_. True"])
    show "length (rows_after key None (rows s q)) \<le> n * nat sz"
      using assms(2,5) by (simp add: all int_le_mult_nat)
  qed (simp_all only: hash_page_get_eq [OF assms(1-3)] simp_thms \<open>0 < n\<close>, rule after_last [OF assms(1) size])
  then show ?thesis by (simp add: all)
qed

end

end
