(* ===== verification/Go_Text.thy ===== *)
theory Go_Text
  imports Go_Prelude
begin

text \<open>
  Go strings are byte sequences: a \<open>string\<close> here is a list of \<open>char\<close>, each one byte. This theory
  models what the program uses of the packages \<open>unicode/utf8\<close> and \<open>strings\<close>: decoding the first and
  the last rune, \<open>utf8.ValidString\<close>, \<open>utf8.RuneCountInString\<close>, \<open>strings.TrimSpace\<close> and
  \<open>strings.TrimRight\<close> with a one-character cutset.
\<close>

section \<open>Bytes\<close>

definition byte :: "char \<Rightarrow> nat" where
  "byte c = of_char c"

lemma byte_less [simp]: "byte c < 256"
  by (simp add: byte_def)

lemma byte_eq_iff [simp]: "byte c = byte d \<longleftrightarrow> c = d"
  by (simp add: byte_def)

lemma byte_char_of [simp]: "n < 256 \<Longrightarrow> byte (char_of n) = n"
  by (simp add: byte_def)

lemma char_of_byte [simp]: "char_of (byte c) = c"
  by (simp add: byte_def)

text \<open>Evaluation of concrete bytes by \<open>simp\<close>.\<close>

lemmas char_eval = byte_def char_of_def bit_0

section \<open>Decoding UTF-8\<close>

definition RuneError :: nat where
  "RuneError = 0xFFFD"

definition cont :: "char \<Rightarrow> bool" where
  "cont c \<longleftrightarrow> 0x80 \<le> byte c \<and> byte c \<le> 0xBF"

text \<open>
  \<open>DecodeRuneInString\<close>: the rune and its size; an invalid or truncated sequence is \<open>RuneError\<close> with
  size 1, the empty string \<open>RuneError\<close> with size 0. \<open>lo2\<close> and \<open>hi2\<close> are the bounds of the second
  byte (the accept ranges), which exclude overlong forms, surrogates and values above U+10FFFF.
\<close>

definition lo2 :: "nat \<Rightarrow> nat" where
  "lo2 b = (if b = 0xE0 then 0xA0 else if b = 0xF0 then 0x90 else 0x80)"

definition hi2 :: "nat \<Rightarrow> nat" where
  "hi2 b = (if b = 0xED then 0x9F else if b = 0xF4 then 0x8F else 0xBF)"

definition second_ok :: "nat \<Rightarrow> char \<Rightarrow> bool" where
  "second_ok b c \<longleftrightarrow> lo2 b \<le> byte c \<and> byte c \<le> hi2 b"

definition decode_multi :: "nat \<Rightarrow> string \<Rightarrow> nat \<times> nat" where
  "decode_multi b rest =
     (if 0xC2 \<le> b \<and> b \<le> 0xDF then
        (case rest of
           c1 # _ \<Rightarrow> if second_ok b c1 then ((b mod 32) * 64 + byte c1 mod 64, 2) else (RuneError, 1)
         | _ \<Rightarrow> (RuneError, 1))
      else if 0xE0 \<le> b \<and> b \<le> 0xEF then
        (case rest of
           c1 # c2 # _ \<Rightarrow>
             if second_ok b c1 \<and> cont c2
             then ((b mod 16) * 4096 + (byte c1 mod 64) * 64 + byte c2 mod 64, 3) else (RuneError, 1)
         | _ \<Rightarrow> (RuneError, 1))
      else if 0xF0 \<le> b \<and> b \<le> 0xF4 then
        (case rest of
           c1 # c2 # c3 # _ \<Rightarrow>
             if second_ok b c1 \<and> cont c2 \<and> cont c3
             then ((b mod 8) * 262144 + (byte c1 mod 64) * 4096 + (byte c2 mod 64) * 64
                    + byte c3 mod 64, 4) else (RuneError, 1)
         | _ \<Rightarrow> (RuneError, 1))
      else (RuneError, 1))"

fun decode_rune :: "string \<Rightarrow> nat \<times> nat" where
  "decode_rune [] = (RuneError, 0)"
| "decode_rune (c # cs) = (if byte c < 0x80 then (byte c, 1) else decode_multi (byte c) cs)"

lemma decode_multi_size:
  "1 \<le> snd (decode_multi b cs) \<and> snd (decode_multi b cs) \<le> Suc (length cs)"
  by (auto simp: decode_multi_def split: list.splits)

lemma decode_rune_size:
  "s \<noteq> [] \<Longrightarrow> 1 \<le> snd (decode_rune s) \<and> snd (decode_rune s) \<le> length s"
  using decode_multi_size by (cases s) auto

lemma decode_rune_size_pos: "s \<noteq> [] \<Longrightarrow> 0 < snd (decode_rune s)"
  using decode_rune_size [of s] by auto

text \<open>A nonempty prefix decodes to the same rune, or is cut inside it and decodes to an error.\<close>

lemma decode_multi_take:
  "decode_multi b (take m cs) = decode_multi b cs \<or> decode_multi b (take m cs) = (RuneError, 1)"
proof (cases cs)
  case Nil
  then show ?thesis by simp
next
  case c1: (Cons c1 cs1)
  show ?thesis
  proof (cases cs1)
    case Nil
    with c1 show ?thesis by (cases m) (auto simp: decode_multi_def)
  next
    case c2: (Cons c2 cs2)
    show ?thesis
    proof (cases cs2)
      case Nil
      with c1 c2 show ?thesis
        by (auto simp: decode_multi_def take_Cons split: nat.split)
    next
      case (Cons c3 cs3)
      with c1 c2 show ?thesis
        by (auto simp: decode_multi_def take_Cons split: nat.split)
    qed
  qed
qed

lemma decode_rune_take:
  assumes "0 < m"
  shows "decode_rune (take m s) = decode_rune s \<or> decode_rune (take m s) = (RuneError, 1)"
  using assms decode_multi_take by (cases s; cases m) auto

text \<open>\<open>utf8.ValidString\<close> and \<open>utf8.RuneCountInString\<close>.\<close>

function ValidString :: "string \<Rightarrow> bool" where
  "ValidString s =
     (if s = [] then True
      else if decode_rune s = (RuneError, 1) then False
      else ValidString (drop (snd (decode_rune s)) s))"
  by pat_completeness auto
termination
  by (relation "measure length") (auto simp: decode_rune_size_pos)

function RuneCountInString :: "string \<Rightarrow> nat" where
  "RuneCountInString s =
     (if s = [] then 0 else Suc (RuneCountInString (drop (snd (decode_rune s)) s)))"
  by pat_completeness auto
termination
  by (relation "measure length") (auto simp: decode_rune_size_pos)

declare ValidString.simps [simp del] RuneCountInString.simps [simp del]

lemma ValidString_Nil [simp]: "ValidString []"
  by (simp add: ValidString.simps)

lemma RuneCountInString_Nil [simp]: "RuneCountInString [] = 0"
  by (simp add: RuneCountInString.simps)

lemma RuneCountInString_pos: "s \<noteq> [] \<Longrightarrow> 0 < RuneCountInString s"
  by (simp add: RuneCountInString.simps)

lemma RuneCountInString_le_length: "RuneCountInString s \<le> length s"
proof (induction s rule: RuneCountInString.induct)
  case (1 s)
  show ?case
  proof (cases "s = []")
    case False
    with "1.IH" have "RuneCountInString (drop (snd (decode_rune s)) s) \<le> length s - snd (decode_rune s)"
      by simp
    with False decode_rune_size [of s] show ?thesis
      by (subst RuneCountInString.simps) auto
  qed simp
qed

section \<open>Trimming\<close>

text \<open>\<open>unicode.IsSpace\<close>, over all of Unicode's White Space property.\<close>

definition IsSpace :: "nat \<Rightarrow> bool" where
  "IsSpace r \<longleftrightarrow> (0x09 \<le> r \<and> r \<le> 0x0D) \<or> r = 0x20 \<or> r = 0x85 \<or> r = 0xA0 \<or> r = 0x1680
     \<or> (0x2000 \<le> r \<and> r \<le> 0x200A) \<or> r = 0x2028 \<or> r = 0x2029 \<or> r = 0x202F \<or> r = 0x205F
     \<or> r = 0x3000"

lemma not_IsSpace_RuneError [simp]: "\<not> IsSpace RuneError"
  by (simp add: IsSpace_def RuneError_def)

function trim_left :: "string \<Rightarrow> string" where
  "trim_left s =
     (if s \<noteq> [] \<and> IsSpace (fst (decode_rune s))
      then trim_left (drop (snd (decode_rune s)) s) else s)"
  by pat_completeness auto
termination
  by (relation "measure length") (auto simp: decode_rune_size_pos)

text \<open>
  \<open>DecodeLastRuneInString\<close> looks back at most four bytes for one that can start a rune, decodes
  there, and reports an error unless that rune ends exactly at the end of the string.
\<close>

definition RuneStart :: "char \<Rightarrow> bool" where
  "RuneStart c \<longleftrightarrow> \<not> cont c"

definition last_rune_width :: "string \<Rightarrow> nat" where
  "last_rune_width s =
     (let n = length s;
          starts = filter (\<lambda>k. k \<le> n \<and> RuneStart (s ! (n - k))) [2, 3, 4]
      in if starts = [] then min 5 n else hd starts)"

definition decode_last_rune :: "string \<Rightarrow> nat \<times> nat" where
  "decode_last_rune s =
     (if s = [] then (RuneError, 0)
      else if byte (last s) < 0x80 then (byte (last s), 1)
      else let k = last_rune_width s; r = decode_rune (drop (length s - k) s)
           in if snd r \<noteq> k then (RuneError, 1) else r)"

lemma decode_last_rune_size_pos: "s \<noteq> [] \<Longrightarrow> 0 < snd (decode_last_rune s)"
  by (auto simp: decode_last_rune_def Let_def last_rune_width_def intro!: decode_rune_size_pos)

function trim_right :: "string \<Rightarrow> string" where
  "trim_right s =
     (if s \<noteq> [] \<and> IsSpace (fst (decode_last_rune s))
      then trim_right (take (length s - snd (decode_last_rune s)) s) else s)"
  by pat_completeness auto
termination
  by (relation "measure length") (auto simp: decode_last_rune_size_pos)

declare trim_left.simps [simp del] trim_right.simps [simp del]

definition TrimSpace :: "string \<Rightarrow> string" where
  "TrimSpace s = trim_right (trim_left s)"

text \<open>\<open>strings.TrimRight\<close> with a cutset of one byte.\<close>

definition TrimRightByte :: "char \<Rightarrow> string \<Rightarrow> string" where
  "TrimRightByte c s = rev (dropWhile (\<lambda>d. d = c) (rev s))"

lemma TrimRightByte_last: "TrimRightByte c s \<noteq> [] \<Longrightarrow> last (TrimRightByte c s) \<noteq> c"
  using hd_dropWhile [of "\<lambda>d. d = c" "rev s"] by (simp add: TrimRightByte_def last_rev)

lemma TrimRightByte_idem [simp]: "TrimRightByte c (TrimRightByte c s) = TrimRightByte c s"
  by (simp add: TrimRightByte_def)

section \<open>What trimming keeps\<close>

lemma trim_left_drop: "\<exists>k. trim_left s = drop k s"
proof (induction s rule: trim_left.induct)
  case (1 s)
  show ?case
  proof (cases "s \<noteq> [] \<and> IsSpace (fst (decode_rune s))")
    case True
    with "1.IH" obtain k where "trim_left (drop (snd (decode_rune s)) s) = drop k (drop (snd (decode_rune s)) s)"
      by blast
    with True show ?thesis by (subst trim_left.simps) (auto simp: drop_drop)
  next
    case False
    then show ?thesis by (subst trim_left.simps) (auto intro: exI [of _ 0])
  qed
qed

lemma trim_right_take: "\<exists>k. trim_right s = take k s"
proof (induction s rule: trim_right.induct)
  case (1 s)
  show ?case
  proof (cases "s \<noteq> [] \<and> IsSpace (fst (decode_last_rune s))")
    case True
    with "1.IH" obtain k where
      "trim_right (take (length s - snd (decode_last_rune s)) s)
         = take k (take (length s - snd (decode_last_rune s)) s)"
      by blast
    with True show ?thesis by (subst trim_right.simps) (auto simp: take_take)
  next
    case False
    then show ?thesis by (subst trim_right.simps) (auto intro: exI [of _ "length s"])
  qed
qed

lemma trim_left_step:
  "s \<noteq> [] \<Longrightarrow> IsSpace (fst (decode_rune s)) \<Longrightarrow>
   trim_left s = trim_left (drop (snd (decode_rune s)) s)"
  by (subst trim_left.simps) simp

lemma trim_right_step:
  "s \<noteq> [] \<Longrightarrow> IsSpace (fst (decode_last_rune s)) \<Longrightarrow>
   trim_right s = trim_right (take (length s - snd (decode_last_rune s)) s)"
  by (subst trim_right.simps) simp

lemma trim_left_fixed: "\<not> IsSpace (fst (decode_rune s)) \<Longrightarrow> trim_left s = s"
  by (subst trim_left.simps) simp

lemma trim_right_fixed: "\<not> IsSpace (fst (decode_last_rune s)) \<Longrightarrow> trim_right s = s"
  by (subst trim_right.simps) simp

lemma trim_left_Nil [simp]: "trim_left [] = []"
  by (simp add: trim_left.simps)

lemma trim_right_Nil [simp]: "trim_right [] = []"
  by (simp add: trim_right.simps)

lemma trim_left_first:
  "trim_left s \<noteq> [] \<Longrightarrow> \<not> IsSpace (fst (decode_rune (trim_left s)))"
proof (induction s rule: trim_left.induct)
  case (1 s)
  then show ?case
    by (metis trim_left_Nil trim_left_fixed trim_left_step)
qed

lemma trim_right_last:
  "trim_right s \<noteq> [] \<Longrightarrow> \<not> IsSpace (fst (decode_last_rune (trim_right s)))"
proof (induction s rule: trim_right.induct)
  case (1 s)
  then show ?case
    by (metis trim_right_Nil trim_right_fixed trim_right_step)
qed

lemma TrimSpace_Nil [simp]: "TrimSpace [] = []"
  by (simp add: TrimSpace_def)

lemma TrimSpace_first:
  assumes "TrimSpace s \<noteq> []"
  shows "\<not> IsSpace (fst (decode_rune (TrimSpace s)))"
proof -
  let ?l = "trim_left s"
  obtain k where k: "TrimSpace s = take k ?l"
    using trim_right_take by (metis TrimSpace_def)
  with assms have pos: "0 < k" and ne: "?l \<noteq> []" by auto
  from ne have "\<not> IsSpace (fst (decode_rune ?l))" by (rule trim_left_first)
  moreover have "decode_rune (take k ?l) = decode_rune ?l \<or> decode_rune (take k ?l) = (RuneError, 1)"
    using pos by (rule decode_rune_take)
  ultimately show ?thesis unfolding k by auto
qed

lemma TrimSpace_last:
  "TrimSpace s \<noteq> [] \<Longrightarrow> \<not> IsSpace (fst (decode_last_rune (TrimSpace s)))"
  by (simp add: TrimSpace_def trim_right_last)

lemma TrimSpace_fixed:
  "\<not> IsSpace (fst (decode_rune s)) \<Longrightarrow> \<not> IsSpace (fst (decode_last_rune s)) \<Longrightarrow> TrimSpace s = s"
  by (simp add: TrimSpace_def trim_left_fixed trim_right_fixed)

lemma TrimSpace_idem [simp]: "TrimSpace (TrimSpace s) = TrimSpace s"
  by (cases "TrimSpace s = []") (simp_all add: TrimSpace_fixed TrimSpace_first TrimSpace_last)

lemma length_TrimSpace_le: "length (TrimSpace s) \<le> length s"
proof -
  obtain k l where "TrimSpace s = take k (drop l s)"
    using trim_left_drop trim_right_take by (metis TrimSpace_def)
  then show ?thesis by simp
qed

text \<open>
  A text that starts and ends with an ASCII byte that is no space is left alone; this is what the
  integers and Booleans of a query string look like.
\<close>

lemma decode_rune_ascii: "byte c < 0x80 \<Longrightarrow> decode_rune (c # cs) = (byte c, 1)"
  by simp

lemma RuneCountInString_ascii_Cons:
  "byte c < 0x80 \<Longrightarrow> RuneCountInString (c # cs) = Suc (RuneCountInString cs)"
  by (subst RuneCountInString.simps) (simp add: decode_rune_ascii)

lemma decode_last_rune_ascii:
  "s \<noteq> [] \<Longrightarrow> byte (last s) < 0x80 \<Longrightarrow> decode_last_rune s = (byte (last s), 1)"
  by (simp add: decode_last_rune_def)

definition printable :: "char \<Rightarrow> bool" where
  "printable c \<longleftrightarrow> 0x21 \<le> byte c \<and> byte c < 0x7F"

lemma not_IsSpace_printable: "printable c \<Longrightarrow> \<not> IsSpace (byte c)"
  by (auto simp: printable_def IsSpace_def)

lemma TrimSpace_printable:
  assumes "s \<noteq> []" "printable (hd s)" "printable (last s)"
  shows "TrimSpace s = s"
proof (rule TrimSpace_fixed)
  show "\<not> IsSpace (fst (decode_rune s))"
    using assms(1,2) by (cases s) (auto simp: not_IsSpace_printable printable_def IsSpace_def)
  show "\<not> IsSpace (fst (decode_last_rune s))"
    using assms(1,3) not_IsSpace_printable
    by (subst decode_last_rune_ascii) (auto simp: printable_def)
qed

section \<open>Trimming keeps a string valid\<close>

text \<open>A rune is the bytes of one complete, valid sequence.\<close>

definition is_rune :: "string \<Rightarrow> bool" where
  "is_rune r \<longleftrightarrow> r \<noteq> [] \<and> snd (decode_rune r) = length r \<and> decode_rune r \<noteq> (RuneError, 1)"

lemma is_rune_cases:
  assumes "is_rune r"
  obtains (one) c where "r = [c]" "byte c < 0x80"
  | (two) b c where "r = [b, c]" "0xC2 \<le> byte b" "cont c"
  | (three) b c d where "r = [b, c, d]" "0xC2 \<le> byte b" "cont c" "cont d"
  | (four) b c d e where "r = [b, c, d, e]" "0xC2 \<le> byte b" "cont c" "cont d" "cont e"
proof -
  obtain b cs where r: "r = b # cs" using assms by (cases r) (auto simp: is_rune_def)
  have second: "\<And>n c. second_ok n c \<Longrightarrow> cont c"
    by (auto simp: second_ok_def lo2_def hi2_def cont_def split: if_splits)
  show thesis
  proof (cases "byte b < 0x80")
    case True
    with assms r one show thesis by (auto simp: is_rune_def)
  next
    case False
    with assms r two three four second show thesis
      by (auto simp: is_rune_def decode_multi_def split: if_splits list.splits)
  qed
qed

lemma decode_rune_append:
  assumes "is_rune r"
  shows "decode_rune (r @ t) = decode_rune r"
proof -
  have "r \<noteq> []" using assms by (auto simp: is_rune_def)
  then have "0 < length r" by simp
  from decode_rune_take [OF this, of "r @ t"] have
    "decode_rune r = decode_rune (r @ t) \<or> decode_rune r = (RuneError, 1)" by simp
  with assms show ?thesis by (auto simp: is_rune_def)
qed

lemma ValidString_step:
  assumes "s \<noteq> []"
  shows "ValidString s \<longleftrightarrow> decode_rune s \<noteq> (RuneError, 1) \<and> ValidString (drop (snd (decode_rune s)) s)"
  using assms by (subst ValidString.simps) simp

lemma ValidString_rune_append:
  assumes "is_rune r"
  shows "ValidString (r @ t) \<longleftrightarrow> ValidString t"
  using assms by (subst ValidString_step) (auto simp: decode_rune_append is_rune_def)

lemma decode_multi_take_self:
  assumes "decode_multi b cs \<noteq> (RuneError, 1)"
  shows "decode_multi b (take (snd (decode_multi b cs) - 1) cs) = decode_multi b cs"
proof -
  consider (two) "0xC2 \<le> b" "b \<le> 0xDF" | (three) "0xE0 \<le> b" "b \<le> 0xEF" | (four) "0xF0 \<le> b" "b \<le> 0xF4"
    using assms by (auto simp: decode_multi_def split: if_splits)
  then show ?thesis
  proof cases
    case two
    with assms show ?thesis by (cases cs) (auto simp: decode_multi_def split: if_splits)
  next
    case three
    with assms obtain c1 c2 t where "cs = c1 # c2 # t" "second_ok b c1" "cont c2"
      by (auto simp: decode_multi_def split: if_splits list.splits)
    with three show ?thesis by (simp add: decode_multi_def)
  next
    case four
    with assms obtain c1 c2 c3 t where "cs = c1 # c2 # c3 # t" "second_ok b c1" "cont c2" "cont c3"
      by (auto simp: decode_multi_def split: if_splits list.splits)
    with four show ?thesis by (simp add: decode_multi_def)
  qed
qed

lemma decode_rune_take_self:
  assumes "decode_rune s \<noteq> (RuneError, 1)" "s \<noteq> []"
  shows "is_rune (take (snd (decode_rune s)) s)"
proof -
  let ?n = "snd (decode_rune s)"
  have pos: "1 \<le> ?n" "?n \<le> length s" using decode_rune_size [OF assms(2)] by auto
  have "decode_rune (take ?n s) = decode_rune s"
  proof (cases s)
    case (Cons c cs)
    show ?thesis
    proof (cases "byte c < 0x80")
      case True
      with Cons show ?thesis by simp
    next
      case False
      then have "decode_multi (byte c) cs \<noteq> (RuneError, 1)" using assms Cons by simp
      then have "decode_multi (byte c) (take (snd (decode_multi (byte c) cs) - 1) cs)
          = decode_multi (byte c) cs"
        by (rule decode_multi_take_self)
      with False Cons pos show ?thesis by (simp add: take_Cons')
    qed
  qed (use assms in simp)
  with pos assms show ?thesis by (auto simp: is_rune_def)
qed

lemma valid_split_first:
  assumes "ValidString s" "s \<noteq> []"
  obtains r t where "s = r @ t" "is_rune r" "ValidString t" "decode_rune s = decode_rune r"
proof -
  let ?n = "snd (decode_rune s)"
  have "decode_rune s \<noteq> (RuneError, 1)" "ValidString (drop ?n s)"
    using assms by (simp_all add: ValidString_step)
  moreover from this assms(2) have r: "is_rune (take ?n s)"
    by (simp add: decode_rune_take_self)
  moreover have "decode_rune s = decode_rune (take ?n s)"
    using decode_rune_append [OF r, of "drop ?n s"] by simp
  ultimately show thesis using that [of "take ?n s" "drop ?n s"] by simp
qed

lemma valid_split_last:
  assumes "ValidString s" "s \<noteq> []"
  obtains t r where "s = t @ r" "ValidString t" "is_rune r"
proof -
  have "\<exists>t r. s = t @ r \<and> ValidString t \<and> is_rune r"
    using assms
  proof (induction s rule: length_induct)
    case (1 s)
    obtain r t where s: "s = r @ t" "is_rune r" "ValidString t"
      using valid_split_first [OF "1.prems"] by metis
    show ?case
    proof (cases "t = []")
      case True
      with s show ?thesis by (intro exI [of _ "[]"] exI [of _ r]) simp
    next
      case False
      moreover have "length t < length s" using s by (auto simp: is_rune_def)
      ultimately obtain t' r' where "t = t' @ r'" "ValidString t'" "is_rune r'"
        using "1.IH" s(3) by blast
      with s show ?thesis
        by (intro exI [of _ "r @ t'"] exI [of _ r']) (simp add: ValidString_rune_append)
    qed
  qed
  then show thesis using that by blast
qed

text \<open>On a valid string the backward decoder finds the last rune of the forward decoding.\<close>

lemma last_rune_width_rune:
  assumes "is_rune r" "0x80 \<le> byte (last r)"
  shows "last_rune_width (t @ r) = length r"
  using assms(1)
proof (cases rule: is_rune_cases)
  case one
  with assms(2) show ?thesis by simp
qed (auto simp: last_rune_width_def RuneStart_def nth_append cont_def Let_def)

lemma decode_last_rune_append:
  assumes "is_rune r"
  shows "decode_last_rune (t @ r) = decode_rune r"
proof (cases "byte (last r) < 0x80")
  case True
  then show ?thesis using assms
    by (cases rule: is_rune_cases [OF assms]) (auto simp: decode_last_rune_def cont_def)
next
  case False
  then have "last_rune_width (t @ r) = length r"
    using assms by (simp add: last_rune_width_rune)
  with False assms show ?thesis
    by (auto simp: decode_last_rune_def is_rune_def Let_def)
qed

lemma ValidString_trim_left: "ValidString s \<Longrightarrow> ValidString (trim_left s)"
proof (induction s rule: trim_left.induct)
  case (1 s)
  show ?case
  proof (cases "s \<noteq> [] \<and> IsSpace (fst (decode_rune s))")
    case True
    with "1.prems" have "ValidString (drop (snd (decode_rune s)) s)"
      by (simp add: ValidString_step)
    with True "1.IH" show ?thesis by (metis trim_left_step)
  next
    case False
    with "1.prems" show ?thesis by (metis trim_left_fixed trim_left_Nil)
  qed
qed

lemma ValidString_trim_right: "ValidString s \<Longrightarrow> ValidString (trim_right s)"
proof (induction s rule: trim_right.induct)
  case (1 s)
  show ?case
  proof (cases "s \<noteq> [] \<and> IsSpace (fst (decode_last_rune s))")
    case True
    with "1.prems" obtain t r where s: "s = t @ r" "ValidString t" "is_rune r"
      using valid_split_last by metis
    then have "take (length s - snd (decode_last_rune s)) s = t"
      by (simp add: decode_last_rune_append is_rune_def)
    with True "1.IH" s(2) show ?thesis by (metis trim_right_step)
  next
    case False
    with "1.prems" show ?thesis by (metis trim_right_fixed trim_right_Nil)
  qed
qed

lemma ValidString_TrimSpace: "ValidString s \<Longrightarrow> ValidString (TrimSpace s)"
  by (simp add: TrimSpace_def ValidString_trim_left ValidString_trim_right)

end
