(* ===== verification/Go_Strconv.thy ===== *)
theory Go_Strconv
  imports Go_Text
begin

text \<open>
  What the program uses of Go's \<open>strconv\<close>: \<open>ParseInt\<close> in base 10 with a bit size, \<open>Atoi\<close> (64-bit
  \<open>int\<close>), \<open>FormatInt\<close>/\<open>Itoa\<close> in base 10 and \<open>ParseBool\<close>. The program never looks at the error value
  of a failed parse, so a syntax error and a range error are both \<open>None\<close>.
\<close>

section \<open>Parsing and printing decimals\<close>

definition is_digit :: "char \<Rightarrow> bool" where
  "is_digit c \<longleftrightarrow> 48 \<le> byte c \<and> byte c \<le> 57"

definition digit_value :: "char \<Rightarrow> nat" where
  "digit_value c = byte c - 48"

definition digit_char :: "nat \<Rightarrow> char" where
  "digit_char n = char_of (48 + n)"

fun digits_value :: "nat \<Rightarrow> string \<Rightarrow> nat" where
  "digits_value acc [] = acc"
| "digits_value acc (c # cs) = digits_value (10 * acc + digit_value c) cs"

text \<open>\<open>ParseUint\<close> with base 10: at least one character and decimal digits only.\<close>

definition ParseUint10 :: "string \<Rightarrow> nat option" where
  "ParseUint10 s = (if s \<noteq> [] \<and> list_all is_digit s then Some (digits_value 0 s) else None)"

definition split_sign :: "string \<Rightarrow> bool \<times> string" where
  "split_sign s =
     (case s of [] \<Rightarrow> (False, [])
      | c # cs \<Rightarrow> if c = CHR ''+'' then (False, cs) else if c = CHR ''-'' then (True, cs) else (False, s))"

definition ParseInt10 :: "nat \<Rightarrow> string \<Rightarrow> int option" where
  "ParseInt10 bits s =
     (let (neg, ds) = split_sign s
      in case ParseUint10 ds of
           None \<Rightarrow> None
         | Some un \<Rightarrow>
             if \<not> neg \<and> un \<ge> 2 ^ (bits - 1) then None
             else if neg \<and> un > 2 ^ (bits - 1) then None
             else Some (if neg then - int un else int un))"

definition Atoi :: "string \<Rightarrow> int option" where
  "Atoi s = ParseInt10 64 s"

fun format_nat :: "nat \<Rightarrow> string" where
  "format_nat n = (if n < 10 then [digit_char n] else format_nat (n div 10) @ [digit_char (n mod 10)])"

declare format_nat.simps [simp del]

definition FormatInt :: "int \<Rightarrow> string" where
  "FormatInt i = (if i < 0 then CHR ''-'' # format_nat (nat (- i)) else format_nat (nat i))"

definition ParseBool :: "string \<Rightarrow> bool option" where
  "ParseBool s =
     (if s \<in> {''1'', ''t'', ''T'', ''TRUE'', ''true'', ''True''} then Some True
      else if s \<in> {''0'', ''f'', ''F'', ''FALSE'', ''false'', ''False''} then Some False
      else None)"

section \<open>Round trips\<close>

lemma byte_digit_char [simp]: "n < 10 \<Longrightarrow> byte (digit_char n) = 48 + n"
  by (simp add: digit_char_def)

lemma is_digit_digit_char [simp]: "n < 10 \<Longrightarrow> is_digit (digit_char n)"
  by (simp add: is_digit_def)

lemma digit_value_digit_char [simp]: "n < 10 \<Longrightarrow> digit_value (digit_char n) = n"
  by (simp add: digit_value_def)

lemma is_digit_printable: "is_digit c \<Longrightarrow> printable c"
  by (simp add: is_digit_def printable_def)

lemma digits_value_append: "digits_value acc (s @ [c]) = 10 * digits_value acc s + digit_value c"
  by (induction s arbitrary: acc) auto

lemma format_nat_digits:
  "format_nat n \<noteq> [] \<and> list_all is_digit (format_nat n) \<and> digits_value 0 (format_nat n) = n"
proof (induction n rule: format_nat.induct)
  case (1 n)
  show ?case
  proof (cases "n < 10")
    case True
    then show ?thesis by (simp add: format_nat.simps [of n])
  next
    case False
    with "1.IH" show ?thesis
      by (simp add: format_nat.simps [of n] digits_value_append)
  qed
qed

lemma format_nat_nonempty [simp]: "format_nat n \<noteq> []"
  using format_nat_digits by blast

lemma format_nat_all_digits: "list_all is_digit (format_nat n)"
  using format_nat_digits by blast

lemma ParseUint10_format_nat [simp]: "ParseUint10 (format_nat n) = Some n"
  by (simp add: ParseUint10_def format_nat_digits)

lemma split_sign_digits:
  assumes "s \<noteq> []" "list_all is_digit s"
  shows "split_sign s = (False, s)"
  using assms by (auto simp: split_sign_def is_digit_def byte_def split: list.splits)

lemma FormatInt_nonempty [simp]: "FormatInt i \<noteq> []"
  by (simp add: FormatInt_def)

lemma FormatInt_printable: "list_all printable (FormatInt i)"
proof -
  have "list_all printable (format_nat n)" for n
    using format_nat_all_digits [of n] by (auto simp: list_all_iff is_digit_printable)
  then show ?thesis by (simp add: FormatInt_def printable_def byte_def)
qed

lemma TrimSpace_FormatInt [simp]: "TrimSpace (FormatInt i) = FormatInt i"
  using FormatInt_printable [of i] by (intro TrimSpace_printable) (simp_all add: list_all_iff)

lemma ParseInt10_FormatInt:
  assumes "0 < bits" "- (2 ^ (bits - 1)) \<le> i" "i < 2 ^ (bits - 1)"
  shows "ParseInt10 bits (FormatInt i) = Some i"
proof (cases "i < 0")
  case True
  with assms have "nat (- i) \<le> 2 ^ (bits - 1)" by (simp add: nat_le_iff)
  with True show ?thesis
    by (simp add: ParseInt10_def FormatInt_def split_sign_def)
next
  case False
  with assms have "nat i < 2 ^ (bits - 1)" by (simp add: nat_less_iff)
  with False show ?thesis
    by (simp add: ParseInt10_def FormatInt_def split_sign_digits format_nat_all_digits)
qed

section \<open>Ranges\<close>

lemma ParseInt10_range:
  assumes "ParseInt10 bits s = Some i"
  shows "- (2 ^ (bits - 1)) \<le> i \<and> i < 2 ^ (bits - 1)"
proof -
  obtain neg ds where sign: "split_sign s = (neg, ds)" by fastforce
  with assms obtain un where un: "ParseUint10 ds = Some un"
    by (auto simp: ParseInt10_def split: option.splits)
  have pow: "(of_nat (2 ^ (bits - 1)) :: int) = 2 ^ (bits - 1)" by simp
  from assms sign un have "neg \<and> un \<le> 2 ^ (bits - 1) \<and> i = - int un
      \<or> \<not> neg \<and> un < 2 ^ (bits - 1) \<and> i = int un"
    by (auto simp: ParseInt10_def split: if_splits)
  then show ?thesis
  proof (elim disjE conjE)
    assume "un \<le> 2 ^ (bits - 1)" and i: "i = - int un"
    then have "int un \<le> int (2 ^ (bits - 1))" by (simp only: of_nat_le_iff)
    moreover have "(0 :: int) < 2 ^ (bits - 1)" by simp
    ultimately show ?thesis using i unfolding pow by linarith
  next
    assume "un < 2 ^ (bits - 1)" and i: "i = int un"
    then have "int un < int (2 ^ (bits - 1))" by (simp only: of_nat_less_iff)
    moreover have "(0 :: int) < 2 ^ (bits - 1)" by simp
    ultimately show ?thesis using i unfolding pow by linarith
  qed
qed

lemma ParseInt10_Nil [simp]: "ParseInt10 bits [] = None"
  by (simp add: ParseInt10_def split_sign_def ParseUint10_def)

end
