(* ===== verification/Go_Base64.thy ===== *)
theory Go_Base64
  imports Go_Text
begin

text \<open>
  \<open>base64.RawURLEncoding\<close>: the URL-safe alphabet without padding. The decoder skips carriage returns
  and line feeds, rejects every other character outside the alphabet and a final group of one
  character, and (not being in strict mode) ignores the unused low bits of the last character.
\<close>

section \<open>The alphabet\<close>

definition b64_char :: "nat \<Rightarrow> char" where
  "b64_char n =
     (if n < 26 then char_of (65 + n)
      else if n < 52 then char_of (97 + (n - 26))
      else if n < 62 then char_of (48 + (n - 52))
      else if n = 62 then CHR ''-'' else CHR ''_'')"

definition b64_value :: "char \<Rightarrow> nat option" where
  "b64_value c =
     (let b = byte c in
      if 65 \<le> b \<and> b \<le> 90 then Some (b - 65)
      else if 97 \<le> b \<and> b \<le> 122 then Some (b - 97 + 26)
      else if 48 \<le> b \<and> b \<le> 57 then Some (b - 48 + 52)
      else if c = CHR ''-'' then Some 62
      else if c = CHR ''_'' then Some 63
      else None)"

lemma b64_value_char [simp]: "n < 64 \<Longrightarrow> b64_value (b64_char n) = Some n"
  by (auto simp: b64_value_def b64_char_def Let_def byte_def)

lemma b64_value_less: "b64_value c = Some n \<Longrightarrow> n < 64"
  by (auto simp: b64_value_def Let_def split: if_splits)

lemma b64_char_printable: "n < 64 \<Longrightarrow> printable (b64_char n)"
  by (auto simp: b64_char_def printable_def byte_def)

section \<open>Encoding and decoding\<close>

fun b64_encode :: "string \<Rightarrow> string" where
  "b64_encode [] = []"
| "b64_encode [a] = [b64_char (byte a div 4), b64_char (byte a mod 4 * 16)]"
| "b64_encode [a, b] =
     [b64_char (byte a div 4), b64_char (byte a mod 4 * 16 + byte b div 16),
      b64_char (byte b mod 16 * 4)]"
| "b64_encode (a # b # c # cs) =
     [b64_char (byte a div 4), b64_char (byte a mod 4 * 16 + byte b div 16),
      b64_char (byte b mod 16 * 4 + byte c div 64), b64_char (byte c mod 64)] @ b64_encode cs"

fun b64_groups :: "nat list \<Rightarrow> string option" where
  "b64_groups [] = Some []"
| "b64_groups [v] = None"
| "b64_groups [v, w] = Some [char_of (v * 4 + w div 16)]"
| "b64_groups [v, w, x] =
     Some [char_of (v * 4 + w div 16), char_of (w mod 16 * 16 + x div 4)]"
| "b64_groups (v # w # x # y # vs) =
     map_option (\<lambda>t. [char_of (v * 4 + w div 16), char_of (w mod 16 * 16 + x div 4),
                      char_of (x mod 4 * 64 + y)] @ t) (b64_groups vs)"

fun b64_values :: "string \<Rightarrow> nat list option" where
  "b64_values [] = Some []"
| "b64_values (c # cs) =
     (if c = CHR 0x0A \<or> c = CHR 0x0D then b64_values cs
      else case b64_value c of None \<Rightarrow> None | Some v \<Rightarrow> map_option (\<lambda>vs. v # vs) (b64_values cs))"

definition b64_decode :: "string \<Rightarrow> string option" where
  "b64_decode s = Option.bind (b64_values s) b64_groups"

section \<open>Round trip\<close>

lemma b64_values_char:
  "n < 64 \<Longrightarrow> b64_values (b64_char n # cs) = map_option (\<lambda>vs. n # vs) (b64_values cs)"
proof -
  assume n: "n < 64"
  then have "b64_char n \<noteq> CHR 0x0A" "b64_char n \<noteq> CHR 0x0D"
    using b64_char_printable [OF n] by (auto simp: printable_def byte_def)
  with n show ?thesis by simp
qed

lemma byte_quotients: "byte a div 4 < 64" "byte a div 16 < 16" "byte a div 64 < 4"
  using byte_less [of a] by linarith+

lemma sextet_bounds:
  fixes p q r t :: nat
  shows "q < 16 \<Longrightarrow> p mod 4 * 16 + q < 64"
    and "t < 4 \<Longrightarrow> r mod 16 * 4 + t < 64"
proof -
  have "p mod 4 < 4" "r mod 16 < 16" by simp_all
  then show "q < 16 \<Longrightarrow> p mod 4 * 16 + q < 64" "t < 4 \<Longrightarrow> r mod 16 * 4 + t < 64"
    by linarith+
qed

lemma byte_pieces:
  "byte a div 4 < 64" "byte a mod 4 * 16 < 64" "byte a mod 4 * 16 + byte b div 16 < 64"
  "byte b mod 16 * 4 < 64" "byte b mod 16 * 4 + byte c div 64 < 64" "byte c mod 64 < 64"
  using sextet_bounds(1) [of 0 "byte a"] sextet_bounds(2) [of 0 "byte b"]
  by (simp_all add: byte_quotients sextet_bounds)

lemma group_split:
  "q < (16::nat) \<Longrightarrow> (p * 16 + q) div 16 = p" "q < (16::nat) \<Longrightarrow> (p * 16 + q) mod 16 = q"
  "t < (4::nat) \<Longrightarrow> (r * 4 + t) div 4 = r" "t < (4::nat) \<Longrightarrow> (r * 4 + t) mod 4 = t"
  by simp_all

lemma byte_rejoin:
  "char_of (byte a div 4 * 4 + (byte a mod 4 * 16 + byte b div 16) div 16) = a"
  "char_of ((byte a mod 4 * 16 + byte b div 16) mod 16 * 16
     + (byte b mod 16 * 4 + byte c div 64) div 4) = b"
  "char_of ((byte b mod 16 * 4 + byte c div 64) mod 4 * 64 + byte c mod 64) = c"
  by (simp_all only: group_split byte_quotients div_mult_mod_eq char_of_byte)

lemma b64_encode_nonempty_iff [simp]: "b64_encode s = [] \<longleftrightarrow> s = []"
  by (cases s rule: b64_encode.cases) auto

lemma b64_encode_printable: "list_all printable (b64_encode s)"
  by (induction s rule: b64_encode.induct) (simp_all add: b64_char_printable byte_pieces)

lemma TrimSpace_b64_encode: "s \<noteq> [] \<Longrightarrow> TrimSpace (b64_encode s) = b64_encode s"
  using b64_encode_printable [of s] by (intro TrimSpace_printable) (simp_all add: list_all_iff)

lemma b64_values_encode:
  "\<exists>vs. b64_values (b64_encode s) = Some vs \<and> b64_groups vs = Some s"
proof (induction s rule: b64_encode.induct)
  case (4 a b c cs)
  then show ?case
    by (auto simp: b64_values_char byte_pieces byte_rejoin byte_quotients
        simp del: b64_values.simps(2))
qed (simp_all add: b64_values_char byte_pieces group_split byte_quotients
    del: b64_values.simps(2))

lemma b64_decode_encode [simp]: "b64_decode (b64_encode s) = Some s"
  using b64_values_encode [of s] by (auto simp: b64_decode_def)

end
