(* ===== verification/Pagination.thy ===== *)
theory Pagination
  imports Catalog Go_Strconv Go_Base64
begin

text \<open>
  \<open>internal/httpapi/pagination.go\<close>: the page envelopes, the parsing of \<open>after_id\<close>, \<open>size\<close> and
  \<open>cursor\<close>, and the opaque hash cursor. A query string arrives as \<open>url.Values\<close>, modelled by the list
  of its name/value pairs in order; \<open>Get\<close> returns the first value or the empty string. An error is
  its message, because the only thing the callers do with it is to print it in the problem document.
\<close>

type_synonym Values = "(string \<times> string) list"

definition Values_Get :: "Values \<Rightarrow> string \<Rightarrow> string" where
  "Values_Get values name = (case map_of values name of None \<Rightarrow> [] | Some v \<Rightarrow> v)"

section \<open>Constants\<close>

definition ParameterID :: string where "ParameterID = ''id''"
definition ParameterAfterID :: string where "ParameterAfterID = ''after_id''"
definition ParameterCursor :: string where "ParameterCursor = ''cursor''"
definition ParameterSize :: string where "ParameterSize = ''size''"
definition ParameterName :: string where "ParameterName = ''name''"
definition ParameterRealName :: string where "ParameterRealName = ''real_name''"
definition ParameterTitle :: string where "ParameterTitle = ''title''"
definition ParameterCountry :: string where "ParameterCountry = ''country''"
definition ParameterYear :: string where "ParameterYear = ''year''"
definition ParameterMonth :: string where "ParameterMonth = ''month''"
definition ParameterMaster :: string where "ParameterMaster = ''master''"
definition ParameterLabelID :: string where "ParameterLabelID = ''label_id''"
definition ParameterCatalogNumber :: string where "ParameterCatalogNumber = ''catno''"
definition ParameterIdentifierType :: string where "ParameterIdentifierType = ''identifier_type''"
definition ParameterIdentifierValue :: string where "ParameterIdentifierValue = ''identifier_value''"

lemmas parameter_defs =
  ParameterID_def ParameterAfterID_def ParameterCursor_def ParameterSize_def ParameterName_def
  ParameterRealName_def ParameterTitle_def ParameterCountry_def ParameterYear_def
  ParameterMonth_def ParameterMaster_def ParameterLabelID_def ParameterCatalogNumber_def
  ParameterIdentifierType_def ParameterIdentifierValue_def

definition MaximumResourceID :: int where
  "MaximumResourceID = 2147483647"

definition defaultPageSize :: int where
  "defaultPageSize = 20"

definition maximumPageSize :: int where
  "maximumPageSize = 30"

definition errorCursor :: string where
  "errorCursor = ''cursor is invalid''"

section \<open>Page envelopes\<close>

record 'a PageResponse =
  Resp_Items :: "'a list"
  Resp_NextAfterID :: "int option"
  Resp_HasMore :: bool
  Resp_PageSize :: int
  Resp_ResourceURI :: string

record 'a HashPageResponse =
  HResp_Items :: "'a list"
  HResp_NextCursor :: "string option"
  HResp_HasMore :: bool
  HResp_PageSize :: int
  HResp_ResourceURI :: string

text \<open>
  A nil slice is replaced by an empty one, so the envelope's items are a list that is never encoded
  as \<open>null\<close>.
\<close>

definition pageResponse :: "('a \<Rightarrow> int) \<Rightarrow> 'a Page \<Rightarrow> string \<Rightarrow> 'a PageResponse" where
  "pageResponse pageID page resourceURI =
     (let items = (case Items page of NilSlice \<Rightarrow> [] | Slice xs \<Rightarrow> xs) in
      \<lparr>Resp_Items = items, Resp_NextAfterID = NextAfterID pageID page, Resp_HasMore = HasMore page,
       Resp_PageSize = int (length items), Resp_ResourceURI = resourceURI\<rparr>)"

definition encodeHashCursor :: "int option \<Rightarrow> string option" where
  "encodeHashCursor hash =
     (case hash of None \<Rightarrow> None
      | Some h \<Rightarrow> let encoded = FormatInt h; value = b64_encode encoded in Some value)"

definition hashPageResponse :: "('a \<Rightarrow> int) \<Rightarrow> 'a HashPage \<Rightarrow> string \<Rightarrow> 'a HashPageResponse" where
  "hashPageResponse pageHash page resourceURI =
     (let items = (case HashItems page of NilSlice \<Rightarrow> [] | Slice xs \<Rightarrow> xs) in
      \<lparr>HResp_Items = items, HResp_NextCursor = encodeHashCursor (NextAfterHash pageHash page),
       HResp_HasMore = HashHasMore page, HResp_PageSize = int (length items),
       HResp_ResourceURI = resourceURI\<rparr>)"

section \<open>Parsing\<close>

definition range_message :: "string \<Rightarrow> int \<Rightarrow> int \<Rightarrow> string" where
  "range_message name lo hi =
     name @ '' must be between '' @ FormatInt lo @ '' and '' @ FormatInt hi"

definition parseBoundedInt :: "string \<Rightarrow> int \<Rightarrow> int \<Rightarrow> int \<Rightarrow> string \<Rightarrow> string + int" where
  "parseBoundedInt raw fallback lo hi name =
     (if TrimSpace raw = [] then Inr fallback
      else case Atoi raw of
             None \<Rightarrow> Inl (range_message name lo hi)
           | Some value \<Rightarrow>
               if value < lo \<or> value > hi then Inl (range_message name lo hi) else Inr value)"

definition parseBoundedInt64 :: "string \<Rightarrow> int \<Rightarrow> int \<Rightarrow> int \<Rightarrow> string \<Rightarrow> string + int" where
  "parseBoundedInt64 raw fallback lo hi name =
     (if TrimSpace raw = [] then Inr fallback
      else case ParseInt10 64 raw of
             None \<Rightarrow> Inl (range_message name lo hi)
           | Some value \<Rightarrow>
               if value < lo \<or> value > hi then Inl (range_message name lo hi) else Inr value)"

definition decodeHashCursor :: "string \<Rightarrow> string + int option" where
  "decodeHashCursor raw =
     (if TrimSpace raw = [] then Inr None
      else case b64_decode raw of
             None \<Rightarrow> Inl errorCursor
           | Some decoded \<Rightarrow>
               (case ParseInt10 32 decoded of
                  None \<Rightarrow> Inl errorCursor
                | Some parsed \<Rightarrow> Inr (Some (wrap32 parsed))))"

definition parseCursorPage :: "Values \<Rightarrow> string + PageRequest" where
  "parseCursorPage values =
     (case parseBoundedInt64 (Values_Get values ParameterAfterID) 0 0 MaximumResourceID
             ParameterAfterID of
        Inl e \<Rightarrow> Inl e
      | Inr afterID \<Rightarrow>
          (case parseBoundedInt (Values_Get values ParameterSize) defaultPageSize 1 maximumPageSize
                  ParameterSize of
             Inl e \<Rightarrow> Inl e
           | Inr pageSize \<Rightarrow> Inr \<lparr>AfterID = afterID, Size = pageSize\<rparr>))"

definition parseHashCursorPage :: "Values \<Rightarrow> string + HashPageRequest" where
  "parseHashCursorPage values =
     (case decodeHashCursor (Values_Get values ParameterCursor) of
        Inl e \<Rightarrow> Inl e
      | Inr afterHash \<Rightarrow>
          (case parseBoundedInt (Values_Get values ParameterSize) defaultPageSize 1 maximumPageSize
                  ParameterSize of
             Inl e \<Rightarrow> Inl e
           | Inr pageSize \<Rightarrow> Inr \<lparr>AfterHash = afterHash, HashSize = pageSize\<rparr>))"

section \<open>Bounds of parsed values\<close>

lemma parseBoundedInt_bounds:
  "parseBoundedInt raw fb lo hi name = Inr v \<Longrightarrow> lo \<le> fb \<Longrightarrow> fb \<le> hi \<Longrightarrow> lo \<le> v \<and> v \<le> hi"
  by (auto simp: parseBoundedInt_def split: if_splits option.splits)

lemma parseBoundedInt64_bounds:
  "parseBoundedInt64 raw fb lo hi name = Inr v \<Longrightarrow> lo \<le> fb \<Longrightarrow> fb \<le> hi \<Longrightarrow> lo \<le> v \<and> v \<le> hi"
  by (auto simp: parseBoundedInt64_def split: if_splits option.splits)

lemma parseBoundedInt64_error:
  "parseBoundedInt64 raw fb lo hi name = Inl e \<Longrightarrow> e = range_message name lo hi"
  by (auto simp: parseBoundedInt64_def split: if_splits option.splits)

lemma parseBoundedInt_error:
  "parseBoundedInt raw fb lo hi name = Inl e \<Longrightarrow> e = range_message name lo hi"
  by (auto simp: parseBoundedInt_def split: if_splits option.splits)

lemma parseCursorPage_bounds:
  assumes "parseCursorPage values = Inr r"
  shows "0 \<le> AfterID r \<and> AfterID r \<le> MaximumResourceID \<and> 1 \<le> Size r \<and> Size r \<le> maximumPageSize"
proof -
  from assms obtain a s where
    a: "parseBoundedInt64 (Values_Get values ParameterAfterID) 0 0 MaximumResourceID ParameterAfterID = Inr a"
    and s: "parseBoundedInt (Values_Get values ParameterSize) defaultPageSize 1 maximumPageSize ParameterSize = Inr s"
    and r: "r = \<lparr>AfterID = a, Size = s\<rparr>"
    by (auto simp: parseCursorPage_def split: sum.splits)
  from parseBoundedInt64_bounds [OF a] parseBoundedInt_bounds [OF s] r show ?thesis
    by (simp add: MaximumResourceID_def defaultPageSize_def maximumPageSize_def)
qed

lemma parseHashCursorPage_size:
  assumes "parseHashCursorPage values = Inr r"
  shows "1 \<le> HashSize r \<and> HashSize r \<le> maximumPageSize"
proof -
  from assms obtain s where
    s: "parseBoundedInt (Values_Get values ParameterSize) defaultPageSize 1 maximumPageSize ParameterSize = Inr s"
    and r: "HashSize r = s"
    by (auto simp: parseHashCursorPage_def split: sum.splits)
  from parseBoundedInt_bounds [OF s] r show ?thesis
    by (simp add: defaultPageSize_def maximumPageSize_def)
qed

lemma decodeHashCursor_range:
  assumes "decodeHashCursor raw = Inr (Some h)"
  shows "- (2 ^ 31) \<le> h \<and> h < 2 ^ 31"
proof -
  from assms obtain d i where "ParseInt10 32 d = Some i" and "h = wrap32 i"
    by (auto simp: decodeHashCursor_def split: if_splits option.splits)
  with ParseInt10_range [of 32 d i] show ?thesis by (simp add: wrap32_id)
qed

section \<open>Cursors survive the round trip through a client\<close>

lemma decodeHashCursor_encode:
  assumes "- (2 ^ 31) \<le> h" "h < 2 ^ 31"
  shows "\<exists>c. encodeHashCursor (Some h) = Some c \<and> c \<noteq> [] \<and> decodeHashCursor c = Inr (Some h)"
  using assms
  by (simp add: encodeHashCursor_def decodeHashCursor_def TrimSpace_b64_encode ParseInt10_FormatInt
      wrap32_id)

lemma parseBoundedInt64_FormatInt:
  assumes "lo \<le> i" "i \<le> hi" "- (2 ^ 63) \<le> i" "i < 2 ^ 63"
  shows "parseBoundedInt64 (FormatInt i) fb lo hi name = Inr i"
  using assms by (simp add: parseBoundedInt64_def ParseInt10_FormatInt)

lemma parseBoundedInt_FormatInt:
  assumes "lo \<le> i" "i \<le> hi" "- (2 ^ 63) \<le> i" "i < 2 ^ 63"
  shows "parseBoundedInt (FormatInt i) fb lo hi name = Inr i"
  using assms by (simp add: parseBoundedInt_def Atoi_def ParseInt10_FormatInt)

end
