(* ===== verification/Client.thy ===== *)
theory Client
  imports Keyset Pagination
begin

text \<open>
  A client of the paged listings: it sends a page size and its filters, and repeats the request with
  the continuation cursor of the last answer until there is none. The cursor goes through its text
  form in both directions: \<open>next_after_id\<close> is printed into \<open>after_id\<close>, \<open>next_cursor\<close> is sent back as
  \<open>cursor\<close>, and the API parses them again. The lemmas extend the contracts of \<open>Keyset\<close>.
\<close>

section \<open>Listings paged by identifier\<close>

definition client_query :: "Values \<Rightarrow> int \<Rightarrow> int option \<Rightarrow> Values" where
  "client_query filters sz c =
     (case c of None \<Rightarrow> [] | Some k \<Rightarrow> [(ParameterAfterID, FormatInt k)]) @
     (ParameterSize, FormatInt sz) # filters"

text \<open>The page envelope a listing answers with, if it answers with one.\<close>

definition listing ::
  "('a \<Rightarrow> int) \<Rightarrow> (PageRequest \<Rightarrow> 'a Page outcome) \<Rightarrow> string \<Rightarrow> Values \<Rightarrow> 'a PageResponse option" where
  "listing key page uri values =
     (case parseCursorPage values of
        Inl e \<Rightarrow> None
      | Inr r \<Rightarrow> (case page r of Ok p \<Rightarrow> Some (pageResponse key p uri) | _ \<Rightarrow> None))"

definition client_get ::
  "('a \<Rightarrow> int) \<Rightarrow> (PageRequest \<Rightarrow> 'a Page outcome) \<Rightarrow> string \<Rightarrow> Values \<Rightarrow> int \<Rightarrow> int option \<Rightarrow>
   ('a list \<times> int option option) option" where
  "client_get key page uri filters sz c =
     map_option (\<lambda>resp. (Resp_Items resp, map_option Some (Resp_NextAfterID resp)))
       (listing key page uri (client_query filters sz c))"

definition no_parameter :: "string \<Rightarrow> Values \<Rightarrow> bool" where
  "no_parameter name filters \<longleftrightarrow> name \<notin> fst ` set filters"

lemma Values_Get_absent: "no_parameter name filters \<Longrightarrow> Values_Get filters name = []"
  by (simp add: no_parameter_def Values_Get_def map_of_eq_None_iff [symmetric])

lemma Values_Get_Nil: "Values_Get [] name = []"
  by (simp add: Values_Get_def)

lemma Values_Get_Cons:
  "Values_Get ((k, v) # values) name = (if k = name then v else Values_Get values name)"
  by (simp add: Values_Get_def)

text \<open>What the client sends is parsed into the page request it means.\<close>

lemma parse_client_query:
  assumes "no_parameter ParameterAfterID filters" "1 \<le> sz" "sz \<le> maximumPageSize"
    and "\<And>k. c = Some k \<Longrightarrow> 0 \<le> k \<and> k \<le> MaximumResourceID"
  shows "parseCursorPage (client_query filters sz c) =
    Inr \<lparr>AfterID = (case c of None \<Rightarrow> 0 | Some k \<Rightarrow> k), Size = sz\<rparr>"
proof -
  have size: "parseBoundedInt (FormatInt sz) defaultPageSize 1 maximumPageSize ParameterSize = Inr sz"
    using assms(2,3) by (intro parseBoundedInt_FormatInt) (simp_all add: maximumPageSize_def)
  have after: "parseBoundedInt64 (FormatInt k) 0 0 MaximumResourceID ParameterAfterID = Inr k"
    if "c = Some k" for k
    using assms(4) [OF that] by (intro parseBoundedInt64_FormatInt) (simp_all add: MaximumResourceID_def)
  have none: "parseBoundedInt64 [] 0 0 MaximumResourceID ParameterAfterID = Inr 0"
    by (simp add: parseBoundedInt64_def)
  have names: "ParameterSize \<noteq> ParameterAfterID" "ParameterAfterID \<noteq> ParameterSize"
    by (simp_all add: parameter_defs)
  have vals: "Values_Get (client_query filters sz c) ParameterSize = FormatInt sz"
    "Values_Get (client_query filters sz c) ParameterAfterID =
      (case c of None \<Rightarrow> [] | Some k \<Rightarrow> FormatInt k)"
    using assms(1)
    by (cases c; simp add: client_query_def Values_Get_Cons names Values_Get_absent)+
  show ?thesis
    unfolding parseCursorPage_def vals size by (cases c) (simp_all add: none after)
qed

context id_pages
begin

lemma client_get_eq:
  assumes "ok s q" "1 \<le> sz" "sz \<le> maximumPageSize" "no_parameter ParameterAfterID filters"
    and "\<And>k. c = Some k \<Longrightarrow> 0 \<le> k \<and> k \<le> MaximumResourceID"
  shows "client_get key (page s q) uri filters sz c =
    (let rest = rows_after key c (rows s q) in
     Some (take (nat sz) rest,
       if length rest > nat sz then Some (Some (key (last (take (nat sz) rest)))) else None))"
proof -
  let ?k = "case c of None \<Rightarrow> 0 | Some k \<Rightarrow> k"
  have rest: "filter (\<lambda>x. ?k < key x) (rows s q) = rows_after key c (rows s q)"
    unfolding rows_after_def using rows_above [OF assms(1)]
    by (intro filter_cong) (force split: option.splits)+
  have size: "sz < 2 ^ 62" "nat sz < length xs \<longleftrightarrow> sz < int (length xs)" for xs :: "'a list"
    using assms(2,3) by (simp_all add: maximumPageSize_def, linarith)
  have "page s q \<lparr>AfterID = ?k, Size = sz\<rparr> =
      Ok \<lparr>Items = Slice (take (nat sz) (rows_after key c (rows s q))),
        HasMore = int (length (rows_after key c (rows s q))) > sz\<rparr>"
    using page_rows [OF assms(1), of "\<lparr>AfterID = ?k, Size = sz\<rparr>"] assms(2) size(1) by (simp add: rest)
  moreover have "parseCursorPage (client_query filters sz c) = Inr \<lparr>AfterID = ?k, Size = sz\<rparr>"
    using assms(2-5) by (intro parse_client_query) simp_all
  ultimately show ?thesis
    using assms(2) by (simp add: client_get_def listing_def pageResponse_def NextAfterID_def Let_def size(2))
qed

text \<open>Every row exactly once, in order, after at most as many requests as pages.\<close>

lemma client_walk:
  assumes "ok s q" "1 \<le> sz" "sz \<le> maximumPageSize" "no_parameter ParameterAfterID filters"
    and "0 < n" "int (length (rows s q)) \<le> int n * sz"
  shows "follow n (client_get key (page s q) uri filters sz) None = Some (rows s q)"
proof -
  let ?rest = "\<lambda>c. rows_after key c (rows s q)"
  let ?ok = "\<lambda>c. \<forall>k. c = Some k \<longrightarrow> 0 \<le> k \<and> k \<le> MaximumResourceID"
  have size: "1 \<le> nat sz" using assms(2) by simp
  have all: "?rest None = rows s q" by (simp add: rows_after_def)
  have "follow n (client_get key (page s q) uri filters sz) None = Some (?rest None)"
  proof (rule follow_complete [where ok = ?ok])
    show "client_get key (page s q) uri filters sz c = Some (take (nat sz) (?rest c),
        if length (?rest c) > nat sz then Some (Some (key (last (take (nat sz) (?rest c))))) else None)"
      if "?ok c" for c
      using client_get_eq [OF assms(1-4), of c uri] that by (simp add: Let_def)
    show "?ok (Some (key (last (take (nat sz) (?rest c))))) \<and>
        ?rest (Some (key (last (take (nat sz) (?rest c))))) = drop (nat sz) (?rest c)"
      if "length (?rest c) > nat sz" for c
      using after_key_range [OF assms(1) size that] after_last [OF assms(1) size that]
      by (simp add: MaximumResourceID_def)
    show "length (?rest None) \<le> n * nat sz"
      using assms(2,6) by (simp add: all int_le_mult_nat)
  qed (simp_all add: assms(5))
  then show ?thesis by (simp add: all)
qed

end

section \<open>Listings paged by hash cursor\<close>

definition client_hash_query :: "int \<Rightarrow> string option \<Rightarrow> Values" where
  "client_hash_query sz c =
     (case c of None \<Rightarrow> [] | Some s \<Rightarrow> [(ParameterCursor, s)]) @ [(ParameterSize, FormatInt sz)]"

definition hash_listing ::
  "('a \<Rightarrow> int) \<Rightarrow> (HashPageRequest \<Rightarrow> 'a HashPage outcome) \<Rightarrow> string \<Rightarrow> Values \<Rightarrow>
   'a HashPageResponse option" where
  "hash_listing key page uri values =
     (case parseHashCursorPage values of
        Inl e \<Rightarrow> None
      | Inr r \<Rightarrow> (case page r of Ok p \<Rightarrow> Some (hashPageResponse key p uri) | _ \<Rightarrow> None))"

definition client_hash_get ::
  "('a \<Rightarrow> int) \<Rightarrow> (HashPageRequest \<Rightarrow> 'a HashPage outcome) \<Rightarrow> string \<Rightarrow> int \<Rightarrow> string option \<Rightarrow>
   ('a list \<times> string option option) option" where
  "client_hash_get key page uri sz c =
     map_option (\<lambda>resp. (HResp_Items resp, map_option Some (HResp_NextCursor resp)))
       (hash_listing key page uri (client_hash_query sz c))"

text \<open>The slot a cursor stands for.\<close>

definition cursor_hash :: "string option \<Rightarrow> int option" where
  "cursor_hash c = (case c of None \<Rightarrow> None
     | Some s \<Rightarrow> (case decodeHashCursor s of Inr h \<Rightarrow> h | Inl _ \<Rightarrow> None))"

definition issued_cursor :: "string option \<Rightarrow> bool" where
  "issued_cursor c \<longleftrightarrow> c = None \<or> (\<exists>h. - (2 ^ 31) \<le> h \<and> h < 2 ^ 31 \<and> c = encodeHashCursor (Some h))"

lemma cursor_hash_encode:
  assumes "- (2 ^ 31) \<le> h" "h < 2 ^ 31"
  shows "cursor_hash (encodeHashCursor (Some h)) = Some h"
  using decodeHashCursor_encode [OF assms] by (auto simp: cursor_hash_def)

lemma parse_client_hash_query:
  assumes "1 \<le> sz" "sz \<le> maximumPageSize" "issued_cursor c"
  shows "parseHashCursorPage (client_hash_query sz c) =
    Inr \<lparr>AfterHash = cursor_hash c, HashSize = sz\<rparr>"
proof -
  have size: "parseBoundedInt (FormatInt sz) defaultPageSize 1 maximumPageSize ParameterSize = Inr sz"
    using assms(1,2) by (intro parseBoundedInt_FormatInt) (simp_all add: maximumPageSize_def)
  have cursor: "decodeHashCursor s = Inr (cursor_hash (Some s))" if "c = Some s" for s
  proof -
    from assms(3) that obtain h where h: "- (2 ^ 31) \<le> h" "h < 2 ^ 31" "encodeHashCursor (Some h) = Some s"
      by (auto simp: issued_cursor_def)
    from decodeHashCursor_encode [OF h(1,2)] h(3) show ?thesis by (simp add: cursor_hash_def)
  qed
  have none: "decodeHashCursor [] = Inr None" by (simp add: decodeHashCursor_def)
  have names: "ParameterSize \<noteq> ParameterCursor" "ParameterCursor \<noteq> ParameterSize"
    by (simp_all add: parameter_defs)
  have vals: "Values_Get (client_hash_query sz c) ParameterSize = FormatInt sz"
    "Values_Get (client_hash_query sz c) ParameterCursor = (case c of None \<Rightarrow> [] | Some s \<Rightarrow> s)"
    by (cases c; simp add: client_hash_query_def Values_Get_Cons Values_Get_Nil names)+
  have decoded: "decodeHashCursor (case c of None \<Rightarrow> [] | Some s \<Rightarrow> s) = Inr (cursor_hash c)"
  proof (cases c)
    case None
    then show ?thesis by (simp add: none cursor_hash_def)
  next
    case (Some s)
    with cursor [OF Some] show ?thesis by simp
  qed
  show ?thesis
    unfolding parseHashCursorPage_def vals size decoded by simp
qed

context hash_pages
begin

lemma client_hash_get_eq:
  assumes "ok s q" "1 \<le> sz" "sz \<le> maximumPageSize" "issued_cursor c"
  shows "client_hash_get key (page s q) uri sz c =
    (let rest = rows_after key (cursor_hash c) (rows s q) in
     Some (take (nat sz) rest,
       if length rest > nat sz
       then Some (encodeHashCursor (Some (key (last (take (nat sz) rest))))) else None))"
proof -
  have size: "sz < 2 ^ 62" "nat sz < length xs \<longleftrightarrow> sz < int (length xs)" for xs :: "'a list"
    using assms(2,3) by (simp_all add: maximumPageSize_def, linarith)
  have "page s q \<lparr>AfterHash = cursor_hash c, HashSize = sz\<rparr> =
      Ok \<lparr>HashItems = Slice (take (nat sz) (rows_after key (cursor_hash c) (rows s q))),
        HashHasMore = int (length (rows_after key (cursor_hash c) (rows s q))) > sz\<rparr>"
    using hash_page_rows [OF assms(1), of "\<lparr>AfterHash = cursor_hash c, HashSize = sz\<rparr>"] assms(2) size(1)
    by simp
  then show ?thesis
    using assms(2) parse_client_hash_query [OF assms(2-4)]
    by (simp add: client_hash_get_def hash_listing_def hashPageResponse_def NextAfterHash_def Let_def
        size(2) encodeHashCursor_def)
qed

lemma client_hash_walk:
  assumes "ok s q" "1 \<le> sz" "sz \<le> maximumPageSize" "0 < n" "int (length (rows s q)) \<le> int n * sz"
  shows "follow n (client_hash_get key (page s q) uri sz) None = Some (rows s q)"
proof -
  let ?rest = "\<lambda>c. rows_after key (cursor_hash c) (rows s q)"
  have size: "1 \<le> nat sz" using assms(2) by simp
  have all: "?rest None = rows s q" by (simp add: rows_after_def cursor_hash_def)
  have "follow n (client_hash_get key (page s q) uri sz) None = Some (?rest None)"
  proof (rule follow_complete [where ok = issued_cursor])
    show "client_hash_get key (page s q) uri sz c = Some (take (nat sz) (?rest c),
        if length (?rest c) > nat sz
        then Some (encodeHashCursor (Some (key (last (take (nat sz) (?rest c)))))) else None)"
      if "issued_cursor c" for c
      using client_hash_get_eq [OF assms(1-3) that, of uri] by (simp add: Let_def)
    show "issued_cursor (encodeHashCursor (Some (key (last (take (nat sz) (?rest c)))))) \<and>
        ?rest (encodeHashCursor (Some (key (last (take (nat sz) (?rest c)))))) = drop (nat sz) (?rest c)"
      if "length (?rest c) > nat sz" for c
    proof -
      have range: "- (2 ^ 31) \<le> key (last (take (nat sz) (?rest c)))" "key (last (take (nat sz) (?rest c))) < 2 ^ 31"
        using after_key_range [OF assms(1) size that] by simp_all
      then have "issued_cursor (encodeHashCursor (Some (key (last (take (nat sz) (?rest c))))))"
        unfolding issued_cursor_def by blast
      with after_last [OF assms(1) size that] cursor_hash_encode [OF range] show ?thesis by simp
    qed
    show "length (?rest None) \<le> n * nat sz"
      using assms(2,5) by (simp add: all int_le_mult_nat)
  qed (simp_all add: assms(4) issued_cursor_def)
  then show ?thesis by (simp add: all)
qed

end

end
