(* ===== verification/Sql.thy ===== *)
theory Sql
  imports Go_Text
begin

text \<open>
  The SQL the queries of \<open>internal/postgres\<close> are written in: three-valued conditions, \<open>LIKE\<close>
  patterns over UTF-8 text, \<open>ORDER BY\<close> a key with \<open>LIMIT\<close>, and dates. A nullable value is an
  \<open>option\<close>. The database's case folding is a parameter, because it depends on the collation.
\<close>

section \<open>Three-valued logic\<close>

type_synonym sql_bool = "bool option"

fun sql_and :: "sql_bool \<Rightarrow> sql_bool \<Rightarrow> sql_bool" where
  "sql_and (Some False) _ = Some False"
| "sql_and _ (Some False) = Some False"
| "sql_and (Some True) (Some True) = Some True"
| "sql_and _ _ = None"

fun sql_or :: "sql_bool \<Rightarrow> sql_bool \<Rightarrow> sql_bool" where
  "sql_or (Some True) _ = Some True"
| "sql_or _ (Some True) = Some True"
| "sql_or (Some False) (Some False) = Some False"
| "sql_or _ _ = None"

definition sql_is_null :: "'a option \<Rightarrow> sql_bool" where
  "sql_is_null x = Some (x = None)"

definition sql_is_true :: "sql_bool \<Rightarrow> sql_bool" where
  "sql_is_true x = Some (x = Some True)"

definition sql_eq :: "'a option \<Rightarrow> 'a option \<Rightarrow> sql_bool" where
  "sql_eq x y = (case (x, y) of (Some a, Some b) \<Rightarrow> Some (a = b) | _ \<Rightarrow> None)"

definition sql_less :: "'a::linorder option \<Rightarrow> 'a option \<Rightarrow> sql_bool" where
  "sql_less x y = (case (x, y) of (Some a, Some b) \<Rightarrow> Some (a < b) | _ \<Rightarrow> None)"

definition sql_le :: "'a::linorder option \<Rightarrow> 'a option \<Rightarrow> sql_bool" where
  "sql_le x y = (case (x, y) of (Some a, Some b) \<Rightarrow> Some (a \<le> b) | _ \<Rightarrow> None)"

text \<open>A \<open>WHERE\<close> keeps the rows whose condition is true, not unknown.\<close>

definition holds :: "sql_bool \<Rightarrow> bool" where
  "holds b \<longleftrightarrow> b = Some True"

lemma holds_and [simp]: "holds (sql_and a b) \<longleftrightarrow> holds a \<and> holds b"
  by (cases "(a, b)" rule: sql_and.cases) (auto simp: holds_def)

lemma holds_or [simp]: "holds (sql_or a b) \<longleftrightarrow> holds a \<or> holds b"
  by (cases "(a, b)" rule: sql_or.cases) (auto simp: holds_def)

lemma holds_atoms [simp]:
  "holds (sql_is_null x) \<longleftrightarrow> x = None"
  "holds (sql_is_true b) \<longleftrightarrow> b = Some True"
  "holds (sql_eq (Some u) (Some v)) \<longleftrightarrow> u = v"
  "\<not> holds (sql_eq None y)" "\<not> holds (sql_eq y None)"
  "holds (sql_less (Some i) (Some j)) \<longleftrightarrow> i < j"
  "\<not> holds (sql_less None j')" "\<not> holds (sql_less j' None)"
  "holds (sql_le (Some i) (Some j)) \<longleftrightarrow> i \<le> j"
  "\<not> holds (sql_le None j')" "\<not> holds (sql_le j' None)"
  by (auto simp: holds_def sql_is_null_def sql_is_true_def sql_eq_def sql_less_def sql_le_def
      split: option.splits)

lemma holds_eq_iff: "holds (sql_eq x y) \<longleftrightarrow> x \<noteq> None \<and> x = y"
  by (cases x; cases y) auto

section \<open>LIKE\<close>

text \<open>One character of UTF-8 text: a byte and the continuation bytes after it.\<close>

definition next_char :: "string \<Rightarrow> string" where
  "next_char s = dropWhile cont (tl s)"

lemma length_next_char: "s \<noteq> [] \<Longrightarrow> length (next_char s) < length s"
  unfolding next_char_def
  by (metis Suc_le_lessD Suc_pred diff_Suc_1 length_dropWhile_le length_greater_0_conv
      length_tl le_imp_less_Suc)

function like :: "string \<Rightarrow> string \<Rightarrow> bool" where
  "like s [] \<longleftrightarrow> s = []"
| "like s (p # ps) \<longleftrightarrow>
     (if p = CHR ''%'' then
        (if like s ps then True else if s = [] then False else like (next_char s) (p # ps))
      else if s = [] then False
      else if p = CHR ''_'' then like (next_char s) ps
      else if p = CHR 0x5C then
        (case ps of [] \<Rightarrow> False | q # qs \<Rightarrow> if hd s = q then like (tl s) qs else False)
      else if hd s = p then like (tl s) ps else False)"
  by pat_completeness auto
termination
  by (relation "measure (\<lambda>(s, p). length s + length p)")
    (auto simp: length_next_char less_SucI intro: less_trans [OF length_next_char])

declare like.simps(2) [simp del]

lemma like_percent:
  "like s (CHR ''%'' # ps) \<longleftrightarrow>
     like s ps \<or> (s \<noteq> [] \<and> like (next_char s) (CHR ''%'' # ps))"
  by (subst like.simps(2)) simp

lemma like_literal:
  "p \<noteq> CHR ''%'' \<Longrightarrow> p \<noteq> CHR ''_'' \<Longrightarrow> p \<noteq> CHR 0x5C \<Longrightarrow>
   like s (p # ps) \<longleftrightarrow> s \<noteq> [] \<and> hd s = p \<and> like (tl s) ps"
  by (subst like.simps(2)) simp

lemma like_underscore: "like s (CHR ''_'' # ps) \<longleftrightarrow> s \<noteq> [] \<and> like (next_char s) ps"
  by (subst like.simps(2)) simp

lemma like_escape:
  "like s (CHR 0x5C # q # qs) \<longleftrightarrow> s \<noteq> [] \<and> hd s = q \<and> like (tl s) qs"
  by (subst like.simps(2)) simp

text \<open>\<open>text ILIKE '%' || term || '%'\<close>, with \<open>fold\<close> the database's case folding.\<close>

definition like_pattern :: "string option \<Rightarrow> string option" where
  "like_pattern t = map_option (\<lambda>t. ''%'' @ t @ ''%'') t"

definition sql_ilike :: "(string \<Rightarrow> string) \<Rightarrow> string option \<Rightarrow> string option \<Rightarrow> sql_bool" where
  "sql_ilike lower s p =
     (case (s, p) of (Some s, Some p) \<Rightarrow> Some (like (lower s) (lower p)) | _ \<Rightarrow> None)"

definition like_plain :: "string \<Rightarrow> bool" where
  "like_plain t \<longleftrightarrow> (\<forall>c \<in> set t. c \<noteq> CHR ''%'' \<and> c \<noteq> CHR ''_'' \<and> c \<noteq> CHR 0x5C)"

lemma like_percent_end: "like s ''%''"
proof (induction s rule: length_induct)
  case (1 s)
  then show ?case
    using length_next_char [of s] like_percent [of s "[]"] by (cases "s = []") auto
qed

lemma like_prefix:
  "like_plain t \<Longrightarrow> like s (t @ ''%'') \<longleftrightarrow> (\<exists>v. s = t @ v)"
proof (induction t arbitrary: s)
  case Nil
  then show ?case by (simp add: like_percent_end)
next
  case (Cons c t)
  then have "like s ((c # t) @ ''%'') \<longleftrightarrow> s \<noteq> [] \<and> hd s = c \<and> like (tl s) (t @ ''%'')"
    by (simp add: like_plain_def like_literal)
  also have "\<dots> \<longleftrightarrow> s \<noteq> [] \<and> hd s = c \<and> (\<exists>v. tl s = t @ v)"
    using Cons by (simp add: like_plain_def)
  finally show ?case by (cases s) auto
qed

text \<open>
  A term without pattern characters that starts a character matches exactly as a substring.
\<close>

lemma next_char_split:
  assumes "s = c # u @ t" "t \<noteq> []" "RuneStart (hd t)"
  obtains u' where "next_char s = u' @ t" "length u' \<le> length u"
proof -
  have "\<exists>u'. dropWhile cont (u @ t) = u' @ t \<and> length u' \<le> length u"
    using assms(2,3)
  proof (induction u)
    case Nil
    then show ?case by (cases t) (auto simp: RuneStart_def)
  next
    case (Cons d u)
    then show ?case by (auto simp: le_Suc_eq)
  qed
  with assms(1) that show thesis by (auto simp: next_char_def)
qed

lemma next_char_suffix: "s \<noteq> [] \<Longrightarrow> \<exists>w. s = w @ next_char s"
  by (cases s) (auto simp: next_char_def intro!: exI [of _ "_ # takeWhile cont (tl s)"])

lemma like_substring:
  assumes t: "t \<noteq> []" "RuneStart (hd t)" "like_plain t"
  shows "like s (''%'' @ t @ ''%'') \<longleftrightarrow> (\<exists>u v. s = u @ t @ v)"
proof
  assume "like s (''%'' @ t @ ''%'')"
  then show "\<exists>u v. s = u @ t @ v"
  proof (induction s rule: length_induct)
    case (1 s)
    show ?case
    proof (cases "like s (t @ ''%'')")
      case True
      with t(3) show ?thesis by (metis append_Nil like_prefix)
    next
      case False
      with "1.prems" have s: "s \<noteq> []" "like (next_char s) (''%'' @ t @ ''%'')"
        using like_percent [of s "t @ ''%''"] by auto
      with "1.IH" length_next_char obtain u v where "next_char s = u @ t @ v" by blast
      moreover obtain w where "s = w @ next_char s"
        using s(1) next_char_suffix by blast
      ultimately show ?thesis by (metis append.assoc)
    qed
  qed
next
  assume "\<exists>u v. s = u @ t @ v"
  then obtain u v where "s = u @ t @ v" by blast
  then show "like s (''%'' @ t @ ''%'')"
  proof (induction u arbitrary: s rule: length_induct)
    case (1 u)
    show ?case
    proof (cases u)
      case Nil
      with "1.prems" t(3) have "like s (t @ ''%'')" by (auto simp: like_prefix)
      then show ?thesis using like_percent [of s "t @ ''%''"] by simp
    next
      case (Cons c u')
      with "1.prems" have "s = c # u' @ (t @ v)" by simp
      moreover have "t @ v \<noteq> []" "RuneStart (hd (t @ v))" using t by simp_all
      ultimately obtain u2 where u2: "next_char s = u2 @ t @ v" "length u2 \<le> length u'"
        by (rule next_char_split)
      have "length u2 < length u" using u2(2) Cons by simp
      with "1.IH" u2(1) have "like (next_char s) (''%'' @ t @ ''%'')" by blast
      moreover have "s \<noteq> []" using \<open>s = c # u' @ (t @ v)\<close> by simp
      ultimately show ?thesis using like_percent [of s "t @ ''%''"] by simp
    qed
  qed
qed

section \<open>Order and limit\<close>

text \<open>Limits are never negative here: a page size is at least 1, so \<open>FetchSize\<close> is at least 2.\<close>

definition sql_limit :: "int \<Rightarrow> 'a list \<Rightarrow> 'a list" where
  "sql_limit n xs = take (nat n) xs"

definition order_by :: "('a \<Rightarrow> 'k::linorder) \<Rightarrow> 'a list \<Rightarrow> 'a list" where
  "order_by k xs = sort_key k xs"

lemma set_order_by [simp]: "set (order_by k xs) = set xs"
  by (simp add: order_by_def)

lemma distinct_map_iff_sort: "distinct (map k (sort_key k xs)) \<longleftrightarrow> distinct (map k xs)"
  by (simp add: distinct_map)

lemma ascending_order_by:
  "distinct (map k xs) \<Longrightarrow> ascending (map k (order_by k xs))"
  by (simp add: order_by_def strict_sorted_iff distinct_map_iff_sort)

lemma order_by_filter: "order_by k (filter P xs) = filter P (order_by k xs)"
  by (simp add: order_by_def filter_sort)

lemma order_by_sorted: "sorted (map k xs) \<Longrightarrow> order_by k xs = xs"
  by (simp add: order_by_def sort_key_id_if_sorted)

section \<open>Dates\<close>

datatype sql_date = Date (date_year: int) (date_month: int) (date_day: int)

instantiation sql_date :: linorder
begin

definition less_eq_sql_date :: "sql_date \<Rightarrow> sql_date \<Rightarrow> bool" where
  "less_eq_sql_date a b \<longleftrightarrow>
     date_year a < date_year b \<or> (date_year a = date_year b \<and>
       (date_month a < date_month b \<or> (date_month a = date_month b \<and> date_day a \<le> date_day b)))"

definition less_sql_date :: "sql_date \<Rightarrow> sql_date \<Rightarrow> bool" where
  "less_sql_date a b \<longleftrightarrow>
     date_year a < date_year b \<or> (date_year a = date_year b \<and>
       (date_month a < date_month b \<or> (date_month a = date_month b \<and> date_day a < date_day b)))"

instance
  by standard (auto simp: less_eq_sql_date_def less_sql_date_def intro: sql_date.expand)

end

text \<open>A calendar date, as every value of type \<open>date\<close> is.\<close>

definition valid_date :: "sql_date \<Rightarrow> bool" where
  "valid_date d \<longleftrightarrow> 1 \<le> date_month d \<and> date_month d \<le> 12 \<and> 1 \<le> date_day d \<and> date_day d \<le> 31"

text \<open>\<open>extract(year FROM d)\<close>; year 0 of the proleptic calendar is 1 BC, which SQL numbers -1.\<close>

definition extract_year :: "sql_date \<Rightarrow> int" where
  "extract_year d = (if date_year d \<le> 0 then date_year d - 1 else date_year d)"

definition extract_month :: "sql_date \<Rightarrow> int" where
  "extract_month d = date_month d"

definition extract_day :: "sql_date \<Rightarrow> int" where
  "extract_day d = date_day d"

text \<open>
  The months of a calendar: a date is in the half-open interval from the first of a month to the first
  of a later month iff its month is.
\<close>

definition month_index :: "sql_date \<Rightarrow> int" where
  "month_index d = 12 * date_year d + date_month d - 1"

definition first_of_month :: "int \<Rightarrow> sql_date" where
  "first_of_month i = Date (i div 12) (i mod 12 + 1) 1"

lemma month_index_first [simp]: "month_index (first_of_month i) = i"
  by (simp add: month_index_def first_of_month_def)

lemma valid_first_of_month: "valid_date (first_of_month i)"
  using pos_mod_bound [of 12 i] by (simp add: valid_date_def first_of_month_def)

lemma month_index_order:
  assumes "valid_date a" "valid_date b"
  shows "month_index a < month_index b \<longleftrightarrow>
    date_year a < date_year b \<or> (date_year a = date_year b \<and> date_month a < date_month b)"
    and "month_index a = month_index b \<longleftrightarrow> date_year a = date_year b \<and> date_month a = date_month b"
  using assms unfolding month_index_def valid_date_def by presburger+

lemma first_of_month_le:
  assumes "valid_date d"
  shows "first_of_month i \<le> d \<longleftrightarrow> i \<le> month_index d"
proof -
  note ord = month_index_order [OF valid_first_of_month [of i] assms]
  have "first_of_month i \<le> d \<longleftrightarrow> month_index (first_of_month i) \<le> month_index d"
    using assms unfolding le_less [of "month_index _"] ord
    by (auto simp: less_eq_sql_date_def first_of_month_def valid_date_def)
  then show ?thesis by simp
qed

lemma less_first_of_month: "valid_date d \<Longrightarrow> d < first_of_month i \<longleftrightarrow> month_index d < i"
  using first_of_month_le [of d i] by (simp add: not_le [symmetric])

end
