(* ===== verification/Database.thy ===== *)
theory Database
  imports Sql
begin

text \<open>
  The part of the canonical OpenDiscogs schema that the API reads: one record per table with the
  columns the queries of \<open>internal/postgres\<close> mention, a nullable column as an \<open>option\<close>, and the
  database as the record of its tables (a table is a list of rows in no meaningful order). The
  migrations that own the schema are another repository; what the queries rely on of its keys is the
  predicate \<open>wf_database\<close>.
\<close>

record artist_row =
  a_id :: int
  a_name :: "string option"
  a_real_name :: "string option"
  a_profile :: "string option"
  a_data_quality :: "string option"

record label_row =
  l_id :: int
  l_contact_info :: "string option"
  l_data_quality :: "string option"
  l_name :: "string option"
  l_profile :: "string option"

record master_row =
  m_id :: int
  m_data_quality :: "string option"
  m_title :: "string option"
  m_year :: "int option"
  m_main_release_id :: "int option"

record release_row =
  r_id :: int
  r_title :: "string option"
  r_country :: "string option"
  r_data_quality :: "string option"
  r_has_valid_year :: "bool option"
  r_has_valid_month :: "bool option"
  r_has_valid_day :: "bool option"
  r_release_date :: "sql_date option"
  r_listed_release_date :: "string option"
  r_is_master :: "bool option"
  r_master_id :: "int option"
  r_notes :: "string option"
  r_status :: "string option"

record track_row =
  t_release_item_id :: int
  t_hash :: int
  t_duration :: "string option"
  t_position :: "string option"
  t_title :: "string option"

record identifier_row =
  i_release_item_id :: int
  i_hash :: int
  i_description :: "string option"
  i_type :: "string option"
  i_value :: "string option"

record label_release_row =
  lr_label_id :: int
  lr_release_item_id :: int
  lr_category_notation :: "string option"

record release_artist_row =
  ra_artist_id :: int
  ra_release_item_id :: int

record credited_artist_row =
  ca_artist_id :: int
  ca_release_item_id :: int
  ca_role :: "string option"

record format_row =
  f_release_item_id :: int
  f_name :: "string option"
  f_description :: "string option"
  f_quantity :: "int option"
  f_quantity_text :: "string option"

record video_row =
  v_owner_id :: int
  v_title :: "string option"
  v_url :: "string option"
  v_description :: "string option"

record work_row =
  w_release_item_id :: int
  w_label_id :: int
  w_work :: "string option"

record readiness_row =
  rd_ready :: bool
  rd_status :: string
  rd_updated_at :: int

record entity_state_row =
  es_entity_type :: string
  es_status :: string

record checkpoint_row =
  cp_entity_type :: string
  cp_dump_date :: "sql_date option"
  cp_applied_at :: "int option"
  cp_processor :: "string option"
  cp_processor_version :: "string option"

text \<open>
  A table with two columns that matter is a list of pairs: \<open>artist_member\<close> is \<open>(artist_id, member_id)\<close>,
  \<open>artist_url\<close> is \<open>(artist_id, url)\<close>, \<open>label_sub_label\<close> is \<open>(parent_label_id, sub_label_id)\<close>, and so on.
\<close>

record database =
  db_artist :: "artist_row list"
  db_label :: "label_row list"
  db_master :: "master_row list"
  db_release_item :: "release_row list"
  db_release_item_track :: "track_row list"
  db_release_item_identifier :: "identifier_row list"
  db_label_release_item :: "label_release_row list"
  db_release_item_artist :: "release_artist_row list"
  db_release_item_credited_artist :: "credited_artist_row list"
  db_release_item_format :: "format_row list"
  db_artist_member :: "(int \<times> int) list"
  db_artist_group :: "(int \<times> int) list"
  db_artist_alias :: "(int \<times> int) list"
  db_artist_name_variation :: "(int \<times> string option) list"
  db_artist_url :: "(int \<times> string option) list"
  db_label_sub_label :: "(int \<times> int) list"
  db_label_url :: "(int \<times> string option) list"
  db_master_genre :: "(int \<times> string option) list"
  db_master_style :: "(int \<times> string option) list"
  db_master_artist :: "(int \<times> int) list"
  db_master_video :: "video_row list"
  db_release_item_genre :: "(int \<times> string option) list"
  db_release_item_style :: "(int \<times> string option) list"
  db_release_item_video :: "video_row list"
  db_release_item_work :: "work_row list"
  db_catalog_readiness :: "readiness_row list"
  db_catalog_entity_state :: "entity_state_row list"
  db_import_checkpoint :: "checkpoint_row list"

section \<open>Keys\<close>

definition resource_ids :: "int list \<Rightarrow> bool" where
  "resource_ids ids \<longleftrightarrow> distinct ids \<and> (\<forall>i \<in> set ids. 1 \<le> i \<and> i < 2 ^ 31)"

definition relation_hashes :: "(int \<times> int) list \<Rightarrow> bool" where
  "relation_hashes ks \<longleftrightarrow> distinct ks \<and> (\<forall>k \<in> set ks. - (2 ^ 31) \<le> snd k \<and> snd k < 2 ^ 31)"

text \<open>
  Resource identifiers are the primary keys of their tables and positive 32-bit integers (the queries
  widen them with \<open>::bigint\<close>); a track or an identifier is keyed by its release and its compatibility
  slot \<open>hash\<close>; a release date is a date of the calendar; the relations between releases, labels and artists have no duplicates and only refer
  to existing releases.
\<close>

definition wf_database :: "database \<Rightarrow> bool" where
  "wf_database db \<longleftrightarrow>
     resource_ids (map a_id (db_artist db)) \<and>
     resource_ids (map l_id (db_label db)) \<and>
     resource_ids (map m_id (db_master db)) \<and>
     resource_ids (map r_id (db_release_item db)) \<and>
     (\<forall>r \<in> set (db_release_item db). \<forall>d. r_release_date r = Some d \<longrightarrow> valid_date d) \<and>
     relation_hashes (map (\<lambda>t. (t_release_item_id t, t_hash t)) (db_release_item_track db)) \<and>
     relation_hashes (map (\<lambda>i. (i_release_item_id i, i_hash i)) (db_release_item_identifier db)) \<and>
     distinct (map (\<lambda>l. (lr_label_id l, lr_release_item_id l, lr_category_notation l))
                 (db_label_release_item db)) \<and>
     distinct (map (\<lambda>a. (ra_artist_id a, ra_release_item_id a)) (db_release_item_artist db)) \<and>
     t_release_item_id ` set (db_release_item_track db) \<subseteq> r_id ` set (db_release_item db) \<and>
     lr_release_item_id ` set (db_label_release_item db) \<subseteq> r_id ` set (db_release_item db) \<and>
     i_release_item_id ` set (db_release_item_identifier db) \<subseteq> r_id ` set (db_release_item db) \<and>
     ra_release_item_id ` set (db_release_item_artist db) \<subseteq> r_id ` set (db_release_item db) \<and>
     ca_release_item_id ` set (db_release_item_credited_artist db) \<subseteq> r_id ` set (db_release_item db)"

lemma wf_ids:
  assumes "wf_database db"
  shows "resource_ids (map a_id (db_artist db))" "resource_ids (map l_id (db_label db))"
    "resource_ids (map m_id (db_master db))" "resource_ids (map r_id (db_release_item db))"
  using assms by (simp_all add: wf_database_def)

lemma wf_hashes:
  assumes "wf_database db"
  shows "relation_hashes (map (\<lambda>t. (t_release_item_id t, t_hash t)) (db_release_item_track db))"
    "relation_hashes (map (\<lambda>i. (i_release_item_id i, i_hash i)) (db_release_item_identifier db))"
  using assms by (simp_all add: wf_database_def)

text \<open>A filtered table, ordered by its key, is strictly ascending in it.\<close>

lemma ascending_filtered:
  assumes "distinct (map k xs)"
  shows "ascending (map k (order_by k (filter P xs)))"
  by (rule ascending_order_by) (rule distinct_map_filter [OF assms])

lemma resource_ids_filtered:
  "resource_ids (map k xs) \<Longrightarrow> ascending (map k (order_by k (filter P xs)))"
  by (simp add: resource_ids_def ascending_filtered)

lemma resource_ids_range:
  "resource_ids (map k xs) \<Longrightarrow> x \<in> set (order_by k (filter P xs)) \<Longrightarrow> 1 \<le> k x \<and> k x < 2 ^ 31"
  by (auto simp: resource_ids_def)

lemma relation_hashes_of:
  assumes "relation_hashes (map (\<lambda>x. (f x, h x)) xs)"
  shows "distinct (map h (filter (\<lambda>x. f x = r) xs))"
    and "x \<in> set xs \<Longrightarrow> - (2 ^ 31) \<le> h x \<and> h x < 2 ^ 31"
proof -
  have "distinct (map (\<lambda>x. (f x, h x)) (filter (\<lambda>x. f x = r) xs))"
    using assms by (simp add: relation_hashes_def distinct_map_filter)
  then show "distinct (map h (filter (\<lambda>x. f x = r) xs))"
    by (auto simp: distinct_map inj_on_def)
  show "x \<in> set xs \<Longrightarrow> - (2 ^ 31) \<le> h x \<and> h x < 2 ^ 31"
    using assms by (auto simp: relation_hashes_def)
qed

section \<open>Joining release identifiers with their releases\<close>

text \<open>\<open>FROM matching_release matching JOIN release_item r ON r.id = matching.release_item_id\<close>.\<close>

definition join_releases :: "database \<Rightarrow> int list \<Rightarrow> release_row list" where
  "join_releases db ids = concat (map (\<lambda>i. filter (\<lambda>r. r_id r = i) (db_release_item db)) ids)"

lemma filter_key_unique:
  "distinct (map k xs) \<Longrightarrow> x \<in> set xs \<Longrightarrow> filter (\<lambda>y. k y = k x) xs = [x]"
proof (induction xs)
  case (Cons y ys)
  then show ?case
    by (cases "x = y") (auto simp: filter_empty_conv, metis imageI)
qed simp

lemma join_releases_ids:
  assumes "distinct (map r_id (db_release_item db))" "set ids \<subseteq> r_id ` set (db_release_item db)"
  shows "map r_id (join_releases db ids) = ids" "set (join_releases db ids) \<subseteq> set (db_release_item db)"
proof -
  show "map r_id (join_releases db ids) = ids"
    using assms(2)
  proof (induction ids)
    case (Cons i ids)
    then obtain r where "r \<in> set (db_release_item db)" "i = r_id r" by auto
    with filter_key_unique [OF assms(1)] Cons show ?case by (simp add: join_releases_def)
  qed (simp add: join_releases_def)
  show "set (join_releases db ids) \<subseteq> set (db_release_item db)"
    by (auto simp: join_releases_def)
qed

lemma eq_of_keys:
  assumes "distinct (map k ts)" "set xs \<subseteq> set ts" "set ys \<subseteq> set ts" "map k xs = map k ys"
  shows "xs = ys"
proof -
  have "inj_on k (set xs \<union> set ys)"
    using assms(1-3) by (meson distinct_map inj_on_subset le_sup_iff)
  with assms(4) show ?thesis by (simp add: inj_on_map_eq_map)
qed

text \<open>
  Limiting the identifiers before the join gives the same rows as limiting the releases after it:
  every identifier has exactly one release.
\<close>

lemma join_releases_limit:
  assumes "wf_database db" "ascending ids"
    and ids: "\<And>i. i \<in> set ids \<longleftrightarrow> (\<exists>r \<in> set (db_release_item db). Q r \<and> r_id r = i)"
    and inj: "\<And>r s. r \<in> set (db_release_item db) \<Longrightarrow> s \<in> set (db_release_item db) \<Longrightarrow>
      r_id r = r_id s \<Longrightarrow> Q r \<Longrightarrow> Q s"
  shows "order_by r_id (join_releases db (sql_limit n ids)) =
    sql_limit n (order_by r_id (filter Q (db_release_item db)))"
proof -
  let ?ts = "db_release_item db" and ?all = "order_by r_id (filter Q (db_release_item db))"
  have ts: "distinct (map r_id ?ts)"
    using wf_ids(4) [OF assms(1)] by (simp add: resource_ids_def)
  have all: "map r_id ?all = ids"
    using assms(2) by (intro ascending_eq_of_set ascending_filtered ts) (auto simp: ids)
  have "set ids \<subseteq> r_id ` set ?ts" by (auto simp: ids)
  then have sub: "set (sql_limit n ids) \<subseteq> r_id ` set ?ts"
    unfolding sql_limit_def using set_take_subset by (rule order_trans [rotated])
  note join = join_releases_ids [OF ts sub]
  have "sorted (map r_id (join_releases db (sql_limit n ids)))"
    unfolding join(1) using assms(2) by (simp add: strict_sorted_iff sql_limit_def sorted_wrt_take)
  then have "order_by r_id (join_releases db (sql_limit n ids)) = join_releases db (sql_limit n ids)"
    by (rule order_by_sorted)
  also have "\<dots> = sql_limit n ?all"
  proof (rule eq_of_keys [OF ts join(2)])
    show "set (sql_limit n ?all) \<subseteq> set ?ts"
      by (auto simp: sql_limit_def dest: in_set_takeD)
    show "map r_id (join_releases db (sql_limit n ids)) = map r_id (sql_limit n ?all)"
      unfolding join by (simp add: sql_limit_def take_map [symmetric] all)
  qed
  finally show ?thesis .
qed

lemma linked_ids:
  fixes f :: "'l \<Rightarrow> int"
  assumes "f ` set ls \<subseteq> k ` set rs"
  shows "i \<in> f ` {l \<in> set ls. Q l \<and> c < f l} \<longleftrightarrow>
    (\<exists>r \<in> set rs. ((\<exists>l \<in> set ls. f l = k r \<and> Q l) \<and> c < k r) \<and> k r = i)"
proof
  assume "i \<in> f ` {l \<in> set ls. Q l \<and> c < f l}"
  then obtain l where l: "l \<in> set ls" "Q l" "c < f l" "i = f l" by auto
  with assms obtain r where "r \<in> set rs" "f l = k r" by blast
  with l show "\<exists>r \<in> set rs. ((\<exists>l \<in> set ls. f l = k r \<and> Q l) \<and> c < k r) \<and> k r = i" by auto
qed (auto intro!: rev_image_eqI)

end
