(* ===== verification/Store.thy ===== *)
theory Store
  imports Client Database
begin

text \<open>
  \<open>internal/postgres/store.go\<close> and \<open>internal/postgres/rows.go\<close>: the store over a connection pool,
  the page loaders, and the scanning of result rows into catalog values. A query is the list of rows
  its SQL selects, computed by the definitions of the following theories from the database; the
  pool is modelled by the errors it may answer instead. The context with its timeout is not a value
  of the model: a query that runs into it is one that fails with \<open>DeadlineExceeded\<close>.
\<close>

section \<open>The store\<close>

text \<open>
  The pool: the database behind it, the errors of \<open>Ping\<close>, of sending the query of operation \<open>op\<close>
  (\<open>Pool_queryFault op\<close>) and of reading its rows (\<open>Pool_rowsFault op\<close>), and the database's \<open>lower\<close>,
  collation (as a sort key) and \<open>md5\<close>.
\<close>

record Pool =
  Pool_db :: database
  Pool_pingFault :: "go_error option"
  Pool_queryFault :: "string \<Rightarrow> go_error option"
  Pool_rowsFault :: "string \<Rightarrow> go_error option"
  Pool_lower :: "string \<Rightarrow> string"
  Pool_collate :: "string \<Rightarrow> string"
  Pool_md5 :: "string \<Rightarrow> string"

record Store =
  St_pool :: Pool
  St_serverURL :: string
  St_queryTimeout :: int

definition New :: "Pool \<Rightarrow> string \<Rightarrow> int \<Rightarrow> Store" where
  "New pool serverURL queryTimeout =
     \<lparr>St_pool = pool, St_serverURL = TrimRightByte (CHR ''/'') serverURL,
      St_queryTimeout = queryTimeout\<rparr>"

abbreviation St_db :: "Store \<Rightarrow> database" where
  "St_db st \<equiv> Pool_db (St_pool st)"

definition Ready :: "Store \<Rightarrow> go_error option" where
  "Ready st = map_option (Wrapped ''check database connectivity'') (Pool_pingFault (St_pool st))"

section \<open>Queries\<close>

definition operationError :: "string \<Rightarrow> go_error option \<Rightarrow> go_error option" where
  "operationError operation err = map_option (Wrapped operation) err"

text \<open>
  PostgreSQL stores no NUL byte in a text: a statement with such a text parameter is answered with an
  error, like every other error of a statement when its rows are read.
\<close>

definition has_nul :: "string option list \<Rightarrow> bool" where
  "has_nul texts \<longleftrightarrow> (\<exists>t \<in> set texts. case t of None \<Rightarrow> False | Some s \<Rightarrow> CHR 0x00 \<in> set s)"

definition invalid_byte_sequence :: go_error where
  "invalid_byte_sequence =
     ErrorText ''ERROR: invalid byte sequence for encoding UTF8: 0x00 (SQLSTATE 22021)''"

definition pool_Query ::
  "Store \<Rightarrow> string \<Rightarrow> string option list \<Rightarrow> 'r list \<Rightarrow> 'r list outcome outcome" where
  "pool_Query st operation texts result =
     (case Pool_queryFault (St_pool st) operation of
        Some e \<Rightarrow> Fail e
      | None \<Rightarrow>
          Ok (if has_nul texts then Fail invalid_byte_sequence
              else case Pool_rowsFault (St_pool st) operation of Some e \<Rightarrow> Fail e | None \<Rightarrow> Ok result))"

text \<open>\<open>CollectRows\<close> scans row after row and stops at the first error; no row gives an empty slice.\<close>

fun scan_all :: "('r \<Rightarrow> 'a outcome) \<Rightarrow> 'r list \<Rightarrow> 'a list outcome" where
  "scan_all scanner [] = Ok []"
| "scan_all scanner (r # rs) =
     outcome_bind (scanner r) (\<lambda>x. outcome_bind (scan_all scanner rs) (\<lambda>xs. Ok (x # xs)))"

definition collectRows ::
  "'r list outcome \<Rightarrow> string \<Rightarrow> ('r \<Rightarrow> 'a outcome) \<Rightarrow> 'a slice outcome" where
  "collectRows rows operation scanner =
     (case outcome_bind rows (scan_all scanner) of
        Ok items \<Rightarrow> Ok (Slice items)
      | Fail e \<Rightarrow> Fail (Wrapped operation e)
      | Panic m \<Rightarrow> Panic m)"

text \<open>The loader each operation passes to \<open>loadPage\<close>: query, then collect.\<close>

definition load_items ::
  "Store \<Rightarrow> string \<Rightarrow> string option list \<Rightarrow> 'r list \<Rightarrow> ('r \<Rightarrow> 'a outcome) \<Rightarrow> 'a slice outcome" where
  "load_items st operation texts result scanner =
     (case pool_Query st operation texts result of
        Fail e \<Rightarrow> Fail (Wrapped operation e)
      | Ok rows \<Rightarrow> collectRows rows operation scanner
      | Panic m \<Rightarrow> Panic m)"

definition loadPage :: "int \<Rightarrow> 'a slice outcome \<Rightarrow> 'a Page outcome" where
  "loadPage requestedSize items = outcome_bind items (\<lambda>xs. NewPage xs requestedSize)"

definition loadHashPage :: "int \<Rightarrow> 'a slice outcome \<Rightarrow> 'a HashPage outcome" where
  "loadHashPage requestedSize items = outcome_bind items (\<lambda>xs. NewHashPage xs requestedSize)"

definition notFound :: "go_error \<Rightarrow> go_error" where
  "notFound err = (if errors_is err ErrNoRows then ErrNotFound else err)"

definition optionalText :: "string \<Rightarrow> string option" where
  "optionalText raw = (let normalized = TrimSpace raw in if normalized = [] then None else Some normalized)"

section \<open>Rows\<close>

text \<open>\<open>CASE WHEN valid THEN extract(part FROM date)::integer END\<close>.\<close>

definition valid_part :: "bool option \<Rightarrow> (sql_date \<Rightarrow> int) \<Rightarrow> sql_date option \<Rightarrow> int option" where
  "valid_part valid part d = (if valid = Some True then map_option part d else None)"

type_synonym text_column = "string option"

definition scanArtist ::
  "int \<times> text_column \<times> text_column \<times> text_column \<times> text_column \<Rightarrow> Artist outcome" where
  "scanArtist row = (case row of (ident, name, real_name, profile, data_quality) \<Rightarrow>
     Ok \<lparr>Artist_ID = ident, Artist_Name = name, Artist_RealName = real_name,
         Artist_Profile = profile, Artist_DataQuality = data_quality\<rparr>)"

definition scanLabel ::
  "int \<times> text_column \<times> text_column \<times> text_column \<times> text_column \<Rightarrow> Label outcome" where
  "scanLabel row = (case row of (ident, contact_info, data_quality, name, profile) \<Rightarrow>
     Ok \<lparr>Label_ID = ident, Label_ContactInfo = contact_info, Label_DataQuality = data_quality,
         Label_Name = name, Label_Profile = profile\<rparr>)"

definition scanMaster :: "int \<times> text_column \<times> text_column \<times> int option \<Rightarrow> Master outcome" where
  "scanMaster row = (case row of (ident, data_quality, title, year) \<Rightarrow>
     Ok \<lparr>Master_ID = ident, Master_DataQuality = data_quality, Master_Title = title,
         Master_ReleasedYear = year\<rparr>)"

type_synonym release_columns =
  "int \<times> text_column \<times> text_column \<times> text_column \<times> int option \<times> int option \<times> int option \<times>
   text_column \<times> bool option \<times> int option \<times> text_column \<times> text_column"

definition releaseColumnsSQL :: "release_row \<Rightarrow> release_columns" where
  "releaseColumnsSQL r =
     (r_id r, r_title r, r_country r, r_data_quality r,
      valid_part (r_has_valid_year r) extract_year (r_release_date r),
      valid_part (r_has_valid_month r) extract_month (r_release_date r),
      valid_part (r_has_valid_day r) extract_day (r_release_date r),
      r_listed_release_date r, r_is_master r, r_master_id r, r_notes r, r_status r)"

definition scanRelease :: "release_columns \<Rightarrow> Release outcome" where
  "scanRelease row =
     (case row of (ident, title, country, data_quality, year, month, day, listed, is_master,
                   master_id, notes, status) \<Rightarrow>
        Ok \<lparr>Release_ID = ident, Release_Title = title, Release_Country = country,
            Release_DataQuality = data_quality, Release_Year = year, Release_Month = month,
            Release_Day = day, Release_ListedDate = listed, Release_IsMaster = is_master,
            Release_MasterID = master_id, Release_Notes = notes, Release_Status = status\<rparr>)"

definition scanReleaseTrack ::
  "int \<times> text_column \<times> text_column \<times> text_column \<Rightarrow> ReleaseTrack outcome" where
  "scanReleaseTrack row = (case row of (hash, duration, position, title) \<Rightarrow>
     Ok \<lparr>Track_Hash = hash, Track_Duration = duration, Track_Position = position,
         Track_Title = title\<rparr>)"

definition scanReleaseIdentifier ::
  "int \<times> text_column \<times> text_column \<times> text_column \<Rightarrow> ReleaseIdentifier outcome" where
  "scanReleaseIdentifier row = (case row of (hash, description, kind, val) \<Rightarrow>
     Ok \<lparr>Ident_Hash = hash, Ident_Description = description, Ident_Type = kind,
         Ident_Value = val\<rparr>)"

text \<open>\<open>fmt.Sprintf("%s/releases/%d", s.serverURL, item.ID)\<close>.\<close>

definition release_url :: "Store \<Rightarrow> int \<Rightarrow> string" where
  "release_url st ident = St_serverURL st @ ''/releases/'' @ FormatInt ident"

type_synonym artist_release_columns =
  "int \<times> text_column \<times> text_column \<times> text_column \<times> text_column \<times> int option \<times> int option \<times>
   int option \<times> text_column \<times> bool option \<times> int option \<times> text_column \<times> text_column"

definition scanArtistRelease :: "Store \<Rightarrow> artist_release_columns \<Rightarrow> ArtistRelease outcome" where
  "scanArtistRelease st row =
     (case row of (ident, role, title, country, data_quality, year, month, day, listed, is_master,
                   master_id, notes, status) \<Rightarrow>
        Ok \<lparr>ArtistRelease_ID = ident, ArtistRelease_Role = role, ArtistRelease_Title = title,
            ArtistRelease_Country = country, ArtistRelease_DataQuality = data_quality,
            ArtistRelease_Year = year, ArtistRelease_Month = month, ArtistRelease_Day = day,
            ArtistRelease_ListedDate = listed, ArtistRelease_IsMaster = is_master,
            ArtistRelease_MasterID = master_id, ArtistRelease_Notes = notes,
            ArtistRelease_Status = status, ArtistRelease_ResourceURL = release_url st ident\<rparr>)"

definition scanLabelRelease ::
  "int \<times> text_column \<times> text_column \<times> int option \<times> text_column \<times> string list \<times> text_column \<Rightarrow>
   LabelRelease outcome" where
  "scanLabelRelease row =
     (case row of (ident, artist, title, year, status, catalog_numbers, format) \<Rightarrow>
        Ok \<lparr>LabelRelease_ID = ident, LabelRelease_Artist = artist, LabelRelease_Title = title,
            LabelRelease_Year = year, LabelRelease_Status = status,
            LabelRelease_CatalogNumbers = Slice catalog_numbers, LabelRelease_Format = format\<rparr>)"

text \<open>A \<open>text[]\<close> column with a NULL element cannot be scanned into a \<open>[]string\<close>.\<close>

fun scan_strings :: "text_column list \<Rightarrow> string list outcome" where
  "scan_strings [] = Ok []"
| "scan_strings (None # cs) = Fail (ErrorText ''cannot scan NULL into *string'')"
| "scan_strings (Some s # cs) = outcome_bind (scan_strings cs) (\<lambda>ss. Ok (s # ss))"

definition scanMasterRelease ::
  "Store \<Rightarrow> int \<times> text_column \<times> text_column list \<times> int list \<times> int option \<Rightarrow> MasterRelease outcome" where
  "scanMasterRelease st row =
     (case row of (ident, title, artists, artist_ids, year) \<Rightarrow>
        outcome_bind (scan_strings artists) (\<lambda>names.
          Ok \<lparr>MasterRelease_ID = ident, MasterRelease_Title = title,
              MasterRelease_Artists = Slice names, MasterRelease_ArtistIDs = Slice artist_ids,
              MasterRelease_Year = year, MasterRelease_ResourceURL = release_url st ident\<rparr>))"

lemmas scan_defs =
  scanArtist_def scanLabel_def scanMaster_def scanRelease_def scanReleaseTrack_def
  scanReleaseIdentifier_def scanArtistRelease_def scanLabelRelease_def scanMasterRelease_def

section \<open>Loading a page\<close>

text \<open>The stores that answer a statement with these text parameters.\<close>

definition answers :: "Store \<Rightarrow> string \<Rightarrow> string option list \<Rightarrow> bool" where
  "answers st operation texts \<longleftrightarrow> wf_database (St_db st) \<and> Pool_queryFault (St_pool st) operation = None
     \<and> Pool_rowsFault (St_pool st) operation = None \<and> \<not> has_nul texts"

lemma answers_wf: "answers st operation texts \<Longrightarrow> wf_database (St_db st)"
  by (simp add: answers_def)

lemma load_items_answers:
  "answers st operation texts \<Longrightarrow>
   load_items st operation texts result scanner = collectRows (Ok result) operation scanner"
  by (simp add: load_items_def pool_Query_def answers_def)

lemma scan_all_Ok:
  "(\<And>x. x \<in> set xs \<Longrightarrow> scanner (cols x) = Ok (item x)) \<Longrightarrow>
   scan_all scanner (map cols xs) = Ok (map item xs)"
  by (induction xs) auto

text \<open>
  A page is loaded with one row more than its size. What the client sees is the page-size prefix of the
  unlimited result and whether that result goes on.
\<close>

lemma loadPage_answers:
  assumes "answers st operation texts" "1 \<le> sz" "sz < 2 ^ 62"
    and "\<And>x. x \<in> set xs \<Longrightarrow> scanner (cols x) = Ok (item x)"
  shows "loadPage sz (load_items st operation texts (map cols (sql_limit (sz + 1) xs)) scanner) =
     Ok \<lparr>Items = Slice (take (nat sz) (map item xs)), HasMore = int (length xs) > sz\<rparr>"
proof -
  have "scan_all scanner (map cols (sql_limit (sz + 1) xs)) = Ok (map item (sql_limit (sz + 1) xs))"
    using assms(4) by (intro scan_all_Ok) (auto simp: sql_limit_def dest: in_set_takeD)
  moreover have "take (nat sz) (map item (sql_limit (sz + 1) xs)) = take (nat sz) (map item xs)"
    by (simp add: sql_limit_def take_map [symmetric] min_def)
  moreover have "int (length (sql_limit (sz + 1) xs)) > sz \<longleftrightarrow> int (length xs) > sz"
    using assms(2) by (auto simp: sql_limit_def)
  ultimately show ?thesis
    using assms(1-3) by (simp add: loadPage_def load_items_answers collectRows_def NewPage_Slice)
qed

lemma NewHashPage_of_NewPage:
  "NewPage xs sz = Ok \<lparr>Items = ys, HasMore = m\<rparr> \<Longrightarrow>
   NewHashPage xs sz = Ok \<lparr>HashItems = ys, HashHasMore = m\<rparr>"
  by (cases "slice_upto xs sz") (simp_all add: NewPage_def NewHashPage_def Let_def split: if_splits)

lemma loadHashPage_answers:
  assumes "answers st operation texts" "1 \<le> sz" "sz < 2 ^ 62"
    and "\<And>x. x \<in> set xs \<Longrightarrow> scanner (cols x) = Ok (item x)"
  shows "loadHashPage sz (load_items st operation texts (map cols (sql_limit (sz + 1) xs)) scanner) =
     Ok \<lparr>HashItems = Slice (take (nat sz) (map item xs)), HashHasMore = int (length xs) > sz\<rparr>"
proof -
  have page: "loadPage sz (load_items st operation texts (map cols (sql_limit (sz + 1) xs)) scanner) =
     Ok \<lparr>Items = Slice (take (nat sz) (map item xs)), HasMore = int (length xs) > sz\<rparr>"
    by (rule loadPage_answers [OF assms(1-3)]) (rule assms(4))
  from page show ?thesis
    unfolding loadPage_def loadHashPage_def
    by (cases "load_items st operation texts (map cols (sql_limit (sz + 1) xs)) scanner") (simp_all add: NewHashPage_of_NewPage)
qed

text \<open>
  A keyset query in SQL: rows of a table that satisfy \<open>P\<close> and follow the cursor, ordered by their key
  and limited. Its page is the one the contract of \<open>Keyset\<close> asks for, over the rows that satisfy \<open>P\<close>.
\<close>

lemma loadPage_keyset:
  assumes "answers st operation texts" "1 \<le> sz" "sz < 2 ^ 62"
    and "\<And>x. x \<in> set xs \<Longrightarrow> P x \<Longrightarrow> scanner (cols x) = Ok (item x)"
    and "\<And>x. key (item x) = k x"
  shows "loadPage sz (load_items st operation texts
       (map cols (sql_limit (sz + 1) (order_by k (filter (\<lambda>x. P x \<and> c < k x) xs)))) scanner) =
     (let rest = filter (\<lambda>i. c < key i) (map item (order_by k (filter P xs))) in
      Ok \<lparr>Items = Slice (take (nat sz) rest), HasMore = int (length rest) > sz\<rparr>)"
proof -
  let ?rows = "order_by k (filter (\<lambda>x. P x \<and> c < k x) xs)"
  have rest: "filter (\<lambda>i. c < key i) (map item (order_by k (filter P xs))) = map item ?rows"
    by (simp add: filter_map o_def assms(5) order_by_filter [symmetric] conj_commute)
  show ?thesis
    unfolding rest Let_def length_map
    using assms(4) by (intro loadPage_answers assms(1-3)) auto
qed

text \<open>So an operation with such a query implements the contract.\<close>

lemma id_pages_keyset:
  fixes ok :: "Store \<Rightarrow> 'q \<Rightarrow> bool" and table :: "Store \<Rightarrow> 'x list" and rows :: "Store \<Rightarrow> 'q \<Rightarrow> 'a list"
  assumes ok: "\<And>st q. ok st q \<Longrightarrow> answers st operation (texts q)"
    and ids: "\<And>st. wf_database (St_db st) \<Longrightarrow> resource_ids (map k (table st))"
    and rows: "\<And>st q. rows st q = map (item st q) (order_by k (filter (P st q) (table st)))"
    and page: "\<And>st q r. ok st q \<Longrightarrow> 1 \<le> Size r \<Longrightarrow> Size r < 2 ^ 62 \<Longrightarrow>
       page st q r = loadPage (Size r) (load_items st operation (texts q) (map (cols st q)
         (sql_limit (Size r + 1) (order_by k (filter (\<lambda>x. P st q x \<and> AfterID r < k x) (table st)))))
         (scanner st))"
    and scan: "\<And>st q x. ok st q \<Longrightarrow> x \<in> set (table st) \<Longrightarrow> P st q x \<Longrightarrow>
       scanner st (cols st q x) = Ok (item st q x)"
    and key: "\<And>st q x. key (item st q x) = k x"
  shows "id_pages ok rows key page"
proof
  fix st q and r :: PageRequest
  assume *: "ok st q" "1 \<le> Size r" "Size r < 2 ^ 62"
  have "page st q r = (let rest = filter (\<lambda>x. AfterID r < key x) (rows st q) in
     Ok \<lparr>Items = Slice (take (nat (Size r)) rest), HasMore = int (length rest) > Size r\<rparr>)"
    unfolding page [OF *] rows using * by (intro loadPage_keyset) (simp_all add: ok scan key)
  then show "page st q r =
      Ok \<lparr>Items = Slice (take (nat (Size r)) (filter (\<lambda>x. AfterID r < key x) (rows st q))),
        HasMore = int (length (filter (\<lambda>x. AfterID r < key x) (rows st q))) > Size r\<rparr>"
    by (simp add: Let_def)
next
  fix st q x
  assume "ok st q"
  then have ids: "resource_ids (map k (table st))" by (intro ids answers_wf [OF ok])
  show "ascending (map key (rows st q))"
    using resource_ids_filtered [OF ids] by (simp add: rows o_def key)
  assume "x \<in> set (rows st q)"
  then obtain y where "x = item st q y" "y \<in> set (order_by k (filter (P st q) (table st)))"
    by (auto simp: rows)
  then show "1 \<le> key x" "key x < 2 ^ 31"
    using resource_ids_range [OF ids] by (simp_all add: key)
qed

text \<open>A failing statement fails the operation with its name in front.\<close>

lemma loadPage_faulty:
  assumes "\<not> (Pool_queryFault (St_pool st) operation = None \<and> \<not> has_nul texts \<and> Pool_rowsFault (St_pool st) operation = None)"
  shows "\<exists>e. loadPage sz (load_items st operation texts result scanner) = Fail (Wrapped operation e)
     \<and> (Pool_queryFault (St_pool st) operation = Some e \<or> e = invalid_byte_sequence \<and> has_nul texts
          \<or> Pool_rowsFault (St_pool st) operation = Some e)"
  using assms
  by (auto simp: loadPage_def load_items_def pool_Query_def collectRows_def split: option.splits)

section \<open>Text parameters\<close>

lemma has_nul_simps [simp]:
  "\<not> has_nul []" "has_nul (None # ts) = has_nul ts"
  "has_nul (Some s # ts) \<longleftrightarrow> CHR 0x00 \<in> set s \<or> has_nul ts"
  by (simp_all add: has_nul_def)

lemma optionalText_Nil [simp]: "optionalText [] = None"
  by (simp add: optionalText_def TrimSpace_Nil)

lemma optionalText_idem: "optionalText (TrimSpace s) = optionalText s"
  by (simp add: optionalText_def TrimSpace_idem)

end
