(* ===== verification/Search.thy ===== *)
theory Search
  imports Store
begin

text \<open>
  \<open>internal/postgres/search.go\<close>: the four filtered listings. Each SQL text is a definition with the
  parameters of the statement as arguments (\<open>None\<close> is NULL) that lists the selected rows; each store
  method normalises its filter, runs the query and builds the page. The interpretations of \<open>id_pages\<close>
  at the end of each section show that the method implements keyset pagination over the rows its
  filter describes.
\<close>

definition queryArtistsError :: string where "queryArtistsError = ''query artists''"
definition queryLabelsError :: string where "queryLabelsError = ''query labels''"
definition queryMastersError :: string where "queryMastersError = ''query masters''"
definition queryReleasesError :: string where "queryReleasesError = ''query releases''"

text \<open>\<open>p.t IS NULL OR column ILIKE '%' || p.t || '%'\<close>.\<close>

definition text_condition :: "Store \<Rightarrow> string option \<Rightarrow> string option \<Rightarrow> sql_bool" where
  "text_condition st t column =
     sql_or (sql_is_null t) (sql_ilike (Pool_lower (St_pool st)) column (like_pattern t))"

text \<open>What the condition means.\<close>

definition text_matches :: "Store \<Rightarrow> string option \<Rightarrow> string option \<Rightarrow> bool" where
  "text_matches st t column \<longleftrightarrow>
     (case t of None \<Rightarrow> True
      | Some term \<Rightarrow> (case column of None \<Rightarrow> False
          | Some text \<Rightarrow> like (Pool_lower (St_pool st) text)
              (Pool_lower (St_pool st) (''%'' @ term @ ''%''))))"

lemma holds_text_condition [simp]:
  "holds (text_condition st t column) \<longleftrightarrow> text_matches st t column"
  by (auto simp: text_condition_def text_matches_def sql_ilike_def like_pattern_def
      split: option.splits) (simp_all add: holds_def)

section \<open>Artists\<close>

definition artist_columns ::
  "artist_row \<Rightarrow> int \<times> text_column \<times> text_column \<times> text_column \<times> text_column" where
  "artist_columns a = (a_id a, a_name a, a_real_name a, a_profile a, a_data_quality a)"

definition searchArtistsSQL where
  "searchArtistsSQL st name real_name after_id limit =
     map artist_columns (sql_limit limit (order_by a_id (filter (\<lambda>a. holds
       (sql_and (text_condition st name (a_name a))
       (sql_and (text_condition st real_name (a_real_name a))
                (sql_less (Some after_id) (Some (a_id a)))))) (db_artist (St_db st)))))"

definition SearchArtists :: "Store \<Rightarrow> ArtistFilter \<Rightarrow> PageRequest \<Rightarrow> Artist Page outcome" where
  "SearchArtists st artistFilter request =
     (let name = optionalText (ArtistFilter_Name artistFilter);
          realName = optionalText (ArtistFilter_RealName artistFilter)
      in loadPage (Size request)
           (load_items st queryArtistsError [name, realName]
              (searchArtistsSQL st name realName (AfterID request) (FetchSize request)) scanArtist))"

definition artist_of :: "artist_row \<Rightarrow> Artist" where
  "artist_of a = \<lparr>Artist_ID = a_id a, Artist_Name = a_name a, Artist_RealName = a_real_name a,
     Artist_Profile = a_profile a, Artist_DataQuality = a_data_quality a\<rparr>"

definition artist_matches :: "Store \<Rightarrow> ArtistFilter \<Rightarrow> artist_row \<Rightarrow> bool" where
  "artist_matches st f a \<longleftrightarrow>
     text_matches st (optionalText (ArtistFilter_Name f)) (a_name a) \<and>
     text_matches st (optionalText (ArtistFilter_RealName f)) (a_real_name a)"

definition found_artists :: "Store \<Rightarrow> ArtistFilter \<Rightarrow> Artist list" where
  "found_artists st f =
     map artist_of (order_by a_id (filter (artist_matches st f) (db_artist (St_db st))))"

definition answers_artists :: "Store \<Rightarrow> ArtistFilter \<Rightarrow> bool" where
  "answers_artists st f \<longleftrightarrow> answers st queryArtistsError
     [optionalText (ArtistFilter_Name f), optionalText (ArtistFilter_RealName f)]"

interpretation search_artists: id_pages answers_artists found_artists Artist_ID SearchArtists
  by (rule id_pages_keyset [where k = a_id and cols = "\<lambda>_ _. artist_columns" and item = "\<lambda>_ _. artist_of"
        and table = "\<lambda>st. db_artist (St_db st)" and P = artist_matches and scanner = "\<lambda>_. scanArtist"
        and operation = queryArtistsError
        and texts = "\<lambda>f. [optionalText (ArtistFilter_Name f), optionalText (ArtistFilter_RealName f)]"])
    (simp_all add: answers_artists_def found_artists_def wf_ids SearchArtists_def Let_def
      searchArtistsSQL_def artist_matches_def FetchSize_small scanArtist_def artist_columns_def
      artist_of_def)

section \<open>Labels\<close>

definition label_columns ::
  "label_row \<Rightarrow> int \<times> text_column \<times> text_column \<times> text_column \<times> text_column" where
  "label_columns l = (l_id l, l_contact_info l, l_data_quality l, l_name l, l_profile l)"

definition searchLabelsSQL where
  "searchLabelsSQL st name after_id limit =
     map label_columns (sql_limit limit (order_by l_id (filter (\<lambda>l. holds
       (sql_and (text_condition st name (l_name l))
                (sql_less (Some after_id) (Some (l_id l))))) (db_label (St_db st)))))"

definition SearchLabels :: "Store \<Rightarrow> LabelFilter \<Rightarrow> PageRequest \<Rightarrow> Label Page outcome" where
  "SearchLabels st labelFilter request =
     (let name = optionalText (LabelFilter_Name labelFilter)
      in loadPage (Size request)
           (load_items st queryLabelsError [name]
              (searchLabelsSQL st name (AfterID request) (FetchSize request)) scanLabel))"

definition label_of :: "label_row \<Rightarrow> Label" where
  "label_of l = \<lparr>Label_ID = l_id l, Label_ContactInfo = l_contact_info l,
     Label_DataQuality = l_data_quality l, Label_Name = l_name l, Label_Profile = l_profile l\<rparr>"

definition label_matches :: "Store \<Rightarrow> LabelFilter \<Rightarrow> label_row \<Rightarrow> bool" where
  "label_matches st f l \<longleftrightarrow> text_matches st (optionalText (LabelFilter_Name f)) (l_name l)"

definition found_labels :: "Store \<Rightarrow> LabelFilter \<Rightarrow> Label list" where
  "found_labels st f =
     map label_of (order_by l_id (filter (label_matches st f) (db_label (St_db st))))"

definition answers_labels :: "Store \<Rightarrow> LabelFilter \<Rightarrow> bool" where
  "answers_labels st f \<longleftrightarrow> answers st queryLabelsError [optionalText (LabelFilter_Name f)]"

interpretation search_labels: id_pages answers_labels found_labels Label_ID SearchLabels
  by (rule id_pages_keyset [where k = l_id and cols = "\<lambda>_ _. label_columns" and item = "\<lambda>_ _. label_of"
        and table = "\<lambda>st. db_label (St_db st)" and P = label_matches and scanner = "\<lambda>_. scanLabel"
        and operation = queryLabelsError and texts = "\<lambda>f. [optionalText (LabelFilter_Name f)]"])
    (simp_all add: answers_labels_def found_labels_def wf_ids SearchLabels_def Let_def
      searchLabelsSQL_def label_matches_def FetchSize_small scanLabel_def label_columns_def
      label_of_def)

section \<open>Masters\<close>

definition master_columns :: "master_row \<Rightarrow> int \<times> text_column \<times> text_column \<times> int option" where
  "master_columns m = (m_id m, m_data_quality m, m_title m, m_year m)"

definition searchMastersSQL where
  "searchMastersSQL st title release_year after_id limit =
     map master_columns (sql_limit limit (order_by m_id (filter (\<lambda>m. holds
       (sql_and (text_condition st title (m_title m))
       (sql_and (sql_or (sql_is_null release_year) (sql_eq (m_year m) release_year))
                (sql_less (Some after_id) (Some (m_id m)))))) (db_master (St_db st)))))"

definition SearchMasters :: "Store \<Rightarrow> MasterFilter \<Rightarrow> PageRequest \<Rightarrow> Master Page outcome" where
  "SearchMasters st masterFilter request =
     (let title = optionalText (MasterFilter_Title masterFilter)
      in loadPage (Size request)
           (load_items st queryMastersError [title]
              (searchMastersSQL st title (MasterFilter_Year masterFilter) (AfterID request)
                 (FetchSize request)) scanMaster))"

definition master_of :: "master_row \<Rightarrow> Master" where
  "master_of m = \<lparr>Master_ID = m_id m, Master_DataQuality = m_data_quality m,
     Master_Title = m_title m, Master_ReleasedYear = m_year m\<rparr>"

definition master_matches :: "Store \<Rightarrow> MasterFilter \<Rightarrow> master_row \<Rightarrow> bool" where
  "master_matches st f m \<longleftrightarrow>
     text_matches st (optionalText (MasterFilter_Title f)) (m_title m) \<and>
     (MasterFilter_Year f = None \<or> m_year m = MasterFilter_Year f)"

definition found_masters :: "Store \<Rightarrow> MasterFilter \<Rightarrow> Master list" where
  "found_masters st f =
     map master_of (order_by m_id (filter (master_matches st f) (db_master (St_db st))))"

definition answers_masters :: "Store \<Rightarrow> MasterFilter \<Rightarrow> bool" where
  "answers_masters st f \<longleftrightarrow> answers st queryMastersError [optionalText (MasterFilter_Title f)]"

lemma holds_null_or_eq: "holds (sql_or (sql_is_null p) (sql_eq x p)) \<longleftrightarrow> p = None \<or> x = p"
  by (cases p; cases x) auto

interpretation search_masters: id_pages answers_masters found_masters Master_ID SearchMasters
  by (rule id_pages_keyset [where k = m_id and cols = "\<lambda>_ _. master_columns" and item = "\<lambda>_ _. master_of"
        and table = "\<lambda>st. db_master (St_db st)" and P = master_matches and scanner = "\<lambda>_. scanMaster"
        and operation = queryMastersError and texts = "\<lambda>f. [optionalText (MasterFilter_Title f)]"])
    (simp_all add: answers_masters_def found_masters_def wf_ids SearchMasters_def Let_def
      searchMastersSQL_def master_matches_def holds_null_or_eq [simplified] FetchSize_small
      scanMaster_def master_columns_def master_of_def)

section \<open>Releases\<close>

text \<open>
  \<open>time.Date(year, month, 1, ...)\<close> carries a month outside 1 to 12 into the year, and \<open>AddDate\<close> adds
  years and months to a first of the month the same way.
\<close>

definition time_Date :: "int \<Rightarrow> int \<Rightarrow> sql_date" where
  "time_Date year month = first_of_month (12 * year + month - 1)"

definition AddDate :: "sql_date \<Rightarrow> int \<Rightarrow> int \<Rightarrow> sql_date" where
  "AddDate t years months = time_Date (date_year t + years) (date_month t + months)"

definition releaseDateParameters ::
  "int option \<Rightarrow> int option \<Rightarrow> sql_date option \<times> sql_date option \<times> int option" where
  "releaseDateParameters year month =
     (case year of
        None \<Rightarrow> (None, None, month)
      | Some y \<Rightarrow>
          (let selectedMonth = (case month of None \<Rightarrow> 1 | Some m \<Rightarrow> m);
               start = time_Date y selectedMonth;
               end = (case month of None \<Rightarrow> AddDate start 1 0 | Some _ \<Rightarrow> AddDate start 0 1)
           in (Some start, Some end, None)))"

definition searchReleasesSQL where
  "searchReleasesSQL st title country start_date end_date release_month is_master after_id limit =
     map releaseColumnsSQL (sql_limit limit (order_by r_id (filter (\<lambda>r. holds
       (sql_and (text_condition st title (r_title r))
       (sql_and (sql_or (sql_is_null country)
                  (sql_eq (map_option (Pool_lower (St_pool st)) (r_country r))
                          (map_option (Pool_lower (St_pool st)) country)))
       (sql_and (sql_or (sql_is_null start_date)
                  (sql_and (sql_is_true (r_has_valid_year r))
                  (sql_and (sql_le start_date (r_release_date r))
                           (sql_less (r_release_date r) end_date))))
       (sql_and (sql_or (sql_is_null release_month)
                  (sql_and (sql_is_true (r_has_valid_month r))
                           (sql_eq (map_option extract_month (r_release_date r)) release_month)))
       (sql_and (sql_or (sql_is_null is_master) (sql_eq (r_is_master r) is_master))
                (sql_less (Some after_id) (Some (r_id r)))))))))
       (db_release_item (St_db st)))))"

definition SearchReleases :: "Store \<Rightarrow> ReleaseFilter \<Rightarrow> PageRequest \<Rightarrow> Release Page outcome" where
  "SearchReleases st releaseFilter request =
     (let title = optionalText (ReleaseFilter_Title releaseFilter);
          country = optionalText (ReleaseFilter_Country releaseFilter)
      in case releaseDateParameters (ReleaseFilter_Year releaseFilter)
                (ReleaseFilter_Month releaseFilter) of
           (start, end, month) \<Rightarrow>
             loadPage (Size request)
               (load_items st queryReleasesError [title, country]
                  (searchReleasesSQL st title country start end month
                     (ReleaseFilter_Master releaseFilter) (AfterID request) (FetchSize request))
                  scanRelease))"

definition release_of :: "release_row \<Rightarrow> Release" where
  "release_of r = \<lparr>Release_ID = r_id r, Release_Title = r_title r, Release_Country = r_country r,
     Release_DataQuality = r_data_quality r,
     Release_Year = valid_part (r_has_valid_year r) extract_year (r_release_date r),
     Release_Month = valid_part (r_has_valid_month r) extract_month (r_release_date r),
     Release_Day = valid_part (r_has_valid_day r) extract_day (r_release_date r),
     Release_ListedDate = r_listed_release_date r, Release_IsMaster = r_is_master r,
     Release_MasterID = r_master_id r, Release_Notes = r_notes r, Release_Status = r_status r\<rparr>"

lemma scanRelease_columns: "scanRelease (releaseColumnsSQL r) = Ok (release_of r)"
  by (simp add: scanRelease_def releaseColumnsSQL_def release_of_def)

text \<open>What the date filter means: the release is from that year (and month), reliably so.\<close>

definition date_matches :: "int option \<Rightarrow> int option \<Rightarrow> release_row \<Rightarrow> bool" where
  "date_matches year month r \<longleftrightarrow>
     (case year of
        Some y \<Rightarrow> r_has_valid_year r = Some True \<and>
          (\<exists>d. r_release_date r = Some d \<and> date_year d = y \<and>
               (case month of None \<Rightarrow> True | Some m \<Rightarrow> date_month d = m))
      | None \<Rightarrow>
          (case month of None \<Rightarrow> True
           | Some m \<Rightarrow> r_has_valid_month r = Some True \<and>
               (\<exists>d. r_release_date r = Some d \<and> date_month d = m)))"

definition release_matches :: "Store \<Rightarrow> ReleaseFilter \<Rightarrow> release_row \<Rightarrow> bool" where
  "release_matches st f r \<longleftrightarrow>
     text_matches st (optionalText (ReleaseFilter_Title f)) (r_title r) \<and>
     (case optionalText (ReleaseFilter_Country f) of None \<Rightarrow> True
      | Some c \<Rightarrow> (\<exists>c'. r_country r = Some c' \<and>
          Pool_lower (St_pool st) c' = Pool_lower (St_pool st) c)) \<and>
     date_matches (ReleaseFilter_Year f) (ReleaseFilter_Month f) r \<and>
     (ReleaseFilter_Master f = None \<or> r_is_master r = ReleaseFilter_Master f)"

definition found_releases :: "Store \<Rightarrow> ReleaseFilter \<Rightarrow> Release list" where
  "found_releases st f =
     map release_of (order_by r_id (filter (release_matches st f) (db_release_item (St_db st))))"

definition month_in_range :: "int option \<Rightarrow> bool" where
  "month_in_range month \<longleftrightarrow> (case month of None \<Rightarrow> True | Some m \<Rightarrow> 1 \<le> m \<and> m \<le> 12)"

definition answers_releases :: "Store \<Rightarrow> ReleaseFilter \<Rightarrow> bool" where
  "answers_releases st f \<longleftrightarrow> answers st queryReleasesError
       [optionalText (ReleaseFilter_Title f), optionalText (ReleaseFilter_Country f)]
     \<and> month_in_range (ReleaseFilter_Month f)"

text \<open>The half-open interval of the statement is the year, or the month.\<close>

lemma time_Date_parts:
  "1 \<le> m \<Longrightarrow> m \<le> 12 \<Longrightarrow> date_year (time_Date y m) = y \<and> date_month (time_Date y m) = m"
  unfolding time_Date_def first_of_month_def sql_date.sel by presburger

lemma year_interval:
  assumes "valid_date d"
  shows "time_Date y 1 \<le> d \<and> d < AddDate (time_Date y 1) 1 0 \<longleftrightarrow> date_year d = y"
proof -
  have "date_year (time_Date y 1) = y" "date_month (time_Date y 1) = 1"
    using time_Date_parts [of 1 y] by simp_all
  then have "AddDate (time_Date y 1) 1 0 = first_of_month (12 * (y + 1))"
    by (simp add: AddDate_def time_Date_def algebra_simps)
  then have "time_Date y 1 \<le> d \<and> d < AddDate (time_Date y 1) 1 0 \<longleftrightarrow>
      12 * y \<le> month_index d \<and> month_index d < 12 * (y + 1)"
    by (simp only: first_of_month_le [OF assms] less_first_of_month [OF assms]) (simp add: time_Date_def first_of_month_le [OF assms])
  also have "\<dots> \<longleftrightarrow> date_year d = y"
    using assms unfolding month_index_def valid_date_def by presburger
  finally show ?thesis .
qed

lemma month_interval:
  assumes "valid_date d" "1 \<le> m" "m \<le> 12"
  shows "time_Date y m \<le> d \<and> d < AddDate (time_Date y m) 0 1 \<longleftrightarrow> date_year d = y \<and> date_month d = m"
proof -
  have "AddDate (time_Date y m) 0 1 = first_of_month (12 * y + m)"
    using time_Date_parts [of m y] assms by (simp add: AddDate_def time_Date_def)
  then have "time_Date y m \<le> d \<and> d < AddDate (time_Date y m) 0 1 \<longleftrightarrow>
      12 * y + m - 1 \<le> month_index d \<and> month_index d < 12 * y + m"
    by (simp only: less_first_of_month [OF assms(1)]) (simp add: time_Date_def first_of_month_le [OF assms(1)])
  also have "\<dots> \<longleftrightarrow> date_year d = y \<and> date_month d = m"
    using assms unfolding month_index_def valid_date_def by presburger
  finally show ?thesis .
qed

lemma holds_interval:
  "holds (sql_and (sql_le (Some a) x) (sql_less x (Some b))) \<longleftrightarrow> (\<exists>d. x = Some d \<and> a \<le> d \<and> d < b)"
  by (cases x) auto

lemma releaseDateParameters_condition:
  assumes "\<And>d. r_release_date r = Some d \<Longrightarrow> valid_date d" "month_in_range month"
    and "releaseDateParameters year month = (start, end_date, release_month)"
  shows "holds (sql_and
      (sql_or (sql_is_null start) (sql_and (sql_is_true (r_has_valid_year r))
        (sql_and (sql_le start (r_release_date r)) (sql_less (r_release_date r) end_date))))
      (sql_or (sql_is_null release_month) (sql_and (sql_is_true (r_has_valid_month r))
        (sql_eq (map_option extract_month (r_release_date r)) release_month))))
    \<longleftrightarrow> date_matches year month r"
proof (cases year)
  case None
  with assms(3) have "start = None" "release_month = month"
    by (simp_all add: releaseDateParameters_def)
  with None show ?thesis
    by (cases month; cases "r_release_date r")
      (auto simp: date_matches_def extract_month_def)
next
  case (Some y)
  show ?thesis
  proof (cases month)
    case None
    with Some assms(3) have "start = Some (time_Date y 1)"
      "end_date = Some (AddDate (time_Date y 1) 1 0)" "release_month = None"
      by (auto simp: releaseDateParameters_def Let_def)
    with Some None assms(1) show ?thesis
      by (cases "r_release_date r") (simp_all add: date_matches_def year_interval)
  next
    case (Some m)
    with \<open>year = Some y\<close> assms(3) have "start = Some (time_Date y m)"
      "end_date = Some (AddDate (time_Date y m) 0 1)" "release_month = None"
      by (auto simp: releaseDateParameters_def Let_def)
    with Some \<open>year = Some y\<close> assms(1,2) show ?thesis
      by (cases "r_release_date r") (simp_all add: date_matches_def month_interval month_in_range_def)
  qed
qed

lemma holds_country:
  "holds (sql_or (sql_is_null country) (sql_eq (map_option f x) (map_option f country))) \<longleftrightarrow>
   (case country of None \<Rightarrow> True | Some c \<Rightarrow> \<exists>c'. x = Some c' \<and> f c' = f c)"
  by (cases country; cases x) auto

lemma holds_less_Some: "holds (sql_less (Some i) (Some j)) \<longleftrightarrow> i < j"
  by simp

lemma searchReleasesSQL_matches:
  assumes "wf_database (St_db st)" "month_in_range (ReleaseFilter_Month f)"
    and "releaseDateParameters (ReleaseFilter_Year f) (ReleaseFilter_Month f) = (start, end_date, month)"
  shows "searchReleasesSQL st (optionalText (ReleaseFilter_Title f))
      (optionalText (ReleaseFilter_Country f)) start end_date month (ReleaseFilter_Master f) after_id limit =
    map releaseColumnsSQL (sql_limit limit (order_by r_id
      (filter (\<lambda>r. release_matches st f r \<and> after_id < r_id r) (db_release_item (St_db st)))))"
proof -
  have *: "holds (sql_or (sql_is_null start) (sql_and (sql_is_true (r_has_valid_year r))
        (sql_and (sql_le start (r_release_date r)) (sql_less (r_release_date r) end_date)))) \<and>
      holds (sql_or (sql_is_null month) (sql_and (sql_is_true (r_has_valid_month r))
        (sql_eq (map_option extract_month (r_release_date r)) month)))
    \<longleftrightarrow> date_matches (ReleaseFilter_Year f) (ReleaseFilter_Month f) r"
    if "r \<in> set (db_release_item (St_db st))" for r
    using assms(1) that unfolding holds_and [symmetric]
    by (intro releaseDateParameters_condition assms(2,3)) (simp add: wf_database_def)
  have "filter (\<lambda>r. holds
       (sql_and (text_condition st (optionalText (ReleaseFilter_Title f)) (r_title r))
       (sql_and (sql_or (sql_is_null (optionalText (ReleaseFilter_Country f)))
                  (sql_eq (map_option (Pool_lower (St_pool st)) (r_country r))
                          (map_option (Pool_lower (St_pool st)) (optionalText (ReleaseFilter_Country f)))))
       (sql_and (sql_or (sql_is_null start)
                  (sql_and (sql_is_true (r_has_valid_year r))
                  (sql_and (sql_le start (r_release_date r))
                           (sql_less (r_release_date r) end_date))))
       (sql_and (sql_or (sql_is_null month)
                  (sql_and (sql_is_true (r_has_valid_month r))
                           (sql_eq (map_option extract_month (r_release_date r)) month)))
       (sql_and (sql_or (sql_is_null (ReleaseFilter_Master f))
                  (sql_eq (r_is_master r) (ReleaseFilter_Master f)))
                (sql_less (Some after_id) (Some (r_id r)))))))))
       (db_release_item (St_db st)) =
     filter (\<lambda>r. release_matches st f r \<and> after_id < r_id r) (db_release_item (St_db st))"
    by (rule filter_cong [OF refl])
      (simp only: holds_and holds_text_condition holds_country holds_null_or_eq release_matches_def
        conj_assoc holds_less_Some flip: *)
  then show ?thesis by (simp only: searchReleasesSQL_def)
qed

interpretation search_releases: id_pages answers_releases found_releases Release_ID SearchReleases
  by (rule id_pages_keyset [where k = r_id and cols = "\<lambda>_ _. releaseColumnsSQL" and item = "\<lambda>_ _. release_of"
        and table = "\<lambda>st. db_release_item (St_db st)" and P = release_matches
        and scanner = "\<lambda>_. scanRelease" and operation = queryReleasesError
        and texts = "\<lambda>f. [optionalText (ReleaseFilter_Title f), optionalText (ReleaseFilter_Country f)]"])
    (auto simp: answers_releases_def found_releases_def wf_ids SearchReleases_def Let_def answers_wf
      searchReleasesSQL_matches FetchSize_small scanRelease_columns release_of_def
      split: prod.splits)

end
