(* ===== verification/Lookups.thy ===== *)
theory Lookups
  imports Search
begin

text \<open>
  \<open>internal/postgres/release_lookup.go\<close> and \<open>internal/postgres/release_children.go\<close>: the exact
  lookups of releases by label and catalog number or by identifier, and the tracks and identifiers of
  a release, which are paged by their compatibility slot and answer "not found" for a release that
  does not exist.
\<close>

definition queryReleasesByCatalogNumberError :: string where
  "queryReleasesByCatalogNumberError = ''query releases by catalog number''"
definition queryReleasesByIdentifierError :: string where
  "queryReleasesByIdentifierError = ''query releases by identifier''"
definition queryReleaseTracksError :: string where
  "queryReleaseTracksError = ''query release tracks''"
definition queryReleaseIdentifiersError :: string where
  "queryReleaseIdentifiersError = ''query release identifiers''"
definition queryReleaseExistenceError :: string where
  "queryReleaseExistenceError = ''query release existence''"

section \<open>Catalog number\<close>

definition releasesByCatalogNumberSQL where
  "releasesByCatalogNumberSQL st label_id catalog_number after_id limit =
     (let matching_release = sql_limit limit (order_by (\<lambda>i. i) (map lr_release_item_id
            (filter (\<lambda>l. holds
              (sql_and (sql_eq (Some (lr_label_id l)) (Some label_id))
              (sql_and (sql_eq (lr_category_notation l) (Some catalog_number))
                       (sql_less (Some after_id) (Some (lr_release_item_id l))))))
              (db_label_release_item (St_db st)))))
      in map releaseColumnsSQL (order_by r_id (join_releases (St_db st) matching_release)))"

definition ReleasesByCatalogNumber ::
  "Store \<Rightarrow> CatalogNumberLookup \<Rightarrow> PageRequest \<Rightarrow> Release Page outcome" where
  "ReleasesByCatalogNumber st lookup request =
     loadPage (Size request)
       (load_items st queryReleasesByCatalogNumberError [Some (CatalogNumber lookup)]
          (releasesByCatalogNumberSQL st (LabelID lookup) (CatalogNumber lookup) (AfterID request)
             (FetchSize request)) scanRelease)"

definition catalog_number_matches :: "Store \<Rightarrow> CatalogNumberLookup \<Rightarrow> release_row \<Rightarrow> bool" where
  "catalog_number_matches st q r \<longleftrightarrow>
     (\<exists>l \<in> set (db_label_release_item (St_db st)). lr_release_item_id l = r_id r
        \<and> lr_label_id l = LabelID q \<and> lr_category_notation l = Some (CatalogNumber q))"

definition releases_with_catalog_number :: "Store \<Rightarrow> CatalogNumberLookup \<Rightarrow> Release list" where
  "releases_with_catalog_number st q =
     map release_of (order_by r_id (filter (catalog_number_matches st q) (db_release_item (St_db st))))"

definition answers_catalog_number :: "Store \<Rightarrow> CatalogNumberLookup \<Rightarrow> bool" where
  "answers_catalog_number st q \<longleftrightarrow>
     answers st queryReleasesByCatalogNumberError [Some (CatalogNumber q)]"

lemma holds_eq_Some: "holds (sql_eq x (Some v)) \<longleftrightarrow> x = Some v"
  by (cases x) auto

lemma releasesByCatalogNumberSQL_eq:
  assumes wf: "wf_database (St_db st)"
  shows "releasesByCatalogNumberSQL st (LabelID q) (CatalogNumber q) after_id limit =
    map releaseColumnsSQL (sql_limit limit (order_by r_id
      (filter (\<lambda>r. catalog_number_matches st q r \<and> after_id < r_id r) (db_release_item (St_db st)))))"
proof -
  let ?links = "filter (\<lambda>l. lr_label_id l = LabelID q \<and> lr_category_notation l = Some (CatalogNumber q)
      \<and> after_id < lr_release_item_id l) (db_label_release_item (St_db st))"
  let ?ids = "order_by (\<lambda>i. i) (map lr_release_item_id ?links)"
  have "distinct (map (\<lambda>l. (lr_label_id l, lr_release_item_id l, lr_category_notation l)) ?links)"
    using wf by (simp add: wf_database_def distinct_map_filter)
  then have "distinct (map lr_release_item_id ?links)"
    by (auto simp: distinct_map inj_on_def)
  then have asc: "ascending ?ids"
    using ascending_order_by [of "\<lambda>i. i" "map lr_release_item_id ?links"] by simp
  have refs: "lr_release_item_id ` set (db_label_release_item (St_db st)) \<subseteq> r_id ` set (db_release_item (St_db st))"
    using wf by (simp add: wf_database_def)
  have mem: "i \<in> set ?ids \<longleftrightarrow> (\<exists>r \<in> set (db_release_item (St_db st)).
      (catalog_number_matches st q r \<and> after_id < r_id r) \<and> r_id r = i)" for i
    using linked_ids [OF refs, of i "\<lambda>l. lr_label_id l = LabelID q
        \<and> lr_category_notation l = Some (CatalogNumber q)" after_id]
    by (simp add: catalog_number_matches_def)
  have "order_by r_id (join_releases (St_db st) (sql_limit limit ?ids)) = sql_limit limit (order_by r_id
      (filter (\<lambda>r. catalog_number_matches st q r \<and> after_id < r_id r) (db_release_item (St_db st))))"
    by (rule join_releases_limit [OF wf asc mem]) (auto simp: catalog_number_matches_def)
  then show ?thesis
    by (simp add: releasesByCatalogNumberSQL_def holds_eq_Some)
qed

interpretation catalog_number_lookup: id_pages answers_catalog_number releases_with_catalog_number
  Release_ID ReleasesByCatalogNumber
  by (rule id_pages_keyset [where k = r_id and cols = "\<lambda>_ _. releaseColumnsSQL" and item = "\<lambda>_ _. release_of"
        and table = "\<lambda>st. db_release_item (St_db st)" and P = catalog_number_matches
        and scanner = "\<lambda>_. scanRelease" and operation = queryReleasesByCatalogNumberError
        and texts = "\<lambda>q. [Some (CatalogNumber q)]"])
    (simp_all add: answers_catalog_number_def releases_with_catalog_number_def wf_ids
      ReleasesByCatalogNumber_def answers_wf releasesByCatalogNumberSQL_eq FetchSize_small
      scanRelease_columns release_of_def)

section \<open>Identifier\<close>

text \<open>
  The digests are compared because they are indexed; the values themselves are compared as well.
\<close>

definition releasesByIdentifierSQL where
  "releasesByIdentifierSQL st kind val after_id limit =
     (let lower = Pool_lower (St_pool st); md5 = Pool_md5 (St_pool st);
          matching_release = sql_limit limit (order_by (\<lambda>i. i) (remdups (map i_release_item_id
            (filter (\<lambda>i. holds
              (sql_and (sql_eq (map_option lower (i_type i)) (Some (lower kind)))
              (sql_and (sql_eq (map_option md5 (i_value i)) (Some (md5 val)))
              (sql_and (sql_eq (i_value i) (Some val))
                       (sql_less (Some after_id) (Some (i_release_item_id i)))))))
              (db_release_item_identifier (St_db st))))))
      in map releaseColumnsSQL (order_by r_id (join_releases (St_db st) matching_release)))"

definition ReleasesByIdentifier ::
  "Store \<Rightarrow> IdentifierLookup \<Rightarrow> PageRequest \<Rightarrow> Release Page outcome" where
  "ReleasesByIdentifier st lookup request =
     loadPage (Size request)
       (load_items st queryReleasesByIdentifierError
          [Some (Identifier_Type lookup), Some (Identifier_Value lookup)]
          (releasesByIdentifierSQL st (Identifier_Type lookup) (Identifier_Value lookup)
             (AfterID request) (FetchSize request)) scanRelease)"

text \<open>Exactly: same value, same type up to case; the digest function does not matter.\<close>

definition identifier_matches :: "Store \<Rightarrow> IdentifierLookup \<Rightarrow> release_row \<Rightarrow> bool" where
  "identifier_matches st q r \<longleftrightarrow>
     (\<exists>i \<in> set (db_release_item_identifier (St_db st)). i_release_item_id i = r_id r
        \<and> i_value i = Some (Identifier_Value q)
        \<and> (\<exists>t. i_type i = Some t \<and>
             Pool_lower (St_pool st) t = Pool_lower (St_pool st) (Identifier_Type q)))"

definition releases_with_identifier :: "Store \<Rightarrow> IdentifierLookup \<Rightarrow> Release list" where
  "releases_with_identifier st q =
     map release_of (order_by r_id (filter (identifier_matches st q) (db_release_item (St_db st))))"

definition answers_identifier :: "Store \<Rightarrow> IdentifierLookup \<Rightarrow> bool" where
  "answers_identifier st q \<longleftrightarrow> answers st queryReleasesByIdentifierError
     [Some (Identifier_Type q), Some (Identifier_Value q)]"

lemma releasesByIdentifierSQL_eq:
  assumes wf: "wf_database (St_db st)"
  shows "releasesByIdentifierSQL st (Identifier_Type q) (Identifier_Value q) after_id limit =
    map releaseColumnsSQL (sql_limit limit (order_by r_id
      (filter (\<lambda>r. identifier_matches st q r \<and> after_id < r_id r) (db_release_item (St_db st)))))"
proof -
  let ?low = "Pool_lower (St_pool st)"
  let ?links = "filter (\<lambda>i. (\<exists>t. i_type i = Some t \<and> ?low t = ?low (Identifier_Type q))
      \<and> (\<exists>v. i_value i = Some v \<and> Pool_md5 (St_pool st) v = Pool_md5 (St_pool st) (Identifier_Value q))
      \<and> i_value i = Some (Identifier_Value q)
      \<and> after_id < i_release_item_id i) (db_release_item_identifier (St_db st))"
  let ?ids = "order_by (\<lambda>i. i) (remdups (map i_release_item_id ?links))"
  have asc: "ascending ?ids"
    using ascending_order_by [of "\<lambda>i. i" "remdups (map i_release_item_id ?links)"] by simp
  have refs: "i_release_item_id ` set (db_release_item_identifier (St_db st)) \<subseteq> r_id ` set (db_release_item (St_db st))"
    using wf by (simp add: wf_database_def)
  have mem: "i \<in> set ?ids \<longleftrightarrow> (\<exists>r \<in> set (db_release_item (St_db st)).
      (identifier_matches st q r \<and> after_id < r_id r) \<and> r_id r = i)" for i
    using linked_ids [OF refs, of i "\<lambda>i. i_value i = Some (Identifier_Value q)
        \<and> (\<exists>t. i_type i = Some t \<and> ?low t = ?low (Identifier_Type q))" after_id]
    by (auto simp: identifier_matches_def)
  have "order_by r_id (join_releases (St_db st) (sql_limit limit ?ids)) = sql_limit limit (order_by r_id
      (filter (\<lambda>r. identifier_matches st q r \<and> after_id < r_id r) (db_release_item (St_db st))))"
    by (rule join_releases_limit [OF wf asc mem]) (auto simp: identifier_matches_def)
  then show ?thesis
    by (simp add: releasesByIdentifierSQL_def holds_eq_Some Let_def)
qed

interpretation identifier_lookup: id_pages answers_identifier releases_with_identifier
  Release_ID ReleasesByIdentifier
  by (rule id_pages_keyset [where k = r_id and cols = "\<lambda>_ _. releaseColumnsSQL" and item = "\<lambda>_ _. release_of"
        and table = "\<lambda>st. db_release_item (St_db st)" and P = identifier_matches
        and scanner = "\<lambda>_. scanRelease" and operation = queryReleasesByIdentifierError
        and texts = "\<lambda>q. [Some (Identifier_Type q), Some (Identifier_Value q)]"])
    (simp_all add: answers_identifier_def releases_with_identifier_def wf_ids
      ReleasesByIdentifier_def answers_wf releasesByIdentifierSQL_eq FetchSize_small
      scanRelease_columns release_of_def)

section \<open>Tracks and identifiers of a release\<close>

definition releaseTracksSQL where
  "releaseTracksSQL st release_id after_hash limit =
     map (\<lambda>t. (t_hash t, t_duration t, t_position t, t_title t))
       (sql_limit limit (order_by t_hash (filter (\<lambda>t. holds
         (sql_and (sql_eq (Some (t_release_item_id t)) (Some release_id))
                  (sql_or (sql_is_null after_hash) (sql_less after_hash (Some (t_hash t))))))
         (db_release_item_track (St_db st)))))"

definition releaseIdentifiersSQL where
  "releaseIdentifiersSQL st release_id after_hash limit =
     map (\<lambda>i. (i_hash i, i_description i, i_type i, i_value i))
       (sql_limit limit (order_by i_hash (filter (\<lambda>i. holds
         (sql_and (sql_eq (Some (i_release_item_id i)) (Some release_id))
                  (sql_or (sql_is_null after_hash) (sql_less after_hash (Some (i_hash i))))))
         (db_release_item_identifier (St_db st)))))"

definition releaseExistsSQL :: "Store \<Rightarrow> int \<Rightarrow> bool list" where
  "releaseExistsSQL st release_id = [\<exists>r \<in> set (db_release_item (St_db st)). r_id r = release_id]"

text \<open>\<open>QueryRow(...).Scan\<close>: the first row, or \<open>ErrNoRows\<close>.\<close>

definition QueryRow ::
  "Store \<Rightarrow> string \<Rightarrow> string option list \<Rightarrow> 'r list \<Rightarrow> 'r outcome" where
  "QueryRow st operation texts result =
     outcome_bind (outcome_bind (pool_Query st operation texts result) (\<lambda>rows. rows))
       (\<lambda>rows. case rows of [] \<Rightarrow> Fail ErrNoRows | r # _ \<Rightarrow> Ok r)"

definition requireRelease :: "Store \<Rightarrow> int \<Rightarrow> unit outcome" where
  "requireRelease st release_id =
     (case QueryRow st queryReleaseExistenceError [] (releaseExistsSQL st release_id) of
        Fail e \<Rightarrow> Fail (Wrapped queryReleaseExistenceError e)
      | Panic m \<Rightarrow> Panic m
      | Ok existing \<Rightarrow> if \<not> existing then Fail ErrNotFound else Ok ())"

text \<open>The common end of both methods: an empty page needs an existing release.\<close>

definition release_child_page :: "Store \<Rightarrow> int \<Rightarrow> 'a HashPage outcome \<Rightarrow> 'a HashPage outcome" where
  "release_child_page st release_id loaded =
     (case loaded of
        Ok page \<Rightarrow>
          if slice_len (HashItems page) > 0 then loaded
          else outcome_bind (requireRelease st release_id) (\<lambda>_. Ok page)
      | _ \<Rightarrow> loaded)"

definition ReleaseTracks :: "Store \<Rightarrow> int \<Rightarrow> HashPageRequest \<Rightarrow> ReleaseTrack HashPage outcome" where
  "ReleaseTracks st releaseID request =
     release_child_page st releaseID
       (loadHashPage (HashSize request)
          (load_items st queryReleaseTracksError []
             (releaseTracksSQL st releaseID (AfterHash request) (HashFetchSize request))
             scanReleaseTrack))"

definition ReleaseIdentifiers ::
  "Store \<Rightarrow> int \<Rightarrow> HashPageRequest \<Rightarrow> ReleaseIdentifier HashPage outcome" where
  "ReleaseIdentifiers st releaseID request =
     release_child_page st releaseID
       (loadHashPage (HashSize request)
          (load_items st queryReleaseIdentifiersError []
             (releaseIdentifiersSQL st releaseID (AfterHash request) (HashFetchSize request))
             scanReleaseIdentifier))"

definition release_exists :: "Store \<Rightarrow> int \<Rightarrow> bool" where
  "release_exists st release_id \<longleftrightarrow> release_id \<in> r_id ` set (db_release_item (St_db st))"

definition track_of :: "track_row \<Rightarrow> ReleaseTrack" where
  "track_of t = \<lparr>Track_Hash = t_hash t, Track_Duration = t_duration t, Track_Position = t_position t,
     Track_Title = t_title t\<rparr>"

definition tracks_of_release :: "Store \<Rightarrow> int \<Rightarrow> ReleaseTrack list" where
  "tracks_of_release st release_id = map track_of (order_by t_hash
     (filter (\<lambda>t. t_release_item_id t = release_id) (db_release_item_track (St_db st))))"

definition identifier_of :: "identifier_row \<Rightarrow> ReleaseIdentifier" where
  "identifier_of i = \<lparr>Ident_Hash = i_hash i, Ident_Description = i_description i,
     Ident_Type = i_type i, Ident_Value = i_value i\<rparr>"

definition identifiers_of_release :: "Store \<Rightarrow> int \<Rightarrow> ReleaseIdentifier list" where
  "identifiers_of_release st release_id = map identifier_of (order_by i_hash
     (filter (\<lambda>i. i_release_item_id i = release_id) (db_release_item_identifier (St_db st))))"

definition answers_children :: "string \<Rightarrow> Store \<Rightarrow> int \<Rightarrow> bool" where
  "answers_children operation st release_id \<longleftrightarrow> answers st operation []
     \<and> answers st queryReleaseExistenceError [] \<and> release_exists st release_id"

lemma requireRelease_answers:
  "answers st queryReleaseExistenceError [] \<Longrightarrow>
   requireRelease st release_id = (if release_exists st release_id then Ok () else Fail ErrNotFound)"
  by (auto simp: requireRelease_def QueryRow_def pool_Query_def answers_def releaseExistsSQL_def
      release_exists_def)

text \<open>Both listings are the hash-paged contract, over a table whose key is the pair of release and slot.\<close>

lemma hash_pages_keyset:
  fixes table :: "Store \<Rightarrow> 'x list" and rows :: "Store \<Rightarrow> int \<Rightarrow> 'a list"
  assumes hashes: "\<And>st. wf_database (St_db st) \<Longrightarrow>
      relation_hashes (map (\<lambda>x. (release x, h x)) (table st))"
    and rows: "\<And>st q. rows st q = map item (order_by h (filter (\<lambda>x. release x = q) (table st)))"
    and page: "\<And>st q r. 1 \<le> HashSize r \<Longrightarrow> HashSize r < 2 ^ 62 \<Longrightarrow>
       page st q r = release_child_page st q (loadHashPage (HashSize r) (load_items st operation []
         (map cols (sql_limit (HashSize r + 1) (order_by h (filter (\<lambda>x. release x = q \<and>
           (case AfterHash r of None \<Rightarrow> True | Some c \<Rightarrow> c < h x)) (table st))))) scanner))"
    and scan: "\<And>x. scanner (cols x) = Ok (item x)"
    and key: "\<And>x. key (item x) = h x"
  shows "hash_pages (answers_children operation) rows key page"
proof
  fix st q and r :: HashPageRequest
  assume ok: "answers_children operation st q" and size: "1 \<le> HashSize r" "HashSize r < 2 ^ 62"
  let ?rows = "order_by h (filter (\<lambda>x. release x = q \<and>
      (case AfterHash r of None \<Rightarrow> True | Some c \<Rightarrow> c < h x)) (table st))"
  have rest: "rows_after key (AfterHash r) (rows st q) = map item ?rows"
    by (cases "AfterHash r")
      (simp_all add: rows rows_after_def filter_map o_def key order_by_filter [symmetric] conj_commute)
  have loaded: "loadHashPage (HashSize r) (load_items st operation []
      (map cols (sql_limit (HashSize r + 1) ?rows)) scanner) =
      Ok \<lparr>HashItems = Slice (take (nat (HashSize r)) (map item ?rows)),
        HashHasMore = int (length ?rows) > HashSize r\<rparr>"
    using ok by (intro loadHashPage_answers size) (simp_all add: answers_children_def scan)
  show "page st q r = Ok \<lparr>HashItems = Slice (take (nat (HashSize r)) (rows_after key (AfterHash r) (rows st q))),
      HashHasMore = int (length (rows_after key (AfterHash r) (rows st q))) > HashSize r\<rparr>"
    using ok unfolding page [OF size] loaded rest
    by (simp add: release_child_page_def requireRelease_answers answers_children_def)
next
  fix st q x
  assume "answers_children operation st q"
  then have hashes: "relation_hashes (map (\<lambda>x. (release x, h x)) (table st))"
    by (auto simp: answers_children_def intro: hashes dest: answers_wf)
  have "distinct (map h (filter (\<lambda>x. release x = q) (table st)))"
    by (rule relation_hashes_of(1) [OF hashes])
  then show "ascending (map key (rows st q))"
    by (simp add: rows o_def key ascending_order_by)
  assume "x \<in> set (rows st q)"
  then obtain y where "x = item y" "y \<in> set (table st)" by (auto simp: rows)
  with relation_hashes_of(2) [OF hashes] show "- (2 ^ 31) \<le> key x" "key x < 2 ^ 31"
    by (simp_all add: key)
qed

lemma holds_after_hash:
  "holds (sql_or (sql_is_null c) (sql_less c (Some h))) \<longleftrightarrow> (case c of None \<Rightarrow> True | Some k \<Rightarrow> k < h)"
  by (cases c) auto

interpretation release_tracks: hash_pages "answers_children queryReleaseTracksError" tracks_of_release
  Track_Hash ReleaseTracks
  by (rule hash_pages_keyset [where release = t_release_item_id and h = t_hash and item = track_of
        and table = "\<lambda>st. db_release_item_track (St_db st)" and scanner = scanReleaseTrack
        and cols = "\<lambda>t. (t_hash t, t_duration t, t_position t, t_title t)"])
    (simp_all add: wf_hashes tracks_of_release_def ReleaseTracks_def releaseTracksSQL_def
      HashFetchSize_small holds_after_hash scanReleaseTrack_def track_of_def del: holds_or)

interpretation release_identifiers: hash_pages "answers_children queryReleaseIdentifiersError"
  identifiers_of_release Ident_Hash ReleaseIdentifiers
  by (rule hash_pages_keyset [where release = i_release_item_id and h = i_hash and item = identifier_of
        and table = "\<lambda>st. db_release_item_identifier (St_db st)" and scanner = scanReleaseIdentifier
        and cols = "\<lambda>i. (i_hash i, i_description i, i_type i, i_value i)"])
    (simp_all add: wf_hashes identifiers_of_release_def ReleaseIdentifiers_def releaseIdentifiersSQL_def
      HashFetchSize_small holds_after_hash scanReleaseIdentifier_def identifier_of_def del: holds_or)

end
