(* ===== verification/Related.thy ===== *)
theory Related
  imports Lookups "HOL-Library.List_Lexorder" "HOL-Library.Char_ord"
begin

text \<open>
  \<open>internal/postgres/related.go\<close>: the releases of an artist, of a label and of a master. The artist
  listing unites two relations and pushes the page limit into both before uniting them;
  \<open>limited_union\<close> shows that this loses nothing.
\<close>

definition queryArtistReleasesError :: string where
  "queryArtistReleasesError = ''query artist releases''"
definition queryLabelReleasesError :: string where
  "queryLabelReleasesError = ''query label releases''"
definition queryMasterReleasesError :: string where
  "queryMasterReleasesError = ''query master releases''"

section \<open>Aggregates\<close>

text \<open>\<open>trim\<close> removes spaces only.\<close>

definition sql_trim :: "string \<Rightarrow> string" where
  "sql_trim s = rev (dropWhile (\<lambda>c. c = CHR '' '') (rev (dropWhile (\<lambda>c. c = CHR '' '') s)))"

text \<open>The distinct non-NULL values in the order of the collation.\<close>

definition distinct_sorted :: "Store \<Rightarrow> string option list \<Rightarrow> string list" where
  "distinct_sorted st vs = order_by (Pool_collate (St_pool st)) (remdups (List.map_filter (\<lambda>v. v) vs))"

text \<open>\<open>string_agg(DISTINCT v, ',' ORDER BY v)\<close>: NULL when there is no value.\<close>

definition string_agg :: "Store \<Rightarrow> string option list \<Rightarrow> string option" where
  "string_agg st vs =
     (case distinct_sorted st vs of [] \<Rightarrow> None | v # vs' \<Rightarrow> Some (join_with '','' (v # vs')))"

section \<open>Limits under a union\<close>

definition sql_union :: "'a list \<Rightarrow> 'a list \<Rightarrow> 'a list" where
  "sql_union xs ys = remdups (xs @ ys)"

lemma ascending_sorted_union: "ascending (order_by (\<lambda>i. i) (sql_union xs ys))"
  using ascending_order_by [of "\<lambda>i. i" "sql_union xs ys"] by (simp add: sql_union_def)

lemma filter_ascending_subset:
  assumes "ascending xs" "ascending ys" "set xs \<subseteq> set ys"
  shows "xs = filter (\<lambda>y. y \<in> set xs) ys"
  using assms by (intro ascending_eq_of_set) (auto simp: sorted_wrt_filter)

text \<open>A sublist that keeps the first \<open>n\<close> elements has the same first \<open>n\<close> elements.\<close>

lemma take_sublist:
  assumes "ascending xs" "ascending ys" "set xs \<subseteq> set ys" "set (take n ys) \<subseteq> set xs"
  shows "take n xs = take n ys"
proof -
  have "xs = filter (\<lambda>y. y \<in> set xs) (take n ys @ drop n ys)"
    using filter_ascending_subset [OF assms(1-3)] by simp
  also have "\<dots> = take n ys @ filter (\<lambda>y. y \<in> set xs) (drop n ys)"
    unfolding filter_append using assms(4) by (subst filter_True) auto
  finally have "take n xs = take n (take n ys @ filter (\<lambda>y. y \<in> set xs) (drop n ys))" by simp
  also have "\<dots> = take n ys"
    by (cases "length ys \<le> n") (simp_all add: min_def)
  finally show ?thesis .
qed

lemma in_take_of_superlist:
  assumes "ascending xs" "ascending ys" "set xs \<subseteq> set ys" "x \<in> set (take n ys)" "x \<in> set xs"
  shows "x \<in> set (take n xs)"
proof -
  let ?p = "\<lambda>y. y \<in> set xs"
  have xs: "xs = filter ?p (take n ys) @ filter ?p (drop n ys)"
    using filter_ascending_subset [OF assms(1-3)] unfolding filter_append [symmetric] by simp
  have "length (filter ?p (take n ys)) \<le> n"
    using length_filter_le [of ?p "take n ys"] by simp
  then have "take n xs = filter ?p (take n ys) @ take (n - length (filter ?p (take n ys))) (filter ?p (drop n ys))"
    by (subst xs) simp
  with assms(4,5) show ?thesis by simp
qed

lemma limited_union:
  assumes "ascending xs" "ascending (ys :: 'k::linorder list)"
  shows "take n (order_by (\<lambda>i. i) (sql_union (take n xs) (take n ys))) =
    take n (order_by (\<lambda>i. i) (sql_union xs ys))"
proof (rule take_sublist [OF ascending_sorted_union ascending_sorted_union])
  show "set (order_by (\<lambda>i. i) (sql_union (take n xs) (take n ys))) \<subseteq> set (order_by (\<lambda>i. i) (sql_union xs ys))"
    using set_take_subset [of n xs] set_take_subset [of n ys] by (auto simp: sql_union_def)
  show "set (take n (order_by (\<lambda>i. i) (sql_union xs ys))) \<subseteq> set (order_by (\<lambda>i. i) (sql_union (take n xs) (take n ys)))"
  proof
    fix x assume x: "x \<in> set (take n (order_by (\<lambda>i. i) (sql_union xs ys)))"
    then have "x \<in> set xs \<or> x \<in> set ys"
      by (auto simp: sql_union_def dest: in_set_takeD)
    then have "x \<in> set (take n xs) \<or> x \<in> set (take n ys)"
      using in_take_of_superlist [OF assms(1) ascending_sorted_union _ x]
        in_take_of_superlist [OF assms(2) ascending_sorted_union _ x] by (auto simp: sql_union_def)
    then show "x \<in> set (order_by (\<lambda>i. i) (sql_union (take n xs) (take n ys)))"
      by (simp add: sql_union_def)
  qed
qed

lemma order_by_map: "order_by k (map f xs) = map f (order_by (\<lambda>x. k (f x)) xs)"
proof -
  have "insort_key k (f x) (map f ys) = map f (insort_key (\<lambda>x. k (f x)) x ys)" for x ys
    by (induction ys) simp_all
  then show ?thesis by (induction xs) (simp_all add: order_by_def)
qed

section \<open>Releases of an artist\<close>

text \<open>The roles of the artist on a release: \<open>Main\<close> as a main artist, and the credited roles.\<close>

definition artist_roles :: "Store \<Rightarrow> int \<Rightarrow> int \<Rightarrow> string option list" where
  "artist_roles st artist_id release_id =
     map (\<lambda>_. Some ''Main'')
       (filter (\<lambda>a. ra_artist_id a = artist_id \<and> ra_release_item_id a = release_id)
         (db_release_item_artist (St_db st))) @
     map ca_role
       (filter (\<lambda>c. ca_artist_id c = artist_id \<and> ca_release_item_id c = release_id)
         (db_release_item_credited_artist (St_db st)))"

definition aggregated_role :: "Store \<Rightarrow> int \<Rightarrow> int \<Rightarrow> string option" where
  "aggregated_role st artist_id release_id =
     string_agg st (map (map_option sql_trim) (artist_roles st artist_id release_id))"

definition artist_release_columns :: "release_row \<times> string option \<Rightarrow> artist_release_columns" where
  "artist_release_columns row =
     (case row of (r, role) \<Rightarrow>
       (r_id r, role, r_title r, r_country r, r_data_quality r,
        valid_part (r_has_valid_year r) extract_year (r_release_date r),
        valid_part (r_has_valid_month r) extract_month (r_release_date r),
        valid_part (r_has_valid_day r) extract_day (r_release_date r),
        r_listed_release_date r, r_is_master r, r_master_id r, r_notes r, r_status r))"

definition main_releases :: "Store \<Rightarrow> int \<Rightarrow> int \<Rightarrow> int list" where
  "main_releases st artist_id after_id =
     order_by (\<lambda>i. i) (map ra_release_item_id (filter (\<lambda>a. holds
       (sql_and (sql_eq (Some (ra_artist_id a)) (Some artist_id))
                (sql_less (Some after_id) (Some (ra_release_item_id a)))))
       (db_release_item_artist (St_db st))))"

definition credited_releases :: "Store \<Rightarrow> int \<Rightarrow> int \<Rightarrow> int list" where
  "credited_releases st artist_id after_id =
     order_by (\<lambda>i. i) (remdups (map ca_release_item_id (filter (\<lambda>c. holds
       (sql_and (sql_eq (Some (ca_artist_id c)) (Some artist_id))
                (sql_less (Some after_id) (Some (ca_release_item_id c)))))
       (db_release_item_credited_artist (St_db st)))))"

definition artistReleasesSQL where
  "artistReleasesSQL st artist_id after_id limit =
     (let candidate = sql_union (sql_limit limit (main_releases st artist_id after_id))
                                (sql_limit limit (credited_releases st artist_id after_id));
          matching_release = sql_limit limit (order_by (\<lambda>i. i) candidate);
          aggregated = map (\<lambda>i. (i, aggregated_role st artist_id i))
            (filter (\<lambda>i. artist_roles st artist_id i \<noteq> []) matching_release);
          joined = concat (map (\<lambda>(i, role). map (\<lambda>r. (r, role))
            (filter (\<lambda>r. r_id r = i) (db_release_item (St_db st)))) aggregated)
      in map artist_release_columns (sql_limit limit (order_by (\<lambda>(r, role). r_id r)
           (filter (\<lambda>(r, role). holds (sql_less (Some after_id) (Some (r_id r)))) joined))))"

definition ArtistReleases :: "Store \<Rightarrow> int \<Rightarrow> PageRequest \<Rightarrow> ArtistRelease Page outcome" where
  "ArtistReleases st ident request =
     loadPage (Size request)
       (load_items st queryArtistReleasesError []
          (artistReleasesSQL st ident (AfterID request) (FetchSize request)) (scanArtistRelease st))"

definition artist_release_of :: "Store \<Rightarrow> int \<Rightarrow> release_row \<Rightarrow> ArtistRelease" where
  "artist_release_of st artist_id r =
     \<lparr>ArtistRelease_ID = r_id r, ArtistRelease_Role = aggregated_role st artist_id (r_id r),
      ArtistRelease_Title = r_title r, ArtistRelease_Country = r_country r,
      ArtistRelease_DataQuality = r_data_quality r,
      ArtistRelease_Year = valid_part (r_has_valid_year r) extract_year (r_release_date r),
      ArtistRelease_Month = valid_part (r_has_valid_month r) extract_month (r_release_date r),
      ArtistRelease_Day = valid_part (r_has_valid_day r) extract_day (r_release_date r),
      ArtistRelease_ListedDate = r_listed_release_date r, ArtistRelease_IsMaster = r_is_master r,
      ArtistRelease_MasterID = r_master_id r, ArtistRelease_Notes = r_notes r,
      ArtistRelease_Status = r_status r, ArtistRelease_ResourceURL = release_url st (r_id r)\<rparr>"

text \<open>The artist is on the release, as a main or as a credited artist.\<close>

definition artist_on_release :: "Store \<Rightarrow> int \<Rightarrow> release_row \<Rightarrow> bool" where
  "artist_on_release st artist_id r \<longleftrightarrow>
     (\<exists>a \<in> set (db_release_item_artist (St_db st)).
        ra_artist_id a = artist_id \<and> ra_release_item_id a = r_id r) \<or>
     (\<exists>c \<in> set (db_release_item_credited_artist (St_db st)).
        ca_artist_id c = artist_id \<and> ca_release_item_id c = r_id r)"

definition releases_of_artist :: "Store \<Rightarrow> int \<Rightarrow> ArtistRelease list" where
  "releases_of_artist st artist_id = map (artist_release_of st artist_id)
     (order_by r_id (filter (artist_on_release st artist_id) (db_release_item (St_db st))))"

definition answers_artist_releases :: "Store \<Rightarrow> int \<Rightarrow> bool" where
  "answers_artist_releases st artist_id \<longleftrightarrow> answers st queryArtistReleasesError []"

lemma sql_limit_idem [simp]: "sql_limit n (sql_limit n xs) = sql_limit n xs"
  by (simp add: sql_limit_def)

lemma in_sql_limit: "x \<in> set (sql_limit n xs) \<Longrightarrow> x \<in> set xs"
  unfolding sql_limit_def by (rule in_set_takeD)

lemma ascending_ids: "distinct xs \<Longrightarrow> ascending (order_by (\<lambda>i. i) xs)"
  using ascending_order_by [of "\<lambda>i. i" xs] by simp

lemma ascending_main_releases:
  assumes "wf_database (St_db st)"
  shows "ascending (main_releases st artist_id after_id)"
proof -
  have "distinct (map (\<lambda>a. (ra_artist_id a, ra_release_item_id a)) (filter (\<lambda>a. ra_artist_id a = artist_id
      \<and> after_id < ra_release_item_id a) (db_release_item_artist (St_db st))))"
    using assms by (simp add: wf_database_def distinct_map_filter)
  then have "distinct (map ra_release_item_id (filter (\<lambda>a. ra_artist_id a = artist_id
      \<and> after_id < ra_release_item_id a) (db_release_item_artist (St_db st))))"
    by (auto simp: distinct_map inj_on_def)
  then show ?thesis by (simp add: main_releases_def ascending_ids)
qed

lemma set_main_releases:
  "set (main_releases st artist_id after_id) = ra_release_item_id `
     {a \<in> set (db_release_item_artist (St_db st)). ra_artist_id a = artist_id \<and> after_id < ra_release_item_id a}"
  by (simp add: main_releases_def)

lemma set_credited_releases:
  "set (credited_releases st artist_id after_id) = ca_release_item_id `
     {c \<in> set (db_release_item_credited_artist (St_db st)).
       ca_artist_id c = artist_id \<and> after_id < ca_release_item_id c}"
  by (simp add: credited_releases_def)

text \<open>Every candidate has a role row and is after the cursor, so the joins drop nothing.\<close>

lemma candidate_roles:
  assumes "i \<in> set (sql_union (main_releases st a c) (credited_releases st a c))"
  shows "artist_roles st a i \<noteq> [] \<and> c < i"
  using assms
  by (auto simp: sql_union_def set_main_releases set_credited_releases artist_roles_def filter_empty_conv)

lemma join_roles:
  "concat (map (\<lambda>(i, role). map (\<lambda>r. (r, role)) (filter (\<lambda>r. r_id r = i) rs)) (map (\<lambda>i. (i, g i)) is)) =
   map (\<lambda>r. (r, g (r_id r))) (concat (map (\<lambda>i. filter (\<lambda>r. r_id r = i) rs) is))"
  by (induction "is") auto

lemma artistReleasesSQL_eq:
  assumes wf: "wf_database (St_db st)"
  shows "artistReleasesSQL st artist_id after_id limit =
    map (\<lambda>r. artist_release_columns (r, aggregated_role st artist_id (r_id r))) (sql_limit limit (order_by r_id
      (filter (\<lambda>r. artist_on_release st artist_id r \<and> after_id < r_id r) (db_release_item (St_db st)))))"
proof -
  let ?db = "St_db st" and ?role = "aggregated_role st artist_id"
  let ?ids = "order_by (\<lambda>i. i) (sql_union (main_releases st artist_id after_id)
      (credited_releases st artist_id after_id))"
  have pushed: "sql_limit limit (order_by (\<lambda>i. i) (sql_union (sql_limit limit (main_releases st artist_id after_id))
      (sql_limit limit (credited_releases st artist_id after_id)))) = sql_limit limit ?ids"
    unfolding sql_limit_def
    by (rule limited_union [OF ascending_main_releases [OF wf]]) (simp add: credited_releases_def ascending_ids)
  have roles: "filter (\<lambda>i. artist_roles st artist_id i \<noteq> []) (sql_limit limit ?ids) = sql_limit limit ?ids"
    by (intro filter_True ballI) (use candidate_roles in \<open>auto dest!: in_sql_limit\<close>)
  have after: "filter (\<lambda>(r, role). after_id < r_id r) (map (\<lambda>r. (r, ?role (r_id r)))
      (join_releases ?db (sql_limit limit ?ids))) = map (\<lambda>r. (r, ?role (r_id r))) (join_releases ?db (sql_limit limit ?ids))"
    using candidate_roles by (intro filter_True) (fastforce simp: join_releases_def dest!: in_sql_limit)
  have mem: "i \<in> set ?ids \<longleftrightarrow> (\<exists>r \<in> set (db_release_item ?db).
      (artist_on_release st artist_id r \<and> after_id < r_id r) \<and> r_id r = i)" for i
  proof -
    have refs: "ra_release_item_id ` set (db_release_item_artist ?db) \<subseteq> r_id ` set (db_release_item ?db)"
      "ca_release_item_id ` set (db_release_item_credited_artist ?db) \<subseteq> r_id ` set (db_release_item ?db)"
      using wf by (simp_all add: wf_database_def)
    have "i \<in> set ?ids \<longleftrightarrow> i \<in> set (main_releases st artist_id after_id) \<or>
        i \<in> set (credited_releases st artist_id after_id)"
      by (simp add: sql_union_def)
    then show ?thesis
      unfolding set_main_releases set_credited_releases artist_on_release_def
        linked_ids [OF refs(1)] linked_ids [OF refs(2)] by auto
  qed
  have "order_by r_id (join_releases ?db (sql_limit limit ?ids)) = sql_limit limit (order_by r_id
      (filter (\<lambda>r. artist_on_release st artist_id r \<and> after_id < r_id r) (db_release_item ?db)))"
    by (rule join_releases_limit [OF wf ascending_sorted_union mem]) (auto simp: artist_on_release_def)
  then show ?thesis
    unfolding artistReleasesSQL_def Let_def pushed roles join_roles holds_less_Some
      join_releases_def [symmetric] after
    by (simp add: order_by_map sql_limit_def take_map o_def)
qed

interpretation artist_releases: id_pages answers_artist_releases releases_of_artist
  ArtistRelease_ID ArtistReleases
  by (rule id_pages_keyset [where k = r_id and item = artist_release_of
        and cols = "\<lambda>st q r. artist_release_columns (r, aggregated_role st q (r_id r))"
        and table = "\<lambda>st. db_release_item (St_db st)" and P = artist_on_release
        and scanner = scanArtistRelease and operation = queryArtistReleasesError
        and texts = "\<lambda>q. []"])
    (simp_all add: answers_artist_releases_def releases_of_artist_def wf_ids ArtistReleases_def
      answers_wf artistReleasesSQL_eq FetchSize_small scanArtistRelease_def artist_release_columns_def
      artist_release_of_def)

section \<open>Releases of a label\<close>

text \<open>\<open>artist JOIN release_item_artist\<close>: the artists of a release, one per relation row.\<close>

definition artists_of_release :: "Store \<Rightarrow> int \<Rightarrow> artist_row list" where
  "artists_of_release st release_id = concat (map
     (\<lambda>relation. filter (\<lambda>a. a_id a = ra_artist_id relation) (db_artist (St_db st)))
     (filter (\<lambda>relation. ra_release_item_id relation = release_id) (db_release_item_artist (St_db st))))"

definition catalog_numbers_of :: "Store \<Rightarrow> int \<Rightarrow> int \<Rightarrow> string list" where
  "catalog_numbers_of st label_id release_id =
     distinct_sorted st (map lr_category_notation
       (filter (\<lambda>l. lr_label_id l = label_id \<and> lr_release_item_id l = release_id)
         (db_label_release_item (St_db st))))"

definition formats_of :: "Store \<Rightarrow> int \<Rightarrow> string option list" where
  "formats_of st release_id = map f_description
     (filter (\<lambda>f. f_release_item_id f = release_id) (db_release_item_format (St_db st)))"

definition label_release_columns where
  "label_release_columns st label_id r =
     (r_id r, string_agg st (map a_name (artists_of_release st (r_id r))), r_title r,
      valid_part (r_has_valid_year r) extract_year (r_release_date r), r_status r,
      catalog_numbers_of st label_id (r_id r), string_agg st (formats_of st (r_id r)))"

definition labelReleasesSQL where
  "labelReleasesSQL st label_id after_id limit =
     (let matching_release = sql_limit limit (order_by (\<lambda>i. i) (remdups (map lr_release_item_id
            (filter (\<lambda>l. holds
              (sql_and (sql_eq (Some (lr_label_id l)) (Some label_id))
                       (sql_less (Some after_id) (Some (lr_release_item_id l)))))
              (db_label_release_item (St_db st))))))
      in map (label_release_columns st label_id)
           (order_by r_id (join_releases (St_db st) matching_release)))"

definition LabelReleases :: "Store \<Rightarrow> int \<Rightarrow> PageRequest \<Rightarrow> LabelRelease Page outcome" where
  "LabelReleases st ident request =
     loadPage (Size request)
       (load_items st queryLabelReleasesError []
          (labelReleasesSQL st ident (AfterID request) (FetchSize request)) scanLabelRelease)"

definition label_release_of :: "Store \<Rightarrow> int \<Rightarrow> release_row \<Rightarrow> LabelRelease" where
  "label_release_of st label_id r =
     \<lparr>LabelRelease_ID = r_id r,
      LabelRelease_Artist = string_agg st (map a_name (artists_of_release st (r_id r))),
      LabelRelease_Title = r_title r,
      LabelRelease_Year = valid_part (r_has_valid_year r) extract_year (r_release_date r),
      LabelRelease_Status = r_status r,
      LabelRelease_CatalogNumbers = Slice (catalog_numbers_of st label_id (r_id r)),
      LabelRelease_Format = string_agg st (formats_of st (r_id r))\<rparr>"

definition label_on_release :: "Store \<Rightarrow> int \<Rightarrow> release_row \<Rightarrow> bool" where
  "label_on_release st label_id r \<longleftrightarrow>
     (\<exists>l \<in> set (db_label_release_item (St_db st)). lr_release_item_id l = r_id r \<and> lr_label_id l = label_id)"

definition releases_of_label :: "Store \<Rightarrow> int \<Rightarrow> LabelRelease list" where
  "releases_of_label st label_id = map (label_release_of st label_id)
     (order_by r_id (filter (label_on_release st label_id) (db_release_item (St_db st))))"

definition answers_label_releases :: "Store \<Rightarrow> int \<Rightarrow> bool" where
  "answers_label_releases st label_id \<longleftrightarrow> answers st queryLabelReleasesError []"

lemma labelReleasesSQL_eq:
  assumes wf: "wf_database (St_db st)"
  shows "labelReleasesSQL st label_id after_id limit =
    map (label_release_columns st label_id) (sql_limit limit (order_by r_id
      (filter (\<lambda>r. label_on_release st label_id r \<and> after_id < r_id r) (db_release_item (St_db st)))))"
proof -
  let ?links = "filter (\<lambda>l. lr_label_id l = label_id \<and> after_id < lr_release_item_id l)
      (db_label_release_item (St_db st))"
  let ?ids = "order_by (\<lambda>i. i) (remdups (map lr_release_item_id ?links))"
  have asc: "ascending ?ids" by (simp add: ascending_ids)
  have refs: "lr_release_item_id ` set (db_label_release_item (St_db st)) \<subseteq> r_id ` set (db_release_item (St_db st))"
    using wf by (simp add: wf_database_def)
  have mem: "i \<in> set ?ids \<longleftrightarrow> (\<exists>r \<in> set (db_release_item (St_db st)).
      (label_on_release st label_id r \<and> after_id < r_id r) \<and> r_id r = i)" for i
    using linked_ids [OF refs, of i "\<lambda>l. lr_label_id l = label_id" after_id]
    by (simp add: label_on_release_def)
  have "order_by r_id (join_releases (St_db st) (sql_limit limit ?ids)) = sql_limit limit (order_by r_id
      (filter (\<lambda>r. label_on_release st label_id r \<and> after_id < r_id r) (db_release_item (St_db st))))"
    by (rule join_releases_limit [OF wf asc mem]) (auto simp: label_on_release_def)
  then show ?thesis
    by (simp add: labelReleasesSQL_def Let_def)
qed

interpretation label_releases: id_pages answers_label_releases releases_of_label
  LabelRelease_ID LabelReleases
  by (rule id_pages_keyset [where k = r_id and item = label_release_of
        and cols = label_release_columns and table = "\<lambda>st. db_release_item (St_db st)"
        and P = label_on_release and scanner = "\<lambda>_. scanLabelRelease"
        and operation = queryLabelReleasesError and texts = "\<lambda>q. []"])
    (simp_all add: answers_label_releases_def releases_of_label_def wf_ids LabelReleases_def
      answers_wf labelReleasesSQL_eq FetchSize_small scanLabelRelease_def label_release_columns_def
      label_release_of_def)

section \<open>Releases of a master\<close>

text \<open>
  The left joins give a release without artists one row of NULLs, which the aggregates filter out.
  The array of the names keeps the NULL name of an artist.
\<close>

definition ordered_artists :: "Store \<Rightarrow> int \<Rightarrow> artist_row list" where
  "ordered_artists st release_id = order_by a_id (artists_of_release st release_id)"

definition master_release_columns where
  "master_release_columns st r =
     (r_id r, r_title r, map a_name (ordered_artists st (r_id r)),
      map a_id (ordered_artists st (r_id r)),
      valid_part (r_has_valid_year r) extract_year (r_release_date r))"

definition masterReleasesSQL where
  "masterReleasesSQL st master_id after_id limit =
     map (master_release_columns st) (sql_limit limit (order_by r_id (filter (\<lambda>r. holds
       (sql_and (sql_eq (r_master_id r) (Some master_id))
                (sql_less (Some after_id) (Some (r_id r))))) (db_release_item (St_db st)))))"

definition MasterReleases :: "Store \<Rightarrow> int \<Rightarrow> PageRequest \<Rightarrow> MasterRelease Page outcome" where
  "MasterReleases st ident request =
     loadPage (Size request)
       (load_items st queryMasterReleasesError []
          (masterReleasesSQL st ident (AfterID request) (FetchSize request)) (scanMasterRelease st))"

definition master_release_of :: "Store \<Rightarrow> int \<Rightarrow> release_row \<Rightarrow> MasterRelease" where
  "master_release_of st master_id r =
     \<lparr>MasterRelease_ID = r_id r, MasterRelease_Title = r_title r,
      MasterRelease_Artists = Slice (List.map_filter a_name (ordered_artists st (r_id r))),
      MasterRelease_ArtistIDs = Slice (map a_id (ordered_artists st (r_id r))),
      MasterRelease_Year = valid_part (r_has_valid_year r) extract_year (r_release_date r),
      MasterRelease_ResourceURL = release_url st (r_id r)\<rparr>"

definition release_of_master :: "Store \<Rightarrow> int \<Rightarrow> release_row \<Rightarrow> bool" where
  "release_of_master st master_id r \<longleftrightarrow> r_master_id r = Some master_id"

definition releases_of_master :: "Store \<Rightarrow> int \<Rightarrow> MasterRelease list" where
  "releases_of_master st master_id = map (master_release_of st master_id)
     (order_by r_id (filter (release_of_master st master_id) (db_release_item (St_db st))))"

text \<open>The listing needs a name for every artist of the releases.\<close>

definition named_artists :: "Store \<Rightarrow> release_row \<Rightarrow> bool" where
  "named_artists st r \<longleftrightarrow> (\<forall>a \<in> set (ordered_artists st (r_id r)). a_name a \<noteq> None)"

definition answers_master_releases :: "Store \<Rightarrow> int \<Rightarrow> bool" where
  "answers_master_releases st master_id \<longleftrightarrow> answers st queryMasterReleasesError []
     \<and> (\<forall>r \<in> set (db_release_item (St_db st)). r_master_id r = Some master_id \<longrightarrow> named_artists st r)"

lemma scan_strings_named:
  "(\<forall>a \<in> set as. f a \<noteq> None) \<Longrightarrow> scan_strings (map f as) = Ok (List.map_filter f as)"
  by (induction "as") (auto simp: List.map_filter_simps)

lemma scan_strings_unnamed:
  "\<exists>a \<in> set as. f a = None \<Longrightarrow>
   scan_strings (map f as) = Fail (ErrorText ''cannot scan NULL into *string'')"
proof (induction "as")
  case (Cons a "as")
  then show ?case by (cases "f a") auto
qed simp

interpretation master_releases: id_pages answers_master_releases releases_of_master
  MasterRelease_ID MasterReleases
  by (rule id_pages_keyset [where k = r_id and item = master_release_of
        and cols = "\<lambda>st q. master_release_columns st" and table = "\<lambda>st. db_release_item (St_db st)"
        and P = release_of_master and scanner = scanMasterRelease
        and operation = queryMasterReleasesError and texts = "\<lambda>q. []"])
    (simp_all add: answers_master_releases_def releases_of_master_def wf_ids MasterReleases_def
      masterReleasesSQL_def holds_eq_Some release_of_master_def named_artists_def FetchSize_small
      scanMasterRelease_def master_release_columns_def master_release_of_def scan_strings_named)

text \<open>Without it the listing fails as soon as such a release is among the rows of the page.\<close>

lemma scan_all_stops:
  assumes "\<And>x. scanner (cols x) = (if P x then Ok (item x) else Fail e)" "\<exists>x \<in> set xs. \<not> P x"
  shows "scan_all scanner (map cols xs) = Fail e"
  using assms(2) by (induction xs) (auto simp: assms(1))

lemma MasterReleases_unnamed:
  assumes "answers st queryMasterReleasesError []" "1 \<le> Size p" "Size p < 2 ^ 62"
    and "r \<in> set (sql_limit (Size p + 1) (order_by r_id (filter (\<lambda>r. r_master_id r = Some master_id
        \<and> AfterID p < r_id r) (db_release_item (St_db st)))))" "\<not> named_artists st r"
  shows "MasterReleases st master_id p =
    Fail (Wrapped queryMasterReleasesError (ErrorText ''cannot scan NULL into *string''))"
proof -
  let ?rows = "sql_limit (Size p + 1) (order_by r_id (filter (\<lambda>r. r_master_id r = Some master_id
        \<and> AfterID p < r_id r) (db_release_item (St_db st))))"
  let ?e = "ErrorText ''cannot scan NULL into *string''"
  have scan: "scanMasterRelease st (master_release_columns st r) =
      (if named_artists st r then Ok (master_release_of st master_id r) else Fail ?e)" for r
    by (auto simp: scanMasterRelease_def master_release_columns_def named_artists_def
        scan_strings_named scan_strings_unnamed master_release_of_def)
  have "scan_all (scanMasterRelease st) (map (master_release_columns st) ?rows) = Fail ?e"
    by (rule scan_all_stops [where P = "named_artists st" and item = "master_release_of st master_id"])
      (rule scan, use assms(4,5) in blast)
  then show ?thesis
    using assms(1-3)
    by (simp add: MasterReleases_def masterReleasesSQL_def holds_eq_Some FetchSize_small loadPage_def
        load_items_answers collectRows_def)
qed

end
