(* ===== verification/Json.thy ===== *)
theory Json
  imports Go_Strconv
begin

text \<open>
  What the program uses of \<open>encoding/json\<close> to write a response: an encoder with HTML escaping off
  that appends a line feed. Struct fields keep their declaration order, a nil pointer or nil slice is
  \<open>null\<close>, and a string is escaped so that the output is valid UTF-8 whatever the bytes of the string
  are.
\<close>

datatype json =
    JNull
  | JBool bool
  | JInt int
  | JString string
  | JArray "json list"
  | JObject "(string \<times> json) list"

section \<open>Strings\<close>

definition hex_digit :: "nat \<Rightarrow> char" where
  "hex_digit n = (if n < 10 then char_of (48 + n) else char_of (97 + (n - 10)))"

definition dquote :: char where "dquote = CHR 0x22"
definition backslash :: char where "backslash = CHR 0x5C"

definition escape_ascii :: "char \<Rightarrow> string" where
  "escape_ascii c =
     (if c = dquote \<or> c = backslash then [backslash, c]
      else if 0x20 \<le> byte c then [c]
      else if byte c = 8 then [backslash, CHR ''b'']
      else if byte c = 12 then [backslash, CHR ''f'']
      else if byte c = 10 then [backslash, CHR ''n'']
      else if byte c = 13 then [backslash, CHR ''r'']
      else if byte c = 9 then [backslash, CHR ''t'']
      else [backslash, CHR ''u'', CHR ''0'', CHR ''0'',
            hex_digit (byte c div 16), hex_digit (byte c mod 16)])"

definition escape_rune :: "nat \<Rightarrow> string \<Rightarrow> string" where
  "escape_rune r raw =
     (if r = 0x2028 \<or> r = 0x2029
      then [backslash, CHR ''u'', CHR ''2'', CHR ''0'', CHR ''2'', hex_digit (r mod 16)] else raw)"

function escape_string :: "string \<Rightarrow> string" where
  "escape_string [] = []"
| "escape_string (c # cs) =
     (if byte c < 0x80 then escape_ascii c @ escape_string cs
      else if decode_rune (c # cs) = (RuneError, 1)
      then [backslash] @ ''ufffd'' @ escape_string cs
      else escape_rune (fst (decode_rune (c # cs))) (take (snd (decode_rune (c # cs))) (c # cs))
             @ escape_string (drop (snd (decode_rune (c # cs))) (c # cs)))"
  by pat_completeness auto
termination
proof (relation "measure length", goal_cases)
  case (4 c cs)
  then show ?case using decode_rune_size_pos [of "c # cs"] by (auto simp: drop_Cons')
qed auto

declare escape_string.simps(2) [simp del]

definition json_string :: "string \<Rightarrow> string" where
  "json_string s = [dquote] @ escape_string s @ [dquote]"

section \<open>Values\<close>

fun json_encode :: "json \<Rightarrow> string"
  and json_members :: "(string \<times> json) list \<Rightarrow> string list"
  and json_elements :: "json list \<Rightarrow> string list" where
  "json_encode JNull = ''null''"
| "json_encode (JBool b) = (if b then ''true'' else ''false'')"
| "json_encode (JInt i) = FormatInt i"
| "json_encode (JString s) = json_string s"
| "json_encode (JArray vs) = ''['' @ join_with '','' (json_elements vs) @ '']''"
| "json_encode (JObject ms) = ''{'' @ join_with '','' (json_members ms) @ ''}''"
| "json_members [] = []"
| "json_members ((k, v) # ms) = (json_string k @ '':'' @ json_encode v) # json_members ms"
| "json_elements [] = []"
| "json_elements (v # vs) = json_encode v # json_elements vs"

text \<open>\<open>Encoder.Encode\<close>: the value and a line feed.\<close>

definition Encode :: "json \<Rightarrow> string" where
  "Encode v = json_encode v @ [CHR 0x0A]"

definition json_opt :: "('a \<Rightarrow> json) \<Rightarrow> 'a option \<Rightarrow> json" where
  "json_opt f x = (case x of None \<Rightarrow> JNull | Some y \<Rightarrow> f y)"

definition json_slice :: "('a \<Rightarrow> json) \<Rightarrow> 'a slice \<Rightarrow> json" where
  "json_slice f s = (case s of NilSlice \<Rightarrow> JNull | Slice xs \<Rightarrow> JArray (map f xs))"

abbreviation json_text :: "string option \<Rightarrow> json" where
  "json_text \<equiv> json_opt JString"

abbreviation json_number :: "int option \<Rightarrow> json" where
  "json_number \<equiv> json_opt JInt"

section \<open>The output is valid UTF-8\<close>

lemma ValidString_ascii_Cons: "byte c < 0x80 \<Longrightarrow> ValidString (c # s) \<longleftrightarrow> ValidString s"
  using ValidString_rune_append [of "[c]" s] by (simp add: is_rune_def RuneError_def)

lemma ValidString_append: "ValidString s \<Longrightarrow> ValidString t \<Longrightarrow> ValidString (s @ t)"
proof (induction s rule: length_induct)
  case (1 s)
  show ?case
  proof (cases "s = []")
    case False
    with "1.prems"(1) obtain r s' where s: "s = r @ s'" "is_rune r" "ValidString s'"
      using valid_split_first by metis
    moreover have "length s' < length s" using s by (auto simp: is_rune_def)
    ultimately have "ValidString (s' @ t)" using "1.IH" "1.prems"(2) by blast
    with s show ?thesis by (simp add: ValidString_rune_append)
  qed (use "1.prems" in simp)
qed

definition ascii :: "string \<Rightarrow> bool" where
  "ascii s \<longleftrightarrow> (\<forall>c \<in> set s. byte c < 0x80)"

lemma ValidString_ascii: "ascii s \<Longrightarrow> ValidString s"
  by (induction s) (simp_all add: ascii_def ValidString_ascii_Cons)

lemma byte_hex_digit: "n < 16 \<Longrightarrow> byte (hex_digit n) < 0x80"
  by (simp add: hex_digit_def)

lemma escape_ascii_ascii:
  assumes "byte c < 0x80"
  shows "ascii (escape_ascii c)"
proof -
  have "byte c div 16 < 16" "byte c mod 16 < 16" using assms by simp_all
  note hex = this [THEN byte_hex_digit]
  have "byte backslash < 128" by (simp add: backslash_def byte_def)
  with assms hex show ?thesis
    by (auto simp: escape_ascii_def ascii_def byte_def)
qed

lemma escape_rune_valid: "ValidString raw \<Longrightarrow> ValidString (escape_rune r raw)"
proof -
  have "byte backslash < 128" by (simp add: backslash_def byte_def)
  moreover have "byte (hex_digit (r mod 16)) < 128" by (rule byte_hex_digit) simp
  ultimately have "ascii [backslash, CHR ''u'', CHR ''2'', CHR ''0'', CHR ''2'', hex_digit (r mod 16)]"
    by (simp add: ascii_def) (simp add: byte_def)
  then show "ValidString raw \<Longrightarrow> ValidString (escape_rune r raw)"
    by (simp add: escape_rune_def ValidString_ascii)
qed

lemma ValidString_escape_string: "ValidString (escape_string s)"
proof (induction s rule: escape_string.induct)
  case (2 c cs)
  show ?case
  proof (cases "byte c < 0x80")
    case True
    with 2 show ?thesis
      by (simp add: escape_string.simps(2) ValidString_append ValidString_ascii escape_ascii_ascii)
  next
    case multi: False
    show ?thesis
    proof (cases "decode_rune (c # cs) = (RuneError, 1)")
      case True
      have "ascii ([backslash] @ ''ufffd'')" by (simp add: ascii_def backslash_def byte_def)
      with multi True "2.IH" show ?thesis
        using ValidString_append [OF ValidString_ascii, of "[backslash] @ ''ufffd''"]
        by (simp add: escape_string.simps(2))
    next
      case False
      then have "is_rune (take (snd (decode_rune (c # cs))) (c # cs))"
        by (simp add: decode_rune_take_self del: decode_rune.simps)
      from ValidString_rune_append [OF this, of "[]"]
      have "ValidString (take (snd (decode_rune (c # cs))) (c # cs))" by simp
      with multi False "2.IH" show ?thesis
        by (simp add: escape_string.simps(2) ValidString_append escape_rune_valid
            del: decode_rune.simps)
    qed
  qed
qed simp

lemma ValidString_json_string: "ValidString (json_string s)"
proof -
  have "ascii [dquote]" by (simp add: ascii_def dquote_def byte_def)
  from ValidString_ascii [OF this] show ?thesis
    unfolding json_string_def by (intro ValidString_append ValidString_escape_string)
qed

lemma ascii_FormatInt: "ascii (FormatInt i)"
  using FormatInt_printable [of i] by (auto simp: ascii_def list_all_iff printable_def)

lemma ValidString_join_with:
  "ascii sep \<Longrightarrow> \<forall>x \<in> set xs. ValidString x \<Longrightarrow> ValidString (join_with sep xs)"
  by (induction sep xs rule: join_with.induct) (simp_all add: ValidString_append ValidString_ascii)

lemma ascii_literals:
  "ascii ''null''" "ascii ''true''" "ascii ''false''" "ascii '',''" "ascii ''[''" "ascii '']''"
  "ascii ''{''" "ascii ''}''" "ascii '':''" "ascii [CHR 0x0A]"
  by (simp_all add: ascii_def byte_def)

lemmas valid_literals = ascii_literals [THEN ValidString_ascii]

lemma ValidString_json_parts:
  "ValidString (json_encode v)"
  "\<forall>x \<in> set (json_members ms). ValidString x"
  "\<forall>x \<in> set (json_elements vs). ValidString x"
proof (induction v and ms and vs rule: json_encode_json_members_json_elements.induct)
  case (5 vs)
  then have "ValidString (join_with '','' (json_elements vs))"
    by (intro ValidString_join_with ascii_literals)
  then have "ValidString (''['' @ join_with '','' (json_elements vs) @ '']'')"
    by (intro ValidString_append valid_literals)
  then show ?case by simp
next
  case (6 ms)
  then have "ValidString (join_with '','' (json_members ms))"
    by (intro ValidString_join_with ascii_literals)
  then have "ValidString (''{'' @ join_with '','' (json_members ms) @ ''}'')"
    by (intro ValidString_append valid_literals)
  then show ?case by simp
next
  case (8 k v ms)
  then have "ValidString (json_string k @ '':'' @ json_encode v)"
    by (intro ValidString_append ValidString_json_string valid_literals) auto
  with 8 show ?case by simp
qed (auto simp: ValidString_json_string valid_literals intro: ValidString_ascii ascii_FormatInt)

lemma ValidString_Encode: "ValidString (Encode v)"
  unfolding Encode_def
  by (intro ValidString_append ValidString_json_parts valid_literals)

end
