(* ===== verification/Details.thy ===== *)
theory Details
  imports Related Json
begin

text \<open>
  \<open>internal/postgres/details.go\<close> and \<open>internal/postgres/details_decode.go\<close>: one resource with its
  collections. The query returns the collections as JSON, built in SQL with \<open>jsonb_agg\<close> and
  \<open>jsonb_build_object\<close>, and the store decodes them into the structs. The model keeps the JSON value and
  leaves out its text form. A \<open>jsonb_agg\<close> without \<open>ORDER BY\<close> lists its rows in the order of the table.
\<close>

section \<open>Decoding\<close>

text \<open>
  \<open>json.Unmarshal\<close> into the types of the structs: \<open>null\<close> leaves the zero value, a value of another kind
  is an error. The target is not looked at after an error, so the result is a value or an error.
\<close>

definition type_error :: "'a outcome" where
  "type_error = Fail (ErrorText ''json: cannot unmarshal value into Go value'')"

definition unmarshal_int :: "json \<Rightarrow> int outcome" where
  "unmarshal_int j =
     (case j of JNull \<Rightarrow> Ok 0
      | JInt i \<Rightarrow> if - (2 ^ 63) \<le> i \<and> i < 2 ^ 63 then Ok i else type_error
      | _ \<Rightarrow> type_error)"

definition unmarshal_string :: "json \<Rightarrow> string outcome" where
  "unmarshal_string j = (case j of JNull \<Rightarrow> Ok [] | JString s \<Rightarrow> Ok s | _ \<Rightarrow> type_error)"

definition unmarshal_text :: "json \<Rightarrow> string option outcome" where
  "unmarshal_text j = (case j of JNull \<Rightarrow> Ok None | JString s \<Rightarrow> Ok (Some s) | _ \<Rightarrow> type_error)"

fun unmarshal_list :: "(json \<Rightarrow> 'a outcome) \<Rightarrow> json list \<Rightarrow> 'a list outcome" where
  "unmarshal_list f [] = Ok []"
| "unmarshal_list f (j # js) =
     outcome_bind (f j) (\<lambda>x. outcome_bind (unmarshal_list f js) (\<lambda>xs. Ok (x # xs)))"

definition unmarshal_slice :: "(json \<Rightarrow> 'a outcome) \<Rightarrow> json \<Rightarrow> 'a slice outcome" where
  "unmarshal_slice f j =
     (case j of JNull \<Rightarrow> Ok NilSlice
      | JArray js \<Rightarrow> outcome_bind (unmarshal_list f js) (\<lambda>xs. Ok (Slice xs))
      | _ \<Rightarrow> type_error)"

definition member :: "(string \<times> json) list \<Rightarrow> string \<Rightarrow> json" where
  "member ms k = (case map_of ms k of None \<Rightarrow> JNull | Some j \<Rightarrow> j)"

text \<open>A JSON object as a struct; \<open>null\<close> is the struct of zero values, as for an object without members.\<close>

definition unmarshal_struct :: "((string \<times> json) list \<Rightarrow> 'a outcome) \<Rightarrow> json \<Rightarrow> 'a outcome" where
  "unmarshal_struct f j = (case j of JObject ms \<Rightarrow> f ms | JNull \<Rightarrow> f [] | _ \<Rightarrow> type_error)"

definition unmarshal_ArtistReference :: "json \<Rightarrow> ArtistReference outcome" where
  "unmarshal_ArtistReference = unmarshal_struct (\<lambda>ms.
     outcome_bind (unmarshal_int (member ms ''id'')) (\<lambda>i.
     outcome_bind (unmarshal_text (member ms ''name'')) (\<lambda>n.
     outcome_bind (unmarshal_string (member ms ''resource_url'')) (\<lambda>u.
       Ok \<lparr>ArtistRef_ID = i, ArtistRef_Name = n, ArtistRef_ResourceURL = u\<rparr>))))"

definition unmarshal_LabelReference :: "json \<Rightarrow> LabelReference outcome" where
  "unmarshal_LabelReference = unmarshal_struct (\<lambda>ms.
     outcome_bind (unmarshal_int (member ms ''id'')) (\<lambda>i.
     outcome_bind (unmarshal_text (member ms ''name'')) (\<lambda>n.
     outcome_bind (unmarshal_string (member ms ''resource_url'')) (\<lambda>u.
       Ok \<lparr>LabelRef_ID = i, LabelRef_Name = n, LabelRef_ResourceURL = u\<rparr>))))"

definition unmarshal_MasterVideo :: "json \<Rightarrow> MasterVideo outcome" where
  "unmarshal_MasterVideo = unmarshal_struct (\<lambda>ms.
     outcome_bind (unmarshal_text (member ms ''url'')) (\<lambda>u.
     outcome_bind (unmarshal_text (member ms ''description'')) (\<lambda>d.
     outcome_bind (unmarshal_text (member ms ''title'')) (\<lambda>t.
       Ok \<lparr>MasterVideo_URL = u, MasterVideo_Description = d, MasterVideo_Title = t\<rparr>))))"

definition unmarshal_ReleaseArtist :: "json \<Rightarrow> ReleaseArtist outcome" where
  "unmarshal_ReleaseArtist = unmarshal_struct (\<lambda>ms.
     outcome_bind (unmarshal_int (member ms ''id'')) (\<lambda>i.
     outcome_bind (unmarshal_text (member ms ''name'')) (\<lambda>n.
     outcome_bind (unmarshal_text (member ms ''role'')) (\<lambda>r.
     outcome_bind (unmarshal_string (member ms ''resource_url'')) (\<lambda>u.
       Ok \<lparr>ReleaseArtist_ID = i, ReleaseArtist_Name = n, ReleaseArtist_Role = r,
           ReleaseArtist_ResourceURL = u\<rparr>)))))"

definition unmarshal_ReleaseLabel :: "json \<Rightarrow> ReleaseLabel outcome" where
  "unmarshal_ReleaseLabel = unmarshal_struct (\<lambda>ms.
     outcome_bind (unmarshal_int (member ms ''id'')) (\<lambda>i.
     outcome_bind (unmarshal_text (member ms ''name'')) (\<lambda>n.
     outcome_bind (unmarshal_text (member ms ''catno'')) (\<lambda>c.
     outcome_bind (unmarshal_string (member ms ''resource_url'')) (\<lambda>u.
       Ok \<lparr>ReleaseLabel_ID = i, ReleaseLabel_Name = n, ReleaseLabel_CategoryNotation = c,
           ReleaseLabel_ResourceURL = u\<rparr>)))))"

definition unmarshal_ReleaseFormat :: "json \<Rightarrow> ReleaseFormat outcome" where
  "unmarshal_ReleaseFormat = unmarshal_struct (\<lambda>ms.
     outcome_bind (unmarshal_text (member ms ''name'')) (\<lambda>n.
     outcome_bind (unmarshal_text (member ms ''qty'')) (\<lambda>q.
     outcome_bind (unmarshal_slice unmarshal_string (member ms ''descriptions'')) (\<lambda>d.
       Ok \<lparr>ReleaseFormat_Name = n, ReleaseFormat_Quantity = q, ReleaseFormat_Descriptions = d\<rparr>))))"

definition unmarshal_ReleaseVideo :: "json \<Rightarrow> ReleaseVideo outcome" where
  "unmarshal_ReleaseVideo = unmarshal_struct (\<lambda>ms.
     outcome_bind (unmarshal_text (member ms ''title'')) (\<lambda>t.
     outcome_bind (unmarshal_text (member ms ''url'')) (\<lambda>u.
     outcome_bind (unmarshal_text (member ms ''description'')) (\<lambda>d.
       Ok \<lparr>ReleaseVideo_Title = t, ReleaseVideo_URL = u, ReleaseVideo_Description = d\<rparr>))))"

section \<open>Results of several decodings\<close>

text \<open>\<open>errors.Join\<close> drops the nil errors and is nil when nothing is left; \<open>decodeError\<close> wraps the rest.\<close>

definition error_of :: "'a outcome \<Rightarrow> go_error option" where
  "error_of r = (case r of Fail e \<Rightarrow> Some e | _ \<Rightarrow> None)"

definition errors_Join :: "go_error option list \<Rightarrow> go_error option" where
  "errors_Join es = (case List.map_filter (\<lambda>e. e) es of [] \<Rightarrow> None | e # es' \<Rightarrow> Some (Joined (e # es')))"

definition decodeError :: "string \<Rightarrow> go_error option \<Rightarrow> go_error option" where
  "decodeError operation err = map_option (Wrapped operation) err"

text \<open>The value a decoding left in its field; only read when no decoding failed.\<close>

definition decoded :: "'a slice outcome \<Rightarrow> 'a slice" where
  "decoded r = (case r of Ok x \<Rightarrow> x | _ \<Rightarrow> NilSlice)"

lemma errors_Join_None [simp]: "errors_Join [] = None" "errors_Join (None # es) = errors_Join es"
  by (simp_all add: errors_Join_def List.map_filter_simps)

section \<open>Artist\<close>

definition decodeArtistDetailError :: string where "decodeArtistDetailError = ''decode artist detail''"
definition decodeLabelDetailError :: string where "decodeLabelDetailError = ''decode label detail''"
definition decodeMasterDetailError :: string where "decodeMasterDetailError = ''decode master detail''"
definition decodeReleaseDetailError :: string where "decodeReleaseDetailError = ''decode release detail''"

record artistDetailPayload =
  adp_members :: json
  adp_groups :: json
  adp_aliases :: json
  adp_variations :: json
  adp_urls :: json

definition artistDetailResult :: "ArtistDetail \<Rightarrow> artistDetailPayload \<Rightarrow> ArtistDetail outcome" where
  "artistDetailResult detail payload =
     (let members = unmarshal_slice unmarshal_ArtistReference (adp_members payload);
          groups = unmarshal_slice unmarshal_ArtistReference (adp_groups payload);
          aliases = unmarshal_slice unmarshal_ArtistReference (adp_aliases payload);
          variations = unmarshal_slice unmarshal_string (adp_variations payload);
          urls = unmarshal_slice unmarshal_string (adp_urls payload)
      in case decodeError decodeArtistDetailError
                (errors_Join [error_of members, error_of groups, error_of aliases,
                              error_of variations, error_of urls]) of
           Some e \<Rightarrow> Fail e
         | None \<Rightarrow> Ok (detail\<lparr>Artist_Members := decoded members, Artist_Groups := decoded groups,
             Artist_Aliases := decoded aliases, Artist_NameVariations := decoded variations,
             Artist_URLs := decoded urls\<rparr>))"

definition artist_url :: "Store \<Rightarrow> int \<Rightarrow> string" where
  "artist_url st ident = St_serverURL st @ ''/artists/'' @ FormatInt ident"

definition label_url :: "Store \<Rightarrow> int \<Rightarrow> string" where
  "label_url st ident = St_serverURL st @ ''/labels/'' @ FormatInt ident"

text \<open>\<open>jsonb_build_object('id', ..., 'name', ..., 'resource_url', $2 || '/artists/' || related.id)\<close>.\<close>

definition artist_reference_json :: "Store \<Rightarrow> artist_row \<Rightarrow> json" where
  "artist_reference_json st a =
     JObject [(''id'', JInt (a_id a)), (''name'', json_text (a_name a)),
              (''resource_url'', JString (artist_url st (a_id a)))]"

text \<open>\<open>FROM relation JOIN artist related ON related.id = relation.x WHERE relation.owner = i\<close>.\<close>

definition related_artists :: "Store \<Rightarrow> (int \<times> int) list \<Rightarrow> int \<Rightarrow> artist_row list" where
  "related_artists st relation owner = concat (map
     (\<lambda>(_, i). filter (\<lambda>a. a_id a = i) (db_artist (St_db st)))
     (filter (\<lambda>(o', _). o' = owner) relation))"

text \<open>\<open>COALESCE((SELECT jsonb_agg(t.column) FROM t WHERE t.owner = i), '[]'::jsonb)\<close>.\<close>

definition text_values :: "(int \<times> string option) list \<Rightarrow> int \<Rightarrow> string option list" where
  "text_values table owner = map snd (filter (\<lambda>(o', _). o' = owner) table)"

definition text_values_json :: "(int \<times> string option) list \<Rightarrow> int \<Rightarrow> json" where
  "text_values_json table owner = JArray (map json_text (text_values table owner))"

definition artistDetailSQL where
  "artistDetailSQL st ident =
     map (\<lambda>a. (artist_columns a,
        \<lparr>adp_members = JArray (map (artist_reference_json st) (related_artists st (db_artist_member (St_db st)) (a_id a))),
         adp_groups = JArray (map (artist_reference_json st) (related_artists st (db_artist_group (St_db st)) (a_id a))),
         adp_aliases = JArray (map (artist_reference_json st) (related_artists st (db_artist_alias (St_db st)) (a_id a))),
         adp_variations = text_values_json (db_artist_name_variation (St_db st)) (a_id a),
         adp_urls = text_values_json (db_artist_url (St_db st)) (a_id a)\<rparr>))
       (filter (\<lambda>a. holds (sql_eq (Some (a_id a)) (Some ident))) (db_artist (St_db st)))"

text \<open>The operation names of the detail queries serve to tell their faults apart; the source has none.\<close>

definition queryArtist :: string where "queryArtist = ''artist''"
definition queryLabel :: string where "queryLabel = ''label''"
definition queryMaster :: string where "queryMaster = ''master''"
definition queryRelease :: string where "queryRelease = ''release''"

definition Artist :: "Store \<Rightarrow> int \<Rightarrow> ArtistDetail outcome" where
  "Artist st ident =
     (case QueryRow st queryArtist [Some (St_serverURL st)] (artistDetailSQL st ident) of
        Fail e \<Rightarrow> Fail (notFound e)
      | Panic m \<Rightarrow> Panic m
      | Ok ((i, name, real_name, profile, data_quality), payload) \<Rightarrow>
          (let uri = artist_url st ident in
           artistDetailResult
             \<lparr>Artist_ID = i, Artist_Name = name, Artist_RealName = real_name, Artist_Profile = profile,
              Artist_DataQuality = data_quality, Artist_Members = NilSlice, Artist_Groups = NilSlice,
              Artist_Aliases = NilSlice, Artist_NameVariations = NilSlice, Artist_URLs = NilSlice,
              Artist_URI = uri, Artist_ReleaseURL = uri @ ''/releases''\<rparr> payload))"

text \<open>What the detail promises.\<close>

definition artist_reference :: "Store \<Rightarrow> artist_row \<Rightarrow> ArtistReference" where
  "artist_reference st a = \<lparr>ArtistRef_ID = a_id a, ArtistRef_Name = a_name a,
     ArtistRef_ResourceURL = artist_url st (a_id a)\<rparr>"

definition text_or_empty :: "string option \<Rightarrow> string" where
  "text_or_empty t = (case t of None \<Rightarrow> [] | Some s \<Rightarrow> s)"

definition artist_detail :: "Store \<Rightarrow> artist_row \<Rightarrow> ArtistDetail" where
  "artist_detail st a =
     (let refs = (\<lambda>relation. Slice (map (artist_reference st) (related_artists st relation (a_id a))));
          texts = (\<lambda>table. Slice (map text_or_empty (text_values table (a_id a))))
      in \<lparr>Artist_ID = a_id a, Artist_Name = a_name a, Artist_RealName = a_real_name a,
          Artist_Profile = a_profile a, Artist_DataQuality = a_data_quality a,
          Artist_Members = refs (db_artist_member (St_db st)),
          Artist_Groups = refs (db_artist_group (St_db st)),
          Artist_Aliases = refs (db_artist_alias (St_db st)),
          Artist_NameVariations = texts (db_artist_name_variation (St_db st)),
          Artist_URLs = texts (db_artist_url (St_db st)),
          Artist_URI = artist_url st (a_id a),
          Artist_ReleaseURL = artist_url st (a_id a) @ ''/releases''\<rparr>)"

lemma unmarshal_list_map:
  "(\<And>x. x \<in> set xs \<Longrightarrow> f (g x) = Ok (h x)) \<Longrightarrow> unmarshal_list f (map g xs) = Ok (map h xs)"
  by (induction xs) auto

lemma unmarshal_slice_map:
  "(\<And>x. x \<in> set xs \<Longrightarrow> f (g x) = Ok (h x)) \<Longrightarrow>
   unmarshal_slice f (JArray (map g xs)) = Ok (Slice (map h xs))"
  by (simp add: unmarshal_slice_def unmarshal_list_map)

lemma unmarshal_text_json [simp]: "unmarshal_text (json_text t) = Ok t"
  by (cases t) (simp_all add: unmarshal_text_def json_opt_def)

lemma unmarshal_string_json [simp]:
  "unmarshal_string (json_text t) = Ok (text_or_empty t)" "unmarshal_string (JString s) = Ok s"
  by (cases t) (simp_all add: unmarshal_string_def json_opt_def text_or_empty_def)

lemma unmarshal_int_json: "1 \<le> i \<Longrightarrow> i < 2 ^ 31 \<Longrightarrow> unmarshal_int (JInt i) = Ok i"
  by (simp add: unmarshal_int_def)

lemma unmarshal_text_values:
  "unmarshal_slice unmarshal_string (text_values_json table i) =
   Ok (Slice (map text_or_empty (text_values table i)))"
  unfolding text_values_json_def by (rule unmarshal_slice_map) simp

lemma member_simps [simp]:
  "member ((k, j) # ms) k = j" "k \<noteq> k' \<Longrightarrow> member ((k, j) # ms) k' = member ms k'"
  by (simp_all add: member_def)

text \<open>\<open>id_row\<close>: rows of a table whose key is a resource identifier.\<close>

lemma resource_id_of:
  "resource_ids (map k xs) \<Longrightarrow> x \<in> set xs \<Longrightarrow> 1 \<le> k x \<and> k x < 2 ^ 31"
  by (auto simp: resource_ids_def)

lemma unmarshal_artist_reference:
  assumes "wf_database (St_db st)" "a \<in> set (db_artist (St_db st))"
  shows "unmarshal_ArtistReference (artist_reference_json st a) = Ok (artist_reference st a)"
  using resource_id_of [OF wf_ids(1) [OF assms(1)] assms(2)]
  by (simp add: unmarshal_ArtistReference_def unmarshal_struct_def artist_reference_json_def
      artist_reference_def unmarshal_int_json)

lemma unmarshal_related_artists:
  assumes "wf_database (St_db st)"
  shows "unmarshal_slice unmarshal_ArtistReference
      (JArray (map (artist_reference_json st) (related_artists st relation i))) =
    Ok (Slice (map (artist_reference st) (related_artists st relation i)))"
  by (rule unmarshal_slice_map)
    (auto simp: related_artists_def intro: unmarshal_artist_reference [OF assms])

lemma QueryRow_answers:
  "answers st operation texts \<Longrightarrow>
   QueryRow st operation texts rows = (case rows of [] \<Rightarrow> Fail ErrNoRows | r # _ \<Rightarrow> Ok r)"
  by (simp add: QueryRow_def pool_Query_def answers_def)

lemma filter_id:
  assumes "resource_ids (map k xs)" "x \<in> set xs" "k x = i"
  shows "filter (\<lambda>y. k y = i) xs = [x]"
  using assms filter_key_unique [of k xs x] by (auto simp: resource_ids_def)

lemma filter_no_id:
  "i \<notin> k ` set xs \<Longrightarrow> filter (\<lambda>y. k y = i) xs = []"
  by (auto simp: filter_empty_conv)

definition answers_detail :: "Store \<Rightarrow> string \<Rightarrow> bool" where
  "answers_detail st operation \<longleftrightarrow> answers st operation [Some (St_serverURL st)]"

lemma Artist_found:
  assumes "answers_detail st queryArtist" "a \<in> set (db_artist (St_db st))"
  shows "Artist st (a_id a) = Ok (artist_detail st a)"
proof -
  have wf: "wf_database (St_db st)" using assms(1) by (simp add: answers_detail_def answers_wf)
  show ?thesis
    using assms filter_id [OF wf_ids(1) [OF wf] assms(2) refl]
    by (simp add: Artist_def answers_detail_def QueryRow_answers artistDetailSQL_def artist_columns_def
        artistDetailResult_def unmarshal_related_artists [OF wf] unmarshal_text_values Let_def
        error_of_def decoded_def decodeError_def artist_detail_def)
qed

lemma Artist_not_found:
  assumes "answers_detail st queryArtist" "i \<notin> a_id ` set (db_artist (St_db st))"
  shows "Artist st i = Fail ErrNotFound"
  using assms
  by (simp add: Artist_def answers_detail_def QueryRow_answers artistDetailSQL_def filter_no_id
      notFound_def)

section \<open>Label\<close>

record labelDetailPayload =
  ldp_parent :: "json option"
  ldp_sublabels :: json
  ldp_urls :: json

text \<open>
  The parent column is NULL (no bytes) for a label without a parent; otherwise it is decoded into a
  fresh reference.
\<close>

definition decode_parent :: "json option \<Rightarrow> LabelReference option outcome" where
  "decode_parent parent =
     (case parent of
        None \<Rightarrow> Ok None
      | Some j \<Rightarrow> if j = JNull then Ok None
                 else outcome_bind (unmarshal_LabelReference j) (\<lambda>r. Ok (Some r)))"

definition labelDetailResult :: "LabelDetail \<Rightarrow> labelDetailPayload \<Rightarrow> LabelDetail outcome" where
  "labelDetailResult detail payload =
     (let parent = decode_parent (ldp_parent payload);
          sublabels = unmarshal_slice unmarshal_LabelReference (ldp_sublabels payload);
          urls = unmarshal_slice unmarshal_string (ldp_urls payload)
      in case decodeError decodeLabelDetailError
                (errors_Join [error_of parent, error_of sublabels, error_of urls]) of
           Some e \<Rightarrow> Fail e
         | None \<Rightarrow> Ok (detail\<lparr>Label_Parent := (case parent of Ok p \<Rightarrow> p | _ \<Rightarrow> None),
             Label_Sublabels := decoded sublabels, Label_URLs := decoded urls\<rparr>))"

definition label_reference_json :: "Store \<Rightarrow> label_row \<Rightarrow> json" where
  "label_reference_json st l =
     JObject [(''id'', JInt (l_id l)), (''name'', json_text (l_name l)),
              (''resource_url'', JString (label_url st (l_id l)))]"

text \<open>The labels above and below a label; \<open>label_sub_label\<close> is \<open>(parent_label_id, sub_label_id)\<close>.\<close>

definition parent_labels :: "Store \<Rightarrow> int \<Rightarrow> label_row list" where
  "parent_labels st ident = order_by l_id (concat (map
     (\<lambda>(p, _). filter (\<lambda>l. l_id l = p) (db_label (St_db st)))
     (filter (\<lambda>(_, c). c = ident) (db_label_sub_label (St_db st)))))"

definition sub_labels :: "Store \<Rightarrow> int \<Rightarrow> label_row list" where
  "sub_labels st ident = concat (map
     (\<lambda>(_, c). filter (\<lambda>l. l_id l = c) (db_label (St_db st)))
     (filter (\<lambda>(p, _). p = ident) (db_label_sub_label (St_db st))))"

definition labelDetailSQL where
  "labelDetailSQL st ident =
     map (\<lambda>l. (label_columns l,
        \<lparr>ldp_parent = (case sql_limit 1 (map (label_reference_json st) (parent_labels st (l_id l))) of
             [] \<Rightarrow> None | j # _ \<Rightarrow> Some j),
         ldp_sublabels = JArray (map (label_reference_json st) (sub_labels st (l_id l))),
         ldp_urls = text_values_json (db_label_url (St_db st)) (l_id l)\<rparr>))
       (filter (\<lambda>l. holds (sql_eq (Some (l_id l)) (Some ident))) (db_label (St_db st)))"

definition Label :: "Store \<Rightarrow> int \<Rightarrow> LabelDetail outcome" where
  "Label st ident =
     (case QueryRow st queryLabel [Some (St_serverURL st)] (labelDetailSQL st ident) of
        Fail e \<Rightarrow> Fail (notFound e)
      | Panic m \<Rightarrow> Panic m
      | Ok ((i, contact_info, data_quality, name, profile), payload) \<Rightarrow>
          (let uri = label_url st ident in
           labelDetailResult
             \<lparr>Label_ID = i, Label_ContactInfo = contact_info, Label_DataQuality = data_quality,
              Label_Name = name, Label_Profile = profile, Label_Parent = None,
              Label_Sublabels = NilSlice, Label_URLs = NilSlice,
              Label_URI = uri, Label_ReleaseURL = uri @ ''/releases''\<rparr> payload))"

definition label_reference :: "Store \<Rightarrow> label_row \<Rightarrow> LabelReference" where
  "label_reference st l = \<lparr>LabelRef_ID = l_id l, LabelRef_Name = l_name l,
     LabelRef_ResourceURL = label_url st (l_id l)\<rparr>"

definition label_detail :: "Store \<Rightarrow> label_row \<Rightarrow> LabelDetail" where
  "label_detail st l =
     \<lparr>Label_ID = l_id l, Label_ContactInfo = l_contact_info l, Label_DataQuality = l_data_quality l,
      Label_Name = l_name l, Label_Profile = l_profile l,
      Label_Parent = (case parent_labels st (l_id l) of [] \<Rightarrow> None | p # _ \<Rightarrow> Some (label_reference st p)),
      Label_Sublabels = Slice (map (label_reference st) (sub_labels st (l_id l))),
      Label_URLs = Slice (map text_or_empty (text_values (db_label_url (St_db st)) (l_id l))),
      Label_URI = label_url st (l_id l), Label_ReleaseURL = label_url st (l_id l) @ ''/releases''\<rparr>"

lemma unmarshal_label_reference:
  assumes "wf_database (St_db st)" "l \<in> set (db_label (St_db st))"
  shows "unmarshal_LabelReference (label_reference_json st l) = Ok (label_reference st l)"
  using resource_id_of [OF wf_ids(2) [OF assms(1)] assms(2)]
  by (simp add: unmarshal_LabelReference_def unmarshal_struct_def label_reference_json_def
      label_reference_def unmarshal_int_json)

lemma related_labels_in_table:
  "set (parent_labels st i) \<subseteq> set (db_label (St_db st))" "set (sub_labels st i) \<subseteq> set (db_label (St_db st))"
  by (auto simp: parent_labels_def sub_labels_def)

lemma unmarshal_sub_labels:
  assumes "wf_database (St_db st)"
  shows "unmarshal_slice unmarshal_LabelReference (JArray (map (label_reference_json st) (sub_labels st i))) =
    Ok (Slice (map (label_reference st) (sub_labels st i)))"
  by (rule unmarshal_slice_map) (use related_labels_in_table in \<open>blast intro: unmarshal_label_reference [OF assms]\<close>)

lemma decode_parent_of:
  assumes "wf_database (St_db st)"
  shows "decode_parent (case sql_limit 1 (map (label_reference_json st) (parent_labels st i)) of
      [] \<Rightarrow> None | j # _ \<Rightarrow> Some j) =
    Ok (case parent_labels st i of [] \<Rightarrow> None | p # _ \<Rightarrow> Some (label_reference st p))"
proof (cases "parent_labels st i")
  case Nil
  then show ?thesis by (simp add: decode_parent_def sql_limit_def)
next
  case (Cons p ps)
  have "p \<in> set (db_label (St_db st))" using related_labels_in_table(1) [of st i] Cons by simp
  from unmarshal_label_reference [OF assms this] Cons show ?thesis
    by (simp add: decode_parent_def sql_limit_def label_reference_json_def)
qed

lemma Label_found:
  assumes "answers_detail st queryLabel" "l \<in> set (db_label (St_db st))"
  shows "Label st (l_id l) = Ok (label_detail st l)"
proof -
  have wf: "wf_database (St_db st)" using assms(1) by (simp add: answers_detail_def answers_wf)
  show ?thesis
    using assms filter_id [OF wf_ids(2) [OF wf] assms(2) refl]
    by (simp add: Label_def answers_detail_def QueryRow_answers labelDetailSQL_def label_columns_def
        labelDetailResult_def decode_parent_of [OF wf] unmarshal_sub_labels [OF wf]
        unmarshal_text_values Let_def error_of_def decoded_def decodeError_def label_detail_def)
qed

lemma Label_not_found:
  assumes "answers_detail st queryLabel" "i \<notin> l_id ` set (db_label (St_db st))"
  shows "Label st i = Fail ErrNotFound"
  using assms
  by (simp add: Label_def answers_detail_def QueryRow_answers labelDetailSQL_def filter_no_id
      notFound_def)

section \<open>Master\<close>

record masterDetailPayload =
  mdp_genres :: json
  mdp_styles :: json
  mdp_artists :: json
  mdp_videos :: json

definition masterDetailResult :: "MasterDetail \<Rightarrow> masterDetailPayload \<Rightarrow> MasterDetail outcome" where
  "masterDetailResult detail payload =
     (let genres = unmarshal_slice unmarshal_string (mdp_genres payload);
          styles = unmarshal_slice unmarshal_string (mdp_styles payload);
          artists = unmarshal_slice unmarshal_ArtistReference (mdp_artists payload);
          videos = unmarshal_slice unmarshal_MasterVideo (mdp_videos payload)
      in case decodeError decodeMasterDetailError
                (errors_Join [error_of genres, error_of styles, error_of artists, error_of videos]) of
           Some e \<Rightarrow> Fail e
         | None \<Rightarrow> Ok (detail\<lparr>MasterDetail_Genres := decoded genres,
             MasterDetail_Styles := decoded styles, MasterDetail_Artists := decoded artists,
             MasterDetail_Videos := decoded videos\<rparr>))"

definition master_video_json :: "video_row \<Rightarrow> json" where
  "master_video_json v =
     JObject [(''url'', json_text (v_url v)), (''description'', json_text (v_description v)),
              (''title'', json_text (v_title v))]"

definition videos_of :: "video_row list \<Rightarrow> int \<Rightarrow> video_row list" where
  "videos_of table owner = filter (\<lambda>v. v_owner_id v = owner) table"

definition masterDetailSQL where
  "masterDetailSQL st ident =
     map (\<lambda>m. ((m_id m, m_title m, m_data_quality m, m_main_release_id m, m_year m),
        \<lparr>mdp_genres = text_values_json (db_master_genre (St_db st)) (m_id m),
         mdp_styles = text_values_json (db_master_style (St_db st)) (m_id m),
         mdp_artists = JArray (map (artist_reference_json st)
           (related_artists st (db_master_artist (St_db st)) (m_id m))),
         mdp_videos = JArray (map master_video_json (videos_of (db_master_video (St_db st)) (m_id m)))\<rparr>))
       (filter (\<lambda>m. holds (sql_eq (Some (m_id m)) (Some ident))) (db_master (St_db st)))"

definition Master :: "Store \<Rightarrow> int \<Rightarrow> MasterDetail outcome" where
  "Master st ident =
     (case QueryRow st queryMaster [Some (St_serverURL st)] (masterDetailSQL st ident) of
        Fail e \<Rightarrow> Fail (notFound e)
      | Panic m \<Rightarrow> Panic m
      | Ok ((i, title, data_quality, main_release, year), payload) \<Rightarrow>
          masterDetailResult
            \<lparr>MasterDetail_ID = i, MasterDetail_Title = title, MasterDetail_DataQuality = data_quality,
             MasterDetail_MainRelease = main_release, MasterDetail_Year = year,
             MasterDetail_Genres = NilSlice, MasterDetail_Styles = NilSlice,
             MasterDetail_Artists = NilSlice, MasterDetail_Videos = NilSlice\<rparr> payload)"

definition master_video :: "video_row \<Rightarrow> MasterVideo" where
  "master_video v = \<lparr>MasterVideo_URL = v_url v, MasterVideo_Description = v_description v,
     MasterVideo_Title = v_title v\<rparr>"

definition master_detail :: "Store \<Rightarrow> master_row \<Rightarrow> MasterDetail" where
  "master_detail st m =
     \<lparr>MasterDetail_ID = m_id m, MasterDetail_Title = m_title m, MasterDetail_DataQuality = m_data_quality m,
      MasterDetail_MainRelease = m_main_release_id m, MasterDetail_Year = m_year m,
      MasterDetail_Genres = Slice (map text_or_empty (text_values (db_master_genre (St_db st)) (m_id m))),
      MasterDetail_Styles = Slice (map text_or_empty (text_values (db_master_style (St_db st)) (m_id m))),
      MasterDetail_Artists = Slice (map (artist_reference st)
        (related_artists st (db_master_artist (St_db st)) (m_id m))),
      MasterDetail_Videos = Slice (map master_video (videos_of (db_master_video (St_db st)) (m_id m)))\<rparr>"

lemma unmarshal_master_videos:
  "unmarshal_slice unmarshal_MasterVideo (JArray (map master_video_json vs)) = Ok (Slice (map master_video vs))"
  by (rule unmarshal_slice_map)
    (simp add: unmarshal_MasterVideo_def unmarshal_struct_def master_video_json_def master_video_def)

lemma Master_found:
  assumes "answers_detail st queryMaster" "m \<in> set (db_master (St_db st))"
  shows "Master st (m_id m) = Ok (master_detail st m)"
proof -
  have wf: "wf_database (St_db st)" using assms(1) by (simp add: answers_detail_def answers_wf)
  show ?thesis
    using assms filter_id [OF wf_ids(3) [OF wf] assms(2) refl]
    by (simp add: Master_def answers_detail_def QueryRow_answers masterDetailSQL_def
        masterDetailResult_def unmarshal_related_artists [OF wf] unmarshal_master_videos
        unmarshal_text_values Let_def error_of_def decoded_def decodeError_def master_detail_def)
qed

lemma Master_not_found:
  assumes "answers_detail st queryMaster" "i \<notin> m_id ` set (db_master (St_db st))"
  shows "Master st i = Fail ErrNotFound"
  using assms
  by (simp add: Master_def answers_detail_def QueryRow_answers masterDetailSQL_def filter_no_id
      notFound_def)

section \<open>Release\<close>

record releaseDetailPayload =
  rdp_artists :: json
  rdp_labels :: json
  rdp_companies :: json
  rdp_formats :: json
  rdp_styles :: json
  rdp_genres :: json
  rdp_videos :: json

definition releaseDetailResult :: "ReleaseDetail \<Rightarrow> releaseDetailPayload \<Rightarrow> ReleaseDetail outcome" where
  "releaseDetailResult detail payload =
     (let artists = unmarshal_slice unmarshal_ReleaseArtist (rdp_artists payload);
          labels = unmarshal_slice unmarshal_ReleaseLabel (rdp_labels payload);
          companies = unmarshal_slice unmarshal_ReleaseLabel (rdp_companies payload);
          formats = unmarshal_slice unmarshal_ReleaseFormat (rdp_formats payload);
          styles = unmarshal_slice unmarshal_string (rdp_styles payload);
          genres = unmarshal_slice unmarshal_string (rdp_genres payload);
          videos = unmarshal_slice unmarshal_ReleaseVideo (rdp_videos payload)
      in case decodeError decodeReleaseDetailError
                (errors_Join [error_of artists, error_of labels, error_of companies,
                              error_of formats, error_of styles, error_of genres, error_of videos]) of
           Some e \<Rightarrow> Fail e
         | None \<Rightarrow> Ok (detail\<lparr>Release_Artists := decoded artists, Release_Labels := decoded labels,
             Release_Companies := decoded companies, Release_Formats := decoded formats,
             Release_Styles := decoded styles, Release_Genres := decoded genres,
             Release_Videos := decoded videos\<rparr>))"

text \<open>The artists of a release with their roles, one entry per artist.\<close>

definition credited_on :: "Store \<Rightarrow> int \<Rightarrow> artist_row list" where
  "credited_on st release_id =
     filter (\<lambda>a. artist_roles st (a_id a) release_id \<noteq> []) (db_artist (St_db st))"

definition release_artist_json :: "Store \<Rightarrow> int \<Rightarrow> artist_row \<Rightarrow> json" where
  "release_artist_json st release_id a =
     JObject [(''id'', JInt (a_id a)), (''name'', json_text (a_name a)),
              (''role'', json_text (aggregated_role st (a_id a) release_id)),
              (''resource_url'', JString (artist_url st (a_id a)))]"

text \<open>Labels with the text of the relation: the catalog number, or the work of a company.\<close>

definition labels_on :: "Store \<Rightarrow> int \<Rightarrow> (label_row \<times> string option) list" where
  "labels_on st release_id = concat (map
     (\<lambda>relation. map (\<lambda>l. (l, lr_category_notation relation))
        (filter (\<lambda>l. l_id l = lr_label_id relation) (db_label (St_db st))))
     (filter (\<lambda>relation. lr_release_item_id relation = release_id) (db_label_release_item (St_db st))))"

definition companies_on :: "Store \<Rightarrow> int \<Rightarrow> (label_row \<times> string option) list" where
  "companies_on st release_id = concat (map
     (\<lambda>relation. map (\<lambda>l. (l, w_work relation))
        (filter (\<lambda>l. l_id l = w_label_id relation) (db_label (St_db st))))
     (filter (\<lambda>relation. w_release_item_id relation = release_id) (db_release_item_work (St_db st))))"

definition release_label_json :: "Store \<Rightarrow> label_row \<times> string option \<Rightarrow> json" where
  "release_label_json st entry =
     (case entry of (l, catno) \<Rightarrow>
        JObject [(''id'', JInt (l_id l)), (''name'', json_text (l_name l)),
                 (''catno'', json_text catno), (''resource_url'', JString (label_url st (l_id l)))])"

text \<open>\<open>string_to_array(text, ',')\<close>: the empty text has no part.\<close>

fun split_comma :: "string \<Rightarrow> string list" where
  "split_comma [] = [[]]"
| "split_comma (c # cs) =
     (if c = CHR '','' then [] # split_comma cs
      else (case split_comma cs of [] \<Rightarrow> [[c]] | s # ss \<Rightarrow> (c # s) # ss))"

definition string_to_array :: "string \<Rightarrow> string list" where
  "string_to_array s = (if s = [] then [] else split_comma s)"

definition formats_on :: "Store \<Rightarrow> int \<Rightarrow> format_row list" where
  "formats_on st release_id =
     filter (\<lambda>f. f_release_item_id f = release_id) (db_release_item_format (St_db st))"

definition format_quantity :: "format_row \<Rightarrow> string option" where
  "format_quantity f =
     (case f_quantity_text f of Some t \<Rightarrow> Some t | None \<Rightarrow> map_option FormatInt (f_quantity f))"

definition format_descriptions :: "format_row \<Rightarrow> string list" where
  "format_descriptions f = (case f_description f of None \<Rightarrow> [] | Some d \<Rightarrow> string_to_array d)"

definition release_format_json :: "format_row \<Rightarrow> json" where
  "release_format_json f =
     JObject [(''name'', json_text (f_name f)), (''qty'', json_text (format_quantity f)),
              (''descriptions'', JArray (map JString (format_descriptions f)))]"

definition release_video_json :: "video_row \<Rightarrow> json" where
  "release_video_json v =
     JObject [(''title'', json_text (v_title v)), (''url'', json_text (v_url v)),
              (''description'', json_text (v_description v))]"

definition releaseDetailSQL where
  "releaseDetailSQL st ident =
     map (\<lambda>r. (releaseColumnsSQL r,
        \<lparr>rdp_artists = JArray (map (release_artist_json st (r_id r)) (credited_on st (r_id r))),
         rdp_labels = JArray (map (release_label_json st) (labels_on st (r_id r))),
         rdp_companies = JArray (map (release_label_json st) (companies_on st (r_id r))),
         rdp_formats = JArray (map release_format_json (formats_on st (r_id r))),
         rdp_styles = text_values_json (db_release_item_style (St_db st)) (r_id r),
         rdp_genres = text_values_json (db_release_item_genre (St_db st)) (r_id r),
         rdp_videos = JArray (map release_video_json (videos_of (db_release_item_video (St_db st)) (r_id r)))\<rparr>))
       (filter (\<lambda>r. holds (sql_eq (Some (r_id r)) (Some ident))) (db_release_item (St_db st)))"

definition Release :: "Store \<Rightarrow> int \<Rightarrow> ReleaseDetail outcome" where
  "Release st ident =
     (case QueryRow st queryRelease [Some (St_serverURL st)] (releaseDetailSQL st ident) of
        Fail e \<Rightarrow> Fail (notFound e)
      | Panic m \<Rightarrow> Panic m
      | Ok ((i, title, country, data_quality, year, month, day, listed, is_master, master_id, notes,
             status), payload) \<Rightarrow>
          releaseDetailResult
            \<lparr>Release_ID = i, Release_Title = title, Release_Country = country,
             Release_DataQuality = data_quality, Release_Year = year, Release_Month = month,
             Release_Day = day, Release_ListedDate = listed, Release_IsMaster = is_master,
             Release_MasterID = master_id, Release_Notes = notes, Release_Status = status,
             Release_Artists = NilSlice, Release_Labels = NilSlice, Release_Companies = NilSlice,
             Release_Formats = NilSlice, Release_Styles = NilSlice, Release_Genres = NilSlice,
             Release_Videos = NilSlice\<rparr> payload)"

definition release_artist :: "Store \<Rightarrow> int \<Rightarrow> artist_row \<Rightarrow> ReleaseArtist" where
  "release_artist st release_id a =
     \<lparr>ReleaseArtist_ID = a_id a, ReleaseArtist_Name = a_name a,
      ReleaseArtist_Role = aggregated_role st (a_id a) release_id,
      ReleaseArtist_ResourceURL = artist_url st (a_id a)\<rparr>"

definition release_label :: "Store \<Rightarrow> label_row \<times> string option \<Rightarrow> ReleaseLabel" where
  "release_label st entry =
     \<lparr>ReleaseLabel_ID = l_id (fst entry), ReleaseLabel_Name = l_name (fst entry),
      ReleaseLabel_CategoryNotation = snd entry,
      ReleaseLabel_ResourceURL = label_url st (l_id (fst entry))\<rparr>"

definition release_format :: "format_row \<Rightarrow> ReleaseFormat" where
  "release_format f = \<lparr>ReleaseFormat_Name = f_name f, ReleaseFormat_Quantity = format_quantity f,
     ReleaseFormat_Descriptions = Slice (format_descriptions f)\<rparr>"

definition release_video :: "video_row \<Rightarrow> ReleaseVideo" where
  "release_video v = \<lparr>ReleaseVideo_Title = v_title v, ReleaseVideo_URL = v_url v,
     ReleaseVideo_Description = v_description v\<rparr>"

definition release_detail :: "Store \<Rightarrow> release_row \<Rightarrow> ReleaseDetail" where
  "release_detail st r =
     \<lparr>Release_ID = r_id r, Release_Title = r_title r, Release_Country = r_country r,
      Release_DataQuality = r_data_quality r,
      Release_Year = valid_part (r_has_valid_year r) extract_year (r_release_date r),
      Release_Month = valid_part (r_has_valid_month r) extract_month (r_release_date r),
      Release_Day = valid_part (r_has_valid_day r) extract_day (r_release_date r),
      Release_ListedDate = r_listed_release_date r, Release_IsMaster = r_is_master r,
      Release_MasterID = r_master_id r, Release_Notes = r_notes r, Release_Status = r_status r,
      Release_Artists = Slice (map (release_artist st (r_id r)) (credited_on st (r_id r))),
      Release_Labels = Slice (map (release_label st) (labels_on st (r_id r))),
      Release_Companies = Slice (map (release_label st) (companies_on st (r_id r))),
      Release_Formats = Slice (map release_format (formats_on st (r_id r))),
      Release_Styles = Slice (map text_or_empty (text_values (db_release_item_style (St_db st)) (r_id r))),
      Release_Genres = Slice (map text_or_empty (text_values (db_release_item_genre (St_db st)) (r_id r))),
      Release_Videos = Slice (map release_video (videos_of (db_release_item_video (St_db st)) (r_id r)))\<rparr>"

lemma unmarshal_release_artists:
  assumes "wf_database (St_db st)"
  shows "unmarshal_slice unmarshal_ReleaseArtist (JArray (map (release_artist_json st i) (credited_on st i))) =
    Ok (Slice (map (release_artist st i) (credited_on st i)))"
proof (rule unmarshal_slice_map)
  fix a assume "a \<in> set (credited_on st i)"
  then have "a \<in> set (db_artist (St_db st))" by (simp add: credited_on_def)
  with resource_id_of [OF wf_ids(1) [OF assms]]
  show "unmarshal_ReleaseArtist (release_artist_json st i a) = Ok (release_artist st i a)"
    by (simp add: unmarshal_ReleaseArtist_def unmarshal_struct_def release_artist_json_def
        release_artist_def unmarshal_int_json)
qed

lemma unmarshal_release_labels:
  assumes "wf_database (St_db st)" "\<And>l t. (l, t) \<in> set entries \<Longrightarrow> l \<in> set (db_label (St_db st))"
  shows "unmarshal_slice unmarshal_ReleaseLabel (JArray (map (release_label_json st) entries)) =
    Ok (Slice (map (release_label st) entries))"
proof (rule unmarshal_slice_map)
  fix e assume "e \<in> set entries"
  then have "fst e \<in> set (db_label (St_db st))" using assms(2) [of "fst e" "snd e"] by simp
  with resource_id_of [OF wf_ids(2) [OF assms(1)]]
  show "unmarshal_ReleaseLabel (release_label_json st e) = Ok (release_label st e)"
    by (cases e) (simp add: unmarshal_ReleaseLabel_def unmarshal_struct_def release_label_json_def
        release_label_def unmarshal_int_json)
qed

lemma release_labels_in_table:
  "(l, t) \<in> set (labels_on st i) \<Longrightarrow> l \<in> set (db_label (St_db st))"
  "(l, t) \<in> set (companies_on st i) \<Longrightarrow> l \<in> set (db_label (St_db st))"
  by (auto simp: labels_on_def companies_on_def)

lemma unmarshal_strings:
  "unmarshal_slice unmarshal_string (JArray (map JString ss)) = Ok (Slice ss)"
  using unmarshal_slice_map [of ss unmarshal_string JString "\<lambda>s. s"] by simp

lemma unmarshal_release_formats:
  "unmarshal_slice unmarshal_ReleaseFormat (JArray (map release_format_json fs)) = Ok (Slice (map release_format fs))"
  by (rule unmarshal_slice_map)
    (simp add: unmarshal_ReleaseFormat_def unmarshal_struct_def release_format_json_def
      release_format_def unmarshal_strings)

lemma unmarshal_release_videos:
  "unmarshal_slice unmarshal_ReleaseVideo (JArray (map release_video_json vs)) = Ok (Slice (map release_video vs))"
  by (rule unmarshal_slice_map)
    (simp add: unmarshal_ReleaseVideo_def unmarshal_struct_def release_video_json_def release_video_def)

lemma Release_found:
  assumes "answers_detail st queryRelease" "r \<in> set (db_release_item (St_db st))"
  shows "Release st (r_id r) = Ok (release_detail st r)"
proof -
  have wf: "wf_database (St_db st)" using assms(1) by (simp add: answers_detail_def answers_wf)
  show ?thesis
    using assms filter_id [OF wf_ids(4) [OF wf] assms(2) refl]
    by (simp add: Release_def answers_detail_def QueryRow_answers releaseDetailSQL_def releaseColumnsSQL_def
        releaseDetailResult_def unmarshal_release_artists [OF wf]
        unmarshal_release_labels [OF wf release_labels_in_table(1)]
        unmarshal_release_labels [OF wf release_labels_in_table(2)]
        unmarshal_release_formats unmarshal_release_videos
        unmarshal_text_values Let_def error_of_def decoded_def decodeError_def release_detail_def)
qed

lemma Release_not_found:
  assumes "answers_detail st queryRelease" "i \<notin> r_id ` set (db_release_item (St_db st))"
  shows "Release st i = Fail ErrNotFound"
  using assms
  by (simp add: Release_def answers_detail_def QueryRow_answers releaseDetailSQL_def filter_no_id
      notFound_def)

end
