(* ===== verification/Snapshots.thy ===== *)
theory Snapshots
  imports Details
begin

text \<open>
  \<open>internal/postgres/snapshot.go\<close> and \<open>internal/postgres/schema.go\<close>: the state of the imported catalog
  snapshot, and the validation of the read schema at startup; and \<open>store_repository\<close>, the store as the
  read port of the API.
\<close>

section \<open>Snapshot\<close>

definition querySnapshotError :: string where
  "querySnapshotError = ''query catalog snapshot''"

text \<open>\<open>to_char(date, 'YYYY-MM-DD')\<close>.\<close>

definition pad_left :: "nat \<Rightarrow> string \<Rightarrow> string" where
  "pad_left n s = replicate (n - length s) (CHR ''0'') @ s"

definition sql_to_char :: "sql_date \<Rightarrow> string" where
  "sql_to_char d =
     pad_left 4 (FormatInt (date_year d)) @ ''-'' @ pad_left 2 (FormatInt (date_month d)) @ ''-'' @
     pad_left 2 (FormatInt (date_day d))"

text \<open>The \<open>CASE\<close> of the \<open>ORDER BY\<close>; NULL sorts last.\<close>

definition entity_rank :: "string \<Rightarrow> nat" where
  "entity_rank t =
     (if t = ''artist'' then 1 else if t = ''label'' then 2 else if t = ''master'' then 3
      else if t = ''release'' then 4 else 5)"

record snapshotRow =
  sr_ready :: bool
  sr_status :: string
  sr_updatedAt :: go_time
  sr_entity :: SnapshotEntity

definition checkpoints_of :: "Store \<Rightarrow> string \<Rightarrow> checkpoint_row option list" where
  "checkpoints_of st entity_type =
     (case filter (\<lambda>c. cp_entity_type c = entity_type) (db_import_checkpoint (St_db st)) of
        [] \<Rightarrow> [None]
      | c # cs \<Rightarrow> map Some (c # cs))"

definition snapshot_entity :: "entity_state_row \<Rightarrow> checkpoint_row option \<Rightarrow> SnapshotEntity" where
  "snapshot_entity e c =
     \<lparr>EntityType = es_entity_type e, EntityStatus = es_status e,
      DumpDate = Option.bind c (\<lambda>c. map_option sql_to_char (cp_dump_date c)),
      AppliedAt = Option.bind c cp_applied_at,
      Processor = Option.bind c cp_processor,
      ProcessorVersion = Option.bind c cp_processor_version\<rparr>"

definition snapshotSQL :: "Store \<Rightarrow> snapshotRow list" where
  "snapshotSQL st =
     order_by (\<lambda>r. entity_rank (EntityType (sr_entity r)))
       (concat (map (\<lambda>readiness. concat (map (\<lambda>state. map (\<lambda>checkpoint.
            \<lparr>sr_ready = rd_ready readiness, sr_status = rd_status readiness,
             sr_updatedAt = rd_updated_at readiness, sr_entity = snapshot_entity state checkpoint\<rparr>)
            (checkpoints_of st (es_entity_type state)))
          (db_catalog_entity_state (St_db st))))
        (db_catalog_readiness (St_db st))))"

definition collectSnapshot :: "snapshotRow list outcome \<Rightarrow> CatalogSnapshot outcome" where
  "collectSnapshot rows =
     (case rows of
        Fail e \<Rightarrow> Fail (Wrapped querySnapshotError e)
      | Panic m \<Rightarrow> Panic m
      | Ok [] \<Rightarrow> Fail (ErrorText (querySnapshotError @ '': canonical catalog state is empty''))
      | Ok (item # items) \<Rightarrow>
          Ok \<lparr>SnapshotReady = sr_ready item, SnapshotStatus = sr_status item,
              UpdatedAt = sr_updatedAt item, Entities = Slice (map sr_entity (item # items))\<rparr>)"

definition Snapshot :: "Store \<Rightarrow> CatalogSnapshot outcome" where
  "Snapshot st =
     (case pool_Query st querySnapshotError [] (snapshotSQL st) of
        Fail e \<Rightarrow> Fail (Wrapped querySnapshotError e)
      | Panic m \<Rightarrow> Panic m
      | Ok rows \<Rightarrow> collectSnapshot rows)"

section \<open>Schema validation\<close>

definition requiredAPIRelationNames :: string where
  "requiredAPIRelationNames = ''artist,artist_alias,artist_group,artist_member,artist_name_variation,artist_url,discogs_catalog_entity_state,discogs_catalog_readiness,discogs_import_checkpoint,label,label_release_item,label_sub_label,label_url,master,master_artist,master_genre,master_style,master_video,release_item,release_item_artist,release_item_credited_artist,release_item_format,release_item_genre,release_item_identifier,release_item_style,release_item_track,release_item_video,release_item_work''"

text \<open>What the validation query reads of the PostgreSQL catalogs, for the current user.\<close>

record pg_catalog =
  pg_schemas :: "string list"
  pg_usage :: "string \<Rightarrow> bool"
  pg_relations :: "string \<Rightarrow> string list"
  pg_select :: "string \<Rightarrow> string \<Rightarrow> bool"
  pg_collate :: "string \<Rightarrow> string"
  pg_fault :: "go_error option"

record schemaState =
  ss_exists :: bool
  ss_canUse :: bool
  ss_missingTables :: "string list"
  ss_unreadableTables :: "string list"

definition validateSchemaQuery :: "pg_catalog \<Rightarrow> string \<Rightarrow> string \<Rightarrow> schemaState" where
  "validateSchemaQuery pg schema names =
     (let schema_exists = (schema \<in> set (pg_schemas pg));
          can_use = (schema_exists \<and> pg_usage pg schema);
          required = string_to_array names;
          relation = (\<lambda>t. can_use \<and> t \<in> set (pg_relations pg schema))
      in \<lparr>ss_exists = schema_exists, ss_canUse = can_use,
          ss_missingTables = order_by (pg_collate pg)
            (filter (\<lambda>t. schema_exists \<and> can_use \<and> \<not> relation t) required),
          ss_unreadableTables = order_by (pg_collate pg)
            (filter (\<lambda>t. relation t \<and> \<not> pg_select pg schema t) required)\<rparr>)"

definition ValidateSchema :: "pg_catalog \<Rightarrow> string \<Rightarrow> go_error option" where
  "ValidateSchema pg schemaName =
     (case pg_fault pg of
        Some e \<Rightarrow> Some (Wrapped (''inspect database schema '' @ schemaName) e)
      | None \<Rightarrow>
          (let state = validateSchemaQuery pg schemaName requiredAPIRelationNames in
           if \<not> ss_exists state
           then Some (ErrorText (''database schema '' @ schemaName @
                        '' does not exist; run an OpenDiscogs batch importer first''))
           else if \<not> ss_canUse state
           then Some (ErrorText (''current user requires USAGE on database schema '' @ schemaName))
           else if ss_missingTables state \<noteq> []
           then Some (ErrorText (''database schema '' @ schemaName @
                        '' is missing required API relations: '' @
                        join_with '', '' (ss_missingTables state) @
                        ''; run an OpenDiscogs batch importer first''))
           else if ss_unreadableTables state \<noteq> []
           then Some (ErrorText (''current user requires SELECT on database schema '' @ schemaName @
                        '' relations: '' @ join_with '', '' (ss_unreadableTables state)))
           else None))"

lemma order_by_empty: "order_by k xs = [] \<longleftrightarrow> xs = []"
  using set_order_by [of k xs] by (metis set_empty)

lemma ValidateSchema_None:
  "ValidateSchema pg schema = None \<longleftrightarrow>
     pg_fault pg = None \<and> schema \<in> set (pg_schemas pg) \<and> pg_usage pg schema \<and>
     (\<forall>t \<in> set (string_to_array requiredAPIRelationNames).
        t \<in> set (pg_relations pg schema) \<and> pg_select pg schema t)"
  by (auto simp: ValidateSchema_def validateSchemaQuery_def Let_def order_by_empty filter_empty_conv
      split: option.splits)

section \<open>The store as a repository\<close>

definition store_repository :: "Store \<Rightarrow> Repository" where
  "store_repository st =
     \<lparr>Repo_Snapshot = Snapshot st,
      Repo_SearchArtists = SearchArtists st, Repo_Artist = Artist st,
      Repo_ArtistReleases = ArtistReleases st,
      Repo_SearchLabels = SearchLabels st, Repo_Label = Label st,
      Repo_LabelReleases = LabelReleases st,
      Repo_SearchMasters = SearchMasters st, Repo_Master = Master st,
      Repo_MasterReleases = MasterReleases st,
      Repo_SearchReleases = SearchReleases st,
      Repo_ReleasesByCatalogNumber = ReleasesByCatalogNumber st,
      Repo_ReleasesByIdentifier = ReleasesByIdentifier st,
      Repo_Release = Release st,
      Repo_ReleaseTracks = ReleaseTracks st,
      Repo_ReleaseIdentifiers = ReleaseIdentifiers st\<rparr>"

end
