(* ===== verification/Example_Catalog.thy ===== *)
theory Example_Catalog
  imports Snapshots
begin

text \<open>
  A small catalog and a store over it. It shows that the hypotheses of the theorems can hold together:
  the witnesses evaluate the operations on it.
\<close>

definition example_artist :: "int \<Rightarrow> string option \<Rightarrow> artist_row" where
  "example_artist i name = \<lparr>a_id = i, a_name = name, a_real_name = None, a_profile = None,
     a_data_quality = Some ''Correct''\<rparr>"

definition example_release ::
  "int \<Rightarrow> string \<Rightarrow> sql_date option \<Rightarrow> bool \<Rightarrow> bool \<Rightarrow> int option \<Rightarrow> release_row" where
  "example_release i title d valid_year valid_month master =
     \<lparr>r_id = i, r_title = Some title, r_country = Some ''UK'', r_data_quality = None,
      r_has_valid_year = Some valid_year, r_has_valid_month = Some valid_month,
      r_has_valid_day = Some False, r_release_date = d, r_listed_release_date = None,
      r_is_master = Some (i = 1), r_master_id = master, r_notes = None, r_status = Some ''Accepted''\<rparr>"

definition example_db :: database where
  "example_db =
     \<lparr>db_artist = [example_artist 2 (Some ''Beta''), example_artist 1 (Some ''Alpha''), example_artist 5 None],
      db_label = [\<lparr>l_id = 10, l_contact_info = None, l_data_quality = None, l_name = Some ''Label'', l_profile = None\<rparr>],
      db_master = [\<lparr>m_id = 7, m_data_quality = None, m_title = Some ''Work'', m_year = Some 2000, m_main_release_id = Some 1\<rparr>],
      db_release_item =
        [example_release 3 ''Three'' None False False (Some 8),
         example_release 1 ''One'' (Some (Date 2000 2 10)) True True (Some 7),
         example_release 2 ''Two'' (Some (Date 2000 1 1)) True False None],
      db_release_item_track =
        [\<lparr>t_release_item_id = 1, t_hash = 3, t_duration = None, t_position = Some ''A2'', t_title = Some ''y''\<rparr>,
         \<lparr>t_release_item_id = 1, t_hash = - 5, t_duration = None, t_position = Some ''A1'', t_title = Some ''x''\<rparr>],
      db_release_item_identifier =
        [\<lparr>i_release_item_id = 2, i_hash = 4, i_description = None, i_type = Some ''Barcode'', i_value = Some ''123''\<rparr>,
         \<lparr>i_release_item_id = 1, i_hash = 9, i_description = None, i_type = Some ''Barcode'', i_value = Some ''123''\<rparr>],
      db_label_release_item =
        [\<lparr>lr_label_id = 10, lr_release_item_id = 2, lr_category_notation = Some ''CAT 1''\<rparr>,
         \<lparr>lr_label_id = 10, lr_release_item_id = 1, lr_category_notation = Some ''CAT 1''\<rparr>],
      db_release_item_artist =
        [\<lparr>ra_artist_id = 1, ra_release_item_id = 1\<rparr>, \<lparr>ra_artist_id = 2, ra_release_item_id = 2\<rparr>,
         \<lparr>ra_artist_id = 5, ra_release_item_id = 3\<rparr>],
      db_release_item_credited_artist =
        [\<lparr>ca_artist_id = 1, ca_release_item_id = 2, ca_role = Some '' Producer ''\<rparr>],
      db_release_item_format =
        [\<lparr>f_release_item_id = 1, f_name = Some ''Vinyl'', f_description = Some ''LP,Album'',
          f_quantity = Some 1, f_quantity_text = None\<rparr>],
      db_artist_member = [], db_artist_group = [(1, 2)], db_artist_alias = [],
      db_artist_name_variation = [(1, Some ''A.'')], db_artist_url = [],
      db_label_sub_label = [], db_label_url = [],
      db_master_genre = [(7, Some ''Rock'')], db_master_style = [], db_master_artist = [(7, 1)],
      db_master_video = [], db_release_item_genre = [(1, Some ''Rock'')], db_release_item_style = [],
      db_release_item_video = [], db_release_item_work = [],
      db_catalog_readiness = [\<lparr>rd_ready = True, rd_status = ''ready'', rd_updated_at = 0\<rparr>],
      db_catalog_entity_state =
        [\<lparr>es_entity_type = ''release'', es_status = ''complete''\<rparr>,
         \<lparr>es_entity_type = ''artist'', es_status = ''complete''\<rparr>],
      db_import_checkpoint =
        [\<lparr>cp_entity_type = ''artist'', cp_dump_date = Some (Date 2026 8 1), cp_applied_at = Some 0,
          cp_processor = None, cp_processor_version = None\<rparr>]\<rparr>"

text \<open>A database with the C locale: no case folding, texts in byte order; every digest collides.\<close>

definition example_pool :: Pool where
  "example_pool =
     \<lparr>Pool_db = example_db, Pool_pingFault = None, Pool_queryFault = (\<lambda>_. None),
      Pool_rowsFault = (\<lambda>_. None), Pool_lower = (\<lambda>s. s), Pool_collate = (\<lambda>s. s), Pool_md5 = (\<lambda>_. [])\<rparr>"

definition example_store :: Store where
  "example_store = New example_pool ''http://localhost/'' 5"

lemma example_db_simps [simp]:
  "St_db example_store = example_db"
  "Pool_lower (St_pool example_store) = (\<lambda>s. s)"
  "Pool_collate (St_pool example_store) = (\<lambda>s. s)"
  "Pool_md5 (St_pool example_store) = (\<lambda>_. [])"
  by (simp_all add: example_store_def New_def example_pool_def)

lemma example_url: "St_serverURL example_store = ''http://localhost''"
  by (simp add: example_store_def New_def TrimRightByte_def)

lemmas example_rows = example_db_def example_artist_def example_release_def

lemma wf_example: "wf_database example_db"
  by (simp add: wf_database_def example_rows resource_ids_def relation_hashes_def valid_date_def)

lemma example_answers: "\<not> has_nul texts \<Longrightarrow> answers example_store operation texts"
  using wf_example by (simp add: answers_def) (simp add: example_store_def New_def example_pool_def)

lemma example_answers_detail: "answers_detail example_store operation"
  unfolding answers_detail_def by (rule example_answers) (simp add: example_url)

end
