(* ===== verification/Request_Filters.thy ===== *)
theory Request_Filters
  imports Pagination
begin

text \<open>
  \<open>internal/httpapi/request.go\<close> and \<open>internal/httpapi/release_lookup.go\<close>: the path identifier, the
  optional integer, Boolean and text filters, and the exact release lookups with their rules on
  which parameters may be combined. Errors are the messages of the 400 problem document.
\<close>

section \<open>Constants and messages\<close>

definition minimumSearchLength :: int where "minimumSearchLength = 3"
definition maximumSearchLength :: int where "maximumSearchLength = 200"
definition maximumCountryLength :: int where "maximumCountryLength = 255"
definition maximumCatalogNumberLength :: int where "maximumCatalogNumberLength = 1000"
definition maximumIdentifierTypeLength :: int where "maximumIdentifierTypeLength = 255"
definition maximumIdentifierValueLength :: int where "maximumIdentifierValueLength = 4096"
definition maxInt16 :: int where "maxInt16 = 32767"

lemmas length_defs =
  minimumSearchLength_def maximumSearchLength_def maximumCountryLength_def
  maximumCatalogNumberLength_def maximumIdentifierTypeLength_def maximumIdentifierValueLength_def
  maxInt16_def

definition errorIDRange :: string where
  "errorIDRange = ''id must be between 1 and '' @ FormatInt MaximumResourceID"

definition errorBoolean :: "string \<Rightarrow> string" where
  "errorBoolean name = name @ '' must be true or false''"

definition errorTextEncoding :: "string \<Rightarrow> string" where
  "errorTextEncoding name = name @ '' must be valid UTF-8''"

definition errorTextLength :: "string \<Rightarrow> int \<Rightarrow> int \<Rightarrow> string" where
  "errorTextLength name lo hi =
     name @ '' must contain between '' @ FormatInt lo @ '' and '' @ FormatInt hi @ '' characters''"

definition errorMonthRequiresYear :: string where
  "errorMonthRequiresYear = ''month requires year''"

definition errorRequired :: "string \<Rightarrow> string" where
  "errorRequired name = name @ '' is required''"

definition errorLookupPair :: "string \<Rightarrow> string \<Rightarrow> string" where
  "errorLookupPair a b = a @ '' and '' @ b @ '' must be provided together''"

definition errorLookupCombination :: string where
  "errorLookupCombination = ''catalog-number and identifier lookups cannot be combined''"

definition errorLookupFilterCombination :: string where
  "errorLookupFilterCombination =
     ''exact release lookup cannot be combined with title, country, year, month, or master filters''"

section \<open>Single parameters (request.go)\<close>

definition optionalTextFilter :: "string \<Rightarrow> int \<Rightarrow> int \<Rightarrow> string \<Rightarrow> string + string" where
  "optionalTextFilter raw lo hi name =
     (if \<not> ValidString raw then Inl (errorTextEncoding name)
      else let normalized = TrimSpace raw in
        if normalized = [] then Inr []
        else let len = int (RuneCountInString normalized) in
          if len < lo \<or> len > hi then Inl (errorTextLength name lo hi) else Inr normalized)"

definition requiredTextFilter :: "string \<Rightarrow> int \<Rightarrow> int \<Rightarrow> string \<Rightarrow> string + string" where
  "requiredTextFilter raw lo hi name =
     (case optionalTextFilter raw lo hi name of
        Inl e \<Rightarrow> Inl e
      | Inr v \<Rightarrow> if v = [] then Inl (errorRequired name) else Inr v)"

text \<open>\<open>PathValue("id")\<close> is the argument: the path segment the router matched.\<close>

definition pathID :: "string \<Rightarrow> string + int" where
  "pathID value =
     (case ParseInt10 64 value of
        None \<Rightarrow> Inl errorIDRange
      | Some i \<Rightarrow> if i < 1 \<or> i > MaximumResourceID then Inl errorIDRange else Inr i)"

definition optionalInt :: "string \<Rightarrow> int \<Rightarrow> int \<Rightarrow> string \<Rightarrow> string + int option" where
  "optionalInt raw lo hi name =
     (if TrimSpace raw = [] then Inr None
      else case parseBoundedInt raw 0 lo hi name of Inl e \<Rightarrow> Inl e | Inr v \<Rightarrow> Inr (Some v))"

definition optionalBool :: "string \<Rightarrow> string \<Rightarrow> string + bool option" where
  "optionalBool raw name =
     (if TrimSpace raw = [] then Inr None
      else case ParseBool raw of None \<Rightarrow> Inl (errorBoolean name) | Some b \<Rightarrow> Inr (Some b))"

definition optionalSearchTerm :: "string \<Rightarrow> string \<Rightarrow> string + string" where
  "optionalSearchTerm raw name =
     optionalTextFilter raw minimumSearchLength maximumSearchLength name"

definition optionalCountry :: "string \<Rightarrow> string + string" where
  "optionalCountry raw = optionalTextFilter raw 1 maximumCountryLength ParameterCountry"

section \<open>Exact release lookups (release_lookup.go)\<close>

text \<open>\<open>kind\<close> with its payload: the zero struct is \<open>LookupNone\<close>.\<close>

datatype releaseLookup =
    LookupNone
  | LookupCatalogNumber CatalogNumberLookup
  | LookupIdentifier IdentifierLookup

definition hasText :: "string \<Rightarrow> bool" where
  "hasText v \<longleftrightarrow> TrimSpace v \<noteq> []"

definition hasQueryParameter :: "Values \<Rightarrow> string \<Rightarrow> bool" where
  "hasQueryParameter values name \<longleftrightarrow> name \<in> set (map fst values)"

definition hasStandardReleaseFilter :: "Values \<Rightarrow> bool" where
  "hasStandardReleaseFilter values \<longleftrightarrow>
     (\<exists>name \<in> set [ParameterTitle, ParameterCountry, ParameterYear, ParameterMonth, ParameterMaster].
        hasText (Values_Get values name))"

definition parseCatalogNumberLookup :: "Values \<Rightarrow> bool \<Rightarrow> bool \<Rightarrow> string + releaseLookup" where
  "parseCatalogNumberLookup values hasLabelID hasCatalogNumber =
     (if \<not> hasLabelID \<or> \<not> hasCatalogNumber
      then Inl (errorLookupPair ParameterLabelID ParameterCatalogNumber)
      else if \<not> hasText (Values_Get values ParameterLabelID)
      then Inl (errorRequired ParameterLabelID)
      else case parseBoundedInt64 (Values_Get values ParameterLabelID) 0 1 MaximumResourceID
                  ParameterLabelID of
             Inl e \<Rightarrow> Inl e
           | Inr labelID \<Rightarrow>
               (case requiredTextFilter (Values_Get values ParameterCatalogNumber) 1
                       maximumCatalogNumberLength ParameterCatalogNumber of
                  Inl e \<Rightarrow> Inl e
                | Inr catalogNumber \<Rightarrow>
                    Inr (LookupCatalogNumber
                      \<lparr>LabelID = labelID, CatalogNumber = catalogNumber\<rparr>)))"

definition parseIdentifierLookup :: "Values \<Rightarrow> bool \<Rightarrow> bool \<Rightarrow> string + releaseLookup" where
  "parseIdentifierLookup values hasType hasValue =
     (if \<not> hasType \<or> \<not> hasValue
      then Inl (errorLookupPair ParameterIdentifierType ParameterIdentifierValue)
      else case requiredTextFilter (Values_Get values ParameterIdentifierType) 1
                  maximumIdentifierTypeLength ParameterIdentifierType of
             Inl e \<Rightarrow> Inl e
           | Inr identifierType \<Rightarrow>
               (case requiredTextFilter (Values_Get values ParameterIdentifierValue) 1
                       maximumIdentifierValueLength ParameterIdentifierValue of
                  Inl e \<Rightarrow> Inl e
                | Inr identifierValue \<Rightarrow>
                    Inr (LookupIdentifier
                      \<lparr>Identifier_Type = identifierType, Identifier_Value = identifierValue\<rparr>)))"

definition parseReleaseLookup :: "Values \<Rightarrow> string + releaseLookup" where
  "parseReleaseLookup values =
     (let hasLabelID = hasQueryParameter values ParameterLabelID;
          hasCatalogNumber = hasQueryParameter values ParameterCatalogNumber;
          hasIdentifierType = hasQueryParameter values ParameterIdentifierType;
          hasIdentifierValue = hasQueryParameter values ParameterIdentifierValue;
          hasCatalogLookup = (hasLabelID \<or> hasCatalogNumber);
          hasIdentifierLookup = (hasIdentifierType \<or> hasIdentifierValue)
      in if hasCatalogLookup \<and> hasIdentifierLookup then Inl errorLookupCombination
         else if \<not> hasCatalogLookup \<and> \<not> hasIdentifierLookup then Inr LookupNone
         else if hasStandardReleaseFilter values then Inl errorLookupFilterCombination
         else if hasCatalogLookup
              then parseCatalogNumberLookup values hasLabelID hasCatalogNumber
              else parseIdentifierLookup values hasIdentifierType hasIdentifierValue)"

section \<open>What an accepted value looks like\<close>

text \<open>A text filter that reaches the store: valid, trimmed, and within its length bounds in runes.\<close>

definition clean_text :: "int \<Rightarrow> int \<Rightarrow> string \<Rightarrow> bool" where
  "clean_text lo hi t \<longleftrightarrow> ValidString t \<and> TrimSpace t = t \<and> t \<noteq> []
     \<and> lo \<le> int (RuneCountInString t) \<and> int (RuneCountInString t) \<le> hi"

lemma optionalTextFilter_clean:
  "optionalTextFilter raw lo hi name = Inr t \<Longrightarrow> t = [] \<or> clean_text lo hi t"
  by (auto simp: optionalTextFilter_def clean_text_def Let_def ValidString_TrimSpace split: if_splits)

lemma optionalTextFilter_Inr:
  "optionalTextFilter raw lo hi name = Inr t \<Longrightarrow> t = TrimSpace raw"
  by (auto simp: optionalTextFilter_def Let_def split: if_splits)

lemma requiredTextFilter_clean:
  "requiredTextFilter raw lo hi name = Inr t \<Longrightarrow> clean_text lo hi t \<and> t = TrimSpace raw"
  using optionalTextFilter_clean optionalTextFilter_Inr
  by (fastforce simp: requiredTextFilter_def split: sum.splits if_splits)

lemma optionalTextFilter_error:
  "optionalTextFilter raw lo hi name = Inl e \<Longrightarrow>
   e \<in> {errorTextEncoding name, errorTextLength name lo hi}"
  by (auto simp: optionalTextFilter_def Let_def split: if_splits)

lemma pathID_bounds: "pathID v = Inr i \<Longrightarrow> 1 \<le> i \<and> i \<le> MaximumResourceID"
  by (auto simp: pathID_def split: option.splits if_splits)

lemma pathID_error: "pathID v = Inl e \<Longrightarrow> e = errorIDRange"
  by (auto simp: pathID_def split: option.splits if_splits)

lemma pathID_FormatInt: "1 \<le> i \<Longrightarrow> i \<le> MaximumResourceID \<Longrightarrow> pathID (FormatInt i) = Inr i"
  by (simp add: pathID_def MaximumResourceID_def ParseInt10_FormatInt)

lemma optionalInt_bounds: "optionalInt raw lo hi name = Inr (Some v) \<Longrightarrow> lo \<le> v \<and> v \<le> hi"
  by (auto simp: optionalInt_def parseBoundedInt_def split: if_splits option.splits sum.splits)

end
