(* ===== verification/Store_Properties.thy ===== *)
theory Store_Properties
  imports Example_Catalog Request_Filters
begin

text \<open>
  What the PostgreSQL store promises to the API: complete keyset pagination of every listing, the
  meaning of the filters and lookups, the resource details, and the startup validation; each with a
  witness on the example catalog.
\<close>

section \<open>Pagination\<close>

text \<open>C1. A client of the release search that follows the continuation cursors with any allowed page
  size, through their text form in both directions, receives exactly the releases that match its
  filter, each once and in ascending order of identifiers.\<close>

theorem search_releases_walk:
  assumes "answers_releases st f" "1 \<le> sz" "sz \<le> maximumPageSize"
    and "no_parameter ParameterAfterID filters" "0 < n" "int (length (found_releases st f)) \<le> int n * sz"
  shows "follow n (client_get Release_ID (SearchReleases st f) uri filters sz) None =
    Some (found_releases st f)"
  by (rule search_releases.client_walk [OF assms])

definition example_release_filter :: ReleaseFilter where
  "example_release_filter =
     \<lparr>ReleaseFilter_Title = [], ReleaseFilter_Country = ''UK'', ReleaseFilter_Year = Some 2000,
      ReleaseFilter_Month = None, ReleaseFilter_Master = None\<rparr>"

lemma example_country: "optionalText ''UK'' = Some ''UK''"
  by (simp add: optionalText_def TrimSpace_printable printable_def char_eval)

lemma example_found_releases:
  "map Release_ID (found_releases example_store example_release_filter) = [1, 2]"
  by (simp add: found_releases_def release_matches_def example_release_filter_def example_country
      text_matches_def date_matches_def example_rows order_by_def release_of_def)

theorem search_releases_walk_witness:
  "map_option (map Release_ID) (follow 2 (client_get Release_ID
     (SearchReleases example_store example_release_filter) ''/releases'' [(''year'', ''2000'')] 1) None) =
   Some [1, 2]"
proof -
  have "length (found_releases example_store example_release_filter) = 2"
    using arg_cong [OF example_found_releases, of length] by simp
  then show ?thesis
    using search_releases_walk [of example_store example_release_filter 1 "[(''year'', ''2000'')]" 2 "''/releases''"]
    by (simp add: answers_releases_def example_answers example_release_filter_def example_country
        month_in_range_def no_parameter_def parameter_defs maximumPageSize_def
        example_found_releases [unfolded example_release_filter_def])
qed

text \<open>C12. A client of an artist's release listing receives every release on which the artist is a main
  or a credited artist exactly once, in ascending order, with the artist's roles joined, although the
  query limits both relations to one page before it unites them.\<close>

theorem artist_releases_walk:
  assumes "answers_artist_releases st artist_id" "1 \<le> sz" "sz \<le> maximumPageSize"
    and "no_parameter ParameterAfterID filters" "0 < n"
    and "int (length (releases_of_artist st artist_id)) \<le> int n * sz"
  shows "follow n (client_get ArtistRelease_ID (ArtistReleases st artist_id) uri filters sz) None =
    Some (releases_of_artist st artist_id)"
  by (rule artist_releases.client_walk [OF assms])

lemma example_releases_of_artist:
  "map (\<lambda>r. (ArtistRelease_ID r, ArtistRelease_Role r)) (releases_of_artist example_store 1) =
   [(1, Some ''Main''), (2, Some ''Producer'')]"
  by (simp add: releases_of_artist_def artist_on_release_def example_rows order_by_def
      artist_release_of_def aggregated_role_def artist_roles_def string_agg_def distinct_sorted_def
      List.map_filter_simps sql_trim_def)

theorem artist_releases_walk_witness:
  "map_option (map ArtistRelease_Role) (follow 2 (client_get ArtistRelease_ID
     (ArtistReleases example_store 1) ''/artists/1/releases'' [] 1) None) =
   Some [Some ''Main'', Some ''Producer'']"
proof -
  have "length (releases_of_artist example_store 1) = 2"
    "map ArtistRelease_Role (releases_of_artist example_store 1) = [Some ''Main'', Some ''Producer'']"
    using arg_cong [OF example_releases_of_artist, of length]
      arg_cong [OF example_releases_of_artist, of "map snd"] by (simp_all add: o_def)
  then show ?thesis
    using artist_releases_walk [of example_store 1 1 "[]" 2 "''/artists/1/releases''"]
    by (simp add: answers_artist_releases_def example_answers no_parameter_def maximumPageSize_def)
qed

text \<open>C13. A client of a release's track listing that sends back every opaque cursor unchanged receives
  all tracks of the release exactly once, in the order of their compatibility slots, negative slots
  included.\<close>

theorem release_tracks_walk:
  assumes "answers_children queryReleaseTracksError st release_id" "1 \<le> sz" "sz \<le> maximumPageSize"
    and "0 < n" "int (length (tracks_of_release st release_id)) \<le> int n * sz"
  shows "follow n (client_hash_get Track_Hash (ReleaseTracks st release_id) uri sz) None =
    Some (tracks_of_release st release_id)"
  by (rule release_tracks.client_hash_walk [OF assms])

lemma example_children: "release_id \<in> {1, 2, 3} \<Longrightarrow> answers_children operation example_store release_id"
  by (auto simp: answers_children_def example_answers release_exists_def example_rows)

lemma example_tracks: "map Track_Hash (tracks_of_release example_store 1) = [- 5, 3]"
  by (simp add: tracks_of_release_def example_rows order_by_def track_of_def)

theorem release_tracks_walk_witness:
  "map_option (map Track_Hash) (follow 2 (client_hash_get Track_Hash
     (ReleaseTracks example_store 1) ''/releases/1/tracks'' 1) None) = Some [- 5, 3]"
proof -
  have "length (tracks_of_release example_store 1) = 2"
    using arg_cong [OF example_tracks, of length] by simp
  then show ?thesis
    using release_tracks_walk [of example_store 1 1 2 "''/releases/1/tracks''"]
    by (simp add: example_children maximumPageSize_def example_tracks)
qed

text \<open>The same for the identifiers of a release.\<close>

theorem release_identifiers_walk:
  assumes "answers_children queryReleaseIdentifiersError st release_id" "1 \<le> sz" "sz \<le> maximumPageSize"
    and "0 < n" "int (length (identifiers_of_release st release_id)) \<le> int n * sz"
  shows "follow n (client_hash_get Ident_Hash (ReleaseIdentifiers st release_id) uri sz) None =
    Some (identifiers_of_release st release_id)"
  by (rule release_identifiers.client_hash_walk [OF assms])

lemma example_identifiers: "map Ident_Value (identifiers_of_release example_store 2) = [Some ''123'']"
  by (simp add: identifiers_of_release_def example_rows order_by_def identifier_of_def)

theorem release_identifiers_walk_witness:
  "map_option (map Ident_Value) (follow 1 (client_hash_get Ident_Hash
     (ReleaseIdentifiers example_store 2) ''/releases/2/identifiers'' 30) None) = Some [Some ''123'']"
proof -
  have "length (identifiers_of_release example_store 2) = 1"
    using arg_cong [OF example_identifiers, of length] by simp
  then show ?thesis
    using release_identifiers_walk [of example_store 2 30 1 "''/releases/2/identifiers''"]
    by (simp add: example_children maximumPageSize_def example_identifiers)
qed

text \<open>A client of the artist search receives every artist whose name and real name match the given
  terms exactly once, in ascending order.\<close>

theorem search_artists_walk:
  assumes "answers_artists st f" "1 \<le> sz" "sz \<le> maximumPageSize"
    and "no_parameter ParameterAfterID filters" "0 < n" "int (length (found_artists st f)) \<le> int n * sz"
  shows "follow n (client_get Artist_ID (SearchArtists st f) uri filters sz) None =
    Some (found_artists st f)"
  by (rule search_artists.client_walk [OF assms])

lemma example_found_artists:
  "map Artist_ID (found_artists example_store \<lparr>ArtistFilter_Name = [], ArtistFilter_RealName = []\<rparr>) = [1, 2, 5]"
  by (simp add: found_artists_def artist_matches_def text_matches_def example_rows order_by_def artist_of_def)

theorem search_artists_walk_witness:
  "map_option (map Artist_ID) (follow 2 (client_get Artist_ID
     (SearchArtists example_store \<lparr>ArtistFilter_Name = [], ArtistFilter_RealName = []\<rparr>)
     ''/artists'' [] 2) None) = Some [1, 2, 5]"
proof -
  have "length (found_artists example_store \<lparr>ArtistFilter_Name = [], ArtistFilter_RealName = []\<rparr>) = 3"
    using arg_cong [OF example_found_artists, of length] by simp
  then show ?thesis
    using search_artists_walk [of example_store "\<lparr>ArtistFilter_Name = [], ArtistFilter_RealName = []\<rparr>" 2
        "[]" 2 "''/artists''"]
    by (simp add: answers_artists_def example_answers no_parameter_def maximumPageSize_def example_found_artists)
qed

text \<open>A client of the label search receives every matching label exactly once, in ascending order.\<close>

theorem search_labels_walk:
  assumes "answers_labels st f" "1 \<le> sz" "sz \<le> maximumPageSize"
    and "no_parameter ParameterAfterID filters" "0 < n" "int (length (found_labels st f)) \<le> int n * sz"
  shows "follow n (client_get Label_ID (SearchLabels st f) uri filters sz) None = Some (found_labels st f)"
  by (rule search_labels.client_walk [OF assms])

lemma example_found_labels:
  "map Label_ID (found_labels example_store \<lparr>LabelFilter_Name = []\<rparr>) = [10]"
  by (simp add: found_labels_def label_matches_def text_matches_def example_rows order_by_def label_of_def)

theorem search_labels_walk_witness:
  "map_option (map Label_ID) (follow 1 (client_get Label_ID
     (SearchLabels example_store \<lparr>LabelFilter_Name = []\<rparr>) ''/labels'' [] 20) None) = Some [10]"
proof -
  have "length (found_labels example_store \<lparr>LabelFilter_Name = []\<rparr>) = 1"
    using arg_cong [OF example_found_labels, of length] by simp
  then show ?thesis
    using search_labels_walk [of example_store "\<lparr>LabelFilter_Name = []\<rparr>" 20 "[]" 1 "''/labels''"]
    by (simp add: answers_labels_def example_answers no_parameter_def maximumPageSize_def example_found_labels)
qed

text \<open>A client of the master search receives every master that matches the title and is of the
  given year exactly once, in ascending order.\<close>

theorem search_masters_walk:
  assumes "answers_masters st f" "1 \<le> sz" "sz \<le> maximumPageSize"
    and "no_parameter ParameterAfterID filters" "0 < n" "int (length (found_masters st f)) \<le> int n * sz"
  shows "follow n (client_get Master_ID (SearchMasters st f) uri filters sz) None = Some (found_masters st f)"
  by (rule search_masters.client_walk [OF assms])

lemma example_found_masters:
  "map Master_ID (found_masters example_store \<lparr>MasterFilter_Title = [], MasterFilter_Year = Some 2000\<rparr>) = [7]"
  by (simp add: found_masters_def master_matches_def text_matches_def example_rows order_by_def master_of_def)

theorem search_masters_walk_witness:
  "map_option (map Master_ID) (follow 1 (client_get Master_ID
     (SearchMasters example_store \<lparr>MasterFilter_Title = [], MasterFilter_Year = Some 2000\<rparr>)
     ''/masters'' [(''year'', ''2000'')] 20) None) = Some [7]"
proof -
  have "length (found_masters example_store \<lparr>MasterFilter_Title = [], MasterFilter_Year = Some 2000\<rparr>) = 1"
    using arg_cong [OF example_found_masters, of length] by simp
  then show ?thesis
    using search_masters_walk [of example_store "\<lparr>MasterFilter_Title = [], MasterFilter_Year = Some 2000\<rparr>" 20
        "[(''year'', ''2000'')]" 1 "''/masters''"]
    by (simp add: answers_masters_def example_answers no_parameter_def parameter_defs maximumPageSize_def
        example_found_masters)
qed

text \<open>A client of a label's release listing receives every release of the label exactly once, in
  ascending order, however many catalog numbers the label has on it.\<close>

theorem label_releases_walk:
  assumes "answers_label_releases st label_id" "1 \<le> sz" "sz \<le> maximumPageSize"
    and "no_parameter ParameterAfterID filters" "0 < n"
    and "int (length (releases_of_label st label_id)) \<le> int n * sz"
  shows "follow n (client_get LabelRelease_ID (LabelReleases st label_id) uri filters sz) None =
    Some (releases_of_label st label_id)"
  by (rule label_releases.client_walk [OF assms])

lemma example_releases_of_label:
  "map LabelRelease_ID (releases_of_label example_store 10) = [1, 2]"
  by (simp add: releases_of_label_def label_on_release_def example_rows order_by_def label_release_of_def)

theorem label_releases_walk_witness:
  "map_option (map LabelRelease_ID) (follow 2 (client_get LabelRelease_ID
     (LabelReleases example_store 10) ''/labels/10/releases'' [] 1) None) = Some [1, 2]"
proof -
  have "length (releases_of_label example_store 10) = 2"
    using arg_cong [OF example_releases_of_label, of length] by simp
  then show ?thesis
    using label_releases_walk [of example_store 10 1 "[]" 2 "''/labels/10/releases''"]
    by (simp add: answers_label_releases_def example_answers no_parameter_def maximumPageSize_def
        example_releases_of_label)
qed

text \<open>A client of a master's release listing receives every release of the master exactly once, in
  ascending order, provided every artist of these releases has a name.\<close>

theorem master_releases_walk:
  assumes "answers_master_releases st master_id" "1 \<le> sz" "sz \<le> maximumPageSize"
    and "no_parameter ParameterAfterID filters" "0 < n"
    and "int (length (releases_of_master st master_id)) \<le> int n * sz"
  shows "follow n (client_get MasterRelease_ID (MasterReleases st master_id) uri filters sz) None =
    Some (releases_of_master st master_id)"
  by (rule master_releases.client_walk [OF assms])

lemmas example_artists_of_release =
  named_artists_def ordered_artists_def artists_of_release_def order_by_def example_rows

lemma example_releases_of_master:
  "map MasterRelease_Artists (releases_of_master example_store 7) = [Slice [''Alpha'']]"
  by (simp add: releases_of_master_def release_of_master_def example_artists_of_release
      master_release_of_def List.map_filter_simps)

theorem master_releases_walk_witness:
  "map_option (map MasterRelease_Artists) (follow 1 (client_get MasterRelease_ID
     (MasterReleases example_store 7) ''/masters/7/releases'' [] 20) None) = Some [Slice [''Alpha'']]"
proof -
  have "length (releases_of_master example_store 7) = 1"
    using arg_cong [OF example_releases_of_master, of length] by simp
  moreover have "answers_master_releases example_store 7"
    using example_answers by (simp add: answers_master_releases_def example_artists_of_release)
  ultimately show ?thesis
    using master_releases_walk [of example_store 7 20 "[]" 1 "''/masters/7/releases''"]
    by (simp add: no_parameter_def maximumPageSize_def example_releases_of_master)
qed

text \<open>Otherwise the listing fails: as soon as a release with an unnamed artist is among the rows of
  the page, the operation returns an error instead of the page.\<close>

theorem master_releases_unnamed_artist:
  assumes "answers st queryMasterReleasesError []" "1 \<le> Size p" "Size p < 2 ^ 62"
    and "r \<in> set (sql_limit (Size p + 1) (order_by r_id (filter (\<lambda>r. r_master_id r = Some master_id
        \<and> AfterID p < r_id r) (db_release_item (St_db st)))))" "\<not> named_artists st r"
  shows "MasterReleases st master_id p =
    Fail (Wrapped queryMasterReleasesError (ErrorText ''cannot scan NULL into *string''))"
  by (rule MasterReleases_unnamed [OF assms])

theorem master_releases_unnamed_artist_witness:
  "MasterReleases example_store 8 \<lparr>AfterID = 0, Size = 20\<rparr> =
   Fail (Wrapped queryMasterReleasesError (ErrorText ''cannot scan NULL into *string''))"
  by (rule master_releases_unnamed_artist [where r = "example_release 3 ''Three'' None False False (Some 8)"])
    (simp_all add: example_answers example_artists_of_release sql_limit_def)

section \<open>Filters and lookups\<close>







text \<open>Pattern characters in a term are not escaped: three percent signs pass the length check of
  the API and then match every text, whatever it contains.\<close>

theorem search_percent_matches_all:
  assumes "Pool_lower (St_pool st) ''%%%%%'' = ''%%%%%''"
  shows "optionalSearchTerm ''%%%'' ParameterName = Inr ''%%%'' \<and>
    text_matches st (optionalText ''%%%'') (Some text)"
proof -
  have trim: "TrimSpace ''%%%'' = ''%%%''"
    by (simp add: TrimSpace_printable printable_def char_eval)
  have "optionalSearchTerm ''%%%'' ParameterName = Inr ''%%%''"
    by (simp add: optionalSearchTerm_def optionalTextFilter_def trim Let_def length_defs
        ValidString_ascii_Cons RuneCountInString_ascii_Cons char_eval)
  moreover have "like s ''%%%%%''" for s
  proof -
    have add: "like s (CHR ''%'' # ps)" if "like s ps" for ps
      by (subst like_percent) (simp add: that)
    show ?thesis by (intro add like_percent_end)
  qed
  ultimately show ?thesis
    using assms by (simp add: text_matches_def optionalText_def trim)
qed

theorem search_percent_matches_all_witness:
  "optionalSearchTerm ''%%%'' ParameterName = Inr ''%%%'' \<and>
   text_matches example_store (optionalText ''%%%'') (Some ''Beta'')"
  by (rule search_percent_matches_all) simp

text \<open>C37. The identifier lookup is exact: although the query compares digests, its result does not
  depend on the digest function, so colliding values cannot bring in a release.\<close>

theorem identifier_lookup_digest_independent:
  assumes "answers_identifier st q" "1 \<le> Size p" "Size p < 2 ^ 62"
  shows "ReleasesByIdentifier (st\<lparr>St_pool := (St_pool st)\<lparr>Pool_md5 := digest\<rparr>\<rparr>) q p = ReleasesByIdentifier st q p"
proof -
  let ?st = "st\<lparr>St_pool := (St_pool st)\<lparr>Pool_md5 := digest\<rparr>\<rparr>"
  have "answers_identifier ?st q"
    using assms(1) by (simp add: answers_identifier_def answers_def)
  moreover have "releases_with_identifier ?st q = releases_with_identifier st q"
    by (simp add: releases_with_identifier_def identifier_matches_def [abs_def])
  ultimately show ?thesis
    using identifier_lookup.page_rows [OF assms] identifier_lookup.page_rows [of ?st q p] assms(2,3)
    by simp
qed

theorem identifier_lookup_digest_independent_witness:
  "ReleasesByIdentifier (example_store\<lparr>St_pool := (St_pool example_store)\<lparr>Pool_md5 := (\<lambda>s. s)\<rparr>\<rparr>)
     \<lparr>Identifier_Type = ''Barcode'', Identifier_Value = ''123''\<rparr> \<lparr>AfterID = 0, Size = 20\<rparr> =
   ReleasesByIdentifier example_store \<lparr>Identifier_Type = ''Barcode'', Identifier_Value = ''123''\<rparr>
     \<lparr>AfterID = 0, Size = 20\<rparr>"
  by (rule identifier_lookup_digest_independent)
    (simp_all add: answers_identifier_def example_answers char_eval)

text \<open>A client of the identifier lookup receives every release with that value and type exactly once.\<close>

theorem identifier_lookup_walk:
  assumes "answers_identifier st q" "1 \<le> sz" "sz \<le> maximumPageSize"
    and "no_parameter ParameterAfterID filters" "0 < n"
    and "int (length (releases_with_identifier st q)) \<le> int n * sz"
  shows "follow n (client_get Release_ID (ReleasesByIdentifier st q) uri filters sz) None =
    Some (releases_with_identifier st q)"
  by (rule identifier_lookup.client_walk [OF assms])

lemma example_with_identifier:
  "map Release_ID (releases_with_identifier example_store
     \<lparr>Identifier_Type = ''Barcode'', Identifier_Value = ''123''\<rparr>) = [1, 2]"
  by (simp add: releases_with_identifier_def identifier_matches_def example_rows order_by_def release_of_def)

theorem identifier_lookup_walk_witness:
  "map_option (map Release_ID) (follow 2 (client_get Release_ID (ReleasesByIdentifier example_store
     \<lparr>Identifier_Type = ''Barcode'', Identifier_Value = ''123''\<rparr>) ''/releases'' [] 1) None) = Some [1, 2]"
proof -
  let ?q = "\<lparr>Identifier_Type = ''Barcode'', Identifier_Value = ''123''\<rparr>"
  have "length (releases_with_identifier example_store ?q) = 2"
    using arg_cong [OF example_with_identifier, of length] by simp
  then show ?thesis
    using identifier_lookup_walk [of example_store ?q 1 "[]" 2 "''/releases''"]
    by (simp add: answers_identifier_def example_answers no_parameter_def maximumPageSize_def
        example_with_identifier)
qed

text \<open>A client of the catalog number lookup receives every release of the label with exactly that
  catalog number once.\<close>

theorem catalog_number_lookup_walk:
  assumes "answers_catalog_number st q" "1 \<le> sz" "sz \<le> maximumPageSize"
    and "no_parameter ParameterAfterID filters" "0 < n"
    and "int (length (releases_with_catalog_number st q)) \<le> int n * sz"
  shows "follow n (client_get Release_ID (ReleasesByCatalogNumber st q) uri filters sz) None =
    Some (releases_with_catalog_number st q)"
  by (rule catalog_number_lookup.client_walk [OF assms])

lemma example_with_catalog_number:
  "map Release_ID (releases_with_catalog_number example_store
     \<lparr>LabelID = 10, CatalogNumber = ''CAT 1''\<rparr>) = [1, 2]"
  by (simp add: releases_with_catalog_number_def catalog_number_matches_def example_rows order_by_def
      release_of_def)

theorem catalog_number_lookup_walk_witness:
  "map_option (map Release_ID) (follow 2 (client_get Release_ID (ReleasesByCatalogNumber example_store
     \<lparr>LabelID = 10, CatalogNumber = ''CAT 1''\<rparr>) ''/releases'' [] 1) None) = Some [1, 2]"
proof -
  let ?q = "\<lparr>LabelID = 10, CatalogNumber = ''CAT 1''\<rparr>"
  have "length (releases_with_catalog_number example_store ?q) = 2"
    using arg_cong [OF example_with_catalog_number, of length] by simp
  then show ?thesis
    using catalog_number_lookup_walk [of example_store ?q 1 "[]" 2 "''/releases''"]
    by (simp add: answers_catalog_number_def example_answers no_parameter_def maximumPageSize_def
        example_with_catalog_number)
qed

end
