(* ===== verification/Css.thy ===== *)
theory Css
  imports Go_Prelude "HOL-Library.Sublist"
begin

text \<open>
  The part of CSS that the style sheets embedded in \<open>scalar-1.75.0.js\<close> use: custom properties and
  their names, component values as token sequences, selectors, declarations and rules (style rules,
  \<open>@supports\<close>, \<open>@media\<close>, \<open>@keyframes\<close>, \<open>@font-face\<close>, \<open>@layer\<close>), the matching of a selector on an
  element below its ancestors, the cascade (importance, specificity, order of appearance),
  inheritance of custom properties and the substitution of \<open>var()\<close>.
\<close>

section \<open>Custom properties\<close>

text \<open>
  The custom properties of the theme sheets, by family: \<open>--scalar-color-*\<close>, \<open>--scalar-background-*\<close>,
  \<open>--scalar-sidebar-*\<close>, the other \<open>--scalar-*\<close> properties, and names that belong to no family.
\<close>

datatype colour_role =
    Color_1 | Color_2 | Color_3 | Color_accent | Color_disabled | Color_ghost
  | Color_green | Color_red | Color_yellow | Color_blue | Color_orange | Color_purple
  | Color_query | Color_alert | Color_danger

datatype background_role =
    Background_1 | Background_2 | Background_3 | Background_4
  | Background_accent | Background_card | Background_alert | Background_danger

datatype sidebar_role =
    Sidebar_background_1 | Sidebar_color_1 | Sidebar_color_2 | Sidebar_color_active
  | Sidebar_border_color | Item_hover_background | Item_hover_color | Item_active_background
  | Indent_border | Indent_border_hover | Indent_border_active
  | Search_background | Search_color | Search_border_color

datatype chrome_role =
    Border_color | Button_1 | Button_1_color | Button_1_hover | Link_color | Link_color_hover
  | Tooltip_background | Tooltip_color | Header_background_1
  | Scrollbar_color | Scrollbar_color_active | Shadow_1 | Shadow_2 | Backdrop_brightness
  | Text_decoration | Text_decoration_hover | Code_language_color_supersede
  | Radius | Radius_lg | Radius_xl

datatype custom_property =
    Color colour_role
  | Background background_role
  | Sidebar sidebar_role
  | Chrome chrome_role
  | Local string

fun color_name :: "colour_role \<Rightarrow> string" where
  "color_name Color_1 = ''1''"
| "color_name Color_2 = ''2''"
| "color_name Color_3 = ''3''"
| "color_name Color_accent = ''accent''"
| "color_name Color_disabled = ''disabled''"
| "color_name Color_ghost = ''ghost''"
| "color_name Color_green = ''green''"
| "color_name Color_red = ''red''"
| "color_name Color_yellow = ''yellow''"
| "color_name Color_blue = ''blue''"
| "color_name Color_orange = ''orange''"
| "color_name Color_purple = ''purple''"
| "color_name Color_query = ''query''"
| "color_name Color_alert = ''alert''"
| "color_name Color_danger = ''danger''"

fun background_name :: "background_role \<Rightarrow> string" where
  "background_name Background_1 = ''1''"
| "background_name Background_2 = ''2''"
| "background_name Background_3 = ''3''"
| "background_name Background_4 = ''4''"
| "background_name Background_accent = ''accent''"
| "background_name Background_card = ''card''"
| "background_name Background_alert = ''alert''"
| "background_name Background_danger = ''danger''"

fun sidebar_name :: "sidebar_role \<Rightarrow> string" where
  "sidebar_name Sidebar_background_1 = ''background-1''"
| "sidebar_name Sidebar_color_1 = ''color-1''"
| "sidebar_name Sidebar_color_2 = ''color-2''"
| "sidebar_name Sidebar_color_active = ''color-active''"
| "sidebar_name Sidebar_border_color = ''border-color''"
| "sidebar_name Item_hover_background = ''item-hover-background''"
| "sidebar_name Item_hover_color = ''item-hover-color''"
| "sidebar_name Item_active_background = ''item-active-background''"
| "sidebar_name Indent_border = ''indent-border''"
| "sidebar_name Indent_border_hover = ''indent-border-hover''"
| "sidebar_name Indent_border_active = ''indent-border-active''"
| "sidebar_name Search_background = ''search-background''"
| "sidebar_name Search_color = ''search-color''"
| "sidebar_name Search_border_color = ''search-border-color''"

fun chrome_name :: "chrome_role \<Rightarrow> string" where
  "chrome_name Border_color = ''border-color''"
| "chrome_name Button_1 = ''button-1''"
| "chrome_name Button_1_color = ''button-1-color''"
| "chrome_name Button_1_hover = ''button-1-hover''"
| "chrome_name Link_color = ''link-color''"
| "chrome_name Link_color_hover = ''link-color-hover''"
| "chrome_name Tooltip_background = ''tooltip-background''"
| "chrome_name Tooltip_color = ''tooltip-color''"
| "chrome_name Header_background_1 = ''header-background-1''"
| "chrome_name Scrollbar_color = ''scrollbar-color''"
| "chrome_name Scrollbar_color_active = ''scrollbar-color-active''"
| "chrome_name Shadow_1 = ''shadow-1''"
| "chrome_name Shadow_2 = ''shadow-2''"
| "chrome_name Backdrop_brightness = ''backdrop-brightness''"
| "chrome_name Text_decoration = ''text-decoration''"
| "chrome_name Text_decoration_hover = ''text-decoration-hover''"
| "chrome_name Code_language_color_supersede = ''code-language-color-supersede''"
| "chrome_name Radius = ''radius''"
| "chrome_name Radius_lg = ''radius-lg''"
| "chrome_name Radius_xl = ''radius-xl''"

fun custom_name :: "custom_property \<Rightarrow> string" where
  "custom_name (Color r) = ''--scalar-color-'' @ color_name r"
| "custom_name (Background r) = ''--scalar-background-'' @ background_name r"
| "custom_name (Sidebar r) = ''--scalar-sidebar-'' @ sidebar_name r"
| "custom_name (Chrome r) = ''--scalar-'' @ chrome_name r"
| "custom_name (Local s) = s"

section \<open>Values, declarations, rules\<close>

text \<open>
  A value is the sequence of its tokens, as CSS tokenises it: \<open>Num m k\<close> is the number
  \<open>m * 10^-k\<close> written with \<open>k\<close> decimals, \<open>Pct\<close> and \<open>Dim\<close> a percentage and a dimension, \<open>Fn f\<close> the
  function token \<open>f(\<close> that the next matching \<open>Close\<close> ends, \<open>Var p\<close> the reference \<open>var(p)\<close>.  No
  \<open>var()\<close> of the sheets has a fallback.
\<close>

datatype token =
    Ident string
  | Str string
  | Hash string
  | Url string
  | Num int nat
  | Pct int nat
  | Dim int nat string
  | Fn string
  | Close
  | Comma
  | Slash
  | Var custom_property

type_synonym css_value = "token list"

datatype css_property = Custom custom_property | Property string

datatype css_decl =
    Decl css_property css_value
  | Important css_property css_value

fun declared_property :: "css_decl \<Rightarrow> css_property" where
  "declared_property (Decl p v) = p"
| "declared_property (Important p v) = p"

fun declared_value :: "css_decl \<Rightarrow> css_value" where
  "declared_value (Decl p v) = v"
| "declared_value (Important p v) = v"

fun is_important :: "css_decl \<Rightarrow> bool" where
  "is_important (Decl p v) \<longleftrightarrow> False"
| "is_important (Important p v) \<longleftrightarrow> True"

text \<open>
  Selectors: simple selectors, a compound selector as the list of its simple selectors, and a
  complex selector as the list of its compounds, outermost first, joined by the descendant
  combinator, with the pseudo-element it ends in.  \<open>Not_pseudo_element s\<close> is \<open>:not(::s)\<close>.
\<close>

datatype simple_selector =
    Universal
  | Tag string
  | Class string
  | Root
  | Host
  | Nth_of_type nat
  | First_of_type
  | Not_pseudo_element string

datatype selector = Sel (compounds: "simple_selector list list") (pseudo_element: "string option")

datatype query = Supports_decl string css_value | Max_width nat

datatype rule =
    Style "selector list" "css_decl list"
  | When query "rule list"
  | Keyframes string "(string \<times> css_decl list) list"
  | Font_face "(string \<times> css_value) list" "(nat \<times> nat) list"
  | Layer string "rule list"

type_synonym stylesheet = "rule list"

section \<open>Selector matching\<close>

text \<open>
  What a selector can see of an element: its type, its classes, its position among the siblings of
  its type, whether it is the document root or the shadow host.  A path is an element followed by
  its ancestors, nearest first.
\<close>

record element =
  tag_name :: string
  class_list :: "string list"
  type_index :: nat
  is_root :: bool
  is_host :: bool

type_synonym path = "element list"

fun matches_simple :: "element \<Rightarrow> simple_selector \<Rightarrow> bool" where
  "matches_simple e Universal \<longleftrightarrow> True"
| "matches_simple e (Tag t) \<longleftrightarrow> tag_name e = t"
| "matches_simple e (Class c) \<longleftrightarrow> c \<in> set (class_list e)"
| "matches_simple e Root \<longleftrightarrow> is_root e"
| "matches_simple e Host \<longleftrightarrow> is_host e"
| "matches_simple e (Nth_of_type n) \<longleftrightarrow> type_index e = n"
| "matches_simple e First_of_type \<longleftrightarrow> type_index e = 1"
| "matches_simple e (Not_pseudo_element s) \<longleftrightarrow> False"

definition matches_compound :: "element \<Rightarrow> simple_selector list \<Rightarrow> bool" where
  "matches_compound e ss \<longleftrightarrow> list_all (matches_simple e) ss"

text \<open>The compounds left of the subject, innermost first, on the ancestors, nearest first.\<close>

fun matches_ancestors :: "simple_selector list list \<Rightarrow> path \<Rightarrow> bool" where
  "matches_ancestors [] es \<longleftrightarrow> True"
| "matches_ancestors (c # cs) [] \<longleftrightarrow> False"
| "matches_ancestors (c # cs) (e # es) \<longleftrightarrow>
     (if matches_compound e c then matches_ancestors cs es else matches_ancestors (c # cs) es)"

fun matches_compounds :: "simple_selector list list \<Rightarrow> path \<Rightarrow> bool" where
  "matches_compounds (c # cs) (e # es) \<longleftrightarrow> matches_compound e c \<and> matches_ancestors cs es"
| "matches_compounds cs es \<longleftrightarrow> False"

definition matches :: "path \<Rightarrow> string option \<Rightarrow> selector \<Rightarrow> bool" where
  "matches es ps s \<longleftrightarrow> pseudo_element s = ps \<and> matches_compounds (rev (compounds s)) es"

text \<open>
  The nearest-ancestor scan decides the descendant combinator: a selector matches when its
  compounds match some of the ancestors, in order.
\<close>

lemma matches_ancestors_subseq:
  "matches_ancestors cs es \<longleftrightarrow> (\<exists>es'. subseq es' es \<and> list_all2 (\<lambda>c e. matches_compound e c) cs es')"
proof (induction cs es rule: matches_ancestors.induct)
  case (1 es)
  show ?case by (auto intro: exI[of _ "[]"])
next
  case (2 c cs)
  show ?case by (auto simp: list_all2_Cons1)
next
  case (3 c cs e es)
  show ?case
  proof (cases "matches_compound e c")
    case True
    have "(\<exists>es'. subseq es' (e # es) \<and> list_all2 (\<lambda>c e. matches_compound e c) (c # cs) es')
        \<longleftrightarrow> (\<exists>es'. subseq es' es \<and> list_all2 (\<lambda>c e. matches_compound e c) cs es')" (is "?l \<longleftrightarrow> ?r")
    proof
      assume ?l
      then obtain x xs where "subseq (x # xs) (e # es)" "list_all2 (\<lambda>c e. matches_compound e c) cs xs"
        by (auto simp: list_all2_Cons1)
      then show ?r by (auto split: if_splits dest: subseq_Cons')
    next
      assume ?r
      then obtain es' where "subseq es' es" "list_all2 (\<lambda>c e. matches_compound e c) cs es'" by auto
      with True show ?l by (intro exI[of _ "e # es'"]) auto
    qed
    with 3(1)[OF True] True show ?thesis by simp
  next
    case False
    have "subseq es' (e # es) \<and> list_all2 (\<lambda>c e. matches_compound e c) (c # cs) es'
        \<longleftrightarrow> subseq es' es \<and> list_all2 (\<lambda>c e. matches_compound e c) (c # cs) es'" for es'
      using False by (cases es') (auto split: if_splits)
    with 3(2)[OF False] False show ?thesis by simp
  qed
qed

text \<open>
  A pseudo-element is not a valid argument of \<open>:not()\<close>, and one invalid selector invalidates the
  whole list of its rule.
\<close>

fun valid_simple :: "simple_selector \<Rightarrow> bool" where
  "valid_simple (Not_pseudo_element s) \<longleftrightarrow> False"
| "valid_simple _ \<longleftrightarrow> True"

definition valid_selector :: "selector \<Rightarrow> bool" where
  "valid_selector s \<longleftrightarrow> compounds s \<noteq> [] \<and> list_all (list_all valid_simple) (compounds s)"

text \<open>Specificity: pseudo-classes and classes first, then types and pseudo-elements (no ids occur).\<close>

fun simple_specificity :: "simple_selector \<Rightarrow> nat \<times> nat" where
  "simple_specificity Universal = (0, 0)"
| "simple_specificity (Tag t) = (0, 1)"
| "simple_specificity (Not_pseudo_element s) = (0, 1)"
| "simple_specificity _ = (1, 0)"

definition specificity :: "selector \<Rightarrow> nat \<times> nat" where
  "specificity s =
     (let ws = map simple_specificity (concat (compounds s))
      in (sum_list (map fst ws),
          sum_list (map snd ws) + (if pseudo_element s = None then 0 else 1)))"

section \<open>The cascade\<close>

text \<open>The style rules in force when the engine answers the conditional rules with \<open>b\<close>.\<close>

fun active_rules :: "(query \<Rightarrow> bool) \<Rightarrow> stylesheet \<Rightarrow> (selector list \<times> css_decl list) list" where
  "active_rules b [] = []"
| "active_rules b (Style ss ds # rs) =
     (if list_all valid_selector ss then (ss, ds) # active_rules b rs else active_rules b rs)"
| "active_rules b (When q inner # rs) =
     (if b q then active_rules b inner @ active_rules b rs else active_rules b rs)"
| "active_rules b (Layer l inner # rs) = active_rules b inner @ active_rules b rs"
| "active_rules b (Keyframes n fs # rs) = active_rules b rs"
| "active_rules b (Font_face ds us # rs) = active_rules b rs"

type_synonym weight = "bool \<times> nat \<times> nat"

fun weight_le :: "weight \<Rightarrow> weight \<Rightarrow> bool" where
  "weight_le (i, b, c) (i', b', c') \<longleftrightarrow>
     (if i \<noteq> i' then i' else if b \<noteq> b' then b < b' else c \<le> c')"

fun heaviest :: "(nat \<times> nat) list \<Rightarrow> (nat \<times> nat) option" where
  "heaviest [] = None"
| "heaviest (x # xs) =
     (case heaviest xs of
        None \<Rightarrow> Some x
      | Some y \<Rightarrow> if weight_le (False, x) (False, y) then Some y else Some x)"

text \<open>The declarations that apply to an element (or its pseudo-element), each with its weight.\<close>

definition rule_declarations ::
    "path \<Rightarrow> string option \<Rightarrow> selector list \<times> css_decl list \<Rightarrow> (weight \<times> css_decl) list" where
  "rule_declarations es ps r =
     (case heaviest (map specificity (filter (matches es ps) (fst r))) of
        None \<Rightarrow> []
      | Some w \<Rightarrow> map (\<lambda>d. ((is_important d, w), d)) (snd r))"

definition applied ::
    "(query \<Rightarrow> bool) \<Rightarrow> stylesheet \<Rightarrow> path \<Rightarrow> string option \<Rightarrow> (weight \<times> css_decl) list" where
  "applied b sheet es ps = concat (map (rule_declarations es ps) (active_rules b sheet))"

text \<open>The winning declaration of a property: the last one of the greatest weight.\<close>

fun winner :: "css_property \<Rightarrow> (weight \<times> css_decl) list \<Rightarrow> (weight \<times> css_value) option" where
  "winner p [] = None"
| "winner p ((w, d) # ds) =
     (case winner p ds of
        None \<Rightarrow> if declared_property d = p then Some (w, declared_value d) else None
      | Some (w', v) \<Rightarrow>
          if declared_property d = p \<and> \<not> weight_le w w' then Some (w, declared_value d)
          else Some (w', v))"

definition cascaded :: "css_property \<Rightarrow> (weight \<times> css_decl) list \<Rightarrow> css_value option" where
  "cascaded p ds = map_option snd (winner p ds)"

section \<open>Custom properties of an element\<close>

fun declared_customs :: "(weight \<times> css_decl) list \<Rightarrow> custom_property list" where
  "declared_customs [] = []"
| "declared_customs ((w, d) # ds) =
     (case declared_property d of
        Custom p \<Rightarrow> List.insert p (declared_customs ds)
      | Property s \<Rightarrow> declared_customs ds)"

definition custom_values :: "(weight \<times> css_decl) list \<Rightarrow> (custom_property \<times> css_value) list" where
  "custom_values ds = map (\<lambda>p. (p, the (cascaded (Custom p) ds))) (declared_customs ds)"

text \<open>
  Substitution of \<open>var()\<close>: a property the element declares is replaced by its declared value, itself
  substituted; one it does not declare by the value it inherits.  A reference to a property whose
  value is being computed closes a cycle, and a cycle or an undefined property makes the value
  invalid at computed-value time.  The list holds the declared properties not on the current chain
  of references, \<open>inh\<close> the others' values.
\<close>

abbreviation without :: "custom_property \<Rightarrow> (custom_property \<times> css_value) list \<Rightarrow> (custom_property \<times> css_value) list" where
  "without p ds \<equiv> filter (\<lambda>d. fst d \<noteq> p) ds"

lemma without_shorter: "map_of ds p = Some v \<Longrightarrow> length (without p ds) < length ds"
  using map_of_SomeD[of ds p v] by (auto intro: length_filter_less)

function (sequential) subst ::
    "(custom_property \<times> css_value) list \<Rightarrow> (custom_property \<Rightarrow> css_value option) \<Rightarrow> css_value
      \<Rightarrow> css_value option" where
  "subst ds inh [] = Some []"
| "subst ds inh (Var p # ts) =
     (case map_of ds p of
        None \<Rightarrow>
          (case inh p of
             None \<Rightarrow> None
           | Some v \<Rightarrow> map_option (\<lambda>r. v @ r) (subst ds inh ts))
      | Some v \<Rightarrow>
          (case subst (without p ds) (inh(p := None)) v of
             None \<Rightarrow> None
           | Some v' \<Rightarrow> map_option (\<lambda>r. v' @ r) (subst ds inh ts)))"
| "subst ds inh (t # ts) = map_option (\<lambda>r. t # r) (subst ds inh ts)"
  by pat_completeness auto
termination
  by (relation "measures [\<lambda>(ds, inh, ts). length ds, \<lambda>(ds, inh, ts). length ts]")
    (auto dest: without_shorter)

text \<open>
  The custom properties of the element at the head of a path.  An invalid value is the guaranteed-invalid
  one, which does not inherit the parent's.
\<close>

fun computed :: "(query \<Rightarrow> bool) \<Rightarrow> stylesheet \<Rightarrow> path \<Rightarrow> custom_property \<Rightarrow> css_value option" where
  "computed b sheet [] p = None"
| "computed b sheet (e # es) p =
     subst (custom_values (applied b sheet (e # es) None)) (computed b sheet es) [Var p]"

end
