(* ===== verification/Scalar_Fonts.thy ===== *)
theory Scalar_Fonts
  imports Css
begin

text \<open>
  The web fonts of the API reference, \<open>jun\<close> in \<open>scalar-1.75.0.js\<close>: the \<open>@font-face\<close> rules of Inter
  and of JetBrains Mono, one per subset, each with its descriptors and its \<open>unicode-range\<close>.
\<close>

definition jun_inter :: stylesheet where
  "jun_inter = [
    Font_face
      [(''font-family'', [Str ''Inter'']), (''font-style'', [Ident ''normal'']), (''font-weight'',
          [Num 100 0, Num 900 0]), (''font-display'', [Ident ''swap'']), (''src'',
          [Url ''https://fonts.scalar.com/inter-cyrillic-ext.woff2'', Fn ''format'', Str ''woff2'',
          Close])]
      [(0x0460, 0x052F), (0x1C80, 0x1C88), (0x20B4, 0x20B4), (0x2DE0, 0x2DFF), (0xA640, 0xA69F),
          (0xFE2E, 0xFE2F)],
    Font_face
      [(''font-family'', [Str ''Inter'']), (''font-style'', [Ident ''normal'']), (''font-weight'',
          [Num 100 0, Num 900 0]), (''font-display'', [Ident ''swap'']), (''src'',
          [Url ''https://fonts.scalar.com/inter-cyrillic.woff2'', Fn ''format'', Str ''woff2'', Close])]
      [(0x0301, 0x0301), (0x0400, 0x045F), (0x0490, 0x0491), (0x04B0, 0x04B1), (0x2116, 0x2116)],
    Font_face
      [(''font-family'', [Str ''Inter'']), (''font-style'', [Ident ''normal'']), (''font-weight'',
          [Num 100 0, Num 900 0]), (''font-display'', [Ident ''swap'']), (''src'',
          [Url ''https://fonts.scalar.com/inter-greek-ext.woff2'', Fn ''format'', Str ''woff2'',
          Close])]
      [(0x1F00, 0x1FFF)],
    Font_face
      [(''font-family'', [Str ''Inter'']), (''font-style'', [Ident ''normal'']), (''font-weight'',
          [Num 100 0, Num 900 0]), (''font-display'', [Ident ''swap'']), (''src'',
          [Url ''https://fonts.scalar.com/inter-greek.woff2'', Fn ''format'', Str ''woff2'', Close])]
      [(0x0370, 0x0377), (0x037A, 0x037F), (0x0384, 0x038A), (0x038C, 0x038C), (0x038E, 0x03A1),
          (0x03A3, 0x03FF)],
    Font_face
      [(''font-family'', [Str ''Inter'']), (''font-style'', [Ident ''normal'']), (''font-weight'',
          [Num 100 0, Num 900 0]), (''font-display'', [Ident ''swap'']), (''src'',
          [Url ''https://fonts.scalar.com/inter-vietnamese.woff2'', Fn ''format'', Str ''woff2'',
          Close])]
      [(0x0102, 0x0103), (0x0110, 0x0111), (0x0128, 0x0129), (0x0168, 0x0169), (0x01A0, 0x01A1),
          (0x01AF, 0x01B0), (0x0300, 0x0301), (0x0303, 0x0304), (0x0308, 0x0309), (0x0323, 0x0323),
          (0x0329, 0x0329), (0x1EA0, 0x1EF9), (0x20AB, 0x20AB)],
    Font_face
      [(''font-family'', [Str ''Inter'']), (''font-style'', [Ident ''normal'']), (''font-weight'',
          [Num 100 0, Num 900 0]), (''font-display'', [Ident ''swap'']), (''src'',
          [Url ''https://fonts.scalar.com/inter-latin-ext.woff2'', Fn ''format'', Str ''woff2'',
          Close])]
      [(0x0100, 0x02AF), (0x0304, 0x0304), (0x0308, 0x0308), (0x0329, 0x0329), (0x1E00, 0x1E9F),
          (0x1EF2, 0x1EFF), (0x2020, 0x2020), (0x20A0, 0x20AB), (0x20AD, 0x20C0), (0x2113, 0x2113),
          (0x2C60, 0x2C7F), (0xA720, 0xA7FF)],
    Font_face
      [(''font-family'', [Str ''Inter'']), (''font-style'', [Ident ''normal'']), (''font-weight'',
          [Num 100 0, Num 900 0]), (''font-display'', [Ident ''swap'']), (''src'',
          [Url ''https://fonts.scalar.com/inter-latin.woff2'', Fn ''format'', Str ''woff2'', Close])]
      [(0x0000, 0x00FF), (0x0131, 0x0131), (0x0152, 0x0153), (0x02BB, 0x02BC), (0x02C6, 0x02C6),
          (0x02DA, 0x02DA), (0x02DC, 0x02DC), (0x0304, 0x0304), (0x0308, 0x0308), (0x0329, 0x0329),
          (0x2000, 0x206F), (0x2074, 0x2074), (0x20AC, 0x20AC), (0x2122, 0x2122), (0x2191, 0x2191),
          (0x2193, 0x2193), (0x2212, 0x2212), (0x2215, 0x2215), (0xFEFF, 0xFEFF), (0xFFFD, 0xFFFD)],
    Font_face
      [(''font-family'', [Str ''Inter'']), (''font-style'', [Ident ''normal'']), (''font-weight'',
          [Num 100 0, Num 900 0]), (''font-display'', [Ident ''swap'']), (''src'',
          [Url ''https://fonts.scalar.com/inter-symbols.woff2'', Fn ''format'', Str ''woff2'', Close])]
      [(0x2190, 0x2193), (0x21B5, 0x21B5), (0x21E7, 0x21E7), (0x21EA, 0x21EA), (0x2318, 0x2318),
          (0x2325, 0x2325)]]"

definition jun_mono :: stylesheet where
  "jun_mono = [
    Font_face
      [(''font-family'', [Str ''JetBrains Mono'']), (''font-style'', [Ident ''normal'']),
          (''font-weight'', [Num 400 0]), (''src'',
          [Url ''https://fonts.scalar.com/mono-cyrillic-ext.woff2'', Fn ''format'', Str ''woff2'',
          Close])]
      [(0x0460, 0x052F), (0x1C80, 0x1C88), (0x20B4, 0x20B4), (0x2DE0, 0x2DFF), (0xA640, 0xA69F),
          (0xFE2E, 0xFE2F)],
    Font_face
      [(''font-family'', [Str ''JetBrains Mono'']), (''font-style'', [Ident ''normal'']),
          (''font-weight'', [Num 400 0]), (''src'',
          [Url ''https://fonts.scalar.com/mono-cyrillic.woff2'', Fn ''format'', Str ''woff2'', Close])]
      [(0x0301, 0x0301), (0x0400, 0x045F), (0x0490, 0x0491), (0x04B0, 0x04B1), (0x2116, 0x2116)],
    Font_face
      [(''font-family'', [Str ''JetBrains Mono'']), (''font-style'', [Ident ''normal'']),
          (''font-weight'', [Num 400 0]), (''src'', [Url ''https://fonts.scalar.com/mono-greek.woff2'',
          Fn ''format'', Str ''woff2'', Close])]
      [(0x0370, 0x0377), (0x037A, 0x037F), (0x0384, 0x038A), (0x038C, 0x038C), (0x038E, 0x03A1),
          (0x03A3, 0x03FF)],
    Font_face
      [(''font-family'', [Str ''JetBrains Mono'']), (''font-style'', [Ident ''normal'']),
          (''font-weight'', [Num 400 0]), (''src'',
          [Url ''https://fonts.scalar.com/mono-vietnamese.woff2'', Fn ''format'', Str ''woff2'',
          Close])]
      [(0x0102, 0x0103), (0x0110, 0x0111), (0x0128, 0x0129), (0x0168, 0x0169), (0x01A0, 0x01A1),
          (0x01AF, 0x01B0), (0x0300, 0x0301), (0x0303, 0x0304), (0x0308, 0x0309), (0x0323, 0x0323),
          (0x0329, 0x0329), (0x1EA0, 0x1EF9), (0x20AB, 0x20AB)],
    Font_face
      [(''font-family'', [Str ''JetBrains Mono'']), (''font-style'', [Ident ''normal'']),
          (''font-weight'', [Num 400 0]), (''src'',
          [Url ''https://fonts.scalar.com/mono-latin-ext.woff2'', Fn ''format'', Str ''woff2'', Close])]
      [(0x0100, 0x02AF), (0x0304, 0x0304), (0x0308, 0x0308), (0x0329, 0x0329), (0x1E00, 0x1E9F),
          (0x1EF2, 0x1EFF), (0x2020, 0x2020), (0x20A0, 0x20AB), (0x20AD, 0x20C0), (0x2113, 0x2113),
          (0x2C60, 0x2C7F), (0xA720, 0xA7FF)],
    Font_face
      [(''font-family'', [Str ''JetBrains Mono'']), (''font-style'', [Ident ''normal'']),
          (''font-weight'', [Num 400 0]), (''src'', [Url ''https://fonts.scalar.com/mono-latin.woff2'',
          Fn ''format'', Str ''woff2'', Close])]
      [(0x0000, 0x00FF), (0x0131, 0x0131), (0x0152, 0x0153), (0x02BB, 0x02BC), (0x02C6, 0x02C6),
          (0x02DA, 0x02DA), (0x02DC, 0x02DC), (0x0304, 0x0304), (0x0308, 0x0308), (0x0329, 0x0329),
          (0x2000, 0x206F), (0x2074, 0x2074), (0x20AC, 0x20AC), (0x2122, 0x2122), (0x2191, 0x2191),
          (0x2193, 0x2193), (0x2212, 0x2212), (0x2215, 0x2215), (0xFEFF, 0xFEFF), (0xFFFD, 0xFFFD)]]"

definition jun :: stylesheet where
  "jun = jun_inter @ jun_mono"

end
