(* ===== verification/Scalar_Themes_1.thy ===== *)
theory Scalar_Themes_1
  imports Css
begin

text \<open>
  The theme style sheets of the API reference as \<open>scalar-1.75.0.js\<close> embeds them, one template
  literal each: alternate, bluePlanet and deepSpace.  A definition per section of the sheet, in
  the order of the rules and of their declarations, then the sheet.
\<close>

section \<open>Mun: theme alternate\<close>

definition Mun_basic :: stylesheet where
  "Mun_basic = [
    Style
      [Sel [[Root]] None,
       Sel [[Host]] None]
      [Decl (Custom (Chrome Text_decoration)) [Ident ''underline''],
       Decl (Custom (Chrome Text_decoration_hover)) [Ident ''underline'']],
    Style
      [Sel [[Class ''dark-mode'']] None]
      [Decl (Custom (Background Background_1)) [Hash ''131313''],
       Decl (Custom (Background Background_2)) [Hash ''1d1d1d''],
       Decl (Custom (Background Background_3)) [Hash ''272727''],
       Decl (Custom (Background Background_card)) [Hash ''1d1d1d''],
       Decl (Custom (Color Color_1)) [Fn ''rgba'', Num 255 0, Comma, Num 255 0, Comma, Num 255 0,
           Comma, Num 9 1, Close],
       Decl (Custom (Color Color_2)) [Fn ''rgba'', Num 255 0, Comma, Num 255 0, Comma, Num 255 0,
           Comma, Num 62 2, Close],
       Decl (Custom (Color Color_3)) [Fn ''rgba'', Num 255 0, Comma, Num 255 0, Comma, Num 255 0,
           Comma, Num 44 2, Close],
       Decl (Custom (Color Color_accent)) [Var (Color Color_1)],
       Decl (Custom (Background Background_accent)) [Var (Background Background_3)],
       Decl (Custom (Chrome Border_color)) [Hash ''2a2b2a'']],
    Style
      [Sel [[Class ''light-mode'']] None,
       Sel [[Class ''light-mode''], [Class ''dark-mode'']] None]
      [Decl (Custom (Background Background_1)) [Hash ''f9f9f9''],
       Decl (Custom (Background Background_2)) [Hash ''f1f1f1''],
       Decl (Custom (Background Background_3)) [Hash ''e7e7e7''],
       Decl (Custom (Background Background_card)) [Hash ''fff''],
       Decl (Custom (Color Color_1)) [Hash ''1b1b1b''],
       Decl (Custom (Color Color_2)) [Hash ''6d6d6d''],
       Decl (Custom (Color Color_3)) [Hash ''8e8e8e''],
       Decl (Custom (Color Color_accent)) [Var (Color Color_1)],
       Decl (Custom (Background Background_accent)) [Var (Background Background_3)],
       Decl (Custom (Chrome Border_color)) [Fn ''rgba'', Num 0 0, Comma, Num 0 0, Comma, Num 0 0,
           Comma, Num 1 1, Close]]]"

definition Mun_sidebar :: stylesheet where
  "Mun_sidebar = [
    Style
      [Sel [[Class ''t-doc__sidebar'']] None]
      [Decl (Custom (Color Color_green)) [Var (Color Color_1)],
       Decl (Custom (Color Color_red)) [Var (Color Color_1)],
       Decl (Custom (Color Color_yellow)) [Var (Color Color_1)],
       Decl (Custom (Color Color_blue)) [Var (Color Color_1)],
       Decl (Custom (Color Color_orange)) [Var (Color Color_1)],
       Decl (Custom (Color Color_purple)) [Var (Color Color_1)],
       Decl (Custom (Color Color_query)) [Var (Color Color_1)]],
    Style
      [Sel [[Class ''light-mode''], [Class ''t-doc__sidebar'']] None,
       Sel [[Class ''dark-mode''], [Class ''t-doc__sidebar'']] None]
      [Decl (Custom (Sidebar Sidebar_background_1)) [Var (Background Background_1)],
       Decl (Custom (Sidebar Sidebar_color_1)) [Var (Color Color_1)],
       Decl (Custom (Sidebar Sidebar_color_2)) [Var (Color Color_2)],
       Decl (Custom (Sidebar Sidebar_border_color)) [Var (Chrome Border_color)],
       Decl (Custom (Sidebar Item_hover_background)) [Var (Background Background_2)],
       Decl (Custom (Sidebar Item_hover_color)) [Ident ''currentColor''],
       Decl (Custom (Sidebar Item_active_background)) [Var (Background Background_accent)],
       Decl (Custom (Sidebar Sidebar_color_active)) [Var (Color Color_accent)],
       Decl (Custom (Sidebar Search_background)) [Ident ''transparent''],
       Decl (Custom (Sidebar Search_color)) [Var (Color Color_3)],
       Decl (Custom (Sidebar Search_border_color)) [Var (Chrome Border_color)]]]"

definition Mun_advanced :: stylesheet where
  "Mun_advanced = [
    Style
      [Sel [[Class ''light-mode''], [Class ''dark-mode'']] None,
       Sel [[Class ''light-mode'']] None]
      [Decl (Custom (Color Color_green)) [Hash ''069061''],
       Decl (Custom (Color Color_red)) [Hash ''ef0006''],
       Decl (Custom (Color Color_yellow)) [Hash ''edbe20''],
       Decl (Custom (Color Color_blue)) [Hash ''0071bb''],
       Decl (Custom (Color Color_orange)) [Hash ''fb892c''],
       Decl (Custom (Color Color_purple)) [Hash ''5203d1''],
       Decl (Custom (Color Color_query)) [Hash ''007b80''],
       Decl (Custom (Chrome Button_1)) [Fn ''rgba'', Num 0 0, Comma, Num 0 0, Comma, Num 0 0, Comma,
           Num 1 0, Close],
       Decl (Custom (Chrome Button_1_hover)) [Fn ''rgba'', Num 0 0, Comma, Num 0 0, Comma, Num 0 0,
           Comma, Num 8 1, Close],
       Decl (Custom (Chrome Button_1_color)) [Hash ''fff'']],
    Style
      [Sel [[Class ''dark-mode'']] None]
      [Decl (Custom (Color Color_green)) [Hash ''00b648''],
       Decl (Custom (Color Color_red)) [Hash ''dd2f2c''],
       Decl (Custom (Color Color_yellow)) [Hash ''ffc90d''],
       Decl (Custom (Color Color_blue)) [Hash ''4eb3ec''],
       Decl (Custom (Color Color_orange)) [Hash ''ff8d4d''],
       Decl (Custom (Color Color_purple)) [Hash ''b191f9''],
       Decl (Custom (Color Color_query)) [Hash ''65d4cf''],
       Decl (Custom (Chrome Button_1)) [Fn ''rgba'', Num 255 0, Comma, Num 255 0, Comma, Num 255 0,
           Comma, Num 1 0, Close],
       Decl (Custom (Chrome Button_1_hover)) [Fn ''rgba'', Num 255 0, Comma, Num 255 0, Comma,
           Num 255 0, Comma, Num 9 1, Close],
       Decl (Custom (Chrome Button_1_color)) [Ident ''black'']],
    Style
      [Sel [[Class ''scalar-api-client__item'']] None,
       Sel [[Class ''scalar-card'']] None,
       Sel [[Class ''dark-mode''], [Class ''dark-mode'', Class ''scalar-card'']] None]
      [Decl (Custom (Background Background_1)) [Var (Background Background_card)],
       Decl (Custom (Background Background_2)) [Var (Background Background_1)],
       Decl (Custom (Background Background_3)) [Var (Background Background_1)]],
    Style
      [Sel [[Class ''dark-mode''], [Class ''dark-mode'', Class ''scalar-card'']] None]
      [Decl (Custom (Background Background_3)) [Var (Background Background_3)]],
    Style
      [Sel [[Class ''light-mode''], [Universal]] (Some ''selection'')]
      [Decl (Property ''background-color'') [Fn ''color-mix'', Ident ''in'', Ident ''srgb'', Comma,
           Var (Color Color_blue), Comma, Ident ''transparent'', Pct 70 0, Close]],
    Style
      [Sel [[Class ''dark-mode''], [Universal]] (Some ''selection'')]
      [Decl (Property ''background-color'') [Fn ''color-mix'', Ident ''in'', Ident ''srgb'', Comma,
           Var (Color Color_blue), Comma, Ident ''transparent'', Pct 50 0, Close]]]"

definition Mun :: stylesheet where
  "Mun = Mun_basic @ Mun_sidebar @ Mun_advanced"

lemmas Mun_defs = Mun_def Mun_basic_def Mun_sidebar_def Mun_advanced_def

section \<open>Nun: theme bluePlanet\<close>

definition Nun_basic :: stylesheet where
  "Nun_basic = [
    Style
      [Sel [[Root]] None,
       Sel [[Host]] None]
      [Decl (Custom (Chrome Text_decoration)) [Ident ''underline''],
       Decl (Custom (Chrome Text_decoration_hover)) [Ident ''underline'']],
    Style
      [Sel [[Class ''light-mode'']] None]
      [Decl (Custom (Background Background_1)) [Hash ''f0f2f5''],
       Decl (Custom (Background Background_2)) [Hash ''eaecf0''],
       Decl (Custom (Background Background_3)) [Hash ''e0e2e6''],
       Decl (Custom (Chrome Border_color)) [Fn ''rgb'', Num 213 0, Num 213 0, Num 213 0, Close],
       Decl (Custom (Color Color_1)) [Fn ''rgb'', Num 9 0, Comma, Num 9 0, Comma, Num 11 0, Close],
       Decl (Custom (Color Color_2)) [Fn ''rgb'', Num 105 0, Comma, Num 105 0, Comma, Num 112 0,
           Close],
       Decl (Custom (Color Color_3)) [Fn ''rgba'', Num 25 0, Comma, Num 25 0, Comma, Num 28 0,
           Comma, Num 5 1, Close],
       Decl (Custom (Color Color_accent)) [Var (Color Color_1)],
       Decl (Custom (Background Background_accent)) [Hash ''8ab4f81f'']],
    Style
      [Sel [[Class ''light-mode''], [Class ''scalar-card'', Class ''dark-mode'']] None,
       Sel [[Class ''dark-mode'']] None]
      [Decl (Custom (Background Background_1)) [Hash ''000e23''],
       Decl (Custom (Background Background_2)) [Hash ''01132e''],
       Decl (Custom (Background Background_3)) [Hash ''03193b''],
       Decl (Custom (Chrome Border_color)) [Hash ''2e394c''],
       Decl (Custom (Color Color_1)) [Hash ''fafafa''],
       Decl (Custom (Color Color_2)) [Fn ''rgb'', Num 161 0, Comma, Num 161 0, Comma, Num 170 0,
           Close],
       Decl (Custom (Color Color_3)) [Fn ''rgba'', Num 255 0, Comma, Num 255 0, Comma, Num 255 0,
           Comma, Num 533 3, Close],
       Decl (Custom (Color Color_accent)) [Var (Color Color_1)],
       Decl (Custom (Background Background_accent)) [Hash ''8ab4f81f''],
       Decl (Custom (Chrome Code_language_color_supersede)) [Var (Color Color_1)]]]"

definition Nun_sidebar :: stylesheet where
  "Nun_sidebar = [
    Style
      [Sel [[Class ''light-mode''], [Class ''t-doc__sidebar'']] None,
       Sel [[Class ''dark-mode''], [Class ''t-doc__sidebar'']] None]
      [Decl (Custom (Sidebar Sidebar_background_1)) [Var (Background Background_1)],
       Decl (Custom (Sidebar Sidebar_color_1)) [Var (Color Color_1)],
       Decl (Custom (Sidebar Sidebar_color_2)) [Var (Color Color_2)],
       Decl (Custom (Sidebar Sidebar_border_color)) [Var (Chrome Border_color)],
       Decl (Custom (Sidebar Item_hover_background)) [Var (Background Background_2)],
       Decl (Custom (Sidebar Item_hover_color)) [Ident ''currentColor''],
       Decl (Custom (Sidebar Item_active_background)) [Var (Background Background_3)],
       Decl (Custom (Sidebar Sidebar_color_active)) [Var (Color Color_accent)],
       Decl (Custom (Sidebar Search_background)) [Fn ''rgba'', Num 255 0, Comma, Num 255 0, Comma,
           Num 255 0, Comma, Num 1 1, Close],
       Decl (Custom (Sidebar Search_border_color)) [Var (Chrome Border_color)],
       Decl (Custom (Sidebar Search_color)) [Var (Color Color_3)],
       Decl (Property ''z-index'') [Num 1 0]],
    Style
      [Sel [[Class ''light-mode''], [Class ''t-doc__sidebar'']] None]
      [Decl (Custom (Sidebar Search_background)) [Ident ''white'']]]"

definition Nun_advanced :: stylesheet where
  "Nun_advanced = [
    Style
      [Sel [[Class ''light-mode'']] None]
      [Decl (Custom (Color Color_green)) [Hash ''069061''],
       Decl (Custom (Color Color_red)) [Hash ''ef0006''],
       Decl (Custom (Color Color_yellow)) [Hash ''edbe20''],
       Decl (Custom (Color Color_blue)) [Hash ''006db5''],
       Decl (Custom (Color Color_orange)) [Hash ''fb892c''],
       Decl (Custom (Color Color_purple)) [Hash ''5203d1''],
       Decl (Custom (Color Color_query)) [Hash ''007b80''],
       Decl (Custom (Chrome Button_1)) [Fn ''rgba'', Num 0 0, Comma, Num 0 0, Comma, Num 0 0, Comma,
           Num 1 0, Close],
       Decl (Custom (Chrome Button_1_hover)) [Fn ''rgba'', Num 0 0, Comma, Num 0 0, Comma, Num 0 0,
           Comma, Num 8 1, Close],
       Decl (Custom (Chrome Button_1_color)) [Hash ''fff'']],
    Style
      [Sel [[Class ''dark-mode'']] None]
      [Decl (Custom (Color Color_green)) [Fn ''rgba'', Num 69 0, Comma, Num 255 0, Comma, Num 165 0,
           Comma, Num 823 3, Close],
       Decl (Custom (Color Color_red)) [Hash ''ff8589''],
       Decl (Custom (Color Color_yellow)) [Hash ''ffcc4d''],
       Decl (Custom (Color Color_blue)) [Hash ''6bc1fe''],
       Decl (Custom (Color Color_orange)) [Hash ''f98943''],
       Decl (Custom (Color Color_purple)) [Hash ''b191f9''],
       Decl (Custom (Color Color_query)) [Hash ''79e2da''],
       Decl (Custom (Chrome Button_1)) [Fn ''rgba'', Num 255 0, Comma, Num 255 0, Comma, Num 255 0,
           Comma, Num 1 0, Close],
       Decl (Custom (Chrome Button_1_hover)) [Fn ''rgba'', Num 255 0, Comma, Num 255 0, Comma,
           Num 255 0, Comma, Num 9 1, Close],
       Decl (Custom (Chrome Button_1_color)) [Ident ''black'']]]"

definition Nun_custom :: stylesheet where
  "Nun_custom = [
    Keyframes ''headerbackground''
      [(''from'',
         [Decl (Property ''background'') [Ident ''transparent''],
          Decl (Property ''backdrop-filter'') [Ident ''none'']]),
       (''to'',
         [Decl (Property ''background'') [Var (Chrome Header_background_1)],
          Decl (Property ''backdrop-filter'') [Fn ''blur'', Dim 12 0 ''px'', Close]])],
    Style
      [Sel [[Class ''light-mode''], [Class ''t-doc__header'']] None,
       Sel [[Class ''dark-mode''], [Class ''t-doc__header'']] None]
      [Decl (Property ''animation'') [Ident ''headerbackground'', Ident ''forwards''],
       Decl (Property ''animation-timeline'') [Fn ''scroll'', Close],
       Decl (Property ''animation-range'') [Dim 0 0 ''px'', Dim 200 0 ''px'']],
    Style
      [Sel [[Class ''dark-mode''], [Class ''t-doc''], [Class ''layout-content'']] None]
      [Decl (Property ''background'') [Ident ''transparent'']],
    Style
      [Sel [[Class ''dark-mode''], [Tag ''h2'', Class ''t-editor__heading'']] None,
       Sel [[Class ''dark-mode''], [Class ''t-editor__page-title''], [Tag ''h1'']] None,
       Sel [[Class ''dark-mode''], [Tag ''h1'', Class ''section-header'', Not_pseudo_element ''selection'']] None,
       Sel [[Class ''dark-mode''], [Class ''markdown''], [Tag ''h1'']] None,
       Sel [[Class ''dark-mode''], [Class ''markdown''], [Tag ''h2'']] None,
       Sel [[Class ''dark-mode''], [Class ''markdown''], [Tag ''h3'']] None,
       Sel [[Class ''dark-mode''], [Class ''markdown''], [Tag ''h4'']] None,
       Sel [[Class ''dark-mode''], [Class ''markdown''], [Tag ''h5'']] None,
       Sel [[Class ''dark-mode''], [Class ''markdown''], [Tag ''h6'']] None]
      [Decl (Property ''-webkit-text-fill-color'') [Ident ''transparent''],
       Decl (Property ''background-image'') [Fn ''linear-gradient'', Ident ''to'', Ident ''right'',
           Ident ''bottom'', Comma, Fn ''rgb'', Num 255 0, Comma, Num 255 0, Comma, Num 255 0, Close,
           Pct 30 0, Comma, Fn ''rgba'', Num 255 0, Comma, Num 255 0, Comma, Num 255 0, Comma, Num 38 2,
           Close, Close],
       Decl (Property ''-webkit-background-clip'') [Ident ''text''],
       Decl (Property ''background-clip'') [Ident ''text'']]]"

definition Nun_flare :: stylesheet where
  "Nun_flare = [
    Style
      [Sel [[Class ''section-flare-item'', Nth_of_type 1]] None]
      [Decl (Custom (Local ''--c1'')) [Hash ''ffffff''],
       Decl (Custom (Local ''--c2'')) [Hash ''babfd8''],
       Decl (Custom (Local ''--c3'')) [Hash ''2e8bb2''],
       Decl (Custom (Local ''--c4'')) [Hash ''1a8593''],
       Decl (Custom (Local ''--c5'')) [Hash ''0a143e''],
       Decl (Custom (Local ''--c6'')) [Hash ''0a0f52''],
       Decl (Custom (Local ''--c7'')) [Hash ''2341b8''],
       Decl (Custom (Local ''--solid'')) [Var (Local ''--c1''), Comma, Var (Local ''--c2''), Comma,
           Var (Local ''--c3''), Comma, Var (Local ''--c4''), Comma, Var (Local ''--c5''), Comma,
           Var (Local ''--c6''), Comma, Var (Local ''--c7'')],
       Decl (Custom (Local ''--solid-wrap'')) [Var (Local ''--solid''), Comma, Var (Local ''--c1'')],
       Decl (Custom (Local ''--trans'')) [Var (Local ''--c1''), Comma, Ident ''transparent'', Comma,
           Var (Local ''--c2''), Comma, Ident ''transparent'', Comma, Var (Local ''--c3''), Comma,
           Ident ''transparent'', Comma, Var (Local ''--c4''), Comma, Ident ''transparent'', Comma,
           Var (Local ''--c5''), Comma, Ident ''transparent'', Comma, Var (Local ''--c6''), Comma,
           Ident ''transparent'', Comma, Var (Local ''--c7'')],
       Decl (Custom (Local ''--trans-wrap'')) [Var (Local ''--trans''), Comma,
           Ident ''transparent'', Comma, Var (Local ''--c1'')],
       Decl (Property ''background'') [Fn ''radial-gradient'', Ident ''circle'', Comma,
           Var (Local ''--trans''), Close, Comma, Fn ''conic-gradient'', Ident ''from'',
           Dim 180 0 ''deg'', Comma, Var (Local ''--trans-wrap''), Close, Comma, Fn ''radial-gradient'',
           Ident ''circle'', Comma, Var (Local ''--trans''), Close, Comma, Fn ''conic-gradient'',
           Var (Local ''--solid-wrap''), Close],
       Decl (Property ''width'') [Dim 70 0 ''vw''],
       Decl (Property ''height'') [Dim 700 0 ''px''],
       Decl (Property ''border-radius'') [Pct 50 0],
       Decl (Property ''filter'') [Fn ''blur'', Dim 100 0 ''px'', Close],
       Decl (Property ''z-index'') [Num 0 0],
       Decl (Property ''right'') [Num 0 0],
       Decl (Property ''position'') [Ident ''absolute''],
       Decl (Property ''transform'') [Fn ''rotate'', Dim (-45) 0 ''deg'', Close],
       Decl (Property ''top'') [Dim (-300) 0 ''px''],
       Decl (Property ''opacity'') [Num 3 1]],
    Style
      [Sel [[Class ''section-flare-item'', Nth_of_type 3]] None]
      [Decl (Custom (Local ''--star-color'')) [Hash ''6b9acc''],
       Decl (Custom (Local ''--star-color2'')) [Hash ''446b8d''],
       Decl (Custom (Local ''--star-color3'')) [Hash ''3e5879''],
       Decl (Property ''background-image'') [Fn ''radial-gradient'', Dim 2 0 ''px'', Dim 2 0 ''px'',
           Ident ''at'', Dim 20 0 ''px'', Dim 30 0 ''px'', Comma, Var (Local ''--star-color2''), Comma,
           Fn ''rgba'', Num 0 0, Comma, Num 0 0, Comma, Num 0 0, Comma, Num 0 0, Close, Close, Comma,
           Fn ''radial-gradient'', Dim 2 0 ''px'', Dim 2 0 ''px'', Ident ''at'', Dim 40 0 ''px'',
           Dim 70 0 ''px'', Comma, Var (Local ''--star-color''), Comma, Fn ''rgba'', Num 0 0, Comma,
           Num 0 0, Comma, Num 0 0, Comma, Num 0 0, Close, Close, Comma, Fn ''radial-gradient'',
           Dim 2 0 ''px'', Dim 2 0 ''px'', Ident ''at'', Dim 50 0 ''px'', Dim 160 0 ''px'', Comma,
           Var (Local ''--star-color3''), Comma, Fn ''rgba'', Num 0 0, Comma, Num 0 0, Comma, Num 0 0,
           Comma, Num 0 0, Close, Close, Comma, Fn ''radial-gradient'', Dim 2 0 ''px'', Dim 2 0 ''px'',
           Ident ''at'', Dim 90 0 ''px'', Dim 40 0 ''px'', Comma, Var (Local ''--star-color''), Comma,
           Fn ''rgba'', Num 0 0, Comma, Num 0 0, Comma, Num 0 0, Comma, Num 0 0, Close, Close, Comma,
           Fn ''radial-gradient'', Dim 2 0 ''px'', Dim 2 0 ''px'', Ident ''at'', Dim 130 0 ''px'',
           Dim 80 0 ''px'', Comma, Var (Local ''--star-color''), Comma, Fn ''rgba'', Num 0 0, Comma,
           Num 0 0, Comma, Num 0 0, Comma, Num 0 0, Close, Close, Comma, Fn ''radial-gradient'',
           Dim 2 0 ''px'', Dim 2 0 ''px'', Ident ''at'', Dim 160 0 ''px'', Dim 120 0 ''px'', Comma,
           Var (Local ''--star-color3''), Comma, Fn ''rgba'', Num 0 0, Comma, Num 0 0, Comma, Num 0 0,
           Comma, Num 0 0, Close, Close],
       Decl (Property ''background-repeat'') [Ident ''repeat''],
       Decl (Property ''background-size'') [Dim 200 0 ''px'', Dim 200 0 ''px''],
       Decl (Property ''width'') [Pct 100 0],
       Decl (Property ''height'') [Pct 100 0],
       Decl (Property ''mask-image'') [Fn ''radial-gradient'', Ident ''ellipse'', Ident ''at'',
           Pct 100 0, Pct 0 0, Comma, Ident ''black'', Pct 40 0, Comma, Ident ''transparent'', Pct 70 0,
           Close]],
    Style
      [Sel [[Class ''section-flare'']] None]
      [Important (Property ''top'') [Dim (-150) 0 ''px''],
       Decl (Property ''height'') [Dim 100 0 ''vh''],
       Decl (Property ''background'') [Fn ''linear-gradient'', Hash ''000'', Comma,
           Var (Background Background_1), Close],
       Decl (Property ''width'') [Dim 100 0 ''vw''],
       Decl (Property ''overflow-x'') [Ident ''hidden'']],
    Style
      [Sel [[Class ''light-mode''], [Class ''section-flare'']] None]
      [Decl (Property ''display'') [Ident ''none'']],
    Style
      [Sel [[Class ''light-mode''], [Class ''scalar-card'']] None]
      [Decl (Custom (Background Background_1)) [Hash ''fff''],
       Decl (Custom (Background Background_2)) [Hash ''fff''],
       Decl (Custom (Background Background_3)) [Hash ''fff'']],
    Style
      [Sel [[Universal]] (Some ''selection'')]
      [Decl (Property ''background-color'') [Fn ''color-mix'', Ident ''in'', Ident ''srgb'', Comma,
           Var (Color Color_blue), Comma, Ident ''transparent'', Pct 60 0, Close]],
    When (Max_width 1000) [
      Style
        [Sel [[Class ''light-mode''], [Class ''t-doc__sidebar'']] None,
         Sel [[Class ''dark-mode''], [Class ''t-doc__sidebar'']] None]
        [Decl (Custom (Sidebar Sidebar_background_1)) [Var (Background Background_1)]],
      Style
        [Sel [[Class ''light-mode''], [Class ''t-doc__header'']] None,
         Sel [[Class ''dark-mode''], [Class ''t-doc__header'']] None]
        [Decl (Property ''animation'') [Ident ''none''],
         Decl (Property ''background'') [Var (Chrome Header_background_1)],
         Decl (Property ''backdrop-filter'') [Fn ''blur'', Dim 12 0 ''px'', Close]]]]"

definition Nun :: stylesheet where
  "Nun = Nun_basic @ Nun_sidebar @ Nun_advanced @ Nun_custom @ Nun_flare"

lemmas Nun_defs = Nun_def Nun_basic_def Nun_sidebar_def Nun_advanced_def Nun_custom_def Nun_flare_def

section \<open>Pun: theme deepSpace\<close>

definition Pun_basic :: stylesheet where
  "Pun_basic = [
    Style
      [Sel [[Root]] None,
       Sel [[Host]] None]
      [Decl (Custom (Chrome Text_decoration)) [Ident ''underline''],
       Decl (Custom (Chrome Text_decoration_hover)) [Ident ''underline'']],
    Style
      [Sel [[Class ''light-mode'']] None]
      [Decl (Custom (Color Color_1)) [Fn ''rgb'', Num 9 0, Comma, Num 9 0, Comma, Num 11 0, Close],
       Decl (Custom (Color Color_2)) [Fn ''rgb'', Num 109 0, Comma, Num 109 0, Comma, Num 117 0,
           Close],
       Decl (Custom (Color Color_3)) [Fn ''rgba'', Num 25 0, Comma, Num 25 0, Comma, Num 28 0,
           Comma, Num 5 1, Close],
       Decl (Custom (Color Color_accent)) [Var (Color Color_1)],
       Decl (Custom (Background Background_1)) [Hash ''fff''],
       Decl (Custom (Background Background_2)) [Hash ''f4f4f5''],
       Decl (Custom (Background Background_3)) [Hash ''e3e3e6''],
       Decl (Custom (Background Background_accent)) [Hash ''8ab4f81f''],
       Decl (Custom (Chrome Border_color)) [Fn ''rgb'', Num 228 0, Comma, Num 228 0, Comma,
           Num 231 0, Close],
       Decl (Custom (Chrome Code_language_color_supersede)) [Var (Color Color_1)]],
    Style
      [Sel [[Class ''dark-mode'']] None]
      [Decl (Custom (Color Color_1)) [Hash ''fafafa''],
       Decl (Custom (Color Color_2)) [Fn ''rgb'', Num 161 0, Comma, Num 161 0, Comma, Num 170 0,
           Close],
       Decl (Custom (Color Color_3)) [Fn ''rgba'', Num 255 0, Comma, Num 255 0, Comma, Num 255 0,
           Comma, Num 533 3, Close],
       Decl (Custom (Color Color_accent)) [Var (Color Color_1)],
       Decl (Custom (Background Background_1)) [Hash ''09090b''],
       Decl (Custom (Background Background_2)) [Hash ''18181b''],
       Decl (Custom (Background Background_3)) [Hash ''2c2c30''],
       Decl (Custom (Background Background_accent)) [Hash ''8ab4f81f''],
       Decl (Custom (Chrome Border_color)) [Fn ''rgba'', Num 255 0, Comma, Num 255 0, Comma,
           Num 255 0, Comma, Num 16 2, Close],
       Decl (Custom (Chrome Code_language_color_supersede)) [Var (Color Color_1)]]]"

definition Pun_sidebar :: stylesheet where
  "Pun_sidebar = [
    Style
      [Sel [[Class ''light-mode''], [Class ''t-doc__sidebar'']] None,
       Sel [[Class ''dark-mode''], [Class ''t-doc__sidebar'']] None]
      [Decl (Custom (Sidebar Sidebar_background_1)) [Var (Background Background_1)],
       Decl (Custom (Sidebar Sidebar_color_1)) [Var (Color Color_1)],
       Decl (Custom (Sidebar Sidebar_color_2)) [Var (Color Color_2)],
       Decl (Custom (Sidebar Sidebar_border_color)) [Var (Chrome Border_color)],
       Decl (Custom (Sidebar Item_hover_color)) [Ident ''currentColor''],
       Decl (Custom (Sidebar Item_hover_background)) [Var (Background Background_2)],
       Decl (Custom (Sidebar Item_active_background)) [Var (Background Background_3)],
       Decl (Custom (Sidebar Sidebar_color_active)) [Var (Color Color_accent)],
       Decl (Custom (Sidebar Search_background)) [Ident ''transparent''],
       Decl (Custom (Sidebar Search_border_color)) [Var (Chrome Border_color)],
       Decl (Custom (Sidebar Search_color)) [Var (Color Color_3)]],
    Style
      [Sel [[Class ''light-mode''], [Class ''t-doc__sidebar'']] None]
      [Decl (Custom (Sidebar Item_active_background)) [Var (Background Background_2)]]]"

definition Pun_advanced :: stylesheet where
  "Pun_advanced = [
    Style
      [Sel [[Class ''light-mode'']] None]
      [Decl (Custom (Color Color_green)) [Hash ''069061''],
       Decl (Custom (Color Color_red)) [Hash ''ef0006''],
       Decl (Custom (Color Color_yellow)) [Hash ''edbe20''],
       Decl (Custom (Color Color_blue)) [Hash ''0072bd''],
       Decl (Custom (Color Color_orange)) [Hash ''fb892c''],
       Decl (Custom (Color Color_purple)) [Hash ''5203d1''],
       Decl (Custom (Color Color_query)) [Hash ''007b80''],
       Decl (Custom (Chrome Button_1)) [Fn ''rgba'', Num 0 0, Comma, Num 0 0, Comma, Num 0 0, Comma,
           Num 1 0, Close],
       Decl (Custom (Chrome Button_1_hover)) [Fn ''rgba'', Num 0 0, Comma, Num 0 0, Comma, Num 0 0,
           Comma, Num 8 1, Close],
       Decl (Custom (Chrome Button_1_color)) [Hash ''fff'']],
    Style
      [Sel [[Class ''dark-mode'']] None]
      [Decl (Custom (Color Color_green)) [Fn ''rgba'', Num 69 0, Comma, Num 255 0, Comma, Num 165 0,
           Comma, Num 823 3, Close],
       Decl (Custom (Color Color_red)) [Hash ''ff8589''],
       Decl (Custom (Color Color_yellow)) [Hash ''ffcc4d''],
       Decl (Custom (Color Color_blue)) [Hash ''6bc1fe''],
       Decl (Custom (Color Color_orange)) [Hash ''f98943''],
       Decl (Custom (Color Color_purple)) [Hash ''b191f9''],
       Decl (Custom (Color Color_query)) [Hash ''79e2da''],
       Decl (Custom (Chrome Button_1)) [Fn ''rgba'', Num 255 0, Comma, Num 255 0, Comma, Num 255 0,
           Comma, Num 1 0, Close],
       Decl (Custom (Chrome Button_1_hover)) [Fn ''rgba'', Num 255 0, Comma, Num 255 0, Comma,
           Num 255 0, Comma, Num 9 1, Close],
       Decl (Custom (Chrome Button_1_color)) [Ident ''black'']]]"

definition Pun_custom :: stylesheet where
  "Pun_custom = [
    Style
      [Sel [[Class ''dark-mode''], [Tag ''h2'', Class ''t-editor__heading'']] None,
       Sel [[Class ''dark-mode''], [Class ''t-editor__page-title''], [Tag ''h1'']] None,
       Sel [[Class ''dark-mode''], [Tag ''h1'', Class ''section-header'', Not_pseudo_element ''selection'']] None,
       Sel [[Class ''dark-mode''], [Class ''markdown''], [Tag ''h1'']] None,
       Sel [[Class ''dark-mode''], [Class ''markdown''], [Tag ''h2'']] None,
       Sel [[Class ''dark-mode''], [Class ''markdown''], [Tag ''h3'']] None,
       Sel [[Class ''dark-mode''], [Class ''markdown''], [Tag ''h4'']] None,
       Sel [[Class ''dark-mode''], [Class ''markdown''], [Tag ''h5'']] None,
       Sel [[Class ''dark-mode''], [Class ''markdown''], [Tag ''h6'']] None]
      [Decl (Property ''-webkit-text-fill-color'') [Ident ''transparent''],
       Decl (Property ''background-image'') [Fn ''linear-gradient'', Ident ''to'', Ident ''right'',
           Ident ''bottom'', Comma, Fn ''rgb'', Num 255 0, Comma, Num 255 0, Comma, Num 255 0, Close,
           Pct 30 0, Comma, Fn ''rgba'', Num 255 0, Comma, Num 255 0, Comma, Num 255 0, Comma, Num 38 2,
           Close, Close],
       Decl (Property ''-webkit-background-clip'') [Ident ''text''],
       Decl (Property ''background-clip'') [Ident ''text'']],
    Style
      [Sel [[Class ''examples''], [Class ''scalar-card-footer'']] None]
      [Decl (Custom (Background Background_3)) [Ident ''transparent''],
       Decl (Property ''padding-top'') [Num 0 0]]]"

definition Pun_flare :: stylesheet where
  "Pun_flare = [
    Style
      [Sel [[Class ''section-flare'']] None]
      [Decl (Property ''width'') [Dim 100 0 ''vw''],
       Decl (Property ''height'') [Dim 550 0 ''px''],
       Decl (Property ''position'') [Ident ''absolute'']],
    Style
      [Sel [[Class ''section-flare-item'', Nth_of_type 1]] None]
      [Decl (Property ''position'') [Ident ''absolute''],
       Decl (Property ''width'') [Dim 100 0 ''vw''],
       Decl (Property ''height'') [Dim 550 0 ''px''],
       Decl (Custom (Local ''--stripesDark'')) [Fn ''repeating-linear-gradient'', Dim 100 0 ''deg'',
           Comma, Hash ''000'', Pct 0 0, Comma, Hash ''000'', Pct 7 0, Comma, Ident ''transparent'',
           Pct 10 0, Comma, Ident ''transparent'', Pct 12 0, Comma, Hash ''000'', Pct 16 0, Close],
       Decl (Custom (Local ''--rainbow'')) [Fn ''repeating-linear-gradient'', Dim 100 0 ''deg'',
           Comma, Hash ''fff'', Pct 10 0, Comma, Hash ''fff'', Pct 16 0, Comma, Hash ''fff'', Pct 22 0,
           Comma, Hash ''fff'', Pct 30 0, Close],
       Decl (Property ''background-image'') [Var (Local ''--stripesDark''), Comma,
           Var (Local ''--rainbow'')],
       Decl (Property ''background-size'') [Pct 300 0, Comma, Pct 200 0],
       Decl (Property ''background-position'') [Pct 50 0, Pct 50 0, Comma, Pct 50 0, Pct 50 0],
       Decl (Property ''filter'') [Fn ''invert'', Pct 100 0, Close],
       Decl (Property ''-webkit-mask-image'') [Fn ''radial-gradient'', Ident ''ellipse'',
           Ident ''at'', Pct 100 0, Pct 0 0, Comma, Ident ''black'', Pct 40 0, Comma,
           Ident ''transparent'', Pct 70 0, Close],
       Decl (Property ''mask-image'') [Fn ''radial-gradient'', Ident ''ellipse'', Ident ''at'',
           Pct 100 0, Pct 0 0, Comma, Ident ''black'', Pct 40 0, Comma, Ident ''transparent'', Pct 70 0,
           Close],
       Decl (Property ''pointer-events'') [Ident ''none''],
       Decl (Property ''opacity'') [Num 7 2]],
    Style
      [Sel [[Class ''dark-mode''], [Class ''section-flare-item'', Nth_of_type 1]] None]
      [Decl (Property ''background-image'') [Var (Local ''--stripesDark''), Comma,
           Var (Local ''--rainbow'')],
       Decl (Property ''filter'') [Fn ''opacity'', Pct 50 0, Close, Fn ''saturate'', Pct 200 0,
           Close],
       Decl (Property ''opacity'') [Num 25 2],
       Decl (Property ''height'') [Dim 350 0 ''px'']],
    Style
      [Sel [[Class ''section-flare-item'', Nth_of_type 1]] (Some ''after'')]
      [Decl (Property ''content'') [Str ''''],
       Decl (Property ''position'') [Ident ''absolute''],
       Decl (Property ''top'') [Num 0 0],
       Decl (Property ''right'') [Num 0 0],
       Decl (Property ''bottom'') [Num 0 0],
       Decl (Property ''left'') [Num 0 0],
       Decl (Property ''background-image'') [Var (Local ''--stripesDark''), Comma,
           Var (Local ''--rainbow'')],
       Decl (Property ''background-size'') [Pct 200 0, Comma, Pct 100 0],
       Decl (Property ''background-attachment'') [Ident ''fixed''],
       Decl (Property ''mix-blend-mode'') [Ident ''difference'']],
    Style
      [Sel [[Class ''dark-mode''], [Class ''section-flare'']] (Some ''after'')]
      [Decl (Property ''background-image'') [Var (Local ''--stripesDark''), Comma,
           Var (Local ''--rainbow'')]],
    Style
      [Sel [[Class ''section-flare-item'', Nth_of_type 2]] None]
      [Decl (Custom (Local ''--star-color'')) [Hash ''fff''],
       Decl (Custom (Local ''--star-color2'')) [Hash ''fff''],
       Decl (Custom (Local ''--star-color3'')) [Hash ''fff''],
       Decl (Property ''width'') [Pct 100 0],
       Decl (Property ''height'') [Pct 100 0],
       Decl (Property ''position'') [Ident ''absolute''],
       Decl (Property ''background-image'') [Fn ''radial-gradient'', Dim 2 0 ''px'', Dim 2 0 ''px'',
           Ident ''at'', Dim 20 0 ''px'', Dim 30 0 ''px'', Comma, Var (Local ''--star-color2''), Comma,
           Fn ''rgba'', Num 0 0, Comma, Num 0 0, Comma, Num 0 0, Comma, Num 0 0, Close, Close, Comma,
           Fn ''radial-gradient'', Dim 2 0 ''px'', Dim 2 0 ''px'', Ident ''at'', Dim 40 0 ''px'',
           Dim 70 0 ''px'', Comma, Var (Local ''--star-color''), Comma, Fn ''rgba'', Num 0 0, Comma,
           Num 0 0, Comma, Num 0 0, Comma, Num 0 0, Close, Close, Comma, Fn ''radial-gradient'',
           Dim 2 0 ''px'', Dim 2 0 ''px'', Ident ''at'', Dim 50 0 ''px'', Dim 160 0 ''px'', Comma,
           Var (Local ''--star-color3''), Comma, Fn ''rgba'', Num 0 0, Comma, Num 0 0, Comma, Num 0 0,
           Comma, Num 0 0, Close, Close, Comma, Fn ''radial-gradient'', Dim 2 0 ''px'', Dim 2 0 ''px'',
           Ident ''at'', Dim 90 0 ''px'', Dim 40 0 ''px'', Comma, Var (Local ''--star-color''), Comma,
           Fn ''rgba'', Num 0 0, Comma, Num 0 0, Comma, Num 0 0, Comma, Num 0 0, Close, Close, Comma,
           Fn ''radial-gradient'', Dim 2 0 ''px'', Dim 2 0 ''px'', Ident ''at'', Dim 130 0 ''px'',
           Dim 80 0 ''px'', Comma, Var (Local ''--star-color''), Comma, Fn ''rgba'', Num 0 0, Comma,
           Num 0 0, Comma, Num 0 0, Comma, Num 0 0, Close, Close, Comma, Fn ''radial-gradient'',
           Dim 2 0 ''px'', Dim 2 0 ''px'', Ident ''at'', Dim 160 0 ''px'', Dim 120 0 ''px'', Comma,
           Var (Local ''--star-color3''), Comma, Fn ''rgba'', Num 0 0, Comma, Num 0 0, Comma, Num 0 0,
           Comma, Num 0 0, Close, Close],
       Decl (Property ''background-repeat'') [Ident ''repeat''],
       Decl (Property ''background-size'') [Dim 200 0 ''px'', Dim 200 0 ''px''],
       Decl (Property ''mask-image'') [Fn ''radial-gradient'', Ident ''ellipse'', Ident ''at'',
           Pct 100 0, Pct 0 0, Comma, Ident ''black'', Pct 40 0, Comma, Ident ''transparent'', Pct 70 0,
           Close],
       Decl (Property ''opacity'') [Num 2 1]],
    Style
      [Sel [[Class ''light-mode''], [Universal]] (Some ''selection'')]
      [Decl (Property ''background-color'') [Fn ''color-mix'', Ident ''in'', Ident ''srgb'', Comma,
           Var (Color Color_blue), Comma, Ident ''transparent'', Pct 70 0, Close]],
    Style
      [Sel [[Class ''dark-mode''], [Universal]] (Some ''selection'')]
      [Decl (Property ''background-color'') [Fn ''color-mix'', Ident ''in'', Ident ''srgb'', Comma,
           Var (Color Color_blue), Comma, Ident ''transparent'', Pct 50 0, Close]]]"

definition Pun_header :: stylesheet where
  "Pun_header = [
    Style
      [Sel [[Class ''light-mode''], [Class ''t-doc__header'']] None,
       Sel [[Class ''dark-mode''], [Class ''t-doc__header'']] None]
      [Decl (Property ''animation'') [Ident ''headerbackground'', Ident ''forwards''],
       Decl (Property ''animation-timeline'') [Fn ''scroll'', Close],
       Decl (Property ''animation-range'') [Dim 0 0 ''px'', Dim 200 0 ''px'']],
    Keyframes ''headerbackground''
      [(''from'',
         [Decl (Property ''background'') [Ident ''transparent''],
          Decl (Property ''backdrop-filter'') [Ident ''none'']]),
       (''to'',
         [Decl (Property ''background'') [Var (Chrome Header_background_1)],
          Decl (Property ''backdrop-filter'') [Fn ''blur'', Dim 12 0 ''px'', Close]])],
    When (Supports_decl ''-webkit-hyphens'' [Ident ''none'']) [
      Style
        [Sel [[Class ''section-flare'']] None]
        [Decl (Property ''display'') [Ident ''none'']]],
    Style
      [Sel [[Class ''light-mode''], [Class ''t-doc''], [Class ''layout-content'']] None,
       Sel [[Class ''dark-mode''], [Class ''t-doc''], [Class ''layout-content'']] None]
      [Decl (Property ''background'') [Ident ''transparent'']]]"

definition Pun :: stylesheet where
  "Pun = Pun_basic @ Pun_sidebar @ Pun_advanced @ Pun_custom @ Pun_flare @ Pun_header"

lemmas Pun_defs = Pun_def Pun_basic_def Pun_sidebar_def Pun_advanced_def Pun_custom_def Pun_flare_def Pun_header_def

end
