(* ===== verification/Scalar_Themes_2.thy ===== *)
theory Scalar_Themes_2
  imports Css
begin

text \<open>
  The theme style sheets of the API reference as \<open>scalar-1.75.0.js\<close> embeds them, one template
  literal each: default (and the copy of it that \<open>Jun\<close> inlines as its fallback), elysiajs, fastify and kepler.  A definition per section of the sheet, in
  the order of the rules and of their declarations, then the sheet.
\<close>

section \<open>Fun: theme default\<close>

definition Fun_basic :: stylesheet where
  "Fun_basic = [
    Style
      [Sel [[Root]] None,
       Sel [[Host]] None]
      [Decl (Custom (Chrome Text_decoration)) [Ident ''underline''],
       Decl (Custom (Chrome Text_decoration_hover)) [Ident ''underline'']],
    Style
      [Sel [[Class ''light-mode'']] None]
      [Decl (Custom (Background Background_1)) [Hash ''fff''],
       Decl (Custom (Background Background_2)) [Hash ''f6f6f6''],
       Decl (Custom (Background Background_3)) [Hash ''e7e7e7''],
       Decl (Custom (Background Background_accent)) [Hash ''8ab4f81f''],
       Decl (Custom (Color Color_1)) [Hash ''1b1b1b''],
       Decl (Custom (Color Color_2)) [Hash ''707070''],
       Decl (Custom (Color Color_3)) [Hash ''8e8e8e''],
       Decl (Custom (Color Color_accent)) [Hash ''0099ff''],
       Decl (Custom (Chrome Border_color)) [Hash ''dfdfdf'']],
    Style
      [Sel [[Class ''dark-mode'']] None]
      [Decl (Custom (Background Background_1)) [Hash ''0f0f0f''],
       Decl (Custom (Background Background_2)) [Hash ''1a1a1a''],
       Decl (Custom (Background Background_3)) [Hash ''272727''],
       Decl (Custom (Color Color_1)) [Hash ''e7e7e7''],
       Decl (Custom (Color Color_2)) [Hash ''a4a4a4''],
       Decl (Custom (Color Color_3)) [Hash ''797979''],
       Decl (Custom (Color Color_accent)) [Hash ''00aeff''],
       Decl (Custom (Background Background_accent)) [Hash ''3ea6ff1f''],
       Decl (Custom (Chrome Border_color)) [Hash ''2d2d2d'']]]"

definition Fun_sidebar :: stylesheet where
  "Fun_sidebar = [
    Style
      [Sel [[Class ''light-mode'']] None,
       Sel [[Class ''dark-mode'']] None]
      [Decl (Custom (Sidebar Sidebar_background_1)) [Var (Background Background_1)],
       Decl (Custom (Sidebar Sidebar_color_1)) [Var (Color Color_1)],
       Decl (Custom (Sidebar Sidebar_color_2)) [Var (Color Color_2)],
       Decl (Custom (Sidebar Sidebar_border_color)) [Var (Chrome Border_color)],
       Decl (Custom (Sidebar Item_hover_background)) [Var (Background Background_2)],
       Decl (Custom (Sidebar Item_hover_color)) [Var (Sidebar Sidebar_color_2)],
       Decl (Custom (Sidebar Item_active_background)) [Var (Background Background_2)],
       Decl (Custom (Sidebar Sidebar_color_active)) [Var (Sidebar Sidebar_color_1)],
       Decl (Custom (Sidebar Indent_border)) [Var (Sidebar Sidebar_border_color)],
       Decl (Custom (Sidebar Indent_border_hover)) [Var (Sidebar Sidebar_border_color)],
       Decl (Custom (Sidebar Indent_border_active)) [Var (Sidebar Sidebar_border_color)],
       Decl (Custom (Sidebar Search_background)) [Fn ''color-mix'', Ident ''in'', Ident ''srgb'',
           Comma, Var (Background Background_2), Comma, Var (Background Background_1), Close],
       Decl (Custom (Sidebar Search_color)) [Var (Color Color_3)],
       Decl (Custom (Sidebar Search_border_color)) [Var (Chrome Border_color)]]]"

definition Fun_advanced :: stylesheet where
  "Fun_advanced = [
    Style
      [Sel [[Class ''light-mode'']] None]
      [Decl (Custom (Color Color_green)) [Hash ''069061''],
       Decl (Custom (Color Color_red)) [Hash ''ef0006''],
       Decl (Custom (Color Color_yellow)) [Hash ''edbe20''],
       Decl (Custom (Color Color_blue)) [Hash ''0072bd''],
       Decl (Custom (Color Color_orange)) [Hash ''ff5800''],
       Decl (Custom (Color Color_purple)) [Hash ''5203d1''],
       Decl (Custom (Color Color_query)) [Hash ''007b80''],
       Decl (Custom (Chrome Link_color)) [Var (Color Color_1)],
       Decl (Custom (Chrome Link_color_hover)) [Var (Chrome Link_color)],
       Decl (Custom (Chrome Button_1)) [Fn ''rgba'', Num 0 0, Comma, Num 0 0, Comma, Num 0 0, Comma,
           Num 1 0, Close],
       Decl (Custom (Chrome Button_1_hover)) [Fn ''rgba'', Num 0 0, Comma, Num 0 0, Comma, Num 0 0,
           Comma, Num 8 1, Close],
       Decl (Custom (Chrome Button_1_color)) [Hash ''fff''],
       Decl (Custom (Chrome Tooltip_background)) [Fn ''color-mix'', Ident ''in'', Ident ''srgb'',
           Comma, Var (Background Background_1), Comma, Ident ''transparent'', Pct 10 0, Close],
       Decl (Custom (Chrome Tooltip_color)) [Var (Color Color_1)],
       Decl (Custom (Color Color_alert)) [Fn ''color-mix'', Ident ''in'', Ident ''srgb'', Comma,
           Var (Color Color_orange), Comma, Var (Color Color_1), Pct 20 0, Close],
       Decl (Custom (Color Color_danger)) [Fn ''color-mix'', Ident ''in'', Ident ''srgb'', Comma,
           Var (Color Color_red), Comma, Var (Color Color_1), Pct 20 0, Close],
       Decl (Custom (Background Background_alert)) [Fn ''color-mix'', Ident ''in'', Ident ''srgb'',
           Comma, Var (Color Color_orange), Comma, Var (Background Background_1), Pct 95 0, Close],
       Decl (Custom (Background Background_danger)) [Fn ''color-mix'', Ident ''in'', Ident ''srgb'',
           Comma, Var (Color Color_red), Comma, Var (Background Background_1), Pct 95 0, Close]],
    Style
      [Sel [[Class ''dark-mode'']] None]
      [Decl (Custom (Color Color_green)) [Hash ''00b648''],
       Decl (Custom (Color Color_red)) [Hash ''dc1b19''],
       Decl (Custom (Color Color_yellow)) [Hash ''ffc90d''],
       Decl (Custom (Color Color_blue)) [Hash ''4eb3ec''],
       Decl (Custom (Color Color_orange)) [Hash ''ff8d4d''],
       Decl (Custom (Color Color_purple)) [Hash ''b191f9''],
       Decl (Custom (Color Color_query)) [Hash ''65d4cf''],
       Decl (Custom (Chrome Link_color)) [Var (Color Color_1)],
       Decl (Custom (Chrome Link_color_hover)) [Var (Chrome Link_color)],
       Decl (Custom (Chrome Button_1)) [Fn ''rgba'', Num 255 0, Comma, Num 255 0, Comma, Num 255 0,
           Comma, Num 1 0, Close],
       Decl (Custom (Chrome Button_1_hover)) [Fn ''rgba'', Num 255 0, Comma, Num 255 0, Comma,
           Num 255 0, Comma, Num 9 1, Close],
       Decl (Custom (Chrome Button_1_color)) [Ident ''black''],
       Decl (Custom (Chrome Tooltip_background)) [Fn ''color-mix'', Ident ''in'', Ident ''srgb'',
           Comma, Var (Background Background_1), Comma, Hash ''fff'', Pct 10 0, Close],
       Decl (Custom (Chrome Tooltip_color)) [Fn ''color-mix'', Ident ''in'', Ident ''srgb'', Comma,
           Hash ''fff'', Comma, Ident ''transparent'', Pct 5 0, Close],
       Decl (Custom (Color Color_danger)) [Fn ''color-mix'', Ident ''in'', Ident ''srgb'', Comma,
           Var (Color Color_red), Comma, Var (Background Background_1), Pct 20 0, Close],
       Decl (Custom (Background Background_alert)) [Fn ''color-mix'', Ident ''in'', Ident ''srgb'',
           Comma, Var (Color Color_orange), Comma, Var (Background Background_1), Pct 95 0, Close],
       Decl (Custom (Background Background_danger)) [Fn ''color-mix'', Ident ''in'', Ident ''srgb'',
           Comma, Var (Color Color_red), Comma, Var (Background Background_1), Pct 95 0, Close]],
    When (Supports_decl ''color'' [Fn ''color'', Ident ''display-p3'', Num 1 0, Num 1 0, Num 1 0, Close]) [
      Style
        [Sel [[Class ''light-mode'']] None]
        [Decl (Custom (Color Color_accent)) [Fn ''color'', Ident ''display-p3'', Num 0 0, Num 6 1,
             Num 1 0, Slash, Num 1 0, Close],
         Decl (Custom (Color Color_green)) [Fn ''color'', Ident ''display-p3'', Num 23529 6,
             Num 564706 6, Num 380392 6, Slash, Num 1 0, Close],
         Decl (Custom (Color Color_red)) [Fn ''color'', Ident ''display-p3'', Num 937255 6, Num 0 0,
             Num 23529 6, Slash, Num 1 0, Close],
         Decl (Custom (Color Color_yellow)) [Fn ''color'', Ident ''display-p3'', Num 929412 6,
             Num 745098 6, Num 12549 5, Slash, Num 1 0, Close],
         Decl (Custom (Color Color_blue)) [Fn ''color'', Ident ''display-p3'', Num 0 0,
             Num 447059 6, Num 741176 6, Slash, Num 1 0, Close],
         Decl (Custom (Color Color_orange)) [Fn ''color'', Ident ''display-p3'', Num 1 0, Num 4 1,
             Num 2 2, Close],
         Decl (Custom (Color Color_purple)) [Fn ''color'', Ident ''display-p3'', Num 321569 6,
             Num 11765 6, Num 819608 6, Slash, Num 1 0, Close]],
      Style
        [Sel [[Class ''dark-mode'']] None]
        [Decl (Custom (Color Color_accent)) [Fn ''color'', Ident ''display-p3'', Num 7 2, Num 67 2,
             Num 1 0, Close],
         Decl (Custom (Color Color_green)) [Fn ''color'', Ident ''display-p3'', Num 0 0,
             Num 713725 6, Num 282353 6, Slash, Num 1 0, Close],
         Decl (Custom (Color Color_red)) [Fn ''color'', Ident ''display-p3'', Num 862745 6,
             Num 105882 6, Num 98039 6, Slash, Num 1 0, Close],
         Decl (Custom (Color Color_yellow)) [Fn ''color'', Ident ''display-p3'', Num 1 0,
             Num 788235 6, Num 5098 5, Slash, Num 1 0, Close],
         Decl (Custom (Color Color_blue)) [Fn ''color'', Ident ''display-p3'', Num 305882 6,
             Num 701961 6, Num 92549 5, Slash, Num 1 0, Close],
         Decl (Custom (Color Color_orange)) [Fn ''color'', Ident ''display-p3'', Num 1 0,
             Num 552941 6, Num 301961 6, Slash, Num 1 0, Close],
         Decl (Custom (Color Color_purple)) [Fn ''color'', Ident ''display-p3'', Num 694118 6,
             Num 568627 6, Num 976471 6, Slash, Num 1 0, Close]]]]"

definition Fun :: stylesheet where
  "Fun = Fun_basic @ Fun_sidebar @ Fun_advanced"

lemmas Fun_defs = Fun_def Fun_basic_def Fun_sidebar_def Fun_advanced_def

section \<open>Jun_fallback: theme default\<close>

definition Jun_fallback_basic :: stylesheet where
  "Jun_fallback_basic = [
    Style
      [Sel [[Root]] None,
       Sel [[Host]] None]
      [Decl (Custom (Chrome Text_decoration)) [Ident ''underline''],
       Decl (Custom (Chrome Text_decoration_hover)) [Ident ''underline'']],
    Style
      [Sel [[Class ''light-mode'']] None]
      [Decl (Custom (Background Background_1)) [Hash ''fff''],
       Decl (Custom (Background Background_2)) [Hash ''f6f6f6''],
       Decl (Custom (Background Background_3)) [Hash ''e7e7e7''],
       Decl (Custom (Background Background_accent)) [Hash ''8ab4f81f''],
       Decl (Custom (Color Color_1)) [Hash ''1b1b1b''],
       Decl (Custom (Color Color_2)) [Hash ''707070''],
       Decl (Custom (Color Color_3)) [Hash ''8e8e8e''],
       Decl (Custom (Color Color_accent)) [Hash ''0099ff''],
       Decl (Custom (Chrome Border_color)) [Hash ''dfdfdf'']],
    Style
      [Sel [[Class ''dark-mode'']] None]
      [Decl (Custom (Background Background_1)) [Hash ''0f0f0f''],
       Decl (Custom (Background Background_2)) [Hash ''1a1a1a''],
       Decl (Custom (Background Background_3)) [Hash ''272727''],
       Decl (Custom (Color Color_1)) [Hash ''e7e7e7''],
       Decl (Custom (Color Color_2)) [Hash ''a4a4a4''],
       Decl (Custom (Color Color_3)) [Hash ''797979''],
       Decl (Custom (Color Color_accent)) [Hash ''00aeff''],
       Decl (Custom (Background Background_accent)) [Hash ''3ea6ff1f''],
       Decl (Custom (Chrome Border_color)) [Hash ''2d2d2d'']]]"

definition Jun_fallback_sidebar :: stylesheet where
  "Jun_fallback_sidebar = [
    Style
      [Sel [[Class ''light-mode'']] None,
       Sel [[Class ''dark-mode'']] None]
      [Decl (Custom (Sidebar Sidebar_background_1)) [Var (Background Background_1)],
       Decl (Custom (Sidebar Sidebar_color_1)) [Var (Color Color_1)],
       Decl (Custom (Sidebar Sidebar_color_2)) [Var (Color Color_2)],
       Decl (Custom (Sidebar Sidebar_border_color)) [Var (Chrome Border_color)],
       Decl (Custom (Sidebar Item_hover_background)) [Var (Background Background_2)],
       Decl (Custom (Sidebar Item_hover_color)) [Var (Sidebar Sidebar_color_2)],
       Decl (Custom (Sidebar Item_active_background)) [Var (Background Background_2)],
       Decl (Custom (Sidebar Sidebar_color_active)) [Var (Sidebar Sidebar_color_1)],
       Decl (Custom (Sidebar Indent_border)) [Var (Sidebar Sidebar_border_color)],
       Decl (Custom (Sidebar Indent_border_hover)) [Var (Sidebar Sidebar_border_color)],
       Decl (Custom (Sidebar Indent_border_active)) [Var (Sidebar Sidebar_border_color)],
       Decl (Custom (Sidebar Search_background)) [Fn ''color-mix'', Ident ''in'', Ident ''srgb'',
           Comma, Var (Background Background_2), Comma, Var (Background Background_1), Close],
       Decl (Custom (Sidebar Search_color)) [Var (Color Color_3)],
       Decl (Custom (Sidebar Search_border_color)) [Var (Chrome Border_color)]]]"

definition Jun_fallback_advanced :: stylesheet where
  "Jun_fallback_advanced = [
    Style
      [Sel [[Class ''light-mode'']] None]
      [Decl (Custom (Color Color_green)) [Hash ''069061''],
       Decl (Custom (Color Color_red)) [Hash ''ef0006''],
       Decl (Custom (Color Color_yellow)) [Hash ''edbe20''],
       Decl (Custom (Color Color_blue)) [Hash ''0072bd''],
       Decl (Custom (Color Color_orange)) [Hash ''ff5800''],
       Decl (Custom (Color Color_purple)) [Hash ''5203d1''],
       Decl (Custom (Color Color_query)) [Hash ''007b80''],
       Decl (Custom (Chrome Link_color)) [Var (Color Color_1)],
       Decl (Custom (Chrome Link_color_hover)) [Var (Chrome Link_color)],
       Decl (Custom (Chrome Button_1)) [Fn ''rgba'', Num 0 0, Comma, Num 0 0, Comma, Num 0 0, Comma,
           Num 1 0, Close],
       Decl (Custom (Chrome Button_1_hover)) [Fn ''rgba'', Num 0 0, Comma, Num 0 0, Comma, Num 0 0,
           Comma, Num 8 1, Close],
       Decl (Custom (Chrome Button_1_color)) [Hash ''fff''],
       Decl (Custom (Chrome Tooltip_background)) [Fn ''color-mix'', Ident ''in'', Ident ''srgb'',
           Comma, Var (Background Background_1), Comma, Ident ''transparent'', Pct 10 0, Close],
       Decl (Custom (Chrome Tooltip_color)) [Var (Color Color_1)],
       Decl (Custom (Color Color_alert)) [Fn ''color-mix'', Ident ''in'', Ident ''srgb'', Comma,
           Var (Color Color_orange), Comma, Var (Color Color_1), Pct 20 0, Close],
       Decl (Custom (Color Color_danger)) [Fn ''color-mix'', Ident ''in'', Ident ''srgb'', Comma,
           Var (Color Color_red), Comma, Var (Color Color_1), Pct 20 0, Close],
       Decl (Custom (Background Background_alert)) [Fn ''color-mix'', Ident ''in'', Ident ''srgb'',
           Comma, Var (Color Color_orange), Comma, Var (Background Background_1), Pct 95 0, Close],
       Decl (Custom (Background Background_danger)) [Fn ''color-mix'', Ident ''in'', Ident ''srgb'',
           Comma, Var (Color Color_red), Comma, Var (Background Background_1), Pct 95 0, Close]],
    Style
      [Sel [[Class ''dark-mode'']] None]
      [Decl (Custom (Color Color_green)) [Hash ''00b648''],
       Decl (Custom (Color Color_red)) [Hash ''dc1b19''],
       Decl (Custom (Color Color_yellow)) [Hash ''ffc90d''],
       Decl (Custom (Color Color_blue)) [Hash ''4eb3ec''],
       Decl (Custom (Color Color_orange)) [Hash ''ff8d4d''],
       Decl (Custom (Color Color_purple)) [Hash ''b191f9''],
       Decl (Custom (Color Color_query)) [Hash ''65d4cf''],
       Decl (Custom (Chrome Link_color)) [Var (Color Color_1)],
       Decl (Custom (Chrome Link_color_hover)) [Var (Chrome Link_color)],
       Decl (Custom (Chrome Button_1)) [Fn ''rgba'', Num 255 0, Comma, Num 255 0, Comma, Num 255 0,
           Comma, Num 1 0, Close],
       Decl (Custom (Chrome Button_1_hover)) [Fn ''rgba'', Num 255 0, Comma, Num 255 0, Comma,
           Num 255 0, Comma, Num 9 1, Close],
       Decl (Custom (Chrome Button_1_color)) [Ident ''black''],
       Decl (Custom (Chrome Tooltip_background)) [Fn ''color-mix'', Ident ''in'', Ident ''srgb'',
           Comma, Var (Background Background_1), Comma, Hash ''fff'', Pct 10 0, Close],
       Decl (Custom (Chrome Tooltip_color)) [Fn ''color-mix'', Ident ''in'', Ident ''srgb'', Comma,
           Hash ''fff'', Comma, Ident ''transparent'', Pct 5 0, Close],
       Decl (Custom (Color Color_danger)) [Fn ''color-mix'', Ident ''in'', Ident ''srgb'', Comma,
           Var (Color Color_red), Comma, Var (Background Background_1), Pct 20 0, Close],
       Decl (Custom (Background Background_alert)) [Fn ''color-mix'', Ident ''in'', Ident ''srgb'',
           Comma, Var (Color Color_orange), Comma, Var (Background Background_1), Pct 95 0, Close],
       Decl (Custom (Background Background_danger)) [Fn ''color-mix'', Ident ''in'', Ident ''srgb'',
           Comma, Var (Color Color_red), Comma, Var (Background Background_1), Pct 95 0, Close]],
    When (Supports_decl ''color'' [Fn ''color'', Ident ''display-p3'', Num 1 0, Num 1 0, Num 1 0, Close]) [
      Style
        [Sel [[Class ''light-mode'']] None]
        [Decl (Custom (Color Color_accent)) [Fn ''color'', Ident ''display-p3'', Num 0 0, Num 6 1,
             Num 1 0, Slash, Num 1 0, Close],
         Decl (Custom (Color Color_green)) [Fn ''color'', Ident ''display-p3'', Num 23529 6,
             Num 564706 6, Num 380392 6, Slash, Num 1 0, Close],
         Decl (Custom (Color Color_red)) [Fn ''color'', Ident ''display-p3'', Num 937255 6, Num 0 0,
             Num 23529 6, Slash, Num 1 0, Close],
         Decl (Custom (Color Color_yellow)) [Fn ''color'', Ident ''display-p3'', Num 929412 6,
             Num 745098 6, Num 12549 5, Slash, Num 1 0, Close],
         Decl (Custom (Color Color_blue)) [Fn ''color'', Ident ''display-p3'', Num 0 0,
             Num 447059 6, Num 741176 6, Slash, Num 1 0, Close],
         Decl (Custom (Color Color_orange)) [Fn ''color'', Ident ''display-p3'', Num 1 0, Num 4 1,
             Num 2 2, Close],
         Decl (Custom (Color Color_purple)) [Fn ''color'', Ident ''display-p3'', Num 321569 6,
             Num 11765 6, Num 819608 6, Slash, Num 1 0, Close]],
      Style
        [Sel [[Class ''dark-mode'']] None]
        [Decl (Custom (Color Color_accent)) [Fn ''color'', Ident ''display-p3'', Num 7 2, Num 67 2,
             Num 1 0, Close],
         Decl (Custom (Color Color_green)) [Fn ''color'', Ident ''display-p3'', Num 0 0,
             Num 713725 6, Num 282353 6, Slash, Num 1 0, Close],
         Decl (Custom (Color Color_red)) [Fn ''color'', Ident ''display-p3'', Num 862745 6,
             Num 105882 6, Num 98039 6, Slash, Num 1 0, Close],
         Decl (Custom (Color Color_yellow)) [Fn ''color'', Ident ''display-p3'', Num 1 0,
             Num 788235 6, Num 5098 5, Slash, Num 1 0, Close],
         Decl (Custom (Color Color_blue)) [Fn ''color'', Ident ''display-p3'', Num 305882 6,
             Num 701961 6, Num 92549 5, Slash, Num 1 0, Close],
         Decl (Custom (Color Color_orange)) [Fn ''color'', Ident ''display-p3'', Num 1 0,
             Num 552941 6, Num 301961 6, Slash, Num 1 0, Close],
         Decl (Custom (Color Color_purple)) [Fn ''color'', Ident ''display-p3'', Num 694118 6,
             Num 568627 6, Num 976471 6, Slash, Num 1 0, Close]]]]"

definition Jun_fallback :: stylesheet where
  "Jun_fallback = Jun_fallback_basic @ Jun_fallback_sidebar @ Jun_fallback_advanced"

lemmas Jun_fallback_defs = Jun_fallback_def Jun_fallback_basic_def Jun_fallback_sidebar_def Jun_fallback_advanced_def

section \<open>Iun: theme elysiajs\<close>

definition Iun_basic :: stylesheet where
  "Iun_basic = [
    Style
      [Sel [[Class ''light-mode'']] None]
      [Decl (Custom (Color Color_1)) [Hash ''1b1b1b''],
       Decl (Custom (Color Color_2)) [Hash ''707070''],
       Decl (Custom (Color Color_3)) [Hash ''8e8e8e''],
       Decl (Custom (Color Color_accent)) [Hash ''f06292''],
       Decl (Custom (Background Background_1)) [Hash ''fff''],
       Decl (Custom (Background Background_2)) [Hash ''f6f6f6''],
       Decl (Custom (Background Background_3)) [Hash ''e7e7e7''],
       Decl (Custom (Chrome Border_color)) [Fn ''rgba'', Num 0 0, Comma, Num 0 0, Comma, Num 0 0,
           Comma, Num 1 1, Close]],
    Style
      [Sel [[Class ''dark-mode'']] None]
      [Decl (Custom (Color Color_1)) [Fn ''rgba'', Num 255 0, Comma, Num 255 0, Comma, Num 255 0,
           Comma, Num 9 1, Close],
       Decl (Custom (Color Color_2)) [Fn ''rgba'', Num 156 0, Comma, Num 163 0, Comma, Num 175 0,
           Comma, Num 1 0, Close],
       Decl (Custom (Color Color_3)) [Fn ''rgba'', Num 255 0, Comma, Num 255 0, Comma, Num 255 0,
           Comma, Num 44 2, Close],
       Decl (Custom (Color Color_accent)) [Hash ''f06292''],
       Decl (Custom (Background Background_1)) [Hash ''111728''],
       Decl (Custom (Background Background_2)) [Hash ''1e293b''],
       Decl (Custom (Background Background_3)) [Hash ''334155''],
       Decl (Custom (Background Background_accent)) [Hash ''f062921f''],
       Decl (Custom (Chrome Border_color)) [Fn ''rgba'', Num 255 0, Comma, Num 255 0, Comma,
           Num 255 0, Comma, Num 1 1, Close]]]"

definition Iun_sidebar :: stylesheet where
  "Iun_sidebar = [
    Style
      [Sel [[Class ''light-mode''], [Class ''t-doc__sidebar'']] None,
       Sel [[Class ''dark-mode''], [Class ''t-doc__sidebar'']] None]
      [Decl (Custom (Sidebar Sidebar_background_1)) [Var (Background Background_1)],
       Decl (Custom (Sidebar Sidebar_color_1)) [Var (Color Color_1)],
       Decl (Custom (Sidebar Sidebar_color_2)) [Var (Color Color_2)],
       Decl (Custom (Sidebar Sidebar_border_color)) [Var (Chrome Border_color)],
       Decl (Custom (Sidebar Item_hover_background)) [Var (Background Background_2)],
       Decl (Custom (Sidebar Item_hover_color)) [Ident ''currentColor''],
       Decl (Custom (Sidebar Item_active_background)) [Hash ''f062921f''],
       Decl (Custom (Sidebar Sidebar_color_active)) [Var (Color Color_accent)],
       Decl (Custom (Sidebar Search_background)) [Ident ''transparent''],
       Decl (Custom (Sidebar Search_color)) [Var (Color Color_3)],
       Decl (Custom (Sidebar Search_border_color)) [Var (Chrome Border_color)]]]"

definition Iun_advanced :: stylesheet where
  "Iun_advanced = [
    Style
      [Sel [[Class ''light-mode'']] None]
      [Decl (Custom (Chrome Button_1)) [Fn ''rgb'', Num 49 0, Num 53 0, Num 56 0, Close],
       Decl (Custom (Chrome Button_1_color)) [Hash ''fff''],
       Decl (Custom (Chrome Button_1_hover)) [Fn ''rgb'', Num 28 0, Num 31 0, Num 33 0, Close],
       Decl (Custom (Color Color_green)) [Hash ''069061''],
       Decl (Custom (Color Color_red)) [Hash ''ef0006''],
       Decl (Custom (Color Color_yellow)) [Hash ''edbe20''],
       Decl (Custom (Color Color_blue)) [Hash ''0072bd''],
       Decl (Custom (Color Color_orange)) [Hash ''fb892c''],
       Decl (Custom (Color Color_purple)) [Hash ''5203d1''],
       Decl (Custom (Color Color_query)) [Hash ''007b80''],
       Decl (Custom (Chrome Scrollbar_color)) [Fn ''rgba'', Num 0 0, Comma, Num 0 0, Comma, Num 0 0,
           Comma, Num 18 2, Close],
       Decl (Custom (Chrome Scrollbar_color_active)) [Fn ''rgba'', Num 0 0, Comma, Num 0 0, Comma,
           Num 0 0, Comma, Num 36 2, Close]],
    Style
      [Sel [[Class ''dark-mode'']] None]
      [Decl (Custom (Chrome Button_1)) [Hash ''f6f6f6''],
       Decl (Custom (Chrome Button_1_color)) [Hash ''000''],
       Decl (Custom (Chrome Button_1_hover)) [Hash ''e7e7e7''],
       Decl (Custom (Color Color_green)) [Hash ''a3ffa9''],
       Decl (Custom (Color Color_red)) [Hash ''ffa3a3''],
       Decl (Custom (Color Color_yellow)) [Hash ''fffca3''],
       Decl (Custom (Color Color_blue)) [Hash ''a5d6ff''],
       Decl (Custom (Color Color_orange)) [Hash ''e2ae83''],
       Decl (Custom (Color Color_purple)) [Hash ''d2a8ff''],
       Decl (Custom (Color Color_query)) [Hash ''a5f3df''],
       Decl (Custom (Chrome Scrollbar_color)) [Fn ''rgba'', Num 255 0, Comma, Num 255 0, Comma,
           Num 255 0, Comma, Num 24 2, Close],
       Decl (Custom (Chrome Scrollbar_color_active)) [Fn ''rgba'', Num 255 0, Comma, Num 255 0,
           Comma, Num 255 0, Comma, Num 48 2, Close]],
    Style
      [Sel [[Class ''section-flare'']] None]
      [Decl (Property ''width'') [Pct 100 0],
       Decl (Property ''height'') [Dim 400 0 ''px''],
       Decl (Property ''position'') [Ident ''absolute'']],
    Style
      [Sel [[Class ''section-flare-item'', First_of_type]] (Some ''before'')]
      [Decl (Property ''content'') [Str ''''],
       Decl (Property ''position'') [Ident ''absolute''],
       Decl (Property ''top'') [Num 0 0],
       Decl (Property ''right'') [Num 0 0],
       Decl (Property ''bottom'') [Num 0 0],
       Decl (Property ''left'') [Num 0 0],
       Decl (Custom (Local ''--stripes'')) [Fn ''repeating-linear-gradient'', Dim 100 0 ''deg'',
           Comma, Hash ''fff'', Pct 0 0, Comma, Hash ''fff'', Pct 0 0, Comma, Ident ''transparent'',
           Pct 2 0, Comma, Ident ''transparent'', Pct 12 0, Comma, Hash ''fff'', Pct 17 0, Close],
       Decl (Custom (Local ''--stripesDark'')) [Fn ''repeating-linear-gradient'', Dim 100 0 ''deg'',
           Comma, Hash ''000'', Pct 0 0, Comma, Hash ''000'', Pct 0 0, Comma, Ident ''transparent'',
           Pct 10 0, Comma, Ident ''transparent'', Pct 12 0, Comma, Hash ''000'', Pct 17 0, Close],
       Decl (Custom (Local ''--rainbow'')) [Fn ''repeating-linear-gradient'', Dim 100 0 ''deg'',
           Comma, Hash ''60a5fa'', Pct 10 0, Comma, Hash ''e879f9'', Pct 16 0, Comma, Hash ''5eead4'',
           Pct 22 0, Comma, Hash ''60a5fa'', Pct 30 0, Close],
       Decl (Property ''contain'') [Ident ''strict''],
       Decl (Property ''contain-intrinsic-size'') [Dim 100 0 ''vw'', Dim 40 0 ''vh''],
       Decl (Property ''background-image'') [Var (Local ''--stripesDark''), Comma,
           Var (Local ''--rainbow'')],
       Decl (Property ''background-size'') [Pct 300 0, Comma, Pct 200 0],
       Decl (Property ''background-position'') [Pct 50 0, Pct 50 0, Comma, Pct 50 0, Pct 50 0],
       Decl (Property ''filter'') [Fn ''opacity'', Pct 20 0, Close, Fn ''saturate'', Pct 200 0,
           Close],
       Decl (Property ''-webkit-mask-image'') [Fn ''radial-gradient'', Ident ''ellipse'',
           Ident ''at'', Pct 100 0, Pct 0 0, Comma, Ident ''black'', Pct 40 0, Comma,
           Ident ''transparent'', Pct 70 0, Close],
       Decl (Property ''mask-image'') [Fn ''radial-gradient'', Ident ''ellipse'', Ident ''at'',
           Pct 100 0, Pct 0 0, Comma, Ident ''black'', Pct 40 0, Comma, Ident ''transparent'', Pct 70 0,
           Close],
       Decl (Property ''pointer-events'') [Ident ''none'']],
    Style
      [Sel [[Class ''section-flare-item'', First_of_type]] (Some ''after'')]
      [Decl (Property ''content'') [Str ''''],
       Decl (Property ''position'') [Ident ''absolute''],
       Decl (Property ''top'') [Num 0 0],
       Decl (Property ''right'') [Num 0 0],
       Decl (Property ''bottom'') [Num 0 0],
       Decl (Property ''left'') [Num 0 0],
       Decl (Property ''background-image'') [Var (Local ''--stripes''), Comma,
           Var (Local ''--rainbow'')],
       Decl (Property ''background-size'') [Pct 200 0, Comma, Pct 100 0],
       Decl (Property ''background-attachment'') [Ident ''fixed''],
       Decl (Property ''mix-blend-mode'') [Ident ''difference''],
       Decl (Property ''background-image'') [Var (Local ''--stripesDark''), Comma,
           Var (Local ''--rainbow'')],
       Decl (Property ''pointer-events'') [Ident ''none'']],
    Style
      [Sel [[Class ''light-mode''], [Class ''section-flare-item'', First_of_type]] (Some ''after''),
       Sel [[Class ''light-mode''], [Class ''section-flare-item'', First_of_type]] (Some ''before'')]
      [Decl (Property ''background-image'') [Var (Local ''--stripes''), Comma,
           Var (Local ''--rainbow'')],
       Decl (Property ''filter'') [Fn ''opacity'', Pct 4 0, Close, Fn ''saturate'', Pct 200 0,
           Close]]]"

definition Iun :: stylesheet where
  "Iun = Iun_basic @ Iun_sidebar @ Iun_advanced"

lemmas Iun_defs = Iun_def Iun_basic_def Iun_sidebar_def Iun_advanced_def

section \<open>Lun: theme fastify\<close>

definition Lun_basic :: stylesheet where
  "Lun_basic = [
    Style
      [Sel [[Class ''light-mode'']] None]
      [Decl (Property ''color-scheme'') [Ident ''light''],
       Decl (Custom (Color Color_1)) [Hash ''1c1e21''],
       Decl (Custom (Color Color_2)) [Hash ''707070''],
       Decl (Custom (Color Color_3)) [Hash ''8e8e8e''],
       Decl (Custom (Color Color_disabled)) [Hash ''b4b1b1''],
       Decl (Custom (Color Color_ghost)) [Hash ''a7a7a7''],
       Decl (Custom (Color Color_accent)) [Hash ''2f8555''],
       Decl (Custom (Background Background_1)) [Hash ''fff''],
       Decl (Custom (Background Background_2)) [Hash ''f5f5f5''],
       Decl (Custom (Background Background_3)) [Hash ''ededed''],
       Decl (Custom (Background Background_4)) [Fn ''rgba'', Num 0 0, Comma, Num 0 0, Comma,
           Num 0 0, Comma, Num 6 2, Close],
       Decl (Custom (Background Background_accent)) [Hash ''2f85551f''],
       Decl (Custom (Chrome Border_color)) [Fn ''rgba'', Num 0 0, Comma, Num 0 0, Comma, Num 0 0,
           Comma, Num 1 1, Close],
       Decl (Custom (Chrome Scrollbar_color)) [Fn ''rgba'', Num 0 0, Comma, Num 0 0, Comma, Num 0 0,
           Comma, Num 18 2, Close],
       Decl (Custom (Chrome Scrollbar_color_active)) [Fn ''rgba'', Num 0 0, Comma, Num 0 0, Comma,
           Num 0 0, Comma, Num 36 2, Close],
       Decl (Custom (Chrome Backdrop_brightness)) [Num 1 0],
       Decl (Custom (Chrome Shadow_1)) [Num 0 0, Dim 1 0 ''px'', Dim 3 0 ''px'', Num 0 0,
           Fn ''rgba'', Num 0 0, Comma, Num 0 0, Comma, Num 0 0, Comma, Num 11 2, Close],
       Decl (Custom (Chrome Shadow_2)) [Fn ''rgba'', Num 0 0, Comma, Num 0 0, Comma, Num 0 0, Comma,
           Num 8 2, Close, Dim 0 0 ''px'', Dim 13 0 ''px'', Dim 20 0 ''px'', Dim 0 0 ''px'', Comma,
           Fn ''rgba'', Num 0 0, Comma, Num 0 0, Comma, Num 0 0, Comma, Num 8 2, Close, Dim 0 0 ''px'',
           Dim 3 0 ''px'', Dim 8 0 ''px'', Dim 0 0 ''px'', Comma, Hash ''eeeeed'', Dim 0 0 ''px'',
           Num 0 0, Num 0 0, Dim 1 0 ''px''],
       Decl (Custom (Chrome Button_1)) [Fn ''rgb'', Num 49 0, Num 53 0, Num 56 0, Close],
       Decl (Custom (Chrome Button_1_color)) [Hash ''fff''],
       Decl (Custom (Chrome Button_1_hover)) [Fn ''rgb'', Num 28 0, Num 31 0, Num 33 0, Close],
       Decl (Custom (Color Color_green)) [Hash ''007300''],
       Decl (Custom (Color Color_red)) [Hash ''af272b''],
       Decl (Custom (Color Color_yellow)) [Hash ''b38200''],
       Decl (Custom (Color Color_blue)) [Hash ''33788f''],
       Decl (Custom (Color Color_orange)) [Hash ''fb892c''],
       Decl (Custom (Color Color_purple)) [Hash ''5203d1''],
       Decl (Custom (Color Color_query)) [Hash ''00766f'']],
    Style
      [Sel [[Class ''dark-mode'']] None]
      [Decl (Property ''color-scheme'') [Ident ''dark''],
       Decl (Custom (Color Color_1)) [Fn ''rgba'', Num 255 0, Comma, Num 255 0, Comma, Num 255 0,
           Comma, Num 9 1, Close],
       Decl (Custom (Color Color_2)) [Fn ''rgba'', Num 255 0, Comma, Num 255 0, Comma, Num 255 0,
           Comma, Num 62 2, Close],
       Decl (Custom (Color Color_3)) [Fn ''rgba'', Num 255 0, Comma, Num 255 0, Comma, Num 255 0,
           Comma, Num 44 2, Close],
       Decl (Custom (Color Color_disabled)) [Fn ''rgba'', Num 255 0, Comma, Num 255 0, Comma,
           Num 255 0, Comma, Num 34 2, Close],
       Decl (Custom (Color Color_ghost)) [Fn ''rgba'', Num 255 0, Comma, Num 255 0, Comma,
           Num 255 0, Comma, Num 26 2, Close],
       Decl (Custom (Color Color_accent)) [Hash ''27c2a0''],
       Decl (Custom (Background Background_1)) [Hash ''1b1b1d''],
       Decl (Custom (Background Background_2)) [Hash ''242526''],
       Decl (Custom (Background Background_3)) [Hash ''3b3b3b''],
       Decl (Custom (Background Background_4)) [Fn ''rgba'', Num 255 0, Comma, Num 255 0, Comma,
           Num 255 0, Comma, Num 6 2, Close],
       Decl (Custom (Background Background_accent)) [Hash ''27c2a01f''],
       Decl (Custom (Chrome Border_color)) [Fn ''rgba'', Num 255 0, Comma, Num 255 0, Comma,
           Num 255 0, Comma, Num 1 1, Close],
       Decl (Custom (Chrome Scrollbar_color)) [Fn ''rgba'', Num 255 0, Comma, Num 255 0, Comma,
           Num 255 0, Comma, Num 24 2, Close],
       Decl (Custom (Chrome Scrollbar_color_active)) [Fn ''rgba'', Num 255 0, Comma, Num 255 0,
           Comma, Num 255 0, Comma, Num 48 2, Close],
       Decl (Custom (Chrome Backdrop_brightness)) [Num 5 1],
       Decl (Custom (Chrome Shadow_1)) [Num 0 0, Dim 1 0 ''px'', Dim 3 0 ''px'', Num 0 0,
           Fn ''rgb'', Num 0 0, Comma, Num 0 0, Comma, Num 0 0, Comma, Num 1 1, Close],
       Decl (Custom (Chrome Shadow_2)) [Fn ''rgba'', Num 15 0, Comma, Num 15 0, Comma, Num 15 0,
           Comma, Num 2 1, Close, Dim 0 0 ''px'', Dim 3 0 ''px'', Dim 6 0 ''px'', Comma, Fn ''rgba'',
           Num 15 0, Comma, Num 15 0, Comma, Num 15 0, Comma, Num 4 1, Close, Dim 0 0 ''px'',
           Dim 9 0 ''px'', Dim 24 0 ''px'', Comma, Num 0 0, Num 0 0, Num 0 0, Dim 1 0 ''px'',
           Fn ''rgba'', Num 255 0, Comma, Num 255 0, Comma, Num 255 0, Comma, Num 1 1, Close],
       Decl (Custom (Chrome Button_1)) [Hash ''f6f6f6''],
       Decl (Custom (Chrome Button_1_color)) [Hash ''000''],
       Decl (Custom (Chrome Button_1_hover)) [Hash ''e7e7e7''],
       Decl (Custom (Color Color_green)) [Hash ''26b226''],
       Decl (Custom (Color Color_red)) [Hash ''fb565b''],
       Decl (Custom (Color Color_yellow)) [Hash ''ffc426''],
       Decl (Custom (Color Color_blue)) [Hash ''6ecfef''],
       Decl (Custom (Color Color_orange)) [Hash ''ff8d4d''],
       Decl (Custom (Color Color_purple)) [Hash ''b191f9''],
       Decl (Custom (Color Color_query)) [Hash ''5fdbc5'']]]"

definition Lun :: stylesheet where
  "Lun = Lun_basic"

lemmas Lun_defs = Lun_def Lun_basic_def

section \<open>Run: theme kepler\<close>

definition Run_basic :: stylesheet where
  "Run_basic = [
    Style
      [Sel [[Class ''light-mode'']] None]
      [Decl (Custom (Color Color_1)) [Hash ''1b1b1b''],
       Decl (Custom (Color Color_2)) [Hash ''707070''],
       Decl (Custom (Color Color_3)) [Hash ''8e8e8e''],
       Decl (Custom (Color Color_accent)) [Hash ''7070ff''],
       Decl (Custom (Background Background_1)) [Hash ''fff''],
       Decl (Custom (Background Background_2)) [Hash ''f6f6f6''],
       Decl (Custom (Background Background_3)) [Hash ''e7e7e7''],
       Decl (Custom (Background Background_accent)) [Hash ''7070ff1f''],
       Decl (Custom (Chrome Border_color)) [Fn ''rgba'', Num 0 0, Comma, Num 0 0, Comma, Num 0 0,
           Comma, Num 1 1, Close],
       Decl (Custom (Chrome Code_language_color_supersede)) [Var (Color Color_3)]],
    Style
      [Sel [[Class ''dark-mode'']] None]
      [Decl (Custom (Color Color_1)) [Hash ''f7f8f8''],
       Decl (Custom (Color Color_2)) [Fn ''rgb'', Num 180 0, Comma, Num 188 0, Comma, Num 208 0,
           Close],
       Decl (Custom (Color Color_3)) [Hash ''b4bcd099''],
       Decl (Custom (Color Color_accent)) [Hash ''828fff''],
       Decl (Custom (Background Background_1)) [Hash ''000212''],
       Decl (Custom (Background Background_2)) [Hash ''0d0f1e''],
       Decl (Custom (Background Background_3)) [Hash ''232533''],
       Decl (Custom (Background Background_accent)) [Hash ''8ab4f81f''],
       Decl (Custom (Chrome Border_color)) [Hash ''313245''],
       Decl (Custom (Chrome Code_language_color_supersede)) [Var (Color Color_3)]]]"

definition Run_sidebar :: stylesheet where
  "Run_sidebar = [
    Style
      [Sel [[Class ''light-mode''], [Class ''t-doc__sidebar'']] None]
      [Decl (Custom (Sidebar Sidebar_background_1)) [Var (Background Background_1)],
       Decl (Custom (Sidebar Item_hover_color)) [Ident ''currentColor''],
       Decl (Custom (Sidebar Item_hover_background)) [Var (Background Background_2)],
       Decl (Custom (Sidebar Item_active_background)) [Var (Background Background_accent)],
       Decl (Custom (Sidebar Sidebar_border_color)) [Var (Chrome Border_color)],
       Decl (Custom (Sidebar Sidebar_color_1)) [Var (Color Color_1)],
       Decl (Custom (Sidebar Sidebar_color_2)) [Var (Color Color_2)],
       Decl (Custom (Sidebar Sidebar_color_active)) [Var (Color Color_accent)],
       Decl (Custom (Sidebar Search_background)) [Fn ''rgba'', Num 0 0, Comma, Num 0 0, Comma,
           Num 0 0, Comma, Num 5 2, Close],
       Decl (Custom (Sidebar Search_border_color)) [Dim 1 0 ''px'', Ident ''solid'', Fn ''rgba'',
           Num 0 0, Comma, Num 0 0, Comma, Num 0 0, Comma, Num 5 2, Close],
       Decl (Custom (Sidebar Search_color)) [Var (Color Color_3)],
       Decl (Custom (Background Background_2)) [Fn ''rgba'', Num 0 0, Comma, Num 0 0, Comma,
           Num 0 0, Comma, Num 3 2, Close]],
    Style
      [Sel [[Class ''dark-mode''], [Class ''t-doc__sidebar'']] None]
      [Decl (Custom (Sidebar Sidebar_background_1)) [Var (Background Background_1)],
       Decl (Custom (Sidebar Item_hover_color)) [Ident ''currentColor''],
       Decl (Custom (Sidebar Item_hover_background)) [Var (Background Background_2)],
       Decl (Custom (Sidebar Item_active_background)) [Fn ''rgba'', Num 255 0, Comma, Num 255 0,
           Comma, Num 255 0, Comma, Num 1 1, Close],
       Decl (Custom (Sidebar Sidebar_border_color)) [Var (Chrome Border_color)],
       Decl (Custom (Sidebar Sidebar_color_1)) [Var (Color Color_1)],
       Decl (Custom (Sidebar Sidebar_color_2)) [Var (Color Color_2)],
       Decl (Custom (Sidebar Sidebar_color_active)) [Var (Color Color_accent)],
       Decl (Custom (Sidebar Search_background)) [Fn ''rgba'', Num 255 0, Comma, Num 255 0, Comma,
           Num 255 0, Comma, Num 1 1, Close],
       Decl (Custom (Sidebar Search_border_color)) [Dim 1 0 ''px'', Ident ''solid'', Fn ''rgba'',
           Num 255 0, Comma, Num 255 0, Comma, Num 255 0, Comma, Num 5 2, Close],
       Decl (Custom (Sidebar Search_color)) [Var (Color Color_3)]]]"

definition Run_advanced :: stylesheet where
  "Run_advanced = [
    Style
      [Sel [[Class ''light-mode'']] None]
      [Decl (Custom (Color Color_green)) [Hash ''069061''],
       Decl (Custom (Color Color_red)) [Hash ''ef0006''],
       Decl (Custom (Color Color_yellow)) [Hash ''edbe20''],
       Decl (Custom (Color Color_blue)) [Hash ''0072bd''],
       Decl (Custom (Color Color_orange)) [Hash ''fb892c''],
       Decl (Custom (Color Color_purple)) [Hash ''5203d1''],
       Decl (Custom (Color Color_query)) [Hash ''007b80''],
       Decl (Custom (Chrome Button_1)) [Fn ''rgba'', Num 0 0, Comma, Num 0 0, Comma, Num 0 0, Comma,
           Num 1 0, Close],
       Decl (Custom (Chrome Button_1_hover)) [Fn ''rgba'', Num 0 0, Comma, Num 0 0, Comma, Num 0 0,
           Comma, Num 8 1, Close],
       Decl (Custom (Chrome Button_1_color)) [Hash ''fff'']],
    Style
      [Sel [[Class ''dark-mode'']] None]
      [Decl (Custom (Color Color_green)) [Hash ''00b648''],
       Decl (Custom (Color Color_red)) [Hash ''dc1b19''],
       Decl (Custom (Color Color_yellow)) [Hash ''ffc90d''],
       Decl (Custom (Color Color_blue)) [Hash ''4eb3ec''],
       Decl (Custom (Color Color_orange)) [Hash ''ff8d4d''],
       Decl (Custom (Color Color_purple)) [Hash ''b191f9''],
       Decl (Custom (Color Color_query)) [Hash ''65d4cf''],
       Decl (Custom (Chrome Button_1)) [Fn ''rgba'', Num 255 0, Comma, Num 255 0, Comma, Num 255 0,
           Comma, Num 1 0, Close],
       Decl (Custom (Chrome Button_1_hover)) [Fn ''rgba'', Num 255 0, Comma, Num 255 0, Comma,
           Num 255 0, Comma, Num 9 1, Close],
       Decl (Custom (Chrome Button_1_color)) [Ident ''black'']]]"

definition Run_custom :: stylesheet where
  "Run_custom = [
    Style
      [Sel [[Class ''dark-mode''], [Tag ''h2'', Class ''t-editor__heading'']] None,
       Sel [[Class ''dark-mode''], [Class ''t-editor__page-title''], [Tag ''h1'']] None,
       Sel [[Class ''dark-mode''], [Tag ''h1'', Class ''section-header'', Not_pseudo_element ''selection'']] None,
       Sel [[Class ''dark-mode''], [Class ''markdown''], [Tag ''h1'']] None,
       Sel [[Class ''dark-mode''], [Class ''markdown''], [Tag ''h2'']] None,
       Sel [[Class ''dark-mode''], [Class ''markdown''], [Tag ''h3'']] None,
       Sel [[Class ''dark-mode''], [Class ''markdown''], [Tag ''h4'']] None,
       Sel [[Class ''dark-mode''], [Class ''markdown''], [Tag ''h5'']] None,
       Sel [[Class ''dark-mode''], [Class ''markdown''], [Tag ''h6'']] None]
      [Decl (Property ''-webkit-text-fill-color'') [Ident ''transparent''],
       Decl (Property ''background-image'') [Fn ''linear-gradient'', Ident ''to'', Ident ''right'',
           Ident ''bottom'', Comma, Fn ''rgb'', Num 255 0, Comma, Num 255 0, Comma, Num 255 0, Close,
           Pct 30 0, Comma, Fn ''rgba'', Num 255 0, Comma, Num 255 0, Comma, Num 255 0, Comma, Num 38 2,
           Close, Close],
       Decl (Property ''-webkit-background-clip'') [Ident ''text''],
       Decl (Property ''background-clip'') [Ident ''text'']],
    Style
      [Sel [[Class ''sidebar-search'']] None]
      [Decl (Property ''backdrop-filter'') [Fn ''blur'', Dim 12 0 ''px'', Close]],
    Keyframes ''headerbackground''
      [(''from'',
         [Decl (Property ''background'') [Ident ''transparent''],
          Decl (Property ''backdrop-filter'') [Ident ''none'']]),
       (''to'',
         [Decl (Property ''background'') [Var (Chrome Header_background_1)],
          Decl (Property ''backdrop-filter'') [Fn ''blur'', Dim 12 0 ''px'', Close]])],
    Style
      [Sel [[Class ''dark-mode''], [Class ''scalar-card'']] None]
      [Important (Property ''background'') [Fn ''rgba'', Num 255 0, Comma, Num 255 0, Comma,
           Num 255 0, Comma, Num 5 2, Close]],
    Style
      [Sel [[Class ''dark-mode''], [Class ''scalar-card''], [Universal]] None]
      [Important (Custom (Background Background_2)) [Ident ''transparent''],
       Important (Custom (Background Background_1)) [Ident ''transparent'']],
    Style
      [Sel [[Class ''light-mode''], [Class ''dark-mode'', Class ''scalar-card''], [Universal]] None,
       Sel [[Class ''light-mode''], [Class ''dark-mode'', Class ''scalar-card'']] None]
      [Important (Custom (Background Background_1)) [Hash ''0d0f1e''],
       Important (Custom (Background Background_2)) [Hash ''0d0f1e''],
       Important (Custom (Background Background_3)) [Hash ''191b29'']],
    Style
      [Sel [[Class ''light-mode''], [Class ''dark-mode'', Class ''scalar-card'']] None]
      [Important (Property ''background'') [Hash ''191b29'']],
    Style
      [Sel [[Class ''badge'']] None]
      [Decl (Property ''box-shadow'') [Num 0 0, Num 0 0, Num 0 0, Dim 1 0 ''px'',
           Var (Chrome Border_color)],
       Decl (Property ''margin-right'') [Dim 6 0 ''px'']],
    Style
      [Sel [[Class ''table-row'', Class ''required-parameter''], [Class ''table-row-item'', Nth_of_type 2]] (Some ''after'')]
      [Decl (Property ''background'') [Ident ''transparent''],
       Decl (Property ''box-shadow'') [Ident ''none'']]]"

definition Run_flare :: stylesheet where
  "Run_flare = [
    Style
      [Sel [[Class ''section-flare'']] None]
      [Decl (Property ''width'') [Dim 100 0 ''vw''],
       Decl (Property ''background'') [Fn ''radial-gradient'', Ident ''ellipse'', Pct 80 0,
           Pct 50 0, Ident ''at'', Pct 50 0, Pct (-20) 0, Comma, Fn ''rgba'', Num 120 0, Comma,
           Num 119 0, Comma, Num 198 0, Comma, Num 3 1, Close, Comma, Ident ''transparent'', Close],
       Decl (Property ''height'') [Dim 100 0 ''vh'']],
    Style
      [Sel [[Class ''light-mode''], [Universal]] (Some ''selection'')]
      [Decl (Property ''background-color'') [Fn ''color-mix'', Ident ''in'', Ident ''srgb'', Comma,
           Var (Color Color_accent), Comma, Ident ''transparent'', Pct 70 0, Close]],
    Style
      [Sel [[Class ''dark-mode''], [Universal]] (Some ''selection'')]
      [Decl (Property ''background-color'') [Fn ''color-mix'', Ident ''in'', Ident ''srgb'', Comma,
           Var (Color Color_accent), Comma, Ident ''transparent'', Pct 50 0, Close]]]"

definition Run_layout :: stylesheet where
  "Run_layout = [
    Style
      [Sel [[Class ''light-mode''], [Class ''t-doc''], [Class ''layout-content'']] None,
       Sel [[Class ''dark-mode''], [Class ''t-doc''], [Class ''layout-content'']] None]
      [Decl (Property ''background'') [Ident ''transparent'']]]"

definition Run :: stylesheet where
  "Run = Run_basic @ Run_sidebar @ Run_advanced @ Run_custom @ Run_flare @ Run_layout"

lemmas Run_defs = Run_def Run_basic_def Run_sidebar_def Run_advanced_def Run_custom_def Run_flare_def Run_layout_def

end
