(* ===== verification/Scalar_Themes_3.thy ===== *)
theory Scalar_Themes_3
  imports Css
begin

text \<open>
  The theme style sheets of the API reference as \<open>scalar-1.75.0.js\<close> embeds them, one template
  literal each: laserwave, mars, moon, purple, saturn and solarized.  A definition per section of the sheet, in
  the order of the rules and of their declarations, then the sheet.
\<close>

section \<open>zun: theme laserwave\<close>

definition zun_basic :: stylesheet where
  "zun_basic = [
    Style
      [Sel [[Class ''light-mode'']] None]
      [Decl (Property ''color-scheme'') [Ident ''light''],
       Decl (Custom (Color Color_1)) [Hash ''322b3b''],
       Decl (Custom (Color Color_2)) [Hash ''645676''],
       Decl (Custom (Color Color_3)) [Hash ''9789a9''],
       Decl (Custom (Color Color_accent)) [Hash ''40b4c4''],
       Decl (Custom (Background Background_1)) [Hash ''fff''],
       Decl (Custom (Background Background_2)) [Hash ''f4f2f7''],
       Decl (Custom (Background Background_3)) [Hash ''cfc7dc''],
       Decl (Custom (Background Background_accent)) [Hash ''f3fafb''],
       Decl (Custom (Chrome Border_color)) [Hash ''e4e0eb'']],
    Style
      [Sel [[Class ''dark-mode'']] None]
      [Decl (Property ''color-scheme'') [Ident ''dark''],
       Decl (Custom (Color Color_1)) [Hash ''fff''],
       Decl (Custom (Color Color_2)) [Hash ''b8b6ba''],
       Decl (Custom (Color Color_3)) [Hash ''706c74''],
       Decl (Custom (Color Color_accent)) [Hash ''ed78c2''],
       Decl (Custom (Background Background_1)) [Hash ''27212e''],
       Decl (Custom (Background Background_2)) [Hash ''322c39''],
       Decl (Custom (Background Background_3)) [Hash ''4c4059''],
       Decl (Custom (Background Background_accent)) [Hash ''eb64b91f''],
       Decl (Custom (Chrome Border_color)) [Fn ''rgba'', Num 255 0, Comma, Num 255 0, Comma,
           Num 255 0, Comma, Num 1 1, Close]]]"

definition zun_sidebar :: stylesheet where
  "zun_sidebar = [
    Style
      [Sel [[Class ''light-mode''], [Class ''t-doc__sidebar'']] None]
      [Decl (Custom (Sidebar Sidebar_background_1)) [Var (Background Background_1)],
       Decl (Custom (Sidebar Item_hover_color)) [Ident ''currentColor''],
       Decl (Custom (Sidebar Item_hover_background)) [Var (Background Background_2)],
       Decl (Custom (Sidebar Item_active_background)) [Var (Background Background_accent)],
       Decl (Custom (Sidebar Sidebar_border_color)) [Var (Chrome Border_color)],
       Decl (Custom (Sidebar Sidebar_color_1)) [Var (Color Color_1)],
       Decl (Custom (Sidebar Sidebar_color_2)) [Var (Color Color_2)],
       Decl (Custom (Sidebar Sidebar_color_active)) [Var (Color Color_accent)],
       Decl (Custom (Sidebar Search_background)) [Var (Background Background_2)],
       Decl (Custom (Sidebar Search_border_color)) [Var (Sidebar Sidebar_border_color)],
       Decl (Custom (Local ''--scalar-sidebar-search--color'')) [Var (Color Color_3)]],
    Style
      [Sel [[Class ''dark-mode''], [Class ''t-doc__sidebar'']] None]
      [Decl (Custom (Sidebar Sidebar_background_1)) [Var (Background Background_1)],
       Decl (Custom (Sidebar Item_hover_color)) [Ident ''currentColor''],
       Decl (Custom (Sidebar Item_hover_background)) [Var (Background Background_2)],
       Decl (Custom (Sidebar Item_active_background)) [Var (Background Background_accent)],
       Decl (Custom (Sidebar Sidebar_border_color)) [Var (Chrome Border_color)],
       Decl (Custom (Sidebar Sidebar_color_1)) [Var (Color Color_1)],
       Decl (Custom (Sidebar Sidebar_color_2)) [Var (Color Color_2)],
       Decl (Custom (Sidebar Sidebar_color_active)) [Var (Color Color_accent)],
       Decl (Custom (Sidebar Search_background)) [Var (Background Background_2)],
       Decl (Custom (Sidebar Search_border_color)) [Hash ''514c56''],
       Decl (Custom (Local ''--scalar-sidebar-search--color'')) [Var (Color Color_3)]]]"

definition zun_advanced :: stylesheet where
  "zun_advanced = [
    Style
      [Sel [[Class ''light-mode'']] None]
      [Decl (Custom (Chrome Button_1)) [Fn ''rgb'', Num 49 0, Num 53 0, Num 56 0, Close],
       Decl (Custom (Chrome Button_1_color)) [Hash ''fff''],
       Decl (Custom (Chrome Button_1_hover)) [Fn ''rgb'', Num 28 0, Num 31 0, Num 33 0, Close],
       Decl (Custom (Color Color_green)) [Hash ''74dfc4''],
       Decl (Custom (Color Color_red)) [Hash ''d887f5''],
       Decl (Custom (Color Color_yellow)) [Hash ''ffe261''],
       Decl (Custom (Color Color_blue)) [Hash ''40b4c4''],
       Decl (Custom (Color Color_orange)) [Hash ''ff52bf''],
       Decl (Custom (Color Color_purple)) [Hash ''91889b''],
       Decl (Custom (Color Color_query)) [Hash ''7860a8''],
       Decl (Custom (Chrome Scrollbar_color)) [Fn ''rgba'', Num 0 0, Comma, Num 0 0, Comma, Num 0 0,
           Comma, Num 18 2, Close],
       Decl (Custom (Chrome Scrollbar_color_active)) [Fn ''rgba'', Num 0 0, Comma, Num 0 0, Comma,
           Num 0 0, Comma, Num 36 2, Close]],
    Style
      [Sel [[Class ''dark-mode'']] None]
      [Decl (Custom (Chrome Button_1)) [Hash ''f6f6f6''],
       Decl (Custom (Chrome Button_1_color)) [Hash ''27212e''],
       Decl (Custom (Chrome Button_1_hover)) [Hash ''e7e7e7''],
       Decl (Custom (Color Color_green)) [Hash ''74dfc4''],
       Decl (Custom (Color Color_red)) [Hash ''d887f5''],
       Decl (Custom (Color Color_yellow)) [Hash ''ffe261''],
       Decl (Custom (Color Color_blue)) [Hash ''40b4c4''],
       Decl (Custom (Color Color_orange)) [Hash ''ff52bf''],
       Decl (Custom (Color Color_purple)) [Hash ''91889b''],
       Decl (Custom (Color Color_query)) [Hash ''b8a2e3''],
       Decl (Custom (Chrome Scrollbar_color)) [Fn ''rgba'', Num 255 0, Comma, Num 255 0, Comma,
           Num 255 0, Comma, Num 24 2, Close],
       Decl (Custom (Chrome Scrollbar_color_active)) [Fn ''rgba'', Num 255 0, Comma, Num 255 0,
           Comma, Num 255 0, Comma, Num 48 2, Close]]]"

definition zun_radius :: stylesheet where
  "zun_radius = [
    Style
      [Sel [[Root]] None,
       Sel [[Host]] None]
      [Decl (Custom (Chrome Radius)) [Dim 2 0 ''px''],
       Decl (Custom (Chrome Radius_lg)) [Dim 3 0 ''px''],
       Decl (Custom (Chrome Radius_xl)) [Dim 4 0 ''px'']]]"

definition zun_display_p3 :: stylesheet where
  "zun_display_p3 = [
    When (Supports_decl ''color'' [Fn ''color'', Ident ''display-p3'', Num 1 0, Num 1 0, Num 1 0, Close]) [
      Style
        [Sel [[Class ''light-mode'']] None]
        [Decl (Custom (Color Color_accent)) [Fn ''color'', Ident ''display-p3'', Num 25098 5,
             Num 705882 6, Num 768627 6, Slash, Num 1 0, Close],
         Decl (Custom (Color Color_green)) [Fn ''color'', Ident ''display-p3'', Num 454902 6,
             Num 87451 5, Num 768627 6, Slash, Num 1 0, Close],
         Decl (Custom (Color Color_red)) [Fn ''color'', Ident ''display-p3'', Num 847059 6,
             Num 529412 6, Num 960784 6, Slash, Num 1 0, Close],
         Decl (Custom (Color Color_yellow)) [Fn ''color'', Ident ''display-p3'', Num 1 0,
             Num 886275 6, Num 380392 6, Slash, Num 1 0, Close],
         Decl (Custom (Color Color_blue)) [Fn ''color'', Ident ''display-p3'', Num 25098 5,
             Num 705882 6, Num 768627 6, Slash, Num 1 0, Close],
         Decl (Custom (Color Color_orange)) [Fn ''color'', Ident ''display-p3'', Num 1 0,
             Num 321569 6, Num 74902 5, Slash, Num 1 0, Close],
         Decl (Custom (Color Color_purple)) [Fn ''color'', Ident ''display-p3'', Num 568627 6,
             Num 533333 6, Num 607843 6, Slash, Num 1 0, Close],
         Decl (Custom (Color Color_query)) [Fn ''color'', Ident ''display-p3'', Num 470588 6,
             Num 376471 6, Num 658824 6, Slash, Num 1 0, Close]],
      Style
        [Sel [[Class ''dark-mode'']] None]
        [Decl (Custom (Color Color_accent)) [Fn ''color'', Ident ''display-p3'', Num 929412 6,
             Num 470588 6, Num 760784 6, Slash, Num 1 0, Close],
         Decl (Custom (Color Color_green)) [Fn ''color'', Ident ''display-p3'', Num 454902 6,
             Num 87451 5, Num 768627 6, Slash, Num 1 0, Close],
         Decl (Custom (Color Color_red)) [Fn ''color'', Ident ''display-p3'', Num 847059 6,
             Num 529412 6, Num 960784 6, Slash, Num 1 0, Close],
         Decl (Custom (Color Color_yellow)) [Fn ''color'', Ident ''display-p3'', Num 1 0,
             Num 886275 6, Num 380392 6, Slash, Num 1 0, Close],
         Decl (Custom (Color Color_blue)) [Fn ''color'', Ident ''display-p3'', Num 25098 5,
             Num 705882 6, Num 768627 6, Slash, Num 1 0, Close],
         Decl (Custom (Color Color_orange)) [Fn ''color'', Ident ''display-p3'', Num 1 0,
             Num 321569 6, Num 74902 5, Slash, Num 1 0, Close],
         Decl (Custom (Color Color_purple)) [Fn ''color'', Ident ''display-p3'', Num 568627 6,
             Num 533333 6, Num 607843 6, Slash, Num 1 0, Close],
         Decl (Custom (Color Color_query)) [Fn ''color'', Ident ''display-p3'', Num 721569 6,
             Num 635294 6, Num 890196 6, Slash, Num 1 0, Close]]]]"

definition zun :: stylesheet where
  "zun = zun_basic @ zun_sidebar @ zun_advanced @ zun_radius @ zun_display_p3"

lemmas zun_defs = zun_def zun_basic_def zun_sidebar_def zun_advanced_def zun_radius_def zun_display_p3_def

section \<open>Bun: theme mars\<close>

definition Bun_basic :: stylesheet where
  "Bun_basic = [
    Style
      [Sel [[Root]] None,
       Sel [[Host]] None]
      [Decl (Custom (Chrome Text_decoration)) [Ident ''underline''],
       Decl (Custom (Chrome Text_decoration_hover)) [Ident ''underline'']],
    Style
      [Sel [[Class ''light-mode'']] None]
      [Decl (Custom (Background Background_1)) [Hash ''f9f6f0''],
       Decl (Custom (Background Background_2)) [Hash ''f2efe8''],
       Decl (Custom (Background Background_3)) [Hash ''e9e7e2''],
       Decl (Custom (Chrome Border_color)) [Fn ''rgba'', Num 203 0, Comma, Num 165 0, Comma,
           Num 156 0, Comma, Num 6 1, Close],
       Decl (Custom (Color Color_1)) [Hash ''b24c41''],
       Decl (Custom (Color Color_2)) [Hash ''b24c41''],
       Decl (Custom (Color Color_3)) [Hash ''b24c41''],
       Decl (Custom (Color Color_accent)) [Hash ''b24c41''],
       Decl (Custom (Background Background_accent)) [Hash ''dcbfa81f''],
       Decl (Custom (Chrome Code_language_color_supersede)) [Var (Color Color_1)]],
    Style
      [Sel [[Class ''dark-mode'']] None]
      [Decl (Custom (Background Background_1)) [Hash ''140507''],
       Decl (Custom (Background Background_2)) [Hash ''20090c''],
       Decl (Custom (Background Background_3)) [Hash ''321116''],
       Decl (Custom (Chrome Border_color)) [Hash ''3c3031''],
       Decl (Custom (Color Color_1)) [Fn ''rgba'', Num 255 0, Comma, Num 255 0, Comma, Num 255 0,
           Comma, Num 9 1, Close],
       Decl (Custom (Color Color_2)) [Fn ''rgba'', Num 255 0, Comma, Num 255 0, Comma, Num 255 0,
           Comma, Num 62 2, Close],
       Decl (Custom (Color Color_3)) [Fn ''rgba'', Num 255 0, Comma, Num 255 0, Comma, Num 255 0,
           Comma, Num 44 2, Close],
       Decl (Custom (Color Color_accent)) [Fn ''rgba'', Num 255 0, Comma, Num 255 0, Comma,
           Num 255 0, Comma, Num 9 1, Close],
       Decl (Custom (Background Background_accent)) [Hash ''441313''],
       Decl (Custom (Chrome Code_language_color_supersede)) [Var (Color Color_1)]]]"

definition Bun_sidebar :: stylesheet where
  "Bun_sidebar = [
    Style
      [Sel [[Class ''light-mode''], [Class ''t-doc__sidebar'']] None,
       Sel [[Class ''dark-mode''], [Class ''t-doc__sidebar'']] None]
      [Decl (Custom (Sidebar Sidebar_background_1)) [Var (Background Background_1)],
       Decl (Custom (Sidebar Sidebar_color_1)) [Var (Color Color_1)],
       Decl (Custom (Sidebar Sidebar_color_2)) [Var (Color Color_2)],
       Decl (Custom (Sidebar Sidebar_border_color)) [Var (Chrome Border_color)],
       Decl (Custom (Sidebar Item_hover_color)) [Ident ''currentColor''],
       Decl (Custom (Sidebar Item_hover_background)) [Var (Background Background_2)],
       Decl (Custom (Sidebar Item_active_background)) [Var (Background Background_3)],
       Decl (Custom (Sidebar Sidebar_color_active)) [Var (Color Color_accent)],
       Decl (Custom (Sidebar Search_background)) [Fn ''rgba'', Num 255 0, Comma, Num 255 0, Comma,
           Num 255 0, Comma, Num 1 1, Close],
       Decl (Custom (Sidebar Search_color)) [Var (Color Color_3)],
       Decl (Custom (Sidebar Search_border_color)) [Var (Chrome Border_color)],
       Decl (Property ''z-index'') [Num 1 0]]]"

definition Bun_advanced :: stylesheet where
  "Bun_advanced = [
    Style
      [Sel [[Class ''light-mode'']] None]
      [Decl (Custom (Color Color_green)) [Hash ''09533a''],
       Decl (Custom (Color Color_red)) [Hash ''aa181d''],
       Decl (Custom (Color Color_yellow)) [Hash ''ab8d2b''],
       Decl (Custom (Color Color_blue)) [Hash ''19689a''],
       Decl (Custom (Color Color_orange)) [Hash ''b26c34''],
       Decl (Custom (Color Color_purple)) [Hash ''4c2191''],
       Decl (Custom (Color Color_query)) [Hash ''086566''],
       Decl (Custom (Chrome Button_1)) [Fn ''rgba'', Num 0 0, Comma, Num 0 0, Comma, Num 0 0, Comma,
           Num 1 0, Close],
       Decl (Custom (Chrome Button_1_hover)) [Fn ''rgba'', Num 0 0, Comma, Num 0 0, Comma, Num 0 0,
           Comma, Num 8 1, Close],
       Decl (Custom (Chrome Button_1_color)) [Hash ''fff'']],
    Style
      [Sel [[Class ''dark-mode'']] None]
      [Decl (Custom (Color Color_green)) [Fn ''rgba'', Num 69 0, Comma, Num 255 0, Comma, Num 165 0,
           Comma, Num 823 3, Close],
       Decl (Custom (Color Color_red)) [Hash ''ff8589''],
       Decl (Custom (Color Color_yellow)) [Hash ''ffcc4d''],
       Decl (Custom (Color Color_blue)) [Hash ''6bc1fe''],
       Decl (Custom (Color Color_orange)) [Hash ''f98943''],
       Decl (Custom (Color Color_purple)) [Hash ''b191f9''],
       Decl (Custom (Color Color_query)) [Hash ''79e2da''],
       Decl (Custom (Chrome Button_1)) [Fn ''rgba'', Num 255 0, Comma, Num 255 0, Comma, Num 255 0,
           Comma, Num 1 0, Close],
       Decl (Custom (Chrome Button_1_hover)) [Fn ''rgba'', Num 255 0, Comma, Num 255 0, Comma,
           Num 255 0, Comma, Num 9 1, Close],
       Decl (Custom (Chrome Button_1_color)) [Ident ''black'']]]"

definition Bun_custom :: stylesheet where
  "Bun_custom = [
    Style
      [Sel [[Class ''dark-mode''], [Tag ''h2'', Class ''t-editor__heading'']] None,
       Sel [[Class ''dark-mode''], [Class ''t-editor__page-title''], [Tag ''h1'']] None,
       Sel [[Class ''dark-mode''], [Tag ''h1'', Class ''section-header'', Not_pseudo_element ''selection'']] None,
       Sel [[Class ''dark-mode''], [Class ''markdown''], [Tag ''h1'']] None,
       Sel [[Class ''dark-mode''], [Class ''markdown''], [Tag ''h2'']] None,
       Sel [[Class ''dark-mode''], [Class ''markdown''], [Tag ''h3'']] None,
       Sel [[Class ''dark-mode''], [Class ''markdown''], [Tag ''h4'']] None,
       Sel [[Class ''dark-mode''], [Class ''markdown''], [Tag ''h5'']] None,
       Sel [[Class ''dark-mode''], [Class ''markdown''], [Tag ''h6'']] None]
      [Decl (Property ''-webkit-text-fill-color'') [Ident ''transparent''],
       Decl (Property ''background-image'') [Fn ''linear-gradient'', Ident ''to'', Ident ''right'',
           Ident ''bottom'', Comma, Fn ''rgb'', Num 255 0, Comma, Num 255 0, Comma, Num 255 0, Close,
           Pct 30 0, Comma, Fn ''rgba'', Num 255 0, Comma, Num 255 0, Comma, Num 255 0, Comma, Num 38 2,
           Close, Close],
       Decl (Property ''-webkit-background-clip'') [Ident ''text''],
       Decl (Property ''background-clip'') [Ident ''text'']],
    Style
      [Sel [[Class ''light-mode''], [Class ''t-doc__sidebar'']] None]
      [Decl (Custom (Sidebar Search_background)) [Ident ''white'']],
    Style
      [Sel [[Class ''examples''], [Class ''scalar-card-footer'']] None]
      [Decl (Custom (Background Background_3)) [Ident ''transparent''],
       Decl (Property ''padding-top'') [Num 0 0]]]"

definition Bun_flare :: stylesheet where
  "Bun_flare = [
    Style
      [Sel [[Class ''section-flare'']] None]
      [Decl (Property ''overflow-x'') [Ident ''hidden''],
       Decl (Property ''height'') [Dim 100 0 ''vh''],
       Decl (Property ''left'') [Ident ''initial'']],
    Style
      [Sel [[Class ''section-flare-item'', Nth_of_type 1]] None]
      [Decl (Property ''background'') [Hash ''d25019''],
       Decl (Property ''position'') [Ident ''relative''],
       Decl (Property ''top'') [Dim (-150) 0 ''px''],
       Decl (Property ''right'') [Dim (-400) 0 ''px''],
       Decl (Property ''width'') [Dim 80 0 ''vw''],
       Decl (Property ''height'') [Dim 500 0 ''px''],
       Decl (Property ''margin-top'') [Dim (-150) 0 ''px''],
       Decl (Property ''border-radius'') [Pct 50 0],
       Decl (Property ''filter'') [Fn ''blur'', Dim 100 0 ''px'', Close],
       Decl (Property ''z-index'') [Num 0 0]],
    Style
      [Sel [[Class ''light-mode''], [Class ''section-flare'']] None]
      [Decl (Property ''display'') [Ident ''none'']],
    Style
      [Sel [[Universal]] (Some ''selection'')]
      [Decl (Property ''background-color'') [Fn ''color-mix'', Ident ''in'', Ident ''srgb'', Comma,
           Var (Color Color_red), Comma, Ident ''transparent'', Pct 75 0, Close]]]"

definition Bun_layout :: stylesheet where
  "Bun_layout = [
    Style
      [Sel [[Class ''dark-mode''], [Class ''t-doc''], [Class ''layout-content'']] None]
      [Decl (Property ''background'') [Ident ''transparent'']]]"

definition Bun :: stylesheet where
  "Bun = Bun_basic @ Bun_sidebar @ Bun_advanced @ Bun_custom @ Bun_flare @ Bun_layout"

lemmas Bun_defs = Bun_def Bun_basic_def Bun_sidebar_def Bun_advanced_def Bun_custom_def Bun_flare_def Bun_layout_def

section \<open>Vun: theme moon\<close>

definition Vun_basic :: stylesheet where
  "Vun_basic = [
    Style
      [Sel [[Class ''light-mode'']] None]
      [Decl (Property ''color-scheme'') [Ident ''light''],
       Decl (Custom (Color Color_1)) [Hash ''000000''],
       Decl (Custom (Color Color_2)) [Hash ''000000''],
       Decl (Custom (Color Color_3)) [Hash ''000000''],
       Decl (Custom (Color Color_accent)) [Hash ''645b0f''],
       Decl (Custom (Background Background_1)) [Hash ''ccc9b3''],
       Decl (Custom (Background Background_2)) [Hash ''c2bfaa''],
       Decl (Custom (Background Background_3)) [Hash ''b8b5a1''],
       Decl (Custom (Background Background_accent)) [Hash ''000000''],
       Decl (Custom (Chrome Border_color)) [Fn ''rgba'', Num 0 0, Comma, Num 0 0, Comma, Num 0 0,
           Comma, Num 2 1, Close],
       Decl (Custom (Chrome Scrollbar_color)) [Fn ''rgba'', Num 0 0, Comma, Num 0 0, Comma, Num 0 0,
           Comma, Num 18 2, Close],
       Decl (Custom (Chrome Scrollbar_color_active)) [Fn ''rgba'', Num 0 0, Comma, Num 0 0, Comma,
           Num 0 0, Comma, Num 36 2, Close],
       Decl (Custom (Chrome Backdrop_brightness)) [Num 1 0],
       Decl (Custom (Chrome Shadow_1)) [Num 0 0, Dim 1 0 ''px'', Dim 3 0 ''px'', Num 0 0,
           Fn ''rgba'', Num 0 0, Comma, Num 0 0, Comma, Num 0 0, Comma, Num 11 2, Close],
       Decl (Custom (Chrome Shadow_2)) [Fn ''rgba'', Num 0 0, Comma, Num 0 0, Comma, Num 0 0, Comma,
           Num 8 2, Close, Dim 0 0 ''px'', Dim 13 0 ''px'', Dim 20 0 ''px'', Dim 0 0 ''px'', Comma,
           Fn ''rgba'', Num 0 0, Comma, Num 0 0, Comma, Num 0 0, Comma, Num 8 2, Close, Dim 0 0 ''px'',
           Dim 3 0 ''px'', Dim 8 0 ''px'', Dim 0 0 ''px'', Comma, Var (Chrome Border_color),
           Dim 0 0 ''px'', Num 0 0, Num 0 0, Dim 1 0 ''px''],
       Decl (Custom (Chrome Button_1)) [Fn ''rgb'', Num 49 0, Num 53 0, Num 56 0, Close],
       Decl (Custom (Chrome Button_1_color)) [Hash ''fff''],
       Decl (Custom (Chrome Button_1_hover)) [Fn ''rgb'', Num 28 0, Num 31 0, Num 33 0, Close],
       Decl (Custom (Color Color_red)) [Hash ''b91c1c''],
       Decl (Custom (Color Color_orange)) [Hash ''a16207''],
       Decl (Custom (Color Color_green)) [Hash ''047857''],
       Decl (Custom (Color Color_blue)) [Hash ''1841b5''],
       Decl (Custom (Color Color_orange)) [Hash ''c2410c''],
       Decl (Custom (Color Color_purple)) [Hash ''6d28d9''],
       Decl (Custom (Color Color_query)) [Hash ''0f766e'']],
    Style
      [Sel [[Class ''dark-mode'']] None]
      [Decl (Property ''color-scheme'') [Ident ''dark''],
       Decl (Custom (Color Color_1)) [Hash ''fffef3''],
       Decl (Custom (Color Color_2)) [Hash ''fffef3''],
       Decl (Custom (Color Color_3)) [Hash ''fffef3''],
       Decl (Custom (Color Color_accent)) [Hash ''c3b531''],
       Decl (Custom (Background Background_1)) [Hash ''313332''],
       Decl (Custom (Background Background_2)) [Hash ''393b3a''],
       Decl (Custom (Background Background_3)) [Hash ''414342''],
       Decl (Custom (Background Background_accent)) [Hash ''fffef3''],
       Decl (Custom (Chrome Border_color)) [Hash ''505452''],
       Decl (Custom (Chrome Scrollbar_color)) [Fn ''rgba'', Num 255 0, Comma, Num 255 0, Comma,
           Num 255 0, Comma, Num 24 2, Close],
       Decl (Custom (Chrome Scrollbar_color_active)) [Fn ''rgba'', Num 255 0, Comma, Num 255 0,
           Comma, Num 255 0, Comma, Num 48 2, Close],
       Decl (Custom (Chrome Backdrop_brightness)) [Num 5 1],
       Decl (Custom (Chrome Shadow_1)) [Num 0 0, Dim 1 0 ''px'', Dim 3 0 ''px'', Num 0 0,
           Fn ''rgba'', Num 0 0, Comma, Num 0 0, Comma, Num 0 0, Comma, Num 11 2, Close],
       Decl (Custom (Chrome Shadow_2)) [Fn ''rgba'', Num 15 0, Comma, Num 15 0, Comma, Num 15 0,
           Comma, Num 2 1, Close, Dim 0 0 ''px'', Dim 3 0 ''px'', Dim 6 0 ''px'', Comma, Fn ''rgba'',
           Num 15 0, Comma, Num 15 0, Comma, Num 15 0, Comma, Num 4 1, Close, Dim 0 0 ''px'',
           Dim 9 0 ''px'', Dim 24 0 ''px'', Comma, Num 0 0, Num 0 0, Num 0 0, Dim 1 0 ''px'',
           Fn ''rgba'', Num 255 0, Comma, Num 255 0, Comma, Num 255 0, Comma, Num 1 1, Close],
       Decl (Custom (Chrome Button_1)) [Hash ''f6f6f6''],
       Decl (Custom (Chrome Button_1_color)) [Hash ''000''],
       Decl (Custom (Chrome Button_1_hover)) [Hash ''e7e7e7''],
       Decl (Custom (Color Color_green)) [Hash ''00b648''],
       Decl (Custom (Color Color_red)) [Hash ''dc1b19''],
       Decl (Custom (Color Color_yellow)) [Hash ''ffc90d''],
       Decl (Custom (Color Color_blue)) [Hash ''4eb3ec''],
       Decl (Custom (Color Color_orange)) [Hash ''ff8d4d''],
       Decl (Custom (Color Color_purple)) [Hash ''b191f9''],
       Decl (Custom (Color Color_query)) [Hash ''5eead4'']]]"

definition Vun_sidebar :: stylesheet where
  "Vun_sidebar = [
    Style
      [Sel [[Class ''light-mode''], [Class ''t-doc__sidebar'']] None,
       Sel [[Class ''dark-mode''], [Class ''t-doc__sidebar'']] None]
      [Decl (Custom (Sidebar Sidebar_background_1)) [Var (Background Background_1)],
       Decl (Custom (Sidebar Sidebar_color_1)) [Var (Color Color_1)],
       Decl (Custom (Sidebar Sidebar_color_2)) [Var (Color Color_2)],
       Decl (Custom (Sidebar Sidebar_border_color)) [Var (Chrome Border_color)],
       Decl (Custom (Sidebar Item_hover_background)) [Var (Background Background_2)],
       Decl (Custom (Sidebar Item_hover_color)) [Ident ''currentColor''],
       Decl (Custom (Sidebar Item_active_background)) [Var (Background Background_3)],
       Decl (Custom (Sidebar Sidebar_color_active)) [Var (Color Color_1)],
       Decl (Custom (Sidebar Search_background)) [Ident ''transparent''],
       Decl (Custom (Sidebar Search_color)) [Var (Color Color_3)],
       Decl (Custom (Sidebar Search_border_color)) [Var (Chrome Border_color)]],
    Style
      [Sel [[Universal]] (Some ''selection'')]
      [Decl (Property ''background-color'') [Fn ''color-mix'', Ident ''in'', Ident ''srgb'', Comma,
           Var (Color Color_accent), Comma, Ident ''transparent'', Pct 80 0, Close]]]"

definition Vun :: stylesheet where
  "Vun = Vun_basic @ Vun_sidebar"

lemmas Vun_defs = Vun_def Vun_basic_def Vun_sidebar_def

section \<open>Hun: theme purple\<close>

definition Hun_basic :: stylesheet where
  "Hun_basic = [
    Style
      [Sel [[Class ''light-mode'']] None]
      [Decl (Custom (Background Background_1)) [Hash ''fff''],
       Decl (Custom (Background Background_2)) [Hash ''f5f6f8''],
       Decl (Custom (Background Background_3)) [Hash ''eceef1''],
       Decl (Custom (Color Color_1)) [Hash ''1b1b1b''],
       Decl (Custom (Color Color_2)) [Hash ''707070''],
       Decl (Custom (Color Color_3)) [Hash ''8e8e8e''],
       Decl (Custom (Color Color_accent)) [Hash ''5469d4''],
       Decl (Custom (Background Background_accent)) [Hash ''5469d41f''],
       Decl (Custom (Chrome Border_color)) [Fn ''rgba'', Num 215 0, Comma, Num 215 0, Comma,
           Num 206 0, Comma, Num 68 2, Close]],
    Style
      [Sel [[Class ''dark-mode'']] None]
      [Decl (Custom (Background Background_1)) [Hash ''15171c''],
       Decl (Custom (Background Background_2)) [Hash ''1c1e24''],
       Decl (Custom (Background Background_3)) [Hash ''22252b''],
       Decl (Custom (Color Color_1)) [Hash ''fafafa''],
       Decl (Custom (Color Color_2)) [Hash ''c9ced8''],
       Decl (Custom (Color Color_3)) [Hash ''8c99ad''],
       Decl (Custom (Color Color_accent)) [Hash ''5469d4''],
       Decl (Custom (Background Background_accent)) [Hash ''5469d41f''],
       Decl (Custom (Chrome Border_color)) [Hash ''3f4145'']]]"

definition Hun_sidebar :: stylesheet where
  "Hun_sidebar = [
    Style
      [Sel [[Class ''light-mode''], [Class ''t-doc__sidebar'']] None,
       Sel [[Class ''dark-mode''], [Class ''t-doc__sidebar'']] None]
      [Decl (Custom (Sidebar Sidebar_background_1)) [Var (Background Background_1)],
       Decl (Custom (Sidebar Sidebar_color_1)) [Var (Color Color_1)],
       Decl (Custom (Sidebar Sidebar_color_2)) [Var (Color Color_2)],
       Decl (Custom (Sidebar Sidebar_border_color)) [Var (Chrome Border_color)],
       Decl (Custom (Sidebar Item_hover_color)) [Ident ''currentColor''],
       Decl (Custom (Sidebar Item_hover_background)) [Var (Background Background_3)],
       Decl (Custom (Sidebar Item_active_background)) [Var (Background Background_accent)],
       Decl (Custom (Sidebar Sidebar_color_active)) [Var (Color Color_accent)],
       Decl (Custom (Sidebar Search_background)) [Var (Background Background_1)],
       Decl (Custom (Sidebar Search_color)) [Var (Color Color_3)],
       Decl (Custom (Sidebar Search_border_color)) [Var (Chrome Border_color)]]]"

definition Hun_advanced :: stylesheet where
  "Hun_advanced = [
    Style
      [Sel [[Class ''light-mode'']] None]
      [Decl (Custom (Color Color_green)) [Hash ''17803d''],
       Decl (Custom (Color Color_red)) [Hash ''e10909''],
       Decl (Custom (Color Color_yellow)) [Hash ''edbe20''],
       Decl (Custom (Color Color_blue)) [Hash ''1763a6''],
       Decl (Custom (Color Color_orange)) [Hash ''e25b09''],
       Decl (Custom (Color Color_purple)) [Hash ''5c3993''],
       Decl (Custom (Color Color_query)) [Hash ''147873''],
       Decl (Custom (Chrome Button_1)) [Fn ''rgba'', Num 0 0, Comma, Num 0 0, Comma, Num 0 0, Comma,
           Num 1 0, Close],
       Decl (Custom (Chrome Button_1_hover)) [Fn ''rgba'', Num 0 0, Comma, Num 0 0, Comma, Num 0 0,
           Comma, Num 8 1, Close],
       Decl (Custom (Chrome Button_1_color)) [Hash ''fff'']],
    Style
      [Sel [[Class ''dark-mode'']] None]
      [Decl (Custom (Color Color_green)) [Hash ''30a159''],
       Decl (Custom (Color Color_red)) [Hash ''dc1b19''],
       Decl (Custom (Color Color_yellow)) [Hash ''eec644''],
       Decl (Custom (Color Color_blue)) [Hash ''468bc7''],
       Decl (Custom (Color Color_orange)) [Hash ''f07528''],
       Decl (Custom (Color Color_purple)) [Hash ''7a59b1''],
       Decl (Custom (Color Color_query)) [Hash ''4ac6b7''],
       Decl (Custom (Chrome Button_1)) [Fn ''rgba'', Num 255 0, Comma, Num 255 0, Comma, Num 255 0,
           Comma, Num 1 0, Close],
       Decl (Custom (Chrome Button_1_hover)) [Fn ''rgba'', Num 255 0, Comma, Num 255 0, Comma,
           Num 255 0, Comma, Num 9 1, Close],
       Decl (Custom (Chrome Button_1_color)) [Ident ''black'']],
    Style
      [Sel [[Class ''light-mode''], [Universal]] (Some ''selection'')]
      [Decl (Property ''background-color'') [Fn ''color-mix'', Ident ''in'', Ident ''srgb'', Comma,
           Var (Color Color_accent), Comma, Ident ''transparent'', Pct 70 0, Close]],
    Style
      [Sel [[Class ''dark-mode''], [Universal]] (Some ''selection'')]
      [Decl (Property ''background-color'') [Fn ''color-mix'', Ident ''in'', Ident ''srgb'', Comma,
           Var (Color Color_accent), Comma, Ident ''transparent'', Pct 50 0, Close]]]"

definition Hun :: stylesheet where
  "Hun = Hun_basic @ Hun_sidebar @ Hun_advanced"

lemmas Hun_defs = Hun_def Hun_basic_def Hun_sidebar_def Hun_advanced_def

section \<open>Uun: theme saturn\<close>

definition Uun_basic :: stylesheet where
  "Uun_basic = [
    Style
      [Sel [[Class ''light-mode'']] None]
      [Decl (Custom (Background Background_1)) [Hash ''f3f3ee''],
       Decl (Custom (Background Background_2)) [Hash ''e8e8e3''],
       Decl (Custom (Background Background_3)) [Hash ''e4e4df''],
       Decl (Custom (Chrome Border_color)) [Fn ''rgba'', Num 215 0, Comma, Num 215 0, Comma,
           Num 206 0, Comma, Num 85 2, Close],
       Decl (Custom (Color Color_1)) [Hash ''1b1b1b''],
       Decl (Custom (Color Color_2)) [Hash ''676767''],
       Decl (Custom (Color Color_3)) [Hash ''8e8e8e''],
       Decl (Custom (Color Color_accent)) [Hash ''1763a6''],
       Decl (Custom (Background Background_accent)) [Hash ''1f648e1f'']],
    Style
      [Sel [[Class ''dark-mode'']] None]
      [Decl (Custom (Background Background_1)) [Hash ''09090b''],
       Decl (Custom (Background Background_2)) [Hash ''18181b''],
       Decl (Custom (Background Background_3)) [Hash ''2c2c30''],
       Decl (Custom (Chrome Border_color)) [Fn ''rgba'', Num 255 0, Comma, Num 255 0, Comma,
           Num 255 0, Comma, Num 17 2, Close],
       Decl (Custom (Color Color_1)) [Hash ''fafafa''],
       Decl (Custom (Color Color_2)) [Fn ''rgb'', Num 161 0, Comma, Num 161 0, Comma, Num 170 0,
           Close],
       Decl (Custom (Color Color_3)) [Fn ''rgba'', Num 255 0, Comma, Num 255 0, Comma, Num 255 0,
           Comma, Num 533 3, Close],
       Decl (Custom (Color Color_accent)) [Hash ''4eb3ec''],
       Decl (Custom (Background Background_accent)) [Hash ''8ab4f81f'']]]"

definition Uun_sidebar :: stylesheet where
  "Uun_sidebar = [
    Style
      [Sel [[Class ''light-mode''], [Class ''t-doc__sidebar'']] None,
       Sel [[Class ''dark-mode''], [Class ''t-doc__sidebar'']] None]
      [Decl (Custom (Sidebar Sidebar_background_1)) [Var (Background Background_1)],
       Decl (Custom (Sidebar Sidebar_color_1)) [Var (Color Color_1)],
       Decl (Custom (Sidebar Sidebar_color_2)) [Var (Color Color_2)],
       Decl (Custom (Sidebar Sidebar_border_color)) [Var (Chrome Border_color)],
       Decl (Custom (Sidebar Item_hover_background)) [Var (Background Background_2)],
       Decl (Custom (Sidebar Item_hover_color)) [Ident ''currentColor''],
       Decl (Custom (Sidebar Item_active_background)) [Var (Background Background_3)],
       Decl (Custom (Sidebar Sidebar_color_active)) [Var (Color Color_1)],
       Decl (Custom (Sidebar Search_background)) [Var (Background Background_1)],
       Decl (Custom (Sidebar Search_border_color)) [Var (Chrome Border_color)],
       Decl (Custom (Sidebar Search_color)) [Var (Color Color_3)]]]"

definition Uun_advanced :: stylesheet where
  "Uun_advanced = [
    Style
      [Sel [[Class ''light-mode'']] None]
      [Decl (Custom (Color Color_green)) [Hash ''17803d''],
       Decl (Custom (Color Color_red)) [Hash ''e10909''],
       Decl (Custom (Color Color_yellow)) [Hash ''edbe20''],
       Decl (Custom (Color Color_blue)) [Hash ''1763a6''],
       Decl (Custom (Color Color_orange)) [Hash ''e25b09''],
       Decl (Custom (Color Color_purple)) [Hash ''5c3993''],
       Decl (Custom (Color Color_query)) [Hash ''147873''],
       Decl (Custom (Chrome Button_1)) [Fn ''rgba'', Num 0 0, Comma, Num 0 0, Comma, Num 0 0, Comma,
           Num 1 0, Close],
       Decl (Custom (Chrome Button_1_hover)) [Fn ''rgba'', Num 0 0, Comma, Num 0 0, Comma, Num 0 0,
           Comma, Num 8 1, Close],
       Decl (Custom (Chrome Button_1_color)) [Hash ''fff'']],
    Style
      [Sel [[Class ''dark-mode'']] None]
      [Decl (Custom (Color Color_green)) [Hash ''30a159''],
       Decl (Custom (Color Color_red)) [Hash ''dc1b19''],
       Decl (Custom (Color Color_yellow)) [Hash ''eec644''],
       Decl (Custom (Color Color_blue)) [Hash ''3e86c5''],
       Decl (Custom (Color Color_orange)) [Hash ''f07528''],
       Decl (Custom (Color Color_purple)) [Hash ''7a59b1''],
       Decl (Custom (Color Color_query)) [Hash ''4ac6b7''],
       Decl (Custom (Chrome Button_1)) [Fn ''rgba'', Num 255 0, Comma, Num 255 0, Comma, Num 255 0,
           Comma, Num 1 0, Close],
       Decl (Custom (Chrome Button_1_hover)) [Fn ''rgba'', Num 255 0, Comma, Num 255 0, Comma,
           Num 255 0, Comma, Num 9 1, Close],
       Decl (Custom (Chrome Button_1_color)) [Ident ''black'']],
    Style
      [Sel [[Class ''dark-mode''], [Tag ''h2'', Class ''t-editor__heading'']] None,
       Sel [[Class ''dark-mode''], [Class ''t-editor__page-title''], [Tag ''h1'']] None,
       Sel [[Class ''dark-mode''], [Tag ''h1'', Class ''section-header'', Not_pseudo_element ''selection'']] None,
       Sel [[Class ''dark-mode''], [Class ''markdown''], [Tag ''h1'']] None,
       Sel [[Class ''dark-mode''], [Class ''markdown''], [Tag ''h2'']] None,
       Sel [[Class ''dark-mode''], [Class ''markdown''], [Tag ''h3'']] None,
       Sel [[Class ''dark-mode''], [Class ''markdown''], [Tag ''h4'']] None,
       Sel [[Class ''dark-mode''], [Class ''markdown''], [Tag ''h5'']] None,
       Sel [[Class ''dark-mode''], [Class ''markdown''], [Tag ''h6'']] None]
      [Decl (Property ''-webkit-text-fill-color'') [Ident ''transparent''],
       Decl (Property ''background-image'') [Fn ''linear-gradient'', Ident ''to'', Ident ''right'',
           Ident ''bottom'', Comma, Fn ''rgb'', Num 255 0, Comma, Num 255 0, Comma, Num 255 0, Close,
           Pct 30 0, Comma, Fn ''rgba'', Num 255 0, Comma, Num 255 0, Comma, Num 255 0, Comma, Num 38 2,
           Close, Close],
       Decl (Property ''-webkit-background-clip'') [Ident ''text''],
       Decl (Property ''background-clip'') [Ident ''text'']],
    Style
      [Sel [[Class ''light-mode''], [Universal]] (Some ''selection'')]
      [Decl (Property ''background-color'') [Fn ''color-mix'', Ident ''in'', Ident ''srgb'', Comma,
           Var (Color Color_accent), Comma, Ident ''transparent'', Pct 70 0, Close]],
    Style
      [Sel [[Class ''dark-mode''], [Universal]] (Some ''selection'')]
      [Decl (Property ''background-color'') [Fn ''color-mix'', Ident ''in'', Ident ''srgb'', Comma,
           Var (Color Color_accent), Comma, Ident ''transparent'', Pct 50 0, Close]]]"

definition Uun :: stylesheet where
  "Uun = Uun_basic @ Uun_sidebar @ Uun_advanced"

lemmas Uun_defs = Uun_def Uun_basic_def Uun_sidebar_def Uun_advanced_def

section \<open>Wun: theme solarized\<close>

definition Wun_basic :: stylesheet where
  "Wun_basic = [
    Style
      [Sel [[Class ''light-mode'']] None]
      [Decl (Property ''color-scheme'') [Ident ''light''],
       Decl (Custom (Color Color_1)) [Hash ''584c27''],
       Decl (Custom (Color Color_2)) [Hash ''616161''],
       Decl (Custom (Color Color_3)) [Hash ''a89f84''],
       Decl (Custom (Color Color_accent)) [Hash ''b58900''],
       Decl (Custom (Background Background_1)) [Hash ''fdf6e3''],
       Decl (Custom (Background Background_2)) [Hash ''eee8d5''],
       Decl (Custom (Background Background_3)) [Hash ''ddd6c1''],
       Decl (Custom (Background Background_accent)) [Hash ''b589001f''],
       Decl (Custom (Chrome Border_color)) [Hash ''ded8c8''],
       Decl (Custom (Chrome Scrollbar_color)) [Fn ''rgba'', Num 0 0, Comma, Num 0 0, Comma, Num 0 0,
           Comma, Num 18 2, Close],
       Decl (Custom (Chrome Scrollbar_color_active)) [Fn ''rgba'', Num 0 0, Comma, Num 0 0, Comma,
           Num 0 0, Comma, Num 36 2, Close],
       Decl (Custom (Chrome Backdrop_brightness)) [Num 1 0],
       Decl (Custom (Chrome Shadow_1)) [Num 0 0, Dim 1 0 ''px'', Dim 3 0 ''px'', Num 0 0,
           Fn ''rgba'', Num 0 0, Comma, Num 0 0, Comma, Num 0 0, Comma, Num 11 2, Close],
       Decl (Custom (Chrome Shadow_2)) [Fn ''rgba'', Num 0 0, Comma, Num 0 0, Comma, Num 0 0, Comma,
           Num 8 2, Close, Dim 0 0 ''px'', Dim 13 0 ''px'', Dim 20 0 ''px'', Dim 0 0 ''px'', Comma,
           Fn ''rgba'', Num 0 0, Comma, Num 0 0, Comma, Num 0 0, Comma, Num 8 2, Close, Dim 0 0 ''px'',
           Dim 3 0 ''px'', Dim 8 0 ''px'', Dim 0 0 ''px'', Comma, Hash ''eeeeed'', Dim 0 0 ''px'',
           Num 0 0, Num 0 0, Dim 1 0 ''px''],
       Decl (Custom (Chrome Button_1)) [Fn ''rgb'', Num 49 0, Num 53 0, Num 56 0, Close],
       Decl (Custom (Chrome Button_1_color)) [Hash ''fff''],
       Decl (Custom (Chrome Button_1_hover)) [Fn ''rgb'', Num 28 0, Num 31 0, Num 33 0, Close],
       Decl (Custom (Color Color_red)) [Hash ''b91c1c''],
       Decl (Custom (Color Color_orange)) [Hash ''a16207''],
       Decl (Custom (Color Color_green)) [Hash ''047857''],
       Decl (Custom (Color Color_blue)) [Hash ''1d4ed8''],
       Decl (Custom (Color Color_orange)) [Hash ''c2410c''],
       Decl (Custom (Color Color_purple)) [Hash ''6d28d9''],
       Decl (Custom (Color Color_query)) [Hash ''007f78'']],
    Style
      [Sel [[Class ''dark-mode'']] None]
      [Decl (Property ''color-scheme'') [Ident ''dark''],
       Decl (Custom (Color Color_1)) [Hash ''fff''],
       Decl (Custom (Color Color_2)) [Hash ''cccccc''],
       Decl (Custom (Color Color_3)) [Hash ''6d8890''],
       Decl (Custom (Color Color_accent)) [Hash ''007acc''],
       Decl (Custom (Background Background_1)) [Hash ''00212b''],
       Decl (Custom (Background Background_2)) [Hash ''012b36''],
       Decl (Custom (Background Background_3)) [Hash ''004052''],
       Decl (Custom (Background Background_accent)) [Hash ''015a6f''],
       Decl (Custom (Chrome Border_color)) [Hash ''2f4851''],
       Decl (Custom (Chrome Scrollbar_color)) [Fn ''rgba'', Num 255 0, Comma, Num 255 0, Comma,
           Num 255 0, Comma, Num 24 2, Close],
       Decl (Custom (Chrome Scrollbar_color_active)) [Fn ''rgba'', Num 255 0, Comma, Num 255 0,
           Comma, Num 255 0, Comma, Num 48 2, Close],
       Decl (Custom (Chrome Backdrop_brightness)) [Num 5 1],
       Decl (Custom (Chrome Shadow_1)) [Num 0 0, Dim 1 0 ''px'', Dim 3 0 ''px'', Num 0 0,
           Fn ''rgb'', Num 0 0, Comma, Num 0 0, Comma, Num 0 0, Comma, Num 1 1, Close],
       Decl (Custom (Chrome Shadow_2)) [Fn ''rgba'', Num 15 0, Comma, Num 15 0, Comma, Num 15 0,
           Comma, Num 2 1, Close, Dim 0 0 ''px'', Dim 3 0 ''px'', Dim 6 0 ''px'', Comma, Fn ''rgba'',
           Num 15 0, Comma, Num 15 0, Comma, Num 15 0, Comma, Num 4 1, Close, Dim 0 0 ''px'',
           Dim 9 0 ''px'', Dim 24 0 ''px'', Comma, Num 0 0, Num 0 0, Num 0 0, Dim 1 0 ''px'',
           Fn ''rgba'', Num 255 0, Comma, Num 255 0, Comma, Num 255 0, Comma, Num 1 1, Close],
       Decl (Custom (Chrome Button_1)) [Hash ''f6f6f6''],
       Decl (Custom (Chrome Button_1_color)) [Hash ''000''],
       Decl (Custom (Chrome Button_1_hover)) [Hash ''e7e7e7''],
       Decl (Custom (Color Color_green)) [Hash ''00b648''],
       Decl (Custom (Color Color_red)) [Hash ''dc1b19''],
       Decl (Custom (Color Color_yellow)) [Hash ''ffc90d''],
       Decl (Custom (Color Color_blue)) [Hash ''4eb3ec''],
       Decl (Custom (Color Color_orange)) [Hash ''ff8d4d''],
       Decl (Custom (Color Color_purple)) [Hash ''b191f9''],
       Decl (Custom (Color Color_query)) [Hash ''7bdac7'']]]"

definition Wun_sidebar :: stylesheet where
  "Wun_sidebar = [
    Style
      [Sel [[Class ''light-mode''], [Class ''t-doc__sidebar'']] None]
      [Decl (Custom (Sidebar Sidebar_background_1)) [Var (Background Background_1)],
       Decl (Custom (Sidebar Item_hover_color)) [Ident ''currentColor''],
       Decl (Custom (Sidebar Item_hover_background)) [Var (Background Background_2)],
       Decl (Custom (Sidebar Item_active_background)) [Var (Background Background_accent)],
       Decl (Custom (Sidebar Sidebar_border_color)) [Var (Chrome Border_color)],
       Decl (Custom (Sidebar Sidebar_color_1)) [Var (Color Color_1)],
       Decl (Custom (Sidebar Sidebar_color_2)) [Var (Color Color_2)],
       Decl (Custom (Sidebar Sidebar_color_active)) [Var (Color Color_accent)],
       Decl (Custom (Sidebar Search_background)) [Var (Background Background_2)],
       Decl (Custom (Sidebar Search_border_color)) [Var (Sidebar Search_background)],
       Decl (Custom (Local ''--scalar-sidebar-search--color'')) [Var (Color Color_3)]],
    Style
      [Sel [[Class ''dark-mode''], [Class ''t-doc__sidebar'']] None]
      [Decl (Custom (Sidebar Sidebar_background_1)) [Var (Background Background_1)],
       Decl (Custom (Sidebar Item_hover_color)) [Ident ''currentColor''],
       Decl (Custom (Sidebar Item_hover_background)) [Var (Background Background_2)],
       Decl (Custom (Sidebar Item_active_background)) [Var (Background Background_accent)],
       Decl (Custom (Sidebar Sidebar_border_color)) [Var (Chrome Border_color)],
       Decl (Custom (Sidebar Sidebar_color_1)) [Var (Color Color_1)],
       Decl (Custom (Sidebar Sidebar_color_2)) [Var (Color Color_2)],
       Decl (Custom (Sidebar Sidebar_color_active)) [Var (Sidebar Sidebar_color_1)],
       Decl (Custom (Sidebar Search_background)) [Var (Background Background_2)],
       Decl (Custom (Sidebar Search_border_color)) [Var (Sidebar Search_background)],
       Decl (Custom (Local ''--scalar-sidebar-search--color'')) [Var (Color Color_3)]],
    Style
      [Sel [[Universal]] (Some ''selection'')]
      [Decl (Property ''background-color'') [Fn ''color-mix'', Ident ''in'', Ident ''srgb'', Comma,
           Var (Color Color_accent), Comma, Ident ''transparent'', Pct 70 0, Close]]]"

definition Wun :: stylesheet where
  "Wun = Wun_basic @ Wun_sidebar"

lemmas Wun_defs = Wun_def Wun_basic_def Wun_sidebar_def

end
