(* ===== verification/Css_Cascade.thy ===== *)
theory Css_Cascade
  imports Css
begin

text \<open>
  Facts of the cascade and of \<open>var()\<close> substitution that hold for every style sheet: the winning
  declaration is the last of the heaviest ones, undeclared custom properties inherit, and a sheet
  whose references strictly descend a ranking of the properties is free of cycles on every element,
  so that the computed values satisfy the equation by which CSS defines substitution.
\<close>

section \<open>The winning declaration\<close>

lemma weight_le_refl [simp]: "weight_le w w"
  by (cases w) auto

lemma weight_le_trans: "weight_le u v \<Longrightarrow> weight_le v w \<Longrightarrow> weight_le u w"
  by (cases u; cases v; cases w) (auto split: if_splits)

lemma weight_le_total: "\<not> weight_le u v \<Longrightarrow> weight_le v u"
  by (cases u; cases v) (auto split: if_splits)

lemma winner_None: "winner p ds = None \<longleftrightarrow> (\<forall>(w, d) \<in> set ds. declared_property d \<noteq> p)"
  by (induction p ds rule: winner.induct) (auto split: option.splits)

text \<open>The winner splits the declarations: none before it is heavier, each after it is lighter.\<close>

lemma winner_split:
  assumes "winner p ds = Some (w, v)"
  shows "\<exists>l d r. ds = l @ (w, d) # r \<and> declared_property d = p \<and> declared_value d = v
    \<and> (\<forall>(w', d') \<in> set l. declared_property d' = p \<longrightarrow> weight_le w' w)
    \<and> (\<forall>(w', d') \<in> set r. declared_property d' = p \<longrightarrow> \<not> weight_le w w')"
  using assms
proof (induction p ds arbitrary: w v rule: winner.induct)
  case (1 p)
  then show ?case by simp
next
  case (2 p w0 d0 ds)
  show ?case
  proof (cases "winner p ds")
    case None
    with 2(2) have eq: "w = w0" "v = declared_value d0" "declared_property d0 = p"
      by (auto split: if_splits)
    moreover from None have "\<forall>(w', d') \<in> set ds. declared_property d' = p \<longrightarrow> \<not> weight_le w w'"
      by (auto simp: winner_None)
    ultimately show ?thesis
      by (intro exI[of _ "[]"] exI[of _ d0] exI[of _ ds]) simp
  next
    case (Some x)
    obtain w1 v1 where x: "x = (w1, v1)" by (cases x)
    from 2(1)[OF Some[unfolded x]] obtain l d r where
      split: "ds = l @ (w1, d) # r" "declared_property d = p" "declared_value d = v1"
      and before: "\<forall>(w', d') \<in> set l. declared_property d' = p \<longrightarrow> weight_le w' w1"
      and after: "\<forall>(w', d') \<in> set r. declared_property d' = p \<longrightarrow> \<not> weight_le w1 w'"
      by blast
    show ?thesis
    proof (cases "declared_property d0 = p \<and> \<not> weight_le w0 w1")
      case True
      with 2(2) Some x have eq: "w = w0" "v = declared_value d0" by auto
      have le: "weight_le w' w1" if "(w', d') \<in> set ds" "declared_property d' = p" for w' d'
        using that split(1) before after weight_le_total[of w1 w'] by auto
      have "\<forall>(w', d') \<in> set ds. declared_property d' = p \<longrightarrow> \<not> weight_le w0 w'"
        using True le weight_le_trans by blast
      with True eq show ?thesis
        by (intro exI[of _ "[]"] exI[of _ d0] exI[of _ ds]) simp
    next
      case False
      with 2(2) Some x have eq: "w = w1" "v = v1" by auto
      from False split before after eq show ?thesis
        by (intro exI[of _ "(w0, d0) # l"] exI[of _ d] exI[of _ r]) auto
    qed
  qed
qed

lemma cascaded_declared:
  assumes "cascaded p ds = Some v"
  shows "\<exists>w d. (w, d) \<in> set ds \<and> declared_property d = p \<and> declared_value d = v"
proof -
  from assms obtain w where "winner p ds = Some (w, v)" by (auto simp: cascaded_def)
  from winner_split[OF this] obtain l d r where
    "ds = l @ (w, d) # r" "declared_property d = p" "declared_value d = v" by blast
  then show ?thesis by (intro exI[of _ w] exI[of _ d]) simp
qed

lemma cascaded_None: "cascaded p ds = None \<longleftrightarrow> (\<forall>(w, d) \<in> set ds. declared_property d \<noteq> p)"
  by (simp add: cascaded_def winner_None)

section \<open>The declared custom properties\<close>

lemma set_declared_customs:
  "set (declared_customs ds) = {p. \<exists>w d. (w, d) \<in> set ds \<and> declared_property d = Custom p}"
  by (induction ds rule: declared_customs.induct) (auto split: css_property.splits)

lemma distinct_declared_customs: "distinct (declared_customs ds)"
  by (induction ds rule: declared_customs.induct) (auto split: css_property.splits)

lemma map_of_custom_values: "map_of (custom_values ds) p = cascaded (Custom p) ds"
proof (cases "p \<in> set (declared_customs ds)")
  case True
  then have "cascaded (Custom p) ds \<noteq> None"
    by (auto simp: cascaded_None set_declared_customs)
  with True show ?thesis
    by (auto simp: custom_values_def map_of_map_restrict restrict_map_def)
next
  case False
  then have "cascaded (Custom p) ds = None"
    by (auto simp: cascaded_None set_declared_customs)
  with False show ?thesis
    by (simp add: custom_values_def map_of_map_restrict)
qed

text \<open>A custom property that no rule in force declares on an element has the parent's value.\<close>

lemma computed_inherits:
  assumes "cascaded (Custom p) (applied b sheet (e # es) None) = None"
  shows "computed b sheet (e # es) p = computed b sheet es p"
  using assms by (simp add: map_of_custom_values split: option.splits)

section \<open>Substitution\<close>

text \<open>The CSS equation: every reference is replaced by the value its property has on the element.\<close>

fun expand :: "(custom_property \<Rightarrow> css_value option) \<Rightarrow> css_value \<Rightarrow> css_value option" where
  "expand env [] = Some []"
| "expand env (Var p # ts) =
     (case env p of
        None \<Rightarrow> None
      | Some v \<Rightarrow> map_option (\<lambda>r. v @ r) (expand env ts))"
| "expand env (t # ts) = map_option (\<lambda>r. t # r) (expand env ts)"

lemma subst_Var: "subst ds inh [Var p] =
    (case map_of ds p of None \<Rightarrow> inh p | Some v \<Rightarrow> subst (without p ds) (inh(p := None)) v)"
  by (auto split: option.splits)

lemma subst_expand: "subst ds inh v = expand (\<lambda>p. subst ds inh [Var p]) v"
proof (induction v)
  case Nil
  show ?case by simp
next
  case (Cons t v)
  show ?case
  proof (cases t)
    case (Var p)
    with Cons show ?thesis by (simp split: option.splits)
  qed (use Cons in simp_all)
qed

lemma expand_cong:
  "(\<And>p. Var p \<in> set v \<Longrightarrow> env p = env' p) \<Longrightarrow> expand env v = expand env' v"
  by (induction env v rule: expand.induct) (auto split: option.splits)

lemma expand_Some: "(\<And>p. Var p \<in> set v \<Longrightarrow> env p \<noteq> None) \<Longrightarrow> expand env v \<noteq> None"
  by (induction env v rule: expand.induct) (fastforce split: option.splits)+

lemma expand_no_Var:
  "expand env v = Some r \<Longrightarrow> (\<And>p u q. env p = Some u \<Longrightarrow> Var q \<notin> set u) \<Longrightarrow> Var q \<notin> set r"
  by (induction env v arbitrary: r rule: expand.induct) (fastforce split: option.splits)+

text \<open>A substituted value holds no reference any more.\<close>

lemma subst_no_Var:
  "subst ds inh v = Some r \<Longrightarrow> (\<And>p u q. inh p = Some u \<Longrightarrow> Var q \<notin> set u) \<Longrightarrow> Var q \<notin> set r"
proof (induction ds inh v arbitrary: r q rule: subst.induct)
  case (2 ds inh p ts)
  show ?case
  proof (cases "map_of ds p")
    case None
    with 2 show ?thesis by (fastforce split: option.splits)
  next
    case (Some v)
    from 2(4) Some obtain v' r' where
      *: "subst (without p ds) (inh(p := None)) v = Some v'" "subst ds inh ts = Some r'" "r = v' @ r'"
      by (auto split: option.splits)
    have "Var q \<notin> set v'"
      by (rule 2(2)[OF Some *(1)]) (use 2(5) in \<open>auto split: if_splits\<close>)
    moreover have "Var q \<notin> set r'"
      using 2(3)[OF Some *(1) *(2)] 2(5) by blast
    ultimately show ?thesis using * by simp
  qed
qed auto

lemma computed_no_Var: "computed b sheet es p = Some v \<Longrightarrow> Var q \<notin> set v"
proof (induction es arbitrary: p v q)
  case (Cons e es)
  show ?case
    using Cons.prems subst_no_Var[of _ _ "[Var p]" v q] Cons.IH
    by (metis computed.simps(2))
qed simp

section \<open>Sheets whose references descend a ranking\<close>

fun sheet_declarations :: "stylesheet \<Rightarrow> css_decl list" where
  "sheet_declarations [] = []"
| "sheet_declarations (Style ss ds # rs) = ds @ sheet_declarations rs"
| "sheet_declarations (When q inner # rs) = sheet_declarations inner @ sheet_declarations rs"
| "sheet_declarations (Layer l inner # rs) = sheet_declarations inner @ sheet_declarations rs"
| "sheet_declarations (Keyframes n fs # rs) = sheet_declarations rs"
| "sheet_declarations (Font_face ds us # rs) = sheet_declarations rs"

lemma sheet_declarations_append [simp]:
  "sheet_declarations (xs @ ys) = sheet_declarations xs @ sheet_declarations ys"
  by (induction xs rule: sheet_declarations.induct) auto

lemma active_rules_declared:
  "(ss, ds) \<in> set (active_rules b sheet) \<Longrightarrow> set ds \<subseteq> set (sheet_declarations sheet)"
  by (induction b sheet rule: active_rules.induct) (auto split: if_splits)

lemma applied_declared: "(w, d) \<in> set (applied b sheet es ps) \<Longrightarrow> d \<in> set (sheet_declarations sheet)"
  by (auto simp: applied_def rule_declarations_def split: option.splits)
    (meson active_rules_declared subsetD)

fun references_below :: "(custom_property \<Rightarrow> nat) \<Rightarrow> nat \<Rightarrow> css_value \<Rightarrow> bool" where
  "references_below rank n [] \<longleftrightarrow> True"
| "references_below rank n (Var q # ts) \<longleftrightarrow> rank q < n \<and> references_below rank n ts"
| "references_below rank n (t # ts) \<longleftrightarrow> references_below rank n ts"

lemma references_below_iff: "references_below rank n v \<longleftrightarrow> (\<forall>q. Var q \<in> set v \<longrightarrow> rank q < n)"
  by (induction rank n v rule: references_below.induct) auto

fun descending :: "(custom_property \<Rightarrow> nat) \<Rightarrow> css_decl \<Rightarrow> bool" where
  "descending rank d \<longleftrightarrow>
     (case declared_property d of
        Custom p \<Rightarrow> references_below rank (rank p) (declared_value d)
      | Property s \<Rightarrow> True)"

text \<open>The references among the custom properties that an element declares.\<close>

definition dependencies :: "(custom_property \<times> css_value) list \<Rightarrow> (custom_property \<times> custom_property) set" where
  "dependencies ds = {(p, q). \<exists>v. map_of ds p = Some v \<and> Var q \<in> set v}"

locale ranked_sheet =
  fixes sheet :: stylesheet and rank :: "custom_property \<Rightarrow> nat"
  assumes ranked: "list_all (descending rank) (sheet_declarations sheet)"
begin

lemma cascaded_descends:
  assumes "cascaded (Custom p) (applied b sheet es ps) = Some v" and "Var q \<in> set v"
  shows "rank q < rank p"
proof -
  from cascaded_declared[OF assms(1)] obtain w d where
    d: "(w, d) \<in> set (applied b sheet es ps)" "declared_property d = Custom p" "declared_value d = v"
    by blast
  from d(1) have "d \<in> set (sheet_declarations sheet)" by (rule applied_declared)
  with ranked have "descending rank d" by (auto simp: list_all_iff)
  with d assms(2) show ?thesis by (auto simp: references_below_iff)
qed

lemma dependencies_acyclic: "acyclic (dependencies (custom_values (applied b sheet es ps)))"
proof (rule acyclic_subset)
  show "acyclic ((measure rank)\<inverse>)" by (simp add: wf_acyclic)
  show "dependencies (custom_values (applied b sheet es ps)) \<subseteq> (measure rank)\<inverse>"
    by (auto simp: dependencies_def map_of_custom_values dest: cascaded_descends)
qed

end

text \<open>
  Below a rank the chain of references does not matter: removing properties of a rank at or above
  it changes no value that is referenced.
\<close>

lemma map_of_without [simp]: "map_of (without p ds) q = (if q = p then None else map_of ds q)"
  by (induction ds) auto

lemma subst_below:
  fixes rank :: "custom_property \<Rightarrow> nat"
  assumes "\<And>p v q. map_of ds p = Some v \<Longrightarrow> Var q \<in> set v \<Longrightarrow> rank q < rank p"
    and "\<And>q. rank q < n \<Longrightarrow> map_of ds' q = map_of ds q \<and> inh' q = inh q"
    and "\<And>q. Var q \<in> set v \<Longrightarrow> rank q < n"
  shows "subst ds' inh' v = subst ds inh v"
  using assms
proof (induction n arbitrary: ds inh ds' inh' v rule: less_induct)
  case (less n)
  have "subst ds' inh' [Var q] = subst ds inh [Var q]" if q: "Var q \<in> set v" for q
  proof -
    from less.prems(3)[OF q] have lt: "rank q < n" .
    with less.prems(2) have same: "map_of ds' q = map_of ds q" "inh' q = inh q" by auto
    show ?thesis
    proof (cases "map_of ds q")
      case None
      with same show ?thesis by (simp add: subst_Var del: subst.simps)
    next
      case (Some u)
      have "subst (without q ds') (inh'(q := None)) u = subst (without q ds) (inh(q := None)) u"
      proof (rule less.IH[OF lt])
        show "\<And>p v r. map_of (without q ds) p = Some v \<Longrightarrow> Var r \<in> set v \<Longrightarrow> rank r < rank p"
          using less.prems(1) by (auto split: if_splits)
        show "\<And>r. rank r < rank q \<Longrightarrow> map_of (without q ds') r = map_of (without q ds) r
            \<and> (inh'(q := None)) r = (inh(q := None)) r"
          using less.prems(2) lt by auto
        show "\<And>r. Var r \<in> set u \<Longrightarrow> rank r < rank q" using less.prems(1)[OF Some] .
      qed
      with Some same show ?thesis by (simp add: subst_Var del: subst.simps)
    qed
  qed
  then show ?case
    by (subst (1 2) subst_expand) (rule expand_cong)
qed

context ranked_sheet
begin

theorem computed_equation:
  assumes "cascaded (Custom p) (applied b sheet (e # es) None) = Some v"
  shows "computed b sheet (e # es) p = expand (computed b sheet (e # es)) v"
proof -
  let ?ds = "custom_values (applied b sheet (e # es) None)" and ?inh = "computed b sheet es"
  have descends: "\<And>p v q. map_of ?ds p = Some v \<Longrightarrow> Var q \<in> set v \<Longrightarrow> rank q < rank p"
    by (auto simp: map_of_custom_values dest: cascaded_descends)
  have v: "map_of ?ds p = Some v" using assms by (simp add: map_of_custom_values)
  have "computed b sheet (e # es) p = subst (without p ?ds) (?inh(p := None)) v"
    using v by (simp del: subst.simps add: subst_Var)
  also have "\<dots> = subst ?ds ?inh v"
    by (rule subst_below[where rank = rank and n = "rank p"]) (use descends v in auto)
  also have "\<dots> = expand (\<lambda>q. subst ?ds ?inh [Var q]) v" by (rule subst_expand)
  also have "(\<lambda>q. subst ?ds ?inh [Var q]) = computed b sheet (e # es)" by (rule ext) simp
  finally show ?thesis .
qed

text \<open>So a declared property is invalid only when it refers to one that is invalid or undefined.\<close>

lemma computed_defined:
  assumes "cascaded (Custom p) (applied b sheet (e # es) None) = Some v"
    and "\<And>q. Var q \<in> set v \<Longrightarrow> computed b sheet (e # es) q \<noteq> None"
  shows "computed b sheet (e # es) p \<noteq> None"
  unfolding computed_equation[OF assms(1)] by (rule expand_Some) (rule assms(2))

end

end
