(* ===== verification/Css_Colours.thy ===== *)
theory Css_Colours
  imports Css
begin

text \<open>
  The colour values of the theme sheets: hexadecimal colours, the named colours and keywords they
  use, \<open>rgb()\<close> and \<open>rgba()\<close> with commas or with spaces, \<open>color(display-p3 ...)\<close> and
  \<open>color-mix(in srgb, ...)\<close>, read from the tokens of a value with the bounds CSS puts on their
  components.
\<close>

definition hex_digit :: "char \<Rightarrow> bool" where
  "hex_digit c \<longleftrightarrow> c \<in> set ''0123456789abcdefABCDEF''"

definition hex_colour :: "string \<Rightarrow> bool" where
  "hex_colour h \<longleftrightarrow> list_all hex_digit h \<and> length h \<in> {3, 4, 6, 8}"

definition colour_keyword :: "string \<Rightarrow> bool" where
  "colour_keyword s \<longleftrightarrow> s \<in> {''transparent'', ''currentColor'', ''white'', ''black''}"

text \<open>\<open>within lo hi m k\<close>: the number \<open>m * 10^-k\<close> lies between \<open>lo\<close> and \<open>hi\<close>.\<close>

definition within :: "int \<Rightarrow> int \<Rightarrow> int \<Rightarrow> nat \<Rightarrow> bool" where
  "within lo hi m k \<longleftrightarrow> lo * 10 ^ k \<le> m \<and> m \<le> hi * 10 ^ k"

fun token_is :: "token \<Rightarrow> css_value \<Rightarrow> css_value option" where
  "token_is x [] = None"
| "token_is x (t # ts) = (if t = x then Some ts else None)"

fun number :: "int \<Rightarrow> int \<Rightarrow> css_value \<Rightarrow> css_value option" where
  "number lo hi (Num m k # ts) = (if within lo hi m k then Some ts else None)"
| "number lo hi ts = None"

text \<open>\<open>n\<close> numbers from 0 to \<open>hi\<close>, with commas between them or not.\<close>

fun channels :: "nat \<Rightarrow> int \<Rightarrow> bool \<Rightarrow> css_value \<Rightarrow> css_value option" where
  "channels 0 hi commas ts = Some ts"
| "channels (Suc n) hi commas ts =
     Option.bind (number 0 hi ts) (\<lambda>ts.
       if commas \<and> n \<noteq> 0 then Option.bind (token_is Comma ts) (channels n hi commas)
       else channels n hi commas ts)"

text \<open>The optional alpha component, after \<open>sep\<close>, and the closing parenthesis.\<close>

definition alpha_end :: "token \<Rightarrow> css_value \<Rightarrow> css_value option" where
  "alpha_end sep ts =
     (case token_is sep ts of
        Some ts' \<Rightarrow> Option.bind (number 0 1 ts') (token_is Close)
      | None \<Rightarrow> token_is Close ts)"

definition rgb_rest :: "css_value \<Rightarrow> css_value option" where
  "rgb_rest ts =
     (case Option.bind (number 0 255 ts) (token_is Comma) of
        Some _ \<Rightarrow> Option.bind (channels 3 255 True ts) (alpha_end Comma)
      | None \<Rightarrow> Option.bind (channels 3 255 False ts) (alpha_end Slash))"

definition p3_rest :: "css_value \<Rightarrow> css_value option" where
  "p3_rest ts =
     Option.bind (token_is (Ident ''display-p3'') ts) (\<lambda>ts.
     Option.bind (channels 3 1 False ts) (alpha_end Slash))"

fun percentage :: "css_value \<Rightarrow> css_value option" where
  "percentage (Pct m k # ts) = (if within 0 100 m k then Some ts else None)"
| "percentage ts = Some ts"

text \<open>
  \<open>colour n ts\<close> reads a colour whose \<open>color-mix()\<close> calls nest less than \<open>n\<close> deep and returns the
  tokens after it; a reference stands for a colour.
\<close>

fun colour :: "nat \<Rightarrow> css_value \<Rightarrow> css_value option" where
  "colour n (Hash h # ts) = (if hex_colour h then Some ts else None)"
| "colour n (Ident s # ts) = (if colour_keyword s then Some ts else None)"
| "colour n (Var p # ts) = Some ts"
| "colour (Suc n) (Fn f # ts) =
     (if f = ''rgb'' \<or> f = ''rgba'' then rgb_rest ts
      else if f = ''color'' then p3_rest ts
      else if f = ''color-mix'' then
        Option.bind (token_is (Ident ''in'') ts) (\<lambda>ts.
        Option.bind (token_is (Ident ''srgb'') ts) (\<lambda>ts.
        Option.bind (token_is Comma ts) (\<lambda>ts.
        Option.bind (colour n ts) (\<lambda>ts.
        Option.bind (percentage ts) (\<lambda>ts.
        Option.bind (token_is Comma ts) (\<lambda>ts.
        Option.bind (colour n ts) (\<lambda>ts.
        Option.bind (percentage ts) (token_is Close))))))))
      else None)"
| "colour n ts = None"

definition is_colour :: "css_value \<Rightarrow> bool" where
  "is_colour v \<longleftrightarrow> colour 3 v = Some []"

text \<open>The custom properties that the components read as one colour.\<close>

fun colour_property :: "custom_property \<Rightarrow> bool" where
  "colour_property (Color r) \<longleftrightarrow> True"
| "colour_property (Background r) \<longleftrightarrow> True"
| "colour_property (Sidebar r) \<longleftrightarrow> True"
| "colour_property (Chrome r) \<longleftrightarrow> r \<in> {Border_color, Button_1, Button_1_color, Button_1_hover,
     Link_color, Link_color_hover, Tooltip_background, Tooltip_color, Header_background_1,
     Scrollbar_color, Scrollbar_color_active, Code_language_color_supersede}"
| "colour_property (Local s) \<longleftrightarrow> False"

text \<open>A declaration of such a property holds a colour.\<close>

fun colour_typed :: "css_decl \<Rightarrow> bool" where
  "colour_typed d \<longleftrightarrow>
     (case declared_property d of
        Custom p \<Rightarrow> colour_property p \<longrightarrow> is_colour (declared_value d)
      | Property s \<Rightarrow> True)"

end
