(* ===== verification/Scalar_Theming.thy ===== *)
theory Scalar_Theming
  imports Scalar_Fonts Scalar_Themes_1 Scalar_Themes_2 Scalar_Themes_3 Css_Cascade Css_Colours
begin

text \<open>
  Theming of the API reference (\<open>scalar-1.75.0.js\<close>): the table of presets \<open>H$\<close>, the identifiers and
  labels of the theme picker, \<open>Jun\<close>, which composes the style sheet of a theme with the web fonts
  and wraps it into a cascade layer, the text of the \<open>style\<close> element, and the configuration that
  \<open>reference.js\<close> hands to the bundle.
\<close>

section \<open>Presets\<close>

record preset =
  uid :: string
  name :: string
  description :: string
  theme :: stylesheet
  slug :: string

definition Kun :: "string list" where
  "Kun = [''alternate'', ''default'', ''moon'', ''purple'', ''solarized'', ''bluePlanet'',
    ''deepSpace'', ''saturn'', ''kepler'', ''elysiajs'', ''fastify'', ''mars'', ''laserwave'', ''none'']"

definition qun :: "(string \<times> string) list" where
  "qun = [(''default'', ''Default''), (''alternate'', ''Alternate''), (''moon'', ''Moon''),
    (''purple'', ''Purple''), (''solarized'', ''Solarized''), (''elysiajs'', ''Elysia.js''),
    (''fastify'', ''Fastify''), (''bluePlanet'', ''Blue Planet''), (''saturn'', ''Saturn''),
    (''kepler'', ''Kepler-11e''), (''mars'', ''Mars''), (''deepSpace'', ''Deep Space''),
    (''laserwave'', ''Laserwave''), (''none'', ''None'')]"

text \<open>\<open>H_presets\<close> is \<open>H$\<close>, a field of the object per entry, in the order of the source.\<close>

definition H_presets :: "(string \<times> preset) list" where
  "H_presets = [
    (''default'', \<lparr>uid = ''qTQR9jSM8E-LihpyZzPOi'', name = ''Default'',
      description = ''Default Scalar theme'', theme = Fun, slug = ''default''\<rparr>),
    (''alternate'', \<lparr>uid = ''2skUDSH4S8HYFF9yXysr-'', name = ''Alternate'',
      description = ''Alternate Scalar theme'', theme = Mun, slug = ''alternate''\<rparr>),
    (''moon'', \<lparr>uid = ''DG9ZUNp5lJhDeX_kPX4Bl'', name = ''Moon'',
      description = ''Lunar styles'', theme = Vun, slug = ''moon''\<rparr>),
    (''purple'', \<lparr>uid = ''pE_1ysxcZ-y2LM1GGNBUv'', name = ''Purple'',
      description = ''Purple Scalar theme'', theme = Hun, slug = ''purple''\<rparr>),
    (''solarized'', \<lparr>uid = ''BdGVG1vf-4nYl3wJKyj8l'', name = ''Solarized'',
      description = ''Solarized Scalar theme'', theme = Wun, slug = ''solarized''\<rparr>),
    (''bluePlanet'', \<lparr>uid = ''X12IfAvl7ue-42V2lW40S'', name = ''Blue Planet'',
      description = ''Blue Planet Scalar theme'', theme = Nun, slug = ''blue-planet''\<rparr>),
    (''deepSpace'', \<lparr>uid = ''K8b38NWQiicq4-zXGXKdI'', name = ''Deep Space'',
      description = ''Deep Space Scalar theme'', theme = Pun, slug = ''deep-space''\<rparr>),
    (''saturn'', \<lparr>uid = ''1jyAjmbIZQG-RUU4Ugk9o'', name = ''Saturn'',
      description = ''Saturn Scalar theme'', theme = Uun, slug = ''saturn''\<rparr>),
    (''kepler'', \<lparr>uid = ''jZ6dnWbtqQ0Hz3s9jLPH0'', name = ''Kepler-11e'',
      description = ''Kepler-11e Scalar theme'', theme = Run, slug = ''kepler-11e''\<rparr>),
    (''mars'', \<lparr>uid = ''YY4LQgwiXix55-TmMz9qd'', name = ''Mars'',
      description = ''Mars Scalar theme'', theme = Bun, slug = ''mars''\<rparr>),
    (''laserwave'', \<lparr>uid = ''c5fZEi-K-hP-xXf885dkf'', name = ''Laserwave'',
      description = ''Laserwave Scalar theme'', theme = zun, slug = ''laserwave''\<rparr>),
    (''elysiajs'', \<lparr>uid = ''nEVZkRmCylPkT0o9YJa7y'', name = ''Elysia.js'',
      description = ''Elysia.js theme'', theme = Iun, slug = ''elysiajs''\<rparr>),
    (''fastify'', \<lparr>uid = ''nTZcdcM2_yHFZFxTQe9Kk'', name = ''Fastify'',
      description = ''Fastify theme'', theme = Lun, slug = ''fastify''\<rparr>)]"

section \<open>The style sheet of a theme\<close>

text \<open>
  \<open>Jun\<close>: the theme an identifier names, or the inlined default one when no preset has it (a lookup
  of an inherited property of the object finds no \<open>theme\<close> field either), the fonts unless
  \<open>fonts\<close> is false, and the layer unless its name is empty.  The sheet stands for the text the
  function joins.
\<close>

record jun_options =
  fonts :: "bool option"
  layer :: "string option"

definition theme_sheet :: "string option \<Rightarrow> stylesheet" where
  "theme_sheet e =
     (let key = (case e of None \<Rightarrow> ''default'' | Some k \<Rightarrow> if k = '''' then ''default'' else k)
      in case map_of H_presets key of
           Some p \<Rightarrow> theme p
         | None \<Rightarrow> Jun_fallback)"

definition Jun :: "string option \<Rightarrow> jun_options option \<Rightarrow> stylesheet" where
  "Jun e t =
     (let n = (case Option.bind t fonts of None \<Rightarrow> True | Some x \<Rightarrow> x);
          r = (case Option.bind t layer of None \<Rightarrow> ''scalar-theme'' | Some x \<Rightarrow> x);
          i = theme_sheet e @ (if n then jun else [])
      in if r \<noteq> '''' then [Layer r i] else i)"

fun uses_fonts :: "stylesheet \<Rightarrow> bool" where
  "uses_fonts [] \<longleftrightarrow> False"
| "uses_fonts (Font_face ds us # rs) \<longleftrightarrow> True"
| "uses_fonts (Style ss ds # rs) \<longleftrightarrow> uses_fonts rs"
| "uses_fonts (When q inner # rs) \<longleftrightarrow> uses_fonts inner \<or> uses_fonts rs"
| "uses_fonts (Layer l inner # rs) \<longleftrightarrow> uses_fonts inner \<or> uses_fonts rs"
| "uses_fonts (Keyframes k fs # rs) \<longleftrightarrow> uses_fonts rs"

section \<open>The theme picker\<close>

text \<open>
  The options of the picker: every identifier but \<open>none\<close>, with its label and its sheet; the option
  in force is the one of the configured identifier, or the first.
\<close>

definition theme_options :: "(string \<times> string option \<times> stylesheet option) list" where
  "theme_options = map (\<lambda>e. (e, map_of qun e, map_option theme (map_of H_presets e)))
     (filter (\<lambda>e. e \<noteq> ''none'') Kun)"

definition selected_option :: "string option \<Rightarrow> (string \<times> string option \<times> stylesheet option)" where
  "selected_option t =
     (let e = (case t of None \<Rightarrow> ''default'' | Some x \<Rightarrow> x)
      in case find (\<lambda>opt. fst opt = e) theme_options of
           Some opt \<Rightarrow> opt
         | None \<Rightarrow> hd theme_options)"

section \<open>The text of the style element\<close>

text \<open>
  The custom CSS and the sheet end up in a \<open>style\<close> element, after every \<open></style\<close> in them, in any
  case, has been replaced by \<open><\/style\<close>.
\<close>

definition lower :: "char \<Rightarrow> char" where
  "lower c = (if 65 \<le> (of_char c :: nat) \<and> (of_char c :: nat) \<le> 90
              then char_of ((of_char c :: nat) + 32) else c)"

definition close_style :: string where
  "close_style = ''</style''"

definition starts_close_style :: "string \<Rightarrow> bool" where
  "starts_close_style s \<longleftrightarrow> map lower (take 7 s) = close_style"

function escape_style :: "string \<Rightarrow> string" where
  "escape_style s =
     (if s = [] then []
      else if starts_close_style s then ''<'' @ [CHR 0x5C] @ ''/style'' @ escape_style (drop 7 s)
      else hd s # escape_style (tl s))"
  by pat_completeness auto
termination
  by (relation "measure length") (auto simp: starts_close_style_def)

declare escape_style.simps [simp del]

definition style_text :: "string option \<Rightarrow> string \<Rightarrow> string" where
  "style_text customCss re = escape_style ((case customCss of None \<Rightarrow> '''' | Some c \<Rightarrow> c) @ [CHR 0x0A] @ re)"

section \<open>The reference page\<close>

text \<open>
  The configuration of \<open>reference.js\<close>, with the origin of the page for its one server, and the sheet
  the bundle composes for it: no theme is set, so the identifier is the default one.
\<close>

record reference_configuration =
  url :: string
  server_urls :: "string list"
  proxyUrl :: string
  persistAuth :: bool
  telemetry :: bool
  withDefaultFonts :: bool
  agent_disabled :: bool
  hideClientButton :: bool
  showDeveloperTools :: string

definition reference_config :: "string \<Rightarrow> reference_configuration" where
  "reference_config origin = \<lparr>
     url = ''/openapi.json'',
     server_urls = [origin],
     proxyUrl = '''',
     persistAuth = False,
     telemetry = False,
     withDefaultFonts = False,
     agent_disabled = True,
     hideClientButton = True,
     showDeveloperTools = ''never''\<rparr>"

definition reference_sheet :: "string \<Rightarrow> stylesheet" where
  "reference_sheet origin =
     Jun (Some ''default'') (Some \<lparr>fonts = Some (withDefaultFonts (reference_config origin)), layer = None\<rparr>)"

section \<open>A ranking of the references\<close>

text \<open>
  The rank of each custom property among the references of the theme sheets: the values of a sheet
  refer only to properties of a smaller rank.
\<close>

fun theme_rank :: "custom_property \<Rightarrow> nat" where
  "theme_rank (Color r) = (if r \<in> {Color_1, Color_2, Color_3} then 0
     else if r \<in> {Color_alert, Color_danger} then 2 else 1)"
| "theme_rank (Background r) =
     (if r \<in> {Background_card, Background_4} then 0
      else if r = Background_1 then 1
      else if r = Background_accent then 3 else 2)"
| "theme_rank (Sidebar r) =
     (if r \<in> {Sidebar_color_1, Sidebar_color_2, Sidebar_border_color, Search_color} then 1
      else if r \<in> {Item_hover_background, Search_background} then 3
      else if r \<in> {Item_active_background, Search_border_color} then 4 else 2)"
| "theme_rank (Chrome r) =
     (if r \<in> {Link_color, Tooltip_color, Shadow_2, Code_language_color_supersede} then 1
      else if r \<in> {Link_color_hover, Tooltip_background} then 2 else 0)"
| "theme_rank (Local s) =
     (if s \<in> {''--solid'', ''--trans'', ''--scalar-sidebar-search--color''} then 1
      else if s \<in> {''--solid-wrap'', ''--trans-wrap''} then 2 else 0)"

interpretation bluePlanet: ranked_sheet Nun theme_rank by unfold_locales code_simp
interpretation deepSpace: ranked_sheet Pun theme_rank by unfold_locales code_simp
interpretation default: ranked_sheet Fun theme_rank by unfold_locales code_simp
interpretation elysiajs: ranked_sheet Iun theme_rank by unfold_locales code_simp
interpretation fastify: ranked_sheet Lun theme_rank by unfold_locales code_simp
interpretation kepler: ranked_sheet Run theme_rank by unfold_locales code_simp
interpretation laserwave: ranked_sheet zun theme_rank by unfold_locales code_simp
interpretation mars: ranked_sheet Bun theme_rank by unfold_locales code_simp
interpretation moon: ranked_sheet Vun theme_rank by unfold_locales code_simp
interpretation purple: ranked_sheet Hun theme_rank by unfold_locales code_simp
interpretation saturn: ranked_sheet Uun theme_rank by unfold_locales code_simp
interpretation solarized: ranked_sheet Wun theme_rank by unfold_locales code_simp

end
