(* ===== verification/Theme_Properties.thy ===== *)
theory Theme_Properties
  imports Scalar_Theming
begin

text \<open>
  Properties of the themes of the API reference.  A page is described by the path of its \<open>body\<close>,
  which carries the class of the colour mode, below the root element; \<open>b\<close> is whatever a browser
  answers to the feature and media queries of the sheets.
\<close>

section \<open>Engines\<close>

fun sheet_queries :: "stylesheet \<Rightarrow> query list" where
  "sheet_queries [] = []"
| "sheet_queries (When q inner # rs) = q # sheet_queries inner @ sheet_queries rs"
| "sheet_queries (Layer l inner # rs) = sheet_queries inner @ sheet_queries rs"
| "sheet_queries (Style ss ds # rs) = sheet_queries rs"
| "sheet_queries (Keyframes n fs # rs) = sheet_queries rs"
| "sheet_queries (Font_face ds us # rs) = sheet_queries rs"

lemma active_rules_cong:
  "(\<And>q. q \<in> set (sheet_queries sheet) \<Longrightarrow> b q = b' q) \<Longrightarrow> active_rules b sheet = active_rules b' sheet"
  by (induction sheet rule: sheet_queries.induct) simp_all

lemma applied_cong:
  "(\<And>q. q \<in> set (sheet_queries sheet) \<Longrightarrow> b q = b' q) \<Longrightarrow> applied b sheet es ps = applied b' sheet es ps"
  unfolding applied_def using active_rules_cong[of sheet b b'] by presburger

lemma computed_cong:
  assumes "\<And>q. q \<in> set (sheet_queries sheet) \<Longrightarrow> b q = b' q"
  shows "computed b sheet es = computed b' sheet es"
proof (induction es)
  case (Cons e es)
  with applied_cong[OF assms, where es = "e # es" and ps = None] show ?case
    by (intro ext) (simp only: computed.simps)
qed (simp add: fun_eq_iff)

text \<open>
  A theme asks one query at most, so a browser is, for its sheet, one that grants every query or one
  that grants none.
\<close>

definition one_query :: "stylesheet \<Rightarrow> bool" where
  "one_query sheet \<longleftrightarrow> (case sheet_queries sheet of [] \<Rightarrow> True | q # qs \<Rightarrow> list_all (\<lambda>q'. q' = q) qs)"

definition grants :: "bool \<Rightarrow> query \<Rightarrow> bool" where
  "grants a q = a"

lemma engine_of:
  assumes "one_query sheet"
  obtains a where "\<And>es. computed b sheet es = computed (grants a) sheet es"
    "\<And>es ps. applied b sheet es ps = applied (grants a) sheet es ps"
proof -
  obtain a where a: "\<And>q. q \<in> set (sheet_queries sheet) \<Longrightarrow> b q = grants a q"
  proof (cases "sheet_queries sheet")
    case Nil
    with that show ?thesis by simp
  next
    case (Cons q qs)
    with assms have "\<And>q'. q' \<in> set (sheet_queries sheet) \<Longrightarrow> b q' = grants (b q) q'"
      by (auto simp: one_query_def list_all_iff grants_def)
    with that show ?thesis by blast
  qed
  show ?thesis
    by (rule that[of a]) (rule computed_cong[OF a] applied_cong[OF a]; assumption)+
qed

lemma one_query_presets: "list_all (\<lambda>(k, p). one_query (theme p)) H_presets"
  by code_simp

section \<open>Pages\<close>

definition html_element :: element where
  "html_element = \<lparr>tag_name = ''html'', class_list = [], type_index = 1, is_root = True, is_host = False\<rparr>"

definition box :: "string \<Rightarrow> string list \<Rightarrow> element" where
  "box t cs = \<lparr>tag_name = t, class_list = cs, type_index = 1, is_root = False, is_host = False\<rparr>"

definition page :: "string \<Rightarrow> path" where
  "page mode = [box ''body'' [mode], html_element]"

definition palette :: "custom_property list" where
  "palette =
     map Color [Color_1, Color_2, Color_3, Color_accent, Color_green, Color_red, Color_yellow,
       Color_blue, Color_orange, Color_purple, Color_query] @
     map Background [Background_1, Background_2, Background_3, Background_accent] @
     map Chrome [Border_color, Button_1, Button_1_color, Button_1_hover]"

text \<open>The palette entries that have no colour on a page.\<close>

definition gaps :: "(query \<Rightarrow> bool) \<Rightarrow> stylesheet \<Rightarrow> string \<Rightarrow> custom_property list" where
  "gaps b sheet mode =
     filter (\<lambda>r. case computed b sheet (page mode) r of None \<Rightarrow> True | Some v \<Rightarrow> \<not> is_colour v) palette"

definition known_gaps :: "string \<Rightarrow> string \<Rightarrow> custom_property list" where
  "known_gaps k mode =
     (if mode = ''light-mode'' \<and> k \<in> {''moon'', ''solarized''} then [Color Color_yellow]
      else if mode = ''light-mode'' \<and> k = ''elysiajs'' then [Background Background_accent]
      else [])"

fun invalid_in ::
    "(custom_property \<times> css_value) list \<Rightarrow> (custom_property \<Rightarrow> css_value option) \<Rightarrow> custom_property list
      \<Rightarrow> custom_property list" where
  "invalid_in ds inh rs =
     filter (\<lambda>r. case subst ds inh [Var r] of None \<Rightarrow> True | Some v \<Rightarrow> \<not> is_colour v) rs"

lemma gaps_page [code]:
  "gaps b sheet mode =
     invalid_in (custom_values (applied b sheet (page mode) None)) (computed b sheet [html_element]) palette"
  by (simp add: gaps_def page_def)


lemma gaps_by_engines:
  assumes "one_query sheet" "gaps (grants False) sheet mode = r" "gaps (grants True) sheet mode = r"
  shows "gaps b sheet mode = r"
proof -
  obtain a where "\<And>es. computed b sheet es = computed (grants a) sheet es"
    using engine_of[OF assms(1), of b] by metis
  then have "gaps b sheet mode = gaps (grants a) sheet mode" by (simp add: gaps_def)
  with assms show ?thesis by (cases a) simp_all
qed

lemma gaps_Mun: "gaps b Mun ''light-mode'' = []" "gaps b Mun ''dark-mode'' = []"
  by (rule gaps_by_engines; code_simp)+

lemma gaps_Nun: "gaps b Nun ''light-mode'' = []" "gaps b Nun ''dark-mode'' = []"
  by (rule gaps_by_engines; code_simp)+

lemma gaps_Pun: "gaps b Pun ''light-mode'' = []" "gaps b Pun ''dark-mode'' = []"
  by (rule gaps_by_engines; code_simp)+

lemma gaps_Fun: "gaps b Fun ''light-mode'' = []" "gaps b Fun ''dark-mode'' = []"
  by (rule gaps_by_engines; code_simp)+

lemma gaps_Iun: "gaps b Iun ''light-mode'' = [Background Background_accent]" "gaps b Iun ''dark-mode'' = []"
  by (rule gaps_by_engines; code_simp)+

lemma gaps_Lun: "gaps b Lun ''light-mode'' = []" "gaps b Lun ''dark-mode'' = []"
  by (rule gaps_by_engines; code_simp)+

lemma gaps_Run: "gaps b Run ''light-mode'' = []" "gaps b Run ''dark-mode'' = []"
  by (rule gaps_by_engines; code_simp)+

lemma gaps_zun: "gaps b zun ''light-mode'' = []" "gaps b zun ''dark-mode'' = []"
  by (rule gaps_by_engines; code_simp)+

lemma gaps_Bun: "gaps b Bun ''light-mode'' = []" "gaps b Bun ''dark-mode'' = []"
  by (rule gaps_by_engines; code_simp)+

lemma gaps_Vun: "gaps b Vun ''light-mode'' = [Color Color_yellow]" "gaps b Vun ''dark-mode'' = []"
  by (rule gaps_by_engines; code_simp)+

lemma gaps_Hun: "gaps b Hun ''light-mode'' = []" "gaps b Hun ''dark-mode'' = []"
  by (rule gaps_by_engines; code_simp)+

lemma gaps_Uun: "gaps b Uun ''light-mode'' = []" "gaps b Uun ''dark-mode'' = []"
  by (rule gaps_by_engines; code_simp)+

lemma gaps_Wun: "gaps b Wun ''light-mode'' = [Color Color_yellow]" "gaps b Wun ''dark-mode'' = []"
  by (rule gaps_by_engines; code_simp)+

lemmas gaps_themes = gaps_Mun gaps_Nun gaps_Pun gaps_Fun gaps_Iun gaps_Lun gaps_Run gaps_zun gaps_Bun gaps_Vun gaps_Hun gaps_Uun gaps_Wun

end
