(* ===== verification/Theme_Claims.thy ===== *)
theory Theme_Claims
  imports Theme_Properties
begin

text \<open>
  The theorems about the themes of the API reference and the sheet of the reference page.
\<close>

lemma preset_sheet:
  assumes "map_of H_presets k = Some p"
  obtains "k = ''alternate''" "theme p = Mun"
    | "k = ''bluePlanet''" "theme p = Nun"
    | "k = ''deepSpace''" "theme p = Pun"
    | "k = ''default''" "theme p = Fun"
    | "k = ''elysiajs''" "theme p = Iun"
    | "k = ''fastify''" "theme p = Lun"
    | "k = ''kepler''" "theme p = Run"
    | "k = ''laserwave''" "theme p = zun"
    | "k = ''mars''" "theme p = Bun"
    | "k = ''moon''" "theme p = Vun"
    | "k = ''purple''" "theme p = Hun"
    | "k = ''saturn''" "theme p = Uun"
    | "k = ''solarized''" "theme p = Wun"
  using assms by (auto simp: H_presets_def split: if_splits)



text \<open>
  C31. No theme but alternate has a cycle of references between the custom properties of an element,
  whatever the element, its ancestors and the browser; so on every element the value of a declared
  property is its declared value with each reference replaced by the value of the property referred
  to.
\<close>

theorem theme_substitution:
  assumes "map_of H_presets k = Some p" and "k \<noteq> ''alternate''"
  shows "acyclic (dependencies (custom_values (applied b (theme p) es ps))) \<and>
    (cascaded (Custom r) (applied b (theme p) (e # up) None) = Some v \<longrightarrow>
      computed b (theme p) (e # up) r = expand (computed b (theme p) (e # up)) v)"
proof -
  from assms have "ranked_sheet (theme p) theme_rank"
    by (cases rule: preset_sheet[OF assms(1)])
      (simp_all add: bluePlanet.ranked_sheet_axioms deepSpace.ranked_sheet_axioms default.ranked_sheet_axioms elysiajs.ranked_sheet_axioms fastify.ranked_sheet_axioms kepler.ranked_sheet_axioms laserwave.ranked_sheet_axioms mars.ranked_sheet_axioms moon.ranked_sheet_axioms purple.ranked_sheet_axioms saturn.ranked_sheet_axioms solarized.ranked_sheet_axioms)
  then show ?thesis
    by (blast intro: ranked_sheet.dependencies_acyclic ranked_sheet.computed_equation)
qed

theorem theme_substitution_witness:
  "\<exists>v. cascaded (Custom (Color Color_accent)) (applied (grants True) Nun (page ''dark-mode'') None) = Some v \<and>
    computed (grants True) Nun (page ''dark-mode'') (Color Color_accent) =
      expand (computed (grants True) Nun (page ''dark-mode'')) v"
proof -
  have "cascaded (Custom (Color Color_accent)) (applied (grants True) Nun (page ''dark-mode'') None)
      = Some [Var (Color Color_1)]" by code_simp
  moreover have "map_of H_presets ''bluePlanet'' = Some (the (map_of H_presets ''bluePlanet''))"
    and "theme (the (map_of H_presets ''bluePlanet'')) = Nun"
    by (simp_all add: H_presets_def)
  ultimately show ?thesis
    using theme_substitution[where k = "''bluePlanet''" and p = "the (map_of H_presets ''bluePlanet'')"
        and b = "grants True" and r = "Color Color_accent" and e = "box ''body'' [''dark-mode'']"
        and up = "[html_element]" and v = "[Var (Color Color_1)]"]
    by (simp add: page_def)
qed

text \<open>
  In the alternate theme a dark card inside a dark page refers \<open>--scalar-background-3\<close> to itself:
  the property has a value on the page, and none on the card, in every browser.
\<close>

theorem alternate_card_cycle:
  "(Background Background_3, Background Background_3) \<in>
      dependencies (custom_values (applied b Mun (box ''div'' [''dark-mode'', ''scalar-card''] # page ''dark-mode'') None)) \<and>
    computed b Mun (box ''div'' [''dark-mode'', ''scalar-card''] # page ''dark-mode'') (Background Background_3) = None \<and>
    computed b Mun (page ''dark-mode'') (Background Background_3) = Some [Hash ''272727'']"
proof -
  let ?card = "box ''div'' [''dark-mode'', ''scalar-card''] # page ''dark-mode''"
  have none: "sheet_queries Mun = []" by code_simp
  then have eq: "applied b Mun ?card None = applied (grants False) Mun ?card None"
      "computed b Mun ?card = computed (grants False) Mun ?card"
      "computed b Mun (page ''dark-mode'') = computed (grants False) Mun (page ''dark-mode'')"
    by (auto intro: applied_cong computed_cong)
  have "cascaded (Custom (Background Background_3)) (applied (grants False) Mun ?card None)
      = Some [Var (Background Background_3)]" by code_simp
  moreover have "computed (grants False) Mun ?card (Background Background_3) = None" by code_simp
  moreover have "computed (grants False) Mun (page ''dark-mode'') (Background Background_3) = Some [Hash ''272727'']"
    by code_simp
  ultimately show ?thesis unfolding eq by (simp add: dependencies_def map_of_custom_values)
qed

text \<open>
  In the alternate theme a region marked dark inside a light page keeps the light palette, as the
  comment of the sheet asks: the rules of the nested scope outweigh those of the dark mode.
\<close>

theorem alternate_nested_dark_region:
  "map (computed b Mun (box t [''dark-mode''] # page ''light-mode'')) palette =
    map (computed b Mun (page ''light-mode'')) palette"
proof -
  have none: "sheet_queries Mun = []" by code_simp
  then have eq: "computed b Mun (box t [''dark-mode''] # page ''light-mode'')
        = computed (grants False) Mun (box t [''dark-mode''] # page ''light-mode'')"
      "computed b Mun (page ''light-mode'') = computed (grants False) Mun (page ''light-mode'')"
    by (auto intro: computed_cong)
  show ?thesis unfolding eq by code_simp
qed

definition ignores :: "string \<Rightarrow> stylesheet \<Rightarrow> bool" where
  "ignores prop sheet \<longleftrightarrow>
     (\<forall>a \<in> {False, True}. list_all (\<lambda>r. list_all (\<lambda>d. declared_property d \<noteq> Property prop) (snd r))
        (active_rules (grants a) sheet))"

lemma cascaded_ignored:
  assumes "ignores prop sheet" and "one_query sheet"
  shows "cascaded (Property prop) (applied b sheet es ps) = None"
proof -
  obtain a where a: "applied b sheet es ps = applied (grants a) sheet es ps"
    using engine_of[OF assms(2), of b] by metis
  from assms(1) have "list_all (\<lambda>r. list_all (\<lambda>d. declared_property d \<noteq> Property prop) (snd r))
      (active_rules (grants a) sheet)" by (cases a) (simp_all add: ignores_def)
  then show ?thesis
    unfolding a cascaded_None
    by (fastforce simp: applied_def rule_declarations_def list_all_iff split: option.splits)
qed

definition writes :: "string \<Rightarrow> stylesheet \<Rightarrow> bool" where
  "writes prop sheet \<longleftrightarrow>
     list_ex (\<lambda>d. declared_property d = Property prop) (sheet_declarations sheet)"

text \<open>The themes whose sheet styles headings with a gradient.\<close>

definition gradient_themes :: "string list" where
  "gradient_themes = [''bluePlanet'', ''deepSpace'', ''kepler'', ''mars'', ''saturn'']"

lemma heading_Mun: "ignores ''-webkit-text-fill-color'' Mun" "one_query Mun"
    "writes ''-webkit-text-fill-color'' Mun \<longleftrightarrow> ''alternate'' \<in> set gradient_themes"
  by code_simp+

lemma heading_Nun: "ignores ''-webkit-text-fill-color'' Nun" "one_query Nun"
    "writes ''-webkit-text-fill-color'' Nun \<longleftrightarrow> ''bluePlanet'' \<in> set gradient_themes"
  by code_simp+

lemma heading_Pun: "ignores ''-webkit-text-fill-color'' Pun" "one_query Pun"
    "writes ''-webkit-text-fill-color'' Pun \<longleftrightarrow> ''deepSpace'' \<in> set gradient_themes"
  by code_simp+

lemma heading_Fun: "ignores ''-webkit-text-fill-color'' Fun" "one_query Fun"
    "writes ''-webkit-text-fill-color'' Fun \<longleftrightarrow> ''default'' \<in> set gradient_themes"
  by code_simp+

lemma heading_Iun: "ignores ''-webkit-text-fill-color'' Iun" "one_query Iun"
    "writes ''-webkit-text-fill-color'' Iun \<longleftrightarrow> ''elysiajs'' \<in> set gradient_themes"
  by code_simp+

lemma heading_Lun: "ignores ''-webkit-text-fill-color'' Lun" "one_query Lun"
    "writes ''-webkit-text-fill-color'' Lun \<longleftrightarrow> ''fastify'' \<in> set gradient_themes"
  by code_simp+

lemma heading_Run: "ignores ''-webkit-text-fill-color'' Run" "one_query Run"
    "writes ''-webkit-text-fill-color'' Run \<longleftrightarrow> ''kepler'' \<in> set gradient_themes"
  by code_simp+

lemma heading_zun: "ignores ''-webkit-text-fill-color'' zun" "one_query zun"
    "writes ''-webkit-text-fill-color'' zun \<longleftrightarrow> ''laserwave'' \<in> set gradient_themes"
  by code_simp+

lemma heading_Bun: "ignores ''-webkit-text-fill-color'' Bun" "one_query Bun"
    "writes ''-webkit-text-fill-color'' Bun \<longleftrightarrow> ''mars'' \<in> set gradient_themes"
  by code_simp+

lemma heading_Vun: "ignores ''-webkit-text-fill-color'' Vun" "one_query Vun"
    "writes ''-webkit-text-fill-color'' Vun \<longleftrightarrow> ''moon'' \<in> set gradient_themes"
  by code_simp+

lemma heading_Hun: "ignores ''-webkit-text-fill-color'' Hun" "one_query Hun"
    "writes ''-webkit-text-fill-color'' Hun \<longleftrightarrow> ''purple'' \<in> set gradient_themes"
  by code_simp+

lemma heading_Uun: "ignores ''-webkit-text-fill-color'' Uun" "one_query Uun"
    "writes ''-webkit-text-fill-color'' Uun \<longleftrightarrow> ''saturn'' \<in> set gradient_themes"
  by code_simp+

lemma heading_Wun: "ignores ''-webkit-text-fill-color'' Wun" "one_query Wun"
    "writes ''-webkit-text-fill-color'' Wun \<longleftrightarrow> ''solarized'' \<in> set gradient_themes"
  by code_simp+

lemmas heading_themes = heading_Mun heading_Nun heading_Pun heading_Fun heading_Iun heading_Lun heading_Run heading_zun heading_Bun heading_Vun heading_Hun heading_Uun heading_Wun

text \<open>
  The gradient that five themes declare for the headings of a dark page never applies: their one
  rule lists \<open>h1.section-header:not(::selection)\<close>, an invalid selector, which invalidates the rule.
\<close>

theorem gradient_headings_ignored:
  assumes "map_of H_presets k = Some p"
  shows "(writes ''-webkit-text-fill-color'' (theme p) \<longleftrightarrow> k \<in> set gradient_themes) \<and>
    cascaded (Property ''-webkit-text-fill-color'') (applied b (theme p) es ps) = None"
  by (cases rule: preset_sheet[OF assms]) (simp_all add: heading_themes cascaded_ignored)

theorem gradient_headings_ignored_witness:
  "writes ''-webkit-text-fill-color'' Run \<and>
    cascaded (Property ''-webkit-text-fill-color'')
      (applied (grants True) Run (box ''h1'' [''section-header''] # page ''dark-mode'') None) = None"
  using gradient_headings_ignored[where k = "''kepler''" and p = "the (map_of H_presets ''kepler'')"
      and b = "grants True" and es = "box ''h1'' [''section-header''] # page ''dark-mode''" and ps = None]
  by (simp add: H_presets_def gradient_themes_def)

section \<open>Composing the sheet\<close>

lemma uses_fonts_append [simp]: "uses_fonts (xs @ ys) \<longleftrightarrow> uses_fonts xs \<or> uses_fonts ys"
  by (induction xs rule: uses_fonts.induct) auto

lemma Jun_fallback_default: "Jun_fallback = Fun"
  unfolding Jun_fallback_defs Fun_defs by (rule refl)

lemma themes_no_fonts:
  "\<not> uses_fonts Mun"
  "\<not> uses_fonts Nun"
  "\<not> uses_fonts Pun"
  "\<not> uses_fonts Fun"
  "\<not> uses_fonts Iun"
  "\<not> uses_fonts Lun"
  "\<not> uses_fonts Run"
  "\<not> uses_fonts zun"
  "\<not> uses_fonts Bun"
  "\<not> uses_fonts Vun"
  "\<not> uses_fonts Hun"
  "\<not> uses_fonts Uun"
  "\<not> uses_fonts Wun"
  by (simp_all add: Mun_defs Nun_defs Pun_defs Fun_defs Iun_defs Lun_defs Run_defs zun_defs Bun_defs Vun_defs Hun_defs Uun_defs Wun_defs)

lemma jun_fonts: "uses_fonts jun"
  by (simp add: jun_def jun_inter_def)

lemma theme_sheet_no_fonts: "\<not> uses_fonts (theme_sheet e)"
proof -
  let ?k = "case e of None \<Rightarrow> ''default'' | Some k \<Rightarrow> if k = '''' then ''default'' else k"
  show ?thesis
  proof (cases "map_of H_presets ?k")
    case None
    then show ?thesis by (simp add: theme_sheet_def Jun_fallback_default themes_no_fonts)
  next
    case (Some p)
    then show ?thesis
      by (cases rule: preset_sheet[OF Some]) (simp_all add: theme_sheet_def themes_no_fonts)
  qed
qed

text \<open>
  An identifier that no preset has (\<open>none\<close>, the identifier of a page without a theme, among them)
  styles the page with the default theme, fonts and layer as for \<open>default\<close>.
\<close>

theorem unknown_theme_is_default:
  assumes "k \<notin> set (map fst H_presets)"
  shows "Jun (Some k) t = Jun (Some ''default'') t \<and> Jun None t = Jun (Some ''default'') t"
proof -
  have "map_of H_presets k = None" using assms by (simp add: map_of_eq_None_iff)
  moreover obtain p where "map_of H_presets ''default'' = Some p" "theme p = Fun"
    by (simp add: H_presets_def)
  ultimately have "theme_sheet (Some k) = Fun" "theme_sheet None = Fun" "theme_sheet (Some ''default'') = Fun"
    by (auto simp: theme_sheet_def Jun_fallback_default)
  then show ?thesis by (simp add: Jun_def)
qed

theorem unknown_theme_is_default_witness:
  "last Kun = ''none'' \<and> Jun (Some ''none'') None = Jun (Some ''default'') None"
  using unknown_theme_is_default[of "''none''" None] by (simp add: Kun_def H_presets_def)

text \<open>
  The sheet of a page loads web fonts exactly when the option \<open>fonts\<close> is not false, whatever the
  theme and the layer.
\<close>

theorem fonts_only_on_request:
  "uses_fonts (Jun e t) \<longleftrightarrow> Option.bind t fonts \<noteq> Some False"
  by (auto simp: Jun_def Let_def theme_sheet_no_fonts jun_fonts split: option.splits)

lemma layer_computed: "computed b [Layer l sheet] es = computed b sheet es"
proof (induction es)
  case (Cons e es)
  then show ?case by (intro ext) (simp only: computed.simps applied_def active_rules.simps append_Nil2)
qed (simp add: fun_eq_iff)

text \<open>
  The reference page asks for the default theme without fonts, in its own cascade layer: its sheet
  has the whole palette in both modes and no \<open>@font-face\<close> rule, so the page makes no request to the
  font host, which its content security policy (\<open>font-src 'self' data:\<close>) would refuse.
\<close>

theorem reference_page_sheet:
  "reference_sheet origin = [Layer ''scalar-theme'' Fun] \<and> \<not> uses_fonts (reference_sheet origin) \<and>
    gaps b (reference_sheet origin) ''light-mode'' = [] \<and> gaps b (reference_sheet origin) ''dark-mode'' = []"
proof -
  have "theme_sheet (Some ''default'') = Fun" by (simp add: theme_sheet_def H_presets_def)
  then have "reference_sheet origin = [Layer ''scalar-theme'' Fun]"
    by (simp add: reference_sheet_def Jun_def reference_config_def)
  moreover have "gaps b [Layer l Fun] m = gaps b Fun m" for l m
    by (simp add: gaps_def layer_computed)
  ultimately show ?thesis by (simp add: gaps_Fun themes_no_fonts)
qed

lemma theme_options_labels:
  "theme_options = map (\<lambda>(k, c). (k, Some c, map_option theme (map_of H_presets k)))
    [(''alternate'', ''Alternate''), (''default'', ''Default''), (''moon'', ''Moon''), (''purple'', ''Purple''),
     (''solarized'', ''Solarized''), (''bluePlanet'', ''Blue Planet''), (''deepSpace'', ''Deep Space''),
     (''saturn'', ''Saturn''), (''kepler'', ''Kepler-11e''), (''elysiajs'', ''Elysia.js''),
     (''fastify'', ''Fastify''), (''mars'', ''Mars''), (''laserwave'', ''Laserwave'')]"
  by (simp add: theme_options_def Kun_def qun_def)

lemma theme_options_find:
  "list_all (\<lambda>(k, p). find (\<lambda>opt. fst opt = k) theme_options = Some (k, Some (name p), Some (theme p))) H_presets"
  by (simp add: theme_options_labels H_presets_def)

text \<open>
  The picker offers every preset under its label and its own sheet, once; for an identifier that
  is not offered, \<open>none\<close> among them, it shows the first option, alternate, although the page has the
  default theme.
\<close>

theorem picker_options:
  "distinct (map fst theme_options) \<and>
    set (map fst theme_options) = set (map fst H_presets) \<and>
    (\<forall>p. map_of H_presets k = Some p \<longrightarrow> selected_option (Some k) = (k, Some (name p), Some (theme p))) \<and>
    (k \<notin> set (map fst H_presets) \<longrightarrow> selected_option (Some k) = (''alternate'', Some ''Alternate'', Some Mun))"
proof -
  have alternate: "map_option theme (map_of H_presets ''alternate'') = Some Mun" by (simp add: H_presets_def)
  have ids: "distinct (map fst theme_options)" "set (map fst theme_options) = set (map fst H_presets)"
    by (auto simp: theme_options_labels H_presets_def)
  have shown: "selected_option (Some k) = (k, Some (name p), Some (theme p))"
    if "map_of H_presets k = Some p" for p
    using theme_options_find map_of_SomeD[OF that] by (auto simp: selected_option_def list_all_iff)
  have first: "selected_option (Some k) = (''alternate'', Some ''Alternate'', Some Mun)"
    if "k \<notin> set (map fst H_presets)"
  proof -
    have "\<forall>opt \<in> set theme_options. fst opt \<noteq> k" using that ids(2) by (metis imageI set_map)
    then have "find (\<lambda>opt. fst opt = k) theme_options = None" unfolding find_None_iff by blast
    then show ?thesis by (simp add: selected_option_def theme_options_labels alternate)
  qed
  from ids shown first show ?thesis by blast
qed

theorem picker_options_witness:
  "selected_option (Some ''none'') = (''alternate'', Some ''Alternate'', Some Mun) \<and>
    theme_sheet (Some ''none'') = Fun"
  using picker_options[of "''none''"]
  by (simp add: H_presets_def theme_sheet_def Jun_fallback_default)

definition ill_typed :: "stylesheet \<Rightarrow> css_decl list" where
  "ill_typed sheet = filter (\<lambda>d. \<not> colour_typed d) (sheet_declarations sheet)"

lemma typed_Mun: "ill_typed Mun = []"
  by code_simp

lemma typed_Nun: "ill_typed Nun = []"
  by code_simp

lemma typed_Pun: "ill_typed Pun = []"
  by code_simp

lemma typed_Fun: "ill_typed Fun = []"
  by code_simp

lemma typed_Iun: "ill_typed Iun = []"
  by code_simp

lemma typed_Lun: "ill_typed Lun = []"
  by code_simp

lemma typed_zun: "ill_typed zun = []"
  by code_simp

lemma typed_Bun: "ill_typed Bun = []"
  by code_simp

lemma typed_Vun: "ill_typed Vun = []"
  by code_simp

lemma typed_Hun: "ill_typed Hun = []"
  by code_simp

lemma typed_Uun: "ill_typed Uun = []"
  by code_simp

lemma typed_Wun: "ill_typed Wun = []"
  by code_simp

lemma typed_Run: "map declared_property (ill_typed Run) =
    [Custom (Sidebar Search_border_color), Custom (Sidebar Search_border_color)]"
  by code_simp

lemmas typed_themes = typed_Mun typed_Nun typed_Pun typed_Fun typed_Iun typed_Lun typed_Run typed_zun typed_Bun typed_Vun typed_Hun typed_Uun typed_Wun




section \<open>The text of the style element\<close>

lemma escape_style_Nil [simp]: "escape_style [] = []"
  by (simp add: escape_style.simps)

lemma escape_style_match:
  "starts_close_style s \<Longrightarrow>
    escape_style s = ''<'' @ [CHR 0x5C] @ ''/style'' @ escape_style (drop 7 s)"
  by (subst escape_style.simps) (auto simp: starts_close_style_def close_style_def)

lemma escape_style_copy:
  "\<not> starts_close_style (c # s) \<Longrightarrow> escape_style (c # s) = c # escape_style s"
  by (subst escape_style.simps) simp

text \<open>A stretch of the output without \<open><\<close> has been copied from the input.\<close>

lemma escape_style_prefix:
  "length w = n \<Longrightarrow> CHR ''<'' \<notin> set w \<Longrightarrow> take n (escape_style s) = w \<Longrightarrow> take n s = w"
proof (induction n arbitrary: s w)
  case (Suc n)
  show ?case
  proof (cases s)
    case Nil
    with Suc.prems show ?thesis by simp
  next
    case (Cons c cs)
    from Suc.prems obtain d ds where w: "w = d # ds" "length ds = n" "d \<noteq> CHR ''<''" "CHR ''<'' \<notin> set ds"
      by (cases w) auto
    have "\<not> starts_close_style s"
      using Suc.prems w by (auto simp: escape_style_match)
    with Cons have "escape_style s = c # escape_style cs" by (simp add: escape_style_copy)
    with Suc.prems w Suc.IH[of ds cs] Cons show ?thesis by simp
  qed
qed simp

lemma lower_open [simp]: "lower c = CHR ''<'' \<longleftrightarrow> c = CHR ''<''"
proof
  assume "lower c = CHR ''<''"
  then have "(of_char (lower c) :: nat) = 60" by simp
  then have "(of_char c :: nat) = 60"
    by (auto simp: lower_def nat_of_char_less_256 split: if_splits)
  then have "(of_char c :: nat) = of_char (CHR ''<'')" by simp
  then show "c = CHR ''<''" by (simp only: of_char_eq_iff)
qed (simp add: lower_def)

lemma starts_close_style_escaped: "\<not> starts_close_style (escape_style s)"
proof (cases "starts_close_style s")
  case True
  then show ?thesis by (simp add: escape_style_match starts_close_style_def close_style_def lower_def)
next
  case False
  show ?thesis
  proof (cases s)
    case Nil
    then show ?thesis by (simp add: starts_close_style_def close_style_def)
  next
    case (Cons c cs)
    show ?thesis
    proof
      assume found: "starts_close_style (escape_style s)"
      have out: "escape_style s = c # escape_style cs" using False Cons by (simp add: escape_style_copy)
      let ?w = "take 6 (escape_style cs)"
      from found out have w: "lower c = CHR ''<''" "map lower ?w = ''/style''"
        by (simp_all add: starts_close_style_def close_style_def)
      have "length ?w = length (map lower ?w)" by simp
      also have "\<dots> = 6" unfolding w(2) by simp
      finally have "length ?w = 6" .
      moreover have "CHR ''<'' \<notin> set ?w"
      proof
        assume "CHR ''<'' \<in> set ?w"
        then have "lower (CHR ''<'') \<in> set (map lower ?w)" by simp
        then show False unfolding w(2) by (simp add: lower_def)
      qed
      ultimately have "take 6 cs = ?w" by (rule escape_style_prefix) simp
      with w Cons have "starts_close_style s" by (simp add: starts_close_style_def close_style_def)
      with False show False ..
    qed
  qed
qed

lemma starts_close_style_open: "starts_close_style (c # s) \<Longrightarrow> c = CHR ''<''"
  by (simp add: starts_close_style_def close_style_def)

lemma starts_close_style_length: "starts_close_style s \<Longrightarrow> 7 \<le> length s"
  using length_map[of lower "take 7 s"] by (simp add: starts_close_style_def close_style_def)

lemma escape_style_safe: "\<not> starts_close_style (drop i (escape_style s))"
proof (induction s arbitrary: i rule: escape_style.induct)
  case (1 s)
  show ?case
  proof (cases s)
    case Nil
    then show ?thesis by (simp add: starts_close_style_def close_style_def)
  next
    case (Cons c cs)
    show ?thesis
    proof (cases "starts_close_style s")
      case True
      define rest where "rest = escape_style (drop 7 s)"
      have out: "escape_style s = ''<'' @ [CHR 0x5C] @ ''/style'' @ rest"
        using True by (simp add: escape_style_match rest_def)
      show ?thesis
      proof (cases "i < 8")
        case True
        then have "i \<in> {0, 1, 2, 3, 4, 5, 6, 7}" by auto
        then show ?thesis
          using starts_close_style_escaped[of s]
          by (auto simp: out dest: starts_close_style_open)
      next
        case False
        then have "drop i (escape_style s) = drop (i - 8) rest" by (simp add: out drop_Cons' numeral_eq_Suc)
        moreover have "\<not> starts_close_style (drop (i - 8) rest)"
          using 1(1)[OF _ True] Cons by (simp add: rest_def)
        ultimately show ?thesis by simp
      qed
    next
      case False
      with Cons have out: "escape_style s = c # escape_style cs" by (simp add: escape_style_copy)
      show ?thesis
      proof (cases i)
        case 0
        with starts_close_style_escaped[of s] show ?thesis by simp
      next
        case (Suc j)
        with 1(2)[OF _ False] Cons out show ?thesis by simp
      qed
    qed
  qed
qed

lemma escape_style_unchanged:
  "(\<And>i. \<not> starts_close_style (drop i s)) \<Longrightarrow> escape_style s = s"
proof (induction s)
  case (Cons c s)
  from Cons.prems[of 0] have "escape_style (c # s) = c # escape_style s" by (simp add: escape_style_copy)
  moreover have "\<not> starts_close_style (drop i s)" for i using Cons.prems[of "Suc i"] by simp
  ultimately show ?case using Cons.IH by simp
qed simp

text \<open>
  C32. The text of the \<open>style\<close> element never contains \<open></style\<close>, in any case, so neither the custom CSS
  nor a theme can close the element; a text without it is kept as it is, and escaping again changes
  nothing.
\<close>

theorem style_text_contained:
  "\<not> starts_close_style (drop i (style_text c re)) \<and>
    escape_style (style_text c re) = style_text c re \<and>
    ((\<forall>j. \<not> starts_close_style (drop j ((case c of None \<Rightarrow> '''' | Some x \<Rightarrow> x) @ [CHR 0x0A] @ re))) \<longrightarrow>
      style_text c re = (case c of None \<Rightarrow> '''' | Some x \<Rightarrow> x) @ [CHR 0x0A] @ re)"
  unfolding style_text_def using escape_style_safe escape_style_unchanged by metis

theorem style_text_contained_witness:
  "style_text None ''a{}'' = [CHR 0x0A] @ ''a{}'' \<and>
    style_text (Some ''</STYLE>'') '''' = ''<'' @ [CHR 0x5C] @ ''/style>'' @ [CHR 0x0A]"
proof -
  have "\<not> starts_close_style (drop j ([CHR 0x0A] @ ''a{}''))" for j
    using starts_close_style_length[of "drop j ([CHR 0x0A] @ ''a{}'')"] by auto
  moreover have "style_text (Some ''</STYLE>'') '''' = ''<'' @ [CHR 0x5C] @ ''/style>'' @ [CHR 0x0A]"
    by code_simp
  ultimately show ?thesis
    using style_text_contained[of 0 None "''a{}''"] by simp
qed

section \<open>The fonts\<close>

fun face_ranges :: "stylesheet \<Rightarrow> (nat \<times> nat) list list" where
  "face_ranges [] = []"
| "face_ranges (Font_face ds us # rs) = us # face_ranges rs"
| "face_ranges (_ # rs) = face_ranges rs"

fun descending_free :: "nat \<Rightarrow> (nat \<times> nat) list \<Rightarrow> bool" where
  "descending_free n [] \<longleftrightarrow> True"
| "descending_free n ((lo, hi) # us) \<longleftrightarrow> n \<le> lo \<and> lo \<le> hi \<and> hi < 0x110000 \<and> descending_free (Suc hi) us"

definition covers :: "nat \<Rightarrow> (nat \<times> nat) list \<Rightarrow> bool" where
  "covers c us \<longleftrightarrow> list_ex (\<lambda>(lo, hi). lo \<le> c \<and> c \<le> hi) us"

definition on_font_host :: "(string \<times> css_value) list \<Rightarrow> bool" where
  "on_font_host ds \<longleftrightarrow>
     (case map_of ds ''src'' of
        Some (Url u # _) \<Rightarrow> take 25 u = ''https://fonts.scalar.com/''
      | _ \<Rightarrow> False)"

fun face_descriptors :: "stylesheet \<Rightarrow> (string \<times> css_value) list list" where
  "face_descriptors [] = []"
| "face_descriptors (Font_face ds us # rs) = ds # face_descriptors rs"
| "face_descriptors (_ # rs) = face_descriptors rs"

definition low_ranges :: "(nat \<times> nat) list \<Rightarrow> (nat \<times> nat) list" where
  "low_ranges us = filter (\<lambda>u. fst u < 256) us"

lemma covers_low_ranges: "c < 256 \<Longrightarrow> covers c us \<longleftrightarrow> covers c (low_ranges us)"
  by (induction us) (auto simp: covers_def low_ranges_def)

lemma serving_latin1:
  "c < 256 \<Longrightarrow> length (filter (covers c) fs) = length (filter (covers c) (map low_ranges fs))"
  by (induction fs) (simp_all add: covers_low_ranges[symmetric])

lemma low_ranges_inter: "map low_ranges (face_ranges jun_inter) = [[], [], [], [], [], [], [(0, 255)], []]"
  by (simp add: jun_inter_def low_ranges_def)

lemma low_ranges_mono: "map low_ranges (face_ranges jun_mono) = [[], [], [], [], [], [(0, 255)]]"
  by (simp add: jun_mono_def low_ranges_def)

text \<open>
  The character ranges of every font face are non-empty, disjoint and within Unicode, and every
  character of Latin-1 is served by exactly one face of each of the two families, so that a page in
  it downloads one file per family; all files come from the font host.
\<close>

theorem font_ranges:
  "list_all (descending_free 0) (face_ranges jun) \<and>
    list_all on_font_host (face_descriptors jun) \<and>
    list_all (\<lambda>c. length (filter (covers c) (face_ranges jun_inter)) = 1 \<and>
      length (filter (covers c) (face_ranges jun_mono)) = 1) [0..<256]"
proof (intro conjI)
  show "list_all (descending_free 0) (face_ranges jun)"
    by (simp add: jun_def jun_inter_def jun_mono_def)
  show "list_all on_font_host (face_descriptors jun)"
    by (simp add: jun_def jun_inter_def jun_mono_def on_font_host_def)
  show "list_all (\<lambda>c. length (filter (covers c) (face_ranges jun_inter)) = 1 \<and>
      length (filter (covers c) (face_ranges jun_mono)) = 1) [0..<256]"
    unfolding list_all_iff set_upt
    by (simp add: serving_latin1[of _ "face_ranges jun_inter"]
        serving_latin1[of _ "face_ranges jun_mono"] low_ranges_inter low_ranges_mono covers_def)
qed

end
