(* ===== verification/Payloads.thy ===== *)
theory Payloads
  imports Json Pagination
begin

text \<open>
  The JSON form of every payload the API writes (the union \<open>JSONPayload\<close> of
  \<open>internal/httpapi/responder.go\<close>), from the \<open>json\<close> tags of the structs: one function per type, the
  members in declaration order, the fields of an embedded struct first, the continuation hash of a
  track or an identifier (tag \<open>-\<close>) left out. How a time is printed depends on its location, so the
  snapshot takes the printing function as its argument.
\<close>

definition Artist_members :: "('a) Artist_scheme \<Rightarrow> (string \<times> json) list" where
  "Artist_members a =
     [(''id'', JInt (Artist_ID a)), (''name'', json_text (Artist_Name a)),
      (''real_name'', json_text (Artist_RealName a)), (''profile'', json_text (Artist_Profile a)),
      (''data_quality'', json_text (Artist_DataQuality a))]"

definition json_Artist :: "Artist \<Rightarrow> json" where
  "json_Artist a = JObject (Artist_members a)"

definition json_ArtistReference :: "ArtistReference \<Rightarrow> json" where
  "json_ArtistReference r = JObject
     [(''id'', JInt (ArtistRef_ID r)), (''name'', json_text (ArtistRef_Name r)),
      (''resource_url'', JString (ArtistRef_ResourceURL r))]"

definition json_ArtistDetail :: "ArtistDetail \<Rightarrow> json" where
  "json_ArtistDetail d = JObject (Artist_members d @
     [(''members'', json_slice json_ArtistReference (Artist_Members d)),
      (''groups'', json_slice json_ArtistReference (Artist_Groups d)),
      (''aliases'', json_slice json_ArtistReference (Artist_Aliases d)),
      (''namevariations'', json_slice JString (Artist_NameVariations d)),
      (''urls'', json_slice JString (Artist_URLs d)),
      (''uri'', JString (Artist_URI d)), (''release_url'', JString (Artist_ReleaseURL d))])"

definition json_ArtistRelease :: "ArtistRelease \<Rightarrow> json" where
  "json_ArtistRelease r = JObject
     [(''id'', JInt (ArtistRelease_ID r)), (''role'', json_text (ArtistRelease_Role r)),
      (''title'', json_text (ArtistRelease_Title r)), (''country'', json_text (ArtistRelease_Country r)),
      (''data_quality'', json_text (ArtistRelease_DataQuality r)),
      (''released_year'', json_number (ArtistRelease_Year r)),
      (''released_month'', json_number (ArtistRelease_Month r)),
      (''released_day'', json_number (ArtistRelease_Day r)),
      (''listed_release_date'', json_text (ArtistRelease_ListedDate r)),
      (''is_master'', json_opt JBool (ArtistRelease_IsMaster r)),
      (''master_id'', json_number (ArtistRelease_MasterID r)),
      (''notes'', json_text (ArtistRelease_Notes r)), (''status'', json_text (ArtistRelease_Status r)),
      (''resource_url'', JString (ArtistRelease_ResourceURL r))]"

definition Label_members :: "('a) Label_scheme \<Rightarrow> (string \<times> json) list" where
  "Label_members l =
     [(''id'', JInt (Label_ID l)), (''contact_info'', json_text (Label_ContactInfo l)),
      (''data_quality'', json_text (Label_DataQuality l)), (''name'', json_text (Label_Name l)),
      (''profile'', json_text (Label_Profile l))]"

definition json_Label :: "Label \<Rightarrow> json" where
  "json_Label l = JObject (Label_members l)"

definition json_LabelReference :: "LabelReference \<Rightarrow> json" where
  "json_LabelReference r = JObject
     [(''id'', JInt (LabelRef_ID r)), (''name'', json_text (LabelRef_Name r)),
      (''resource_url'', JString (LabelRef_ResourceURL r))]"

definition json_LabelDetail :: "LabelDetail \<Rightarrow> json" where
  "json_LabelDetail d = JObject (Label_members d @
     [(''parent_label'', json_opt json_LabelReference (Label_Parent d)),
      (''sublabels'', json_slice json_LabelReference (Label_Sublabels d)),
      (''urls'', json_slice JString (Label_URLs d)),
      (''uri'', JString (Label_URI d)), (''release_url'', JString (Label_ReleaseURL d))])"

definition json_LabelRelease :: "LabelRelease \<Rightarrow> json" where
  "json_LabelRelease r = JObject
     [(''id'', JInt (LabelRelease_ID r)), (''artist'', json_text (LabelRelease_Artist r)),
      (''title'', json_text (LabelRelease_Title r)), (''year'', json_number (LabelRelease_Year r)),
      (''status'', json_text (LabelRelease_Status r)),
      (''catnos'', json_slice JString (LabelRelease_CatalogNumbers r)),
      (''format'', json_text (LabelRelease_Format r))]"

definition json_Master :: "Master \<Rightarrow> json" where
  "json_Master m = JObject
     [(''id'', JInt (Master_ID m)), (''data_quality'', json_text (Master_DataQuality m)),
      (''title'', json_text (Master_Title m)),
      (''released_year'', json_number (Master_ReleasedYear m))]"

definition json_MasterVideo :: "MasterVideo \<Rightarrow> json" where
  "json_MasterVideo v = JObject
     [(''url'', json_text (MasterVideo_URL v)),
      (''description'', json_text (MasterVideo_Description v)),
      (''title'', json_text (MasterVideo_Title v))]"

definition json_MasterDetail :: "MasterDetail \<Rightarrow> json" where
  "json_MasterDetail m = JObject
     [(''id'', JInt (MasterDetail_ID m)), (''title'', json_text (MasterDetail_Title m)),
      (''data_quality'', json_text (MasterDetail_DataQuality m)),
      (''main_release'', json_number (MasterDetail_MainRelease m)),
      (''year'', json_number (MasterDetail_Year m)),
      (''genres'', json_slice JString (MasterDetail_Genres m)),
      (''styles'', json_slice JString (MasterDetail_Styles m)),
      (''artists'', json_slice json_ArtistReference (MasterDetail_Artists m)),
      (''videos'', json_slice json_MasterVideo (MasterDetail_Videos m))]"

definition json_MasterRelease :: "MasterRelease \<Rightarrow> json" where
  "json_MasterRelease r = JObject
     [(''id'', JInt (MasterRelease_ID r)), (''title'', json_text (MasterRelease_Title r)),
      (''artist'', json_slice JString (MasterRelease_Artists r)),
      (''artist_id'', json_slice JInt (MasterRelease_ArtistIDs r)),
      (''year'', json_number (MasterRelease_Year r)),
      (''resource_url'', JString (MasterRelease_ResourceURL r))]"

definition Release_members :: "('a) Release_scheme \<Rightarrow> (string \<times> json) list" where
  "Release_members r =
     [(''id'', JInt (Release_ID r)), (''title'', json_text (Release_Title r)),
      (''country'', json_text (Release_Country r)),
      (''data_quality'', json_text (Release_DataQuality r)),
      (''released_year'', json_number (Release_Year r)),
      (''released_month'', json_number (Release_Month r)),
      (''released_day'', json_number (Release_Day r)),
      (''listed_release_date'', json_text (Release_ListedDate r)),
      (''is_master'', json_opt JBool (Release_IsMaster r)),
      (''master_id'', json_number (Release_MasterID r)),
      (''notes'', json_text (Release_Notes r)), (''status'', json_text (Release_Status r))]"

definition json_Release :: "Release \<Rightarrow> json" where
  "json_Release r = JObject (Release_members r)"

definition json_ReleaseArtist :: "ReleaseArtist \<Rightarrow> json" where
  "json_ReleaseArtist a = JObject
     [(''id'', JInt (ReleaseArtist_ID a)), (''name'', json_text (ReleaseArtist_Name a)),
      (''role'', json_text (ReleaseArtist_Role a)),
      (''resource_url'', JString (ReleaseArtist_ResourceURL a))]"

definition json_ReleaseLabel :: "ReleaseLabel \<Rightarrow> json" where
  "json_ReleaseLabel l = JObject
     [(''id'', JInt (ReleaseLabel_ID l)), (''name'', json_text (ReleaseLabel_Name l)),
      (''catno'', json_text (ReleaseLabel_CategoryNotation l)),
      (''resource_url'', JString (ReleaseLabel_ResourceURL l))]"

definition json_ReleaseFormat :: "ReleaseFormat \<Rightarrow> json" where
  "json_ReleaseFormat f = JObject
     [(''name'', json_text (ReleaseFormat_Name f)), (''qty'', json_text (ReleaseFormat_Quantity f)),
      (''descriptions'', json_slice JString (ReleaseFormat_Descriptions f))]"

definition json_ReleaseVideo :: "ReleaseVideo \<Rightarrow> json" where
  "json_ReleaseVideo v = JObject
     [(''title'', json_text (ReleaseVideo_Title v)), (''url'', json_text (ReleaseVideo_URL v)),
      (''description'', json_text (ReleaseVideo_Description v))]"

definition json_ReleaseDetail :: "ReleaseDetail \<Rightarrow> json" where
  "json_ReleaseDetail d = JObject (Release_members d @
     [(''artists'', json_slice json_ReleaseArtist (Release_Artists d)),
      (''labels'', json_slice json_ReleaseLabel (Release_Labels d)),
      (''companies'', json_slice json_ReleaseLabel (Release_Companies d)),
      (''formats'', json_slice json_ReleaseFormat (Release_Formats d)),
      (''styles'', json_slice JString (Release_Styles d)),
      (''genres'', json_slice JString (Release_Genres d)),
      (''videos'', json_slice json_ReleaseVideo (Release_Videos d))])"

definition json_ReleaseTrack :: "ReleaseTrack \<Rightarrow> json" where
  "json_ReleaseTrack t = JObject
     [(''duration'', json_text (Track_Duration t)), (''position'', json_text (Track_Position t)),
      (''title'', json_text (Track_Title t))]"

definition json_ReleaseIdentifier :: "ReleaseIdentifier \<Rightarrow> json" where
  "json_ReleaseIdentifier i = JObject
     [(''description'', json_text (Ident_Description i)), (''type'', json_text (Ident_Type i)),
      (''value'', json_text (Ident_Value i))]"

definition json_SnapshotEntity :: "(go_time \<Rightarrow> string) \<Rightarrow> SnapshotEntity \<Rightarrow> json" where
  "json_SnapshotEntity fmt e = JObject
     [(''entity_type'', JString (EntityType e)), (''status'', JString (EntityStatus e)),
      (''dump_date'', json_text (DumpDate e)),
      (''applied_at'', json_opt (\<lambda>t. JString (fmt t)) (AppliedAt e)),
      (''processor'', json_text (Processor e)),
      (''processor_version'', json_text (ProcessorVersion e))]"

definition json_CatalogSnapshot :: "(go_time \<Rightarrow> string) \<Rightarrow> CatalogSnapshot \<Rightarrow> json" where
  "json_CatalogSnapshot fmt s = JObject
     [(''ready'', JBool (SnapshotReady s)), (''status'', JString (SnapshotStatus s)),
      (''updated_at'', JString (fmt (UpdatedAt s))),
      (''entities'', json_slice (json_SnapshotEntity fmt) (Entities s))]"

section \<open>Envelopes and problem documents\<close>

definition json_PageResponse :: "('a \<Rightarrow> json) \<Rightarrow> 'a PageResponse \<Rightarrow> json" where
  "json_PageResponse f p = JObject
     [(''items'', JArray (map f (Resp_Items p))),
      (''next_after_id'', json_number (Resp_NextAfterID p)),
      (''has_more'', JBool (Resp_HasMore p)), (''page_size'', JInt (Resp_PageSize p)),
      (''resource_uri'', JString (Resp_ResourceURI p))]"

definition json_HashPageResponse :: "('a \<Rightarrow> json) \<Rightarrow> 'a HashPageResponse \<Rightarrow> json" where
  "json_HashPageResponse f p = JObject
     [(''items'', JArray (map f (HResp_Items p))),
      (''next_cursor'', json_text (HResp_NextCursor p)),
      (''has_more'', JBool (HResp_HasMore p)), (''page_size'', JInt (HResp_PageSize p)),
      (''resource_uri'', JString (HResp_ResourceURI p))]"

record problemDocument =
  Problem_Type :: string
  Problem_Title :: string
  Problem_Status :: int
  Problem_Detail :: string
  Problem_Instance :: string

definition json_problemDocument :: "problemDocument \<Rightarrow> json" where
  "json_problemDocument p = JObject
     [(''type'', JString (Problem_Type p)), (''title'', JString (Problem_Title p)),
      (''status'', JInt (Problem_Status p)), (''detail'', JString (Problem_Detail p)),
      (''instance'', JString (Problem_Instance p))]"

record versionDocument =
  Version_Version :: string

definition json_versionDocument :: "versionDocument \<Rightarrow> json" where
  "json_versionDocument v = JObject [(''version'', JString (Version_Version v))]"

end
