(* ===== verification/Responder.thy ===== *)
theory Responder
  imports Payloads
begin

text \<open>
  \<open>internal/httpapi/responder.go\<close> and the \<open>statusWriter\<close> of \<open>internal/httpapi/router.go\<close>: how a
  handler writes its response, and the pool of response buffers.

  State is passed explicitly in the record \<open>exchange\<close>: the response writer, the buffer pool (the
  channel \<open>buffers\<close> as the list of the capacities of the pooled buffers, first in first out) and the
  log. The server's own \<open>http.ResponseWriter\<close> is the part of \<open>net/http\<close> the program relies on: a
  header map, the status line and headers that went out with the first \<open>WriteHeader\<close>, and the body.
  A connection the client has closed (\<open>RW_broken\<close>) makes \<open>Write\<close> return an error. How far the
  runtime grows a buffer is the parameter \<open>Rsp_grow\<close>.
\<close>

section \<open>Constants\<close>

definition HeaderCacheControl :: string where "HeaderCacheControl = ''Cache-Control''"
definition HeaderContentLength :: string where "HeaderContentLength = ''Content-Length''"
definition HeaderContentType :: string where "HeaderContentType = ''Content-Type''"
definition HeaderFrameOptions :: string where "HeaderFrameOptions = ''X-Frame-Options''"
definition HeaderReferrerPolicy :: string where "HeaderReferrerPolicy = ''Referrer-Policy''"
definition HeaderTypeOptions :: string where "HeaderTypeOptions = ''X-Content-Type-Options''"
definition HeaderCSP :: string where "HeaderCSP = ''Content-Security-Policy''"
definition ContentTypeJSON :: string where "ContentTypeJSON = ''application/json''"
definition ContentTypeHTML :: string where "ContentTypeHTML = ''text/html; charset=utf-8''"
definition ContentTypeJavaScript :: string where "ContentTypeJavaScript = ''text/javascript; charset=utf-8''"
definition ContentTypeProblemJSON :: string where "ContentTypeProblemJSON = ''application/problem+json''"
definition ProblemTypeAboutBlank :: string where "ProblemTypeAboutBlank = ''about:blank''"
definition ProblemTitleBadRequest :: string where "ProblemTitleBadRequest = ''Bad Request''"
definition ProblemTitleNotFound :: string where "ProblemTitleNotFound = ''Not Found''"
definition ProblemTitleInternal :: string where "ProblemTitleInternal = ''Internal Server Error''"
definition ProblemTitleTimeout :: string where "ProblemTitleTimeout = ''Gateway Timeout''"
definition ProblemDetailNotFound :: string where "ProblemDetailNotFound = ''resource not found in imported dump snapshot''"
definition ProblemDetailInternal :: string where "ProblemDetailInternal = ''request processing failed''"
definition ProblemDetailTimeout :: string where "ProblemDetailTimeout = ''database query timed out''"

lemmas header_name_defs =
  HeaderCacheControl_def HeaderContentLength_def HeaderContentType_def HeaderFrameOptions_def
  HeaderReferrerPolicy_def HeaderTypeOptions_def HeaderCSP_def

lemmas content_type_defs =
  ContentTypeJSON_def ContentTypeHTML_def ContentTypeJavaScript_def ContentTypeProblemJSON_def

definition responseBufferCount :: nat where "responseBufferCount = 16"
definition maximumPooledResponseSize :: nat where "maximumPooledResponseSize = 262144"

section \<open>The response writers\<close>

type_synonym Header = "string \<Rightarrow> string option"

definition Header_Get :: "Header \<Rightarrow> string \<Rightarrow> string" where
  "Header_Get h k = (case h k of None \<Rightarrow> [] | Some v \<Rightarrow> v)"

record ResponseWriter =
  RW_header :: Header
  RW_sent :: "(int \<times> Header) option"
  RW_body :: string
  RW_broken :: bool

definition RW_WriteHeader :: "int \<Rightarrow> ResponseWriter \<Rightarrow> ResponseWriter" where
  "RW_WriteHeader status w =
     (case RW_sent w of None \<Rightarrow> w\<lparr>RW_sent := Some (status, RW_header w)\<rparr> | Some _ \<Rightarrow> w)"

definition RW_Write :: "string \<Rightarrow> ResponseWriter \<Rightarrow> ResponseWriter" where
  "RW_Write data w =
     (let w1 = RW_WriteHeader 200 w
      in if RW_broken w1 then w1 else w1\<lparr>RW_body := RW_body w1 @ data\<rparr>)"

text \<open>\<open>statusWriter\<close> remembers the first status and lets only that one through.\<close>

record statusWriter =
  SW_writer :: ResponseWriter
  SW_status :: int
  SW_wroteHeader :: bool

definition statusWriter_WriteHeader :: "int \<Rightarrow> statusWriter \<Rightarrow> statusWriter" where
  "statusWriter_WriteHeader status w =
     (if SW_wroteHeader w then w
      else w\<lparr>SW_status := status, SW_wroteHeader := True,
             SW_writer := RW_WriteHeader status (SW_writer w)\<rparr>)"

definition statusWriter_Write :: "string \<Rightarrow> statusWriter \<Rightarrow> statusWriter" where
  "statusWriter_Write body w =
     (let w1 = (if \<not> SW_wroteHeader w then statusWriter_WriteHeader 200 w else w)
      in w1\<lparr>SW_writer := RW_Write body (SW_writer w1)\<rparr>)"

definition SW_SetHeader :: "string \<Rightarrow> string \<Rightarrow> statusWriter \<Rightarrow> statusWriter" where
  "SW_SetHeader k v w =
     w\<lparr>SW_writer := (SW_writer w)\<lparr>RW_header := (RW_header (SW_writer w))(k \<mapsto> v)\<rparr>\<rparr>"

section \<open>The buffer pool\<close>

record buffer =
  Buf_Cap :: nat
  Buf_Data :: string

definition getBuffer :: "nat list \<Rightarrow> buffer \<times> nat list" where
  "getBuffer buffers =
     (case buffers of
        [] \<Rightarrow> (\<lparr>Buf_Cap = 0, Buf_Data = []\<rparr>, [])
      | c # cs \<Rightarrow> (\<lparr>Buf_Cap = c, Buf_Data = []\<rparr>, cs))"

definition putBuffer :: "buffer \<Rightarrow> nat list \<Rightarrow> nat list" where
  "putBuffer b buffers =
     (if Buf_Cap b > maximumPooledResponseSize then buffers
      else if length buffers < responseBufferCount then buffers @ [Buf_Cap b] else buffers)"

definition pool_ok :: "nat list \<Rightarrow> bool" where
  "pool_ok buffers \<longleftrightarrow>
     length buffers \<le> responseBufferCount \<and> (\<forall>c \<in> set buffers. c \<le> maximumPooledResponseSize)"

lemma pool_ok_getBuffer: "pool_ok p \<Longrightarrow> pool_ok (snd (getBuffer p))"
  by (cases p) (auto simp: pool_ok_def getBuffer_def)

lemma pool_ok_putBuffer: "pool_ok p \<Longrightarrow> pool_ok (putBuffer b p)"
  by (auto simp: pool_ok_def putBuffer_def)

lemma pool_ok_bytes:
  assumes "pool_ok p"
  shows "sum_list p \<le> responseBufferCount * maximumPooledResponseSize"
proof -
  have "sum_list p \<le> length p * maximumPooledResponseSize"
    using assms by (induction p) (auto simp: pool_ok_def)
  also have "\<dots> \<le> responseBufferCount * maximumPooledResponseSize"
    using assms by (simp add: pool_ok_def)
  finally show ?thesis .
qed

section \<open>The responder\<close>

datatype log_level = LevelDebug | LevelInfo | LevelWarn | LevelError

type_synonym log_entry = "log_level \<times> string \<times> (string \<times> string) list"

record exchange =
  Ex_writer :: statusWriter
  Ex_pool :: "nat list"
  Ex_log :: "log_entry list"

record Responder =
  Rsp_cacheControl :: string
  Rsp_grow :: "nat \<Rightarrow> nat \<Rightarrow> nat"

definition log_add :: "log_entry \<Rightarrow> exchange \<Rightarrow> exchange" where
  "log_add e x = x\<lparr>Ex_log := Ex_log x @ [e]\<rparr>"

definition set_header :: "string \<Rightarrow> string \<Rightarrow> exchange \<Rightarrow> exchange" where
  "set_header k v x = x\<lparr>Ex_writer := SW_SetHeader k v (Ex_writer x)\<rparr>"

definition write_status :: "int \<Rightarrow> exchange \<Rightarrow> exchange" where
  "write_status status x = x\<lparr>Ex_writer := statusWriter_WriteHeader status (Ex_writer x)\<rparr>"

text \<open>\<open>writer.Write\<close> with its error logged at debug level under the given message.\<close>

definition write_body :: "string \<Rightarrow> string \<Rightarrow> exchange \<Rightarrow> exchange" where
  "write_body message data x =
     (let x1 = x\<lparr>Ex_writer := statusWriter_Write data (Ex_writer x)\<rparr>
      in if RW_broken (SW_writer (Ex_writer x1)) then log_add (LevelDebug, message, []) x1 else x1)"

definition writeJSON :: "Responder \<Rightarrow> int \<Rightarrow> json \<Rightarrow> exchange \<Rightarrow> exchange" where
  "writeJSON r status value x =
     (let (buffer0, pool) = getBuffer (Ex_pool x);
          data = Buf_Data buffer0 @ Encode value;
          buffer = \<lparr>Buf_Cap = Rsp_grow r (Buf_Cap buffer0) (length data), Buf_Data = data\<rparr>;
          x1 = x\<lparr>Ex_pool := pool\<rparr>;
          x2 = (if Header_Get (RW_header (SW_writer (Ex_writer x1))) HeaderContentType = []
                then set_header HeaderContentType ContentTypeJSON x1 else x1);
          x3 = (if 200 \<le> status \<and> status < 300 \<and> Rsp_cacheControl r \<noteq> []
                then set_header HeaderCacheControl (Rsp_cacheControl r) x2 else x2);
          x4 = set_header HeaderContentLength (FormatInt (int (length (Buf_Data buffer)))) x3;
          x5 = write_status status x4;
          x6 = write_body ''write HTTP response'' (Buf_Data buffer) x5
      in x6\<lparr>Ex_pool := putBuffer buffer (Ex_pool x6)\<rparr>)"

definition Problem :: "Responder \<Rightarrow> string \<Rightarrow> int \<Rightarrow> string \<Rightarrow> string \<Rightarrow> exchange \<Rightarrow> exchange" where
  "Problem r path status title detail x =
     writeJSON r status
       (json_problemDocument \<lparr>Problem_Type = ProblemTypeAboutBlank, Problem_Title = title,
          Problem_Status = status, Problem_Detail = detail, Problem_Instance = path\<rparr>)
       (set_header HeaderContentType ContentTypeProblemJSON x)"

definition BadRequest :: "Responder \<Rightarrow> string \<Rightarrow> string \<Rightarrow> exchange \<Rightarrow> exchange" where
  "BadRequest r path err x = Problem r path 400 ProblemTitleBadRequest err x"

definition RepositoryError :: "Responder \<Rightarrow> string \<Rightarrow> go_error \<Rightarrow> exchange \<Rightarrow> exchange" where
  "RepositoryError r path err x =
     (if errors_is err ErrNotFound
      then Problem r path 404 ProblemTitleNotFound ProblemDetailNotFound x
      else if errors_is err DeadlineExceeded
      then Problem r path 504 ProblemTitleTimeout ProblemDetailTimeout x
      else if errors_is err Canceled then x
      else Problem r path 500 ProblemTitleInternal ProblemDetailInternal
             (log_add (LevelError, ''repository request failed'',
                       [(''path'', path), (''error'', error_text err)]) x))"

definition Asset :: "Responder \<Rightarrow> string \<Rightarrow> string \<Rightarrow> exchange \<Rightarrow> exchange" where
  "Asset r contentType document x =
     (let x1 = set_header HeaderContentType contentType x;
          x2 = set_header HeaderContentLength (FormatInt (int (length document))) x1;
          x3 = (if Rsp_cacheControl r \<noteq> []
                then set_header HeaderCacheControl (Rsp_cacheControl r) x2 else x2);
          x4 = write_status 200 x3
      in write_body ''write HTTP document'' document x4)"

definition Document :: "Responder \<Rightarrow> string \<Rightarrow> exchange \<Rightarrow> exchange" where
  "Document r document x = Asset r ContentTypeJSON document x"

lemmas responder_defs =
  writeJSON_def Problem_def BadRequest_def RepositoryError_def Asset_def Document_def
  log_add_def set_header_def write_status_def write_body_def

end
