(* ===== verification/Handlers.thy ===== *)
theory Handlers
  imports Responder Request_Filters
begin

text \<open>
  The handlers of \<open>internal/httpapi\<close> (\<open>artist.go\<close>, \<open>label.go\<close>, \<open>master.go\<close>, \<open>release.go\<close>,
  \<open>snapshot.go\<close>, \<open>documentation.go\<close>): every handler parses its request, answers 400 at the first
  invalid parameter, calls the read port once, and writes the result or the mapped error. A panic of
  the port is not caught here; it reaches the router with the state at that moment.
\<close>

record Request =
  Req_Method :: string
  Req_Path :: string
  Req_PathID :: string
  Req_Query :: Values

datatype run = Done exchange | Panicked string exchange

primrec run_state :: "run \<Rightarrow> exchange" where
  "run_state (Done x) = x"
| "run_state (Panicked m x) = x"

text \<open>
  The common tail of the handlers: \<open>if err != nil { RepositoryError; return }\<close> and then
  \<open>writeJSON\<close> with status 200.
\<close>

definition repository_reply ::
  "Responder \<Rightarrow> Request \<Rightarrow> ('a \<Rightarrow> json) \<Rightarrow> 'a outcome \<Rightarrow> exchange \<Rightarrow> run" where
  "repository_reply r req render result x =
     (case result of
        Ok v \<Rightarrow> Done (writeJSON r 200 (render v) x)
      | Fail e \<Rightarrow> Done (RepositoryError r (Req_Path req) e x)
      | Panic m \<Rightarrow> Panicked m x)"

definition bad_request :: "Responder \<Rightarrow> Request \<Rightarrow> string \<Rightarrow> exchange \<Rightarrow> run" where
  "bad_request r req e x = Done (BadRequest r (Req_Path req) e x)"

abbreviation query_value :: "Request \<Rightarrow> string \<Rightarrow> string" where
  "query_value req name \<equiv> Values_Get (Req_Query req) name"

definition page_json :: "('a \<Rightarrow> int) \<Rightarrow> ('a \<Rightarrow> json) \<Rightarrow> Request \<Rightarrow> 'a Page \<Rightarrow> json" where
  "page_json pageID f req page = json_PageResponse f (pageResponse pageID page (Req_Path req))"

definition hash_page_json :: "('a \<Rightarrow> int) \<Rightarrow> ('a \<Rightarrow> json) \<Rightarrow> Request \<Rightarrow> 'a HashPage \<Rightarrow> json" where
  "hash_page_json pageHash f req page =
     json_HashPageResponse f (hashPageResponse pageHash page (Req_Path req))"

section \<open>Artists\<close>

definition ArtistHandler_Search :: "Repository \<Rightarrow> Responder \<Rightarrow> Request \<Rightarrow> exchange \<Rightarrow> run" where
  "ArtistHandler_Search repo r req x =
     (case parseCursorPage (Req_Query req) of
        Inl e \<Rightarrow> bad_request r req e x
      | Inr pageRequest \<Rightarrow>
     (case optionalSearchTerm (query_value req ParameterName) ParameterName of
        Inl e \<Rightarrow> bad_request r req e x
      | Inr name \<Rightarrow>
     (case optionalSearchTerm (query_value req ParameterRealName) ParameterRealName of
        Inl e \<Rightarrow> bad_request r req e x
      | Inr realName \<Rightarrow>
          repository_reply r req (page_json Artist_ID json_Artist req)
            (Repo_SearchArtists repo
               \<lparr>ArtistFilter_Name = name, ArtistFilter_RealName = realName\<rparr> pageRequest) x)))"

definition ArtistHandler_Get :: "Repository \<Rightarrow> Responder \<Rightarrow> Request \<Rightarrow> exchange \<Rightarrow> run" where
  "ArtistHandler_Get repo r req x =
     (case pathID (Req_PathID req) of
        Inl e \<Rightarrow> bad_request r req e x
      | Inr ident \<Rightarrow> repository_reply r req json_ArtistDetail (Repo_Artist repo ident) x)"

definition ArtistHandler_Releases :: "Repository \<Rightarrow> Responder \<Rightarrow> Request \<Rightarrow> exchange \<Rightarrow> run" where
  "ArtistHandler_Releases repo r req x =
     (case pathID (Req_PathID req) of
        Inl e \<Rightarrow> bad_request r req e x
      | Inr ident \<Rightarrow>
     (case parseCursorPage (Req_Query req) of
        Inl e \<Rightarrow> bad_request r req e x
      | Inr pageRequest \<Rightarrow>
          repository_reply r req (page_json ArtistRelease_ID json_ArtistRelease req)
            (Repo_ArtistReleases repo ident pageRequest) x))"

section \<open>Labels\<close>

definition LabelHandler_Search :: "Repository \<Rightarrow> Responder \<Rightarrow> Request \<Rightarrow> exchange \<Rightarrow> run" where
  "LabelHandler_Search repo r req x =
     (case parseCursorPage (Req_Query req) of
        Inl e \<Rightarrow> bad_request r req e x
      | Inr pageRequest \<Rightarrow>
     (case optionalSearchTerm (query_value req ParameterName) ParameterName of
        Inl e \<Rightarrow> bad_request r req e x
      | Inr name \<Rightarrow>
          repository_reply r req (page_json Label_ID json_Label req)
            (Repo_SearchLabels repo \<lparr>LabelFilter_Name = name\<rparr> pageRequest) x))"

definition LabelHandler_Get :: "Repository \<Rightarrow> Responder \<Rightarrow> Request \<Rightarrow> exchange \<Rightarrow> run" where
  "LabelHandler_Get repo r req x =
     (case pathID (Req_PathID req) of
        Inl e \<Rightarrow> bad_request r req e x
      | Inr ident \<Rightarrow> repository_reply r req json_LabelDetail (Repo_Label repo ident) x)"

definition LabelHandler_Releases :: "Repository \<Rightarrow> Responder \<Rightarrow> Request \<Rightarrow> exchange \<Rightarrow> run" where
  "LabelHandler_Releases repo r req x =
     (case pathID (Req_PathID req) of
        Inl e \<Rightarrow> bad_request r req e x
      | Inr ident \<Rightarrow>
     (case parseCursorPage (Req_Query req) of
        Inl e \<Rightarrow> bad_request r req e x
      | Inr pageRequest \<Rightarrow>
          repository_reply r req (page_json LabelRelease_ID json_LabelRelease req)
            (Repo_LabelReleases repo ident pageRequest) x))"

section \<open>Masters\<close>

definition MasterHandler_Search :: "Repository \<Rightarrow> Responder \<Rightarrow> Request \<Rightarrow> exchange \<Rightarrow> run" where
  "MasterHandler_Search repo r req x =
     (case parseCursorPage (Req_Query req) of
        Inl e \<Rightarrow> bad_request r req e x
      | Inr pageRequest \<Rightarrow>
     (case optionalSearchTerm (query_value req ParameterTitle) ParameterTitle of
        Inl e \<Rightarrow> bad_request r req e x
      | Inr title \<Rightarrow>
     (case optionalInt (query_value req ParameterYear) 0 maxInt16 ParameterYear of
        Inl e \<Rightarrow> bad_request r req e x
      | Inr year \<Rightarrow>
          repository_reply r req (page_json Master_ID json_Master req)
            (Repo_SearchMasters repo
               \<lparr>MasterFilter_Title = title, MasterFilter_Year = year\<rparr> pageRequest) x)))"

definition MasterHandler_Get :: "Repository \<Rightarrow> Responder \<Rightarrow> Request \<Rightarrow> exchange \<Rightarrow> run" where
  "MasterHandler_Get repo r req x =
     (case pathID (Req_PathID req) of
        Inl e \<Rightarrow> bad_request r req e x
      | Inr ident \<Rightarrow> repository_reply r req json_MasterDetail (Repo_Master repo ident) x)"

definition MasterHandler_Releases :: "Repository \<Rightarrow> Responder \<Rightarrow> Request \<Rightarrow> exchange \<Rightarrow> run" where
  "MasterHandler_Releases repo r req x =
     (case pathID (Req_PathID req) of
        Inl e \<Rightarrow> bad_request r req e x
      | Inr ident \<Rightarrow>
     (case parseCursorPage (Req_Query req) of
        Inl e \<Rightarrow> bad_request r req e x
      | Inr pageRequest \<Rightarrow>
          repository_reply r req (page_json MasterRelease_ID json_MasterRelease req)
            (Repo_MasterReleases repo ident pageRequest) x))"

section \<open>Releases\<close>

definition ReleaseHandler_Filtered ::
  "Repository \<Rightarrow> Responder \<Rightarrow> Request \<Rightarrow> PageRequest \<Rightarrow> exchange \<Rightarrow> run" where
  "ReleaseHandler_Filtered repo r req pageRequest x =
     (case optionalSearchTerm (query_value req ParameterTitle) ParameterTitle of
        Inl e \<Rightarrow> bad_request r req e x
      | Inr title \<Rightarrow>
     (case optionalCountry (query_value req ParameterCountry) of
        Inl e \<Rightarrow> bad_request r req e x
      | Inr country \<Rightarrow>
     (case optionalInt (query_value req ParameterYear) 0 maxInt16 ParameterYear of
        Inl e \<Rightarrow> bad_request r req e x
      | Inr year \<Rightarrow>
     (case optionalInt (query_value req ParameterMonth) 1 12 ParameterMonth of
        Inl e \<Rightarrow> bad_request r req e x
      | Inr month \<Rightarrow>
     (if month \<noteq> None \<and> year = None then bad_request r req errorMonthRequiresYear x
      else case optionalBool (query_value req ParameterMaster) ParameterMaster of
        Inl e \<Rightarrow> bad_request r req e x
      | Inr master \<Rightarrow>
          repository_reply r req (page_json Release_ID json_Release req)
            (Repo_SearchReleases repo
               \<lparr>ReleaseFilter_Title = title, ReleaseFilter_Country = country,
                ReleaseFilter_Year = year, ReleaseFilter_Month = month,
                ReleaseFilter_Master = master\<rparr> pageRequest) x)))))"

definition ReleaseHandler_Search :: "Repository \<Rightarrow> Responder \<Rightarrow> Request \<Rightarrow> exchange \<Rightarrow> run" where
  "ReleaseHandler_Search repo r req x =
     (case parseCursorPage (Req_Query req) of
        Inl e \<Rightarrow> bad_request r req e x
      | Inr pageRequest \<Rightarrow>
     (case parseReleaseLookup (Req_Query req) of
        Inl e \<Rightarrow> bad_request r req e x
      | Inr (LookupCatalogNumber c) \<Rightarrow>
          repository_reply r req (page_json Release_ID json_Release req)
            (Repo_ReleasesByCatalogNumber repo c pageRequest) x
      | Inr (LookupIdentifier i) \<Rightarrow>
          repository_reply r req (page_json Release_ID json_Release req)
            (Repo_ReleasesByIdentifier repo i pageRequest) x
      | Inr LookupNone \<Rightarrow> ReleaseHandler_Filtered repo r req pageRequest x))"

definition ReleaseHandler_Get :: "Repository \<Rightarrow> Responder \<Rightarrow> Request \<Rightarrow> exchange \<Rightarrow> run" where
  "ReleaseHandler_Get repo r req x =
     (case pathID (Req_PathID req) of
        Inl e \<Rightarrow> bad_request r req e x
      | Inr ident \<Rightarrow> repository_reply r req json_ReleaseDetail (Repo_Release repo ident) x)"

definition releaseChildRequest :: "Request \<Rightarrow> string + int \<times> HashPageRequest" where
  "releaseChildRequest req =
     (case pathID (Req_PathID req) of
        Inl e \<Rightarrow> Inl e
      | Inr ident \<Rightarrow>
     (case parseHashCursorPage (Req_Query req) of
        Inl e \<Rightarrow> Inl e
      | Inr pageRequest \<Rightarrow> Inr (ident, pageRequest)))"

definition ReleaseHandler_Tracks :: "Repository \<Rightarrow> Responder \<Rightarrow> Request \<Rightarrow> exchange \<Rightarrow> run" where
  "ReleaseHandler_Tracks repo r req x =
     (case releaseChildRequest req of
        Inl e \<Rightarrow> bad_request r req e x
      | Inr (ident, pageRequest) \<Rightarrow>
          repository_reply r req (hash_page_json Track_Hash json_ReleaseTrack req)
            (Repo_ReleaseTracks repo ident pageRequest) x)"

definition ReleaseHandler_Identifiers :: "Repository \<Rightarrow> Responder \<Rightarrow> Request \<Rightarrow> exchange \<Rightarrow> run" where
  "ReleaseHandler_Identifiers repo r req x =
     (case releaseChildRequest req of
        Inl e \<Rightarrow> bad_request r req e x
      | Inr (ident, pageRequest) \<Rightarrow>
          repository_reply r req (hash_page_json Ident_Hash json_ReleaseIdentifier req)
            (Repo_ReleaseIdentifiers repo ident pageRequest) x)"

section \<open>Snapshot and documentation\<close>

definition SnapshotHandler_Get ::
  "(go_time \<Rightarrow> string) \<Rightarrow> Repository \<Rightarrow> Responder \<Rightarrow> Request \<Rightarrow> exchange \<Rightarrow> run" where
  "SnapshotHandler_Get fmt repo r req x =
     repository_reply r req (json_CatalogSnapshot fmt) (Repo_Snapshot repo) x"

text \<open>The files embedded in the binary are arguments: their bytes are not modelled.\<close>

record embedded_files =
  openAPIDocument :: string
  documentationHTML :: string
  documentationScript :: string
  scalarScript :: string

definition contentSecurityPolicy :: string where
  "contentSecurityPolicy =
     ''default-src 'self'; script-src 'self'; style-src 'self' 'unsafe-inline'; img-src 'self' data:; font-src 'self' data:; connect-src 'self'; base-uri 'none'; form-action 'none'; frame-ancestors '' @ [CHR 0x27] @ ''none'' @ [CHR 0x27]"

definition DocumentationHandler_OpenAPI :: "embedded_files \<Rightarrow> Responder \<Rightarrow> exchange \<Rightarrow> run" where
  "DocumentationHandler_OpenAPI files r x = Done (Document r (openAPIDocument files) x)"

definition DocumentationHandler_Reference :: "embedded_files \<Rightarrow> Responder \<Rightarrow> exchange \<Rightarrow> run" where
  "DocumentationHandler_Reference files r x =
     Done (Asset r ContentTypeHTML (documentationHTML files)
            (set_header HeaderCSP contentSecurityPolicy x))"

definition DocumentationHandler_ReferenceScript :: "embedded_files \<Rightarrow> Responder \<Rightarrow> exchange \<Rightarrow> run" where
  "DocumentationHandler_ReferenceScript files r x =
     Done (Asset r ContentTypeJavaScript (documentationScript files) x)"

definition DocumentationHandler_ScalarScript :: "embedded_files \<Rightarrow> Responder \<Rightarrow> exchange \<Rightarrow> run" where
  "DocumentationHandler_ScalarScript files r x =
     Done (Asset r ContentTypeJavaScript (scalarScript files) x)"

end
