(* ===== verification/Responses.thy ===== *)
theory Responses
  imports Handlers
begin

text \<open>
  What the responder leaves on the wire. The lemmas describe, for an exchange nothing was written to,
  the status, the headers and the body after each responder method, and show that every method keeps
  the bounds of the buffer pool and writes one status line only.
\<close>

section \<open>Views of an exchange\<close>

abbreviation raw_writer :: "exchange \<Rightarrow> ResponseWriter" where
  "raw_writer x \<equiv> SW_writer (Ex_writer x)"

definition fresh :: "exchange \<Rightarrow> bool" where
  "fresh x \<longleftrightarrow> \<not> SW_wroteHeader (Ex_writer x) \<and> SW_status (Ex_writer x) = 200
     \<and> RW_sent (raw_writer x) = None \<and> RW_body (raw_writer x) = []"

text \<open>The wrapper agrees with the writer below it on whether and with what status it has replied.\<close>

definition status_writer_ok :: "statusWriter \<Rightarrow> bool" where
  "status_writer_ok w \<longleftrightarrow>
     (case RW_sent (SW_writer w) of
        None \<Rightarrow> \<not> SW_wroteHeader w \<and> SW_status w = 200 \<and> RW_body (SW_writer w) = []
      | Some (status, h) \<Rightarrow> SW_wroteHeader w \<and> SW_status w = status)"

definition writer_ok :: "exchange \<Rightarrow> bool" where
  "writer_ok x \<longleftrightarrow> status_writer_ok (Ex_writer x)"

lemmas writer_defs =
  statusWriter_WriteHeader_def statusWriter_Write_def RW_WriteHeader_def RW_Write_def
  SW_SetHeader_def

lemma status_writer_ok_SetHeader: "status_writer_ok w \<Longrightarrow> status_writer_ok (SW_SetHeader k v w)"
  by (auto simp: status_writer_ok_def SW_SetHeader_def split: option.splits)

lemma status_writer_ok_WriteHeader:
  "status_writer_ok w \<Longrightarrow> status_writer_ok (statusWriter_WriteHeader status w)"
  by (auto simp: status_writer_ok_def writer_defs split: option.splits)

lemma status_writer_ok_Write: "status_writer_ok w \<Longrightarrow> status_writer_ok (statusWriter_Write d w)"
  by (auto simp: status_writer_ok_def writer_defs Let_def split: option.splits)

lemmas status_writer_steps =
  status_writer_ok_SetHeader status_writer_ok_WriteHeader status_writer_ok_Write

lemma Ex_writer_steps [simp]:
  "Ex_writer (set_header k v x) = SW_SetHeader k v (Ex_writer x)"
  "Ex_writer (log_add e x) = Ex_writer x"
  "Ex_writer (write_status status x) = statusWriter_WriteHeader status (Ex_writer x)"
  "Ex_writer (write_body m d x) = statusWriter_Write d (Ex_writer x)"
  by (simp_all add: set_header_def log_add_def write_status_def write_body_def Let_def)

lemma SW_SetHeader_fields [simp]:
  "RW_header (SW_writer (SW_SetHeader k v w)) = (RW_header (SW_writer w))(k \<mapsto> v)"
  "RW_sent (SW_writer (SW_SetHeader k v w)) = RW_sent (SW_writer w)"
  "RW_body (SW_writer (SW_SetHeader k v w)) = RW_body (SW_writer w)"
  "RW_broken (SW_writer (SW_SetHeader k v w)) = RW_broken (SW_writer w)"
  "SW_status (SW_SetHeader k v w) = SW_status w"
  "SW_wroteHeader (SW_SetHeader k v w) = SW_wroteHeader w"
  by (simp_all add: SW_SetHeader_def)

lemma Ex_pool_steps [simp]:
  "Ex_pool (set_header k v x) = Ex_pool x"
  "Ex_pool (log_add e x) = Ex_pool x"
  "Ex_pool (write_status status x) = Ex_pool x"
  "Ex_pool (write_body m d x) = Ex_pool x"
  by (simp_all add: set_header_def log_add_def write_status_def write_body_def Let_def)

lemma fresh_writer_ok: "fresh x \<Longrightarrow> writer_ok x"
  by (simp add: fresh_def writer_ok_def status_writer_ok_def)

lemma writer_ok_fresh: "writer_ok x \<Longrightarrow> \<not> SW_wroteHeader (Ex_writer x) \<Longrightarrow> fresh x"
  by (auto simp: fresh_def writer_ok_def status_writer_ok_def split: option.splits)

definition replied :: "int \<Rightarrow> Header \<Rightarrow> string \<Rightarrow> exchange \<Rightarrow> bool" where
  "replied status h body x \<longleftrightarrow>
     SW_wroteHeader (Ex_writer x) \<and> SW_status (Ex_writer x) = status
     \<and> RW_sent (raw_writer x) = Some (status, h)
     \<and> RW_body (raw_writer x) = (if RW_broken (raw_writer x) then [] else body)"

lemma replied_writer_ok: "replied status h body x \<Longrightarrow> writer_ok x"
  by (simp add: replied_def writer_ok_def status_writer_ok_def)

definition json_headers :: "Responder \<Rightarrow> int \<Rightarrow> nat \<Rightarrow> Header \<Rightarrow> Header" where
  "json_headers r status n h =
     (let h1 = (if Header_Get h HeaderContentType = []
                then h(HeaderContentType \<mapsto> ContentTypeJSON) else h);
          h2 = (if 200 \<le> status \<and> status < 300 \<and> Rsp_cacheControl r \<noteq> []
                then h1(HeaderCacheControl \<mapsto> Rsp_cacheControl r) else h1)
      in h2(HeaderContentLength \<mapsto> FormatInt (int n)))"

definition asset_headers :: "Responder \<Rightarrow> string \<Rightarrow> nat \<Rightarrow> Header \<Rightarrow> Header" where
  "asset_headers r ct n h =
     (let h1 = h(HeaderContentType \<mapsto> ct, HeaderContentLength \<mapsto> FormatInt (int n))
      in if Rsp_cacheControl r \<noteq> [] then h1(HeaderCacheControl \<mapsto> Rsp_cacheControl r) else h1)"

lemma header_names_distinct [simp]:
  "HeaderContentType \<noteq> HeaderContentLength" "HeaderContentType \<noteq> HeaderCacheControl"
  "HeaderContentLength \<noteq> HeaderCacheControl" "HeaderContentLength \<noteq> HeaderContentType"
  "HeaderCacheControl \<noteq> HeaderContentType" "HeaderCacheControl \<noteq> HeaderContentLength"
  by (simp_all add: header_name_defs)

lemma Header_Get_upd [simp]: "Header_Get (h(k \<mapsto> v)) k' = (if k' = k then v else Header_Get h k')"
  by (simp add: Header_Get_def)

section \<open>Responder methods on a fresh exchange\<close>

lemma reply_fields:
  assumes "\<not> SW_wroteHeader w" "RW_sent (SW_writer w) = None" "RW_body (SW_writer w) = []"
  shows "SW_wroteHeader (statusWriter_Write d (statusWriter_WriteHeader status w))"
    "SW_status (statusWriter_Write d (statusWriter_WriteHeader status w)) = status"
    "RW_sent (SW_writer (statusWriter_Write d (statusWriter_WriteHeader status w)))
       = Some (status, RW_header (SW_writer w))"
    "RW_broken (SW_writer (statusWriter_Write d (statusWriter_WriteHeader status w)))
       = RW_broken (SW_writer w)"
    "RW_body (SW_writer (statusWriter_Write d (statusWriter_WriteHeader status w)))
       = (if RW_broken (SW_writer w) then [] else d)"
  using assms by (simp_all add: writer_defs Let_def)

lemma Buf_Data_getBuffer: "getBuffer p = (b, p') \<Longrightarrow> Buf_Data b = []"
  by (auto simp: getBuffer_def split: list.splits)

lemma Ex_writer_writeJSON:
  assumes "fresh x"
  shows "\<exists>w. Ex_writer (writeJSON r status v x) =
      statusWriter_Write (Encode v) (statusWriter_WriteHeader status w)
    \<and> \<not> SW_wroteHeader w \<and> RW_sent (SW_writer w) = None \<and> RW_body (SW_writer w) = []
    \<and> RW_header (SW_writer w) = json_headers r status (length (Encode v)) (RW_header (raw_writer x))"
proof -
  obtain b p where gp: "getBuffer (Ex_pool x) = (b, p)" by fastforce
  then have b: "Buf_Data b = []" by (rule Buf_Data_getBuffer)
  show ?thesis
    using assms unfolding fresh_def writeJSON_def gp
    by (intro exI conjI) (auto simp: b Let_def json_headers_def split: if_splits)
qed

lemma writeJSON_replied:
  assumes "fresh x"
  shows "replied status (json_headers r status (length (Encode v)) (RW_header (raw_writer x)))
           (Encode v) (writeJSON r status v x)"
  using Ex_writer_writeJSON [OF assms, of r status v] by (auto simp: replied_def reply_fields)

lemma Problem_replied:
  assumes "fresh x"
  shows "\<exists>h v. replied status h (Encode v) (Problem r path status title detail x)
     \<and> h HeaderContentType = Some ContentTypeProblemJSON
     \<and> v = json_problemDocument \<lparr>Problem_Type = ProblemTypeAboutBlank, Problem_Title = title,
          Problem_Status = status, Problem_Detail = detail, Problem_Instance = path\<rparr>
     \<and> h HeaderContentLength = Some (FormatInt (int (length (Encode v))))
     \<and> (\<not> (200 \<le> status \<and> status < 300) \<longrightarrow>
          h HeaderCacheControl = RW_header (raw_writer x) HeaderCacheControl)"
proof -
  let ?v = "json_problemDocument \<lparr>Problem_Type = ProblemTypeAboutBlank, Problem_Title = title,
          Problem_Status = status, Problem_Detail = detail, Problem_Instance = path\<rparr>"
  let ?x = "set_header HeaderContentType ContentTypeProblemJSON x"
  have fresh: "fresh ?x"
    using assms by (simp add: fresh_def)
  let ?h = "json_headers r status (length (Encode ?v)) (RW_header (raw_writer ?x))"
  have "ContentTypeProblemJSON \<noteq> []" by (simp add: content_type_defs)
  then have "?h HeaderContentType = Some ContentTypeProblemJSON
     \<and> ?h HeaderContentLength = Some (FormatInt (int (length (Encode ?v))))
     \<and> (\<not> (200 \<le> status \<and> status < 300) \<longrightarrow>
          ?h HeaderCacheControl = RW_header (raw_writer x) HeaderCacheControl)"
    by (simp add: json_headers_def Let_def)
  moreover have "replied status ?h (Encode ?v) (Problem r path status title detail x)"
    unfolding Problem_def by (rule writeJSON_replied [OF fresh])
  ultimately show ?thesis by blast
qed

lemma Asset_replied:
  assumes "fresh x"
  shows "replied 200 (asset_headers r ct (length doc) (RW_header (raw_writer x))) doc (Asset r ct doc x)"
  using assms
  by (simp add: replied_def fresh_def Asset_def asset_headers_def Let_def reply_fields)

section \<open>Responder methods on any exchange\<close>

text \<open>A step of an exchange that a handler may take: it keeps the writer and the pool in order.\<close>

definition exchange_ok :: "exchange \<Rightarrow> bool" where
  "exchange_ok x \<longleftrightarrow> writer_ok x \<and> pool_ok (Ex_pool x)"

lemma writer_ok_writeJSON: "writer_ok x \<Longrightarrow> writer_ok (writeJSON r status v x)"
  by (simp add: writer_ok_def writeJSON_def Let_def status_writer_steps split: prod.splits)

lemma pool_ok_writeJSON:
  assumes "pool_ok (Ex_pool x)"
  shows "pool_ok (Ex_pool (writeJSON r status v x))"
  using pool_ok_getBuffer [OF assms]
  by (auto simp: writeJSON_def Let_def pool_ok_putBuffer split: prod.splits)

lemma exchange_ok_writeJSON: "exchange_ok x \<Longrightarrow> exchange_ok (writeJSON r status v x)"
  by (simp add: exchange_ok_def writer_ok_writeJSON pool_ok_writeJSON)

lemma exchange_ok_set_header: "exchange_ok x \<Longrightarrow> exchange_ok (set_header k v x)"
  by (simp add: exchange_ok_def writer_ok_def status_writer_steps)

lemma exchange_ok_log_add [simp]: "exchange_ok (log_add e x) \<longleftrightarrow> exchange_ok x"
  by (simp add: exchange_ok_def writer_ok_def)

lemma exchange_ok_Problem: "exchange_ok x \<Longrightarrow> exchange_ok (Problem r path status title detail x)"
  by (simp add: Problem_def exchange_ok_writeJSON exchange_ok_set_header)

lemma exchange_ok_BadRequest: "exchange_ok x \<Longrightarrow> exchange_ok (BadRequest r path e x)"
  by (simp add: BadRequest_def exchange_ok_Problem)

lemma exchange_ok_RepositoryError: "exchange_ok x \<Longrightarrow> exchange_ok (RepositoryError r path e x)"
  by (simp add: RepositoryError_def exchange_ok_Problem)

lemma exchange_ok_Asset: "exchange_ok x \<Longrightarrow> exchange_ok (Asset r ct doc x)"
  by (simp add: exchange_ok_def writer_ok_def Asset_def Let_def status_writer_steps)

lemma exchange_ok_repository_reply:
  "exchange_ok x \<Longrightarrow> exchange_ok (run_state (repository_reply r req f res x))"
  by (simp add: repository_reply_def exchange_ok_writeJSON exchange_ok_RepositoryError
      split: outcome.splits)

lemma exchange_ok_bad_request: "exchange_ok x \<Longrightarrow> exchange_ok (run_state (bad_request r req e x))"
  by (simp add: bad_request_def exchange_ok_BadRequest)

end
