(* ===== verification/Metrics.thy ===== *)
theory Metrics
  imports Go_Strconv
begin

text \<open>
  The request metrics of \<open>internal/observability/metrics.go\<close>: a gauge of the requests in flight per
  route, a counter and a histogram per route, method and status. The Prometheus vectors are maps
  from label values; the histogram keeps its observations. Disabled metrics record nothing.
\<close>

type_synonym labels = "string \<times> string \<times> string"

record Metrics =
  M_enabled :: bool
  M_requests :: "labels \<Rightarrow> nat"
  M_duration :: "labels \<Rightarrow> int list"
  M_inFlight :: "string \<Rightarrow> int"

definition NewMetrics :: "bool \<Rightarrow> Metrics" where
  "NewMetrics enabled =
     \<lparr>M_enabled = enabled, M_requests = (\<lambda>_. 0), M_duration = (\<lambda>_. []), M_inFlight = (\<lambda>_. 0)\<rparr>"

definition RequestStarted :: "string \<Rightarrow> Metrics \<Rightarrow> Metrics" where
  "RequestStarted route m =
     (if M_enabled m then m\<lparr>M_inFlight := (M_inFlight m)(route := M_inFlight m route + 1)\<rparr> else m)"

definition RequestFinished :: "string \<Rightarrow> string \<Rightarrow> int \<Rightarrow> int \<Rightarrow> Metrics \<Rightarrow> Metrics" where
  "RequestFinished route method status elapsed m =
     (if \<not> M_enabled m then m
      else let m1 = m\<lparr>M_inFlight := (M_inFlight m)(route := M_inFlight m route - 1)\<rparr>;
               statusText = FormatInt status;
               key = (route, method, statusText);
               m2 = m1\<lparr>M_requests := (M_requests m1)(key := Suc (M_requests m1 key))\<rparr>
           in m2\<lparr>M_duration := (M_duration m2)(key := M_duration m2 key @ [elapsed])\<rparr>)"

section \<open>Interleaved requests\<close>

text \<open>
  Requests run concurrently; each update of a vector is atomic, so an execution is an interleaving
  of start and finish events. \<open>live\<close> is the multiset of running requests as a list.
\<close>

datatype metric_event =
    Started nat string
  | Finished nat string string int int

record metric_run =
  MR_metrics :: Metrics
  MR_live :: "(nat \<times> string) list"
  MR_done :: nat

inductive metric_step :: "metric_run \<Rightarrow> metric_event \<Rightarrow> metric_run \<Rightarrow> bool" where
  start: "i \<notin> fst ` set (MR_live s) \<Longrightarrow>
    metric_step s (Started i route)
      (s\<lparr>MR_metrics := RequestStarted route (MR_metrics s), MR_live := (i, route) # MR_live s\<rparr>)"
| finish: "(i, route) \<in> set (MR_live s) \<Longrightarrow>
    metric_step s (Finished i route method status elapsed)
      (s\<lparr>MR_metrics := RequestFinished route method status elapsed (MR_metrics s),
         MR_live := remove1 (i, route) (MR_live s), MR_done := Suc (MR_done s)\<rparr>)"

inductive_cases metric_startE: "metric_step s (Started i route) t"
inductive_cases metric_finishE: "metric_step s (Finished i route method status elapsed) t"

definition metric_init :: metric_run where
  "metric_init = \<lparr>MR_metrics = NewMetrics True, MR_live = [], MR_done = 0\<rparr>"

inductive metric_reach :: "metric_run \<Rightarrow> bool" where
  init: "metric_reach metric_init"
| step: "metric_reach s \<Longrightarrow> metric_step s e t \<Longrightarrow> metric_reach t"

definition live_on :: "string \<Rightarrow> metric_run \<Rightarrow> int" where
  "live_on route s = int (length (filter (\<lambda>p. snd p = route) (MR_live s)))"

definition metric_inv :: "metric_run \<Rightarrow> bool" where
  "metric_inv s \<longleftrightarrow> M_enabled (MR_metrics s) \<and> distinct (map fst (MR_live s))
     \<and> (\<forall>route. M_inFlight (MR_metrics s) route = live_on route s)"

lemma metric_inv_init: "metric_inv metric_init"
  by (simp add: metric_inv_def metric_init_def NewMetrics_def live_on_def)

lemma length_filter_remove1:
  "x \<in> set xs \<Longrightarrow>
   int (length (filter P (remove1 x xs))) = int (length (filter P xs)) - (if P x then 1 else 0)"
  by (induction xs) auto

lemma distinct_map_remove1: "distinct (map f xs) \<Longrightarrow> distinct (map f (remove1 x xs))"
  using set_remove1_subset by (induction xs) (fastforce simp: image_iff)+

lemma metric_step_inv:
  assumes "metric_step s e t" "metric_inv s"
  shows "metric_inv t"
  using assms
proof (induction rule: metric_step.induct)
  case (start i s route)
  then show ?case
    by (auto simp: metric_inv_def RequestStarted_def live_on_def)
next
  case (finish i route s verb code elapsed)
  then show ?case
    by (simp add: metric_inv_def RequestFinished_def live_on_def Let_def length_filter_remove1
        distinct_map_remove1)
qed

lemma metric_reach_inv: "metric_reach s \<Longrightarrow> metric_inv s"
  by (induction rule: metric_reach.induct) (auto intro: metric_inv_init metric_step_inv)

text \<open>The counter of a label set counts the observations of its histogram.\<close>

definition metric_counts :: "Metrics \<Rightarrow> bool" where
  "metric_counts m \<longleftrightarrow> (\<forall>k. M_requests m k = length (M_duration m k))"

lemma metric_step_counts:
  assumes "metric_step s e t" "metric_counts (MR_metrics s)"
  shows "metric_counts (MR_metrics t)"
  using assms
  by (induction rule: metric_step.induct)
    (auto simp: metric_counts_def RequestStarted_def RequestFinished_def Let_def)

lemma metric_reach_counts: "metric_reach s \<Longrightarrow> metric_counts (MR_metrics s)"
proof (induction rule: metric_reach.induct)
  case init
  show ?case by (simp add: metric_init_def NewMetrics_def metric_counts_def)
qed (rule metric_step_counts)

end
