(* ===== verification/Router.thy ===== *)
theory Router
  imports Responses Metrics
begin

text \<open>
  \<open>internal/httpapi/router.go\<close> and the routes of \<open>internal/httpapi/constants.go\<close>: the route table,
  the instrumentation around every handler (metrics, status recording, recovery from a panic, access
  log), the security headers, and dispatch. \<open>net/http\<close>'s \<open>ServeMux\<close> is modelled as far as the
  program uses it: patterns of literal segments, one-segment wildcards and \<open>{$}\<close>, on paths that are
  already clean; a \<open>GET\<close> pattern also serves \<open>HEAD\<close>. The tracer that wraps a handler does not touch
  the response and is left out.
\<close>

section \<open>Routes\<close>

definition RouteArtists :: string where "RouteArtists = ''/artists''"
definition RouteArtist :: string where "RouteArtist = ''/artists/{id}''"
definition RouteArtistRelease :: string where "RouteArtistRelease = ''/artists/{id}/releases''"
definition RouteLabels :: string where "RouteLabels = ''/labels''"
definition RouteLabel :: string where "RouteLabel = ''/labels/{id}''"
definition RouteLabelRelease :: string where "RouteLabelRelease = ''/labels/{id}/releases''"
definition RouteMasters :: string where "RouteMasters = ''/masters''"
definition RouteMaster :: string where "RouteMaster = ''/masters/{id}''"
definition RouteMasterRelease :: string where "RouteMasterRelease = ''/masters/{id}/releases''"
definition RouteReleases :: string where "RouteReleases = ''/releases''"
definition RouteRelease :: string where "RouteRelease = ''/releases/{id}''"
definition RouteReleaseTracks :: string where "RouteReleaseTracks = ''/releases/{id}/tracks''"
definition RouteReleaseIdentifiers :: string where
  "RouteReleaseIdentifiers = ''/releases/{id}/identifiers''"
definition RouteSnapshot :: string where "RouteSnapshot = ''/snapshot''"
definition RouteOpenAPI :: string where "RouteOpenAPI = ''/v3/api-docs''"
definition RouteOpenAPIJSON :: string where "RouteOpenAPIJSON = ''/openapi.json''"
definition RouteDocumentation :: string where "RouteDocumentation = ''/docs''"
definition RouteDocumentationSlash :: string where "RouteDocumentationSlash = ''/docs/{$}''"
definition RouteDocumentationJS :: string where "RouteDocumentationJS = ''/docs/reference.js''"
definition RouteScalarJS :: string where "RouteScalarJS = ''/docs/scalar-1.75.0.js''"
definition RouteVersion :: string where "RouteVersion = ''/version''"

lemmas route_defs =
  RouteArtists_def RouteArtist_def RouteArtistRelease_def RouteLabels_def RouteLabel_def
  RouteLabelRelease_def RouteMasters_def RouteMaster_def RouteMasterRelease_def
  RouteReleases_def RouteRelease_def RouteReleaseTracks_def RouteReleaseIdentifiers_def
  RouteSnapshot_def RouteOpenAPI_def RouteOpenAPIJSON_def RouteDocumentation_def
  RouteDocumentationSlash_def RouteDocumentationJS_def RouteScalarJS_def RouteVersion_def

section \<open>Patterns\<close>

text \<open>A path or a pattern starts with a slash; its segments are what the slashes separate.\<close>

fun split_slash :: "string \<Rightarrow> string list" where
  "split_slash [] = [[]]"
| "split_slash (c # cs) =
     (if c = CHR ''/'' then [] # split_slash cs
      else (case split_slash cs of [] \<Rightarrow> [[c]] | s # ss \<Rightarrow> (c # s) # ss))"

definition segments :: "string \<Rightarrow> string list" where
  "segments path = (case path of [] \<Rightarrow> [] | c # cs \<Rightarrow> split_slash cs)"

text \<open>
  \<open>match_segments\<close> returns the value of the wildcard (empty when the pattern has none). A wildcard
  matches one nonempty segment, \<open>{$}\<close> only the empty last segment.
\<close>

fun match_segments :: "string list \<Rightarrow> string list \<Rightarrow> string option" where
  "match_segments [] [] = Some []"
| "match_segments [p] [s] =
     (if p = ''{$}'' then (if s = [] then Some [] else None)
      else if p = ''{id}'' then (if s = [] then None else Some s)
      else if p = s then Some [] else None)"
| "match_segments (p # ps) (s # ss) =
     (if p = ''{id}'' then (if s = [] then None else map_option (\<lambda>_. s) (match_segments ps ss))
      else if p = s then match_segments ps ss else None)"
| "match_segments _ _ = None"

definition match_route :: "string \<Rightarrow> string \<Rightarrow> string option" where
  "match_route route path = match_segments (segments route) (segments path)"

section \<open>Instrumentation\<close>

record Router =
  R_accessLog :: bool
  R_responder :: Responder
  R_repository :: Repository
  R_files :: embedded_files
  R_version :: string
  R_formatTime :: "go_time \<Rightarrow> string"

record server =
  Srv_pool :: "nat list"
  Srv_log :: "log_entry list"
  Srv_metrics :: Metrics

type_synonym handler = "Request \<Rightarrow> exchange \<Rightarrow> run"

definition logMessagePanic :: string where "logMessagePanic = ''panic in HTTP handler''"
definition logMessageRequest :: string where "logMessageRequest = ''HTTP request''"

text \<open>The deferred function of \<open>wrap\<close>, on a panic: log it, and answer 500 unless a status went out.\<close>

definition recover_panic :: "Responder \<Rightarrow> string \<Rightarrow> Request \<Rightarrow> run \<Rightarrow> exchange" where
  "recover_panic r route req res =
     (case res of
        Done x \<Rightarrow> x
      | Panicked m x \<Rightarrow>
          (let x1 = log_add (LevelError, logMessagePanic, [(''route'', route), (''panic'', m)]) x
           in if \<not> SW_wroteHeader (Ex_writer x1)
              then Problem r (Req_Path req) 500 ProblemTitleInternal ProblemDetailInternal x1
              else x1))"

definition wrap ::
  "Router \<Rightarrow> string \<Rightarrow> handler \<Rightarrow> int \<Rightarrow> Request \<Rightarrow> ResponseWriter \<Rightarrow> server \<Rightarrow> ResponseWriter \<times> server" where
  "wrap rt route handler elapsed req w srv =
     (let m1 = RequestStarted route (Srv_metrics srv);
          x0 = \<lparr>Ex_writer = \<lparr>SW_writer = w, SW_status = 200, SW_wroteHeader = False\<rparr>,
                Ex_pool = Srv_pool srv, Ex_log = Srv_log srv\<rparr>;
          x1 = recover_panic (R_responder rt) route req (handler req x0);
          status = SW_status (Ex_writer x1);
          m2 = RequestFinished route (Req_Method req) status elapsed m1;
          x2 = (if R_accessLog rt
                then log_add (LevelInfo, logMessageRequest,
                       [(''method'', Req_Method req), (''route'', route),
                        (''status'', FormatInt status), (''duration'', FormatInt elapsed)]) x1
                else x1)
      in (SW_writer (Ex_writer x2),
          \<lparr>Srv_pool = Ex_pool x2, Srv_log = Ex_log x2, Srv_metrics = m2\<rparr>))"

definition version_handler :: "Router \<Rightarrow> handler" where
  "version_handler rt req x =
     Done (writeJSON (R_responder rt) 200
             (json_versionDocument \<lparr>Version_Version = R_version rt\<rparr>) x)"

text \<open>\<open>Handler\<close>: the table of all routes, in the order they are registered.\<close>

definition route_table :: "Router \<Rightarrow> (string \<times> handler) list" where
  "route_table rt =
     (let repo = R_repository rt; r = R_responder rt; files = R_files rt in
      [(RouteArtists, ArtistHandler_Search repo r),
       (RouteArtist, ArtistHandler_Get repo r),
       (RouteArtistRelease, ArtistHandler_Releases repo r),
       (RouteLabels, LabelHandler_Search repo r),
       (RouteLabel, LabelHandler_Get repo r),
       (RouteLabelRelease, LabelHandler_Releases repo r),
       (RouteMasters, MasterHandler_Search repo r),
       (RouteMaster, MasterHandler_Get repo r),
       (RouteMasterRelease, MasterHandler_Releases repo r),
       (RouteReleases, ReleaseHandler_Search repo r),
       (RouteRelease, ReleaseHandler_Get repo r),
       (RouteReleaseTracks, ReleaseHandler_Tracks repo r),
       (RouteReleaseIdentifiers, ReleaseHandler_Identifiers repo r),
       (RouteSnapshot, SnapshotHandler_Get (R_formatTime rt) repo r),
       (RouteOpenAPI, \<lambda>_. DocumentationHandler_OpenAPI files r),
       (RouteOpenAPIJSON, \<lambda>_. DocumentationHandler_OpenAPI files r),
       (RouteDocumentation, \<lambda>_. DocumentationHandler_Reference files r),
       (RouteDocumentationSlash, \<lambda>_. DocumentationHandler_Reference files r),
       (RouteDocumentationJS, \<lambda>_. DocumentationHandler_ReferenceScript files r),
       (RouteScalarJS, \<lambda>_. DocumentationHandler_ScalarScript files r),
       (RouteVersion, version_handler rt)])"

section \<open>Dispatch\<close>

text \<open>\<open>ServeMux\<close>: the routes whose pattern matches the path (at most one, as shown below).\<close>

definition matching_routes :: "(string \<times> handler) list \<Rightarrow> string \<Rightarrow> (string \<times> handler \<times> string) list" where
  "matching_routes table path =
     List.map_filter (\<lambda>(route, h). map_option (\<lambda>v. (route, h, v)) (match_route route path)) table"

definition method_served :: "string \<Rightarrow> bool" where
  "method_served m \<longleftrightarrow> m = ''GET'' \<or> m = ''HEAD''"

text \<open>The plain-text errors of \<open>http.Error\<close>, which \<open>ServeMux\<close> uses for 404 and 405.\<close>

definition http_Error :: "string \<Rightarrow> int \<Rightarrow> ResponseWriter \<Rightarrow> ResponseWriter" where
  "http_Error message status w =
     (let h = (RW_header w)(HeaderContentLength := None, HeaderContentType \<mapsto> ''text/plain; charset=utf-8'',
                HeaderTypeOptions \<mapsto> ''nosniff'')
      in RW_Write (message @ [CHR 0x0A]) (RW_WriteHeader status (w\<lparr>RW_header := h\<rparr>)))"

definition serve_mux ::
  "Router \<Rightarrow> int \<Rightarrow> Request \<Rightarrow> ResponseWriter \<Rightarrow> server \<Rightarrow> ResponseWriter \<times> server" where
  "serve_mux rt elapsed req w srv =
     (case matching_routes (route_table rt) (Req_Path req) of
        [] \<Rightarrow> (http_Error ''404 page not found'' 404 w, srv)
      | (route, handler, v) # _ \<Rightarrow>
          if method_served (Req_Method req)
          then wrap rt route handler elapsed (req\<lparr>Req_PathID := v\<rparr>) w srv
          else (http_Error ''Method Not Allowed'' 405
                  (w\<lparr>RW_header := (RW_header w)(''Allow'' \<mapsto> ''GET, HEAD'')\<rparr>), srv))"

definition securityHeaders :: "ResponseWriter \<Rightarrow> ResponseWriter" where
  "securityHeaders w =
     w\<lparr>RW_header := (RW_header w)(HeaderTypeOptions \<mapsto> ''nosniff'',
        HeaderReferrerPolicy \<mapsto> ''no-referrer'', HeaderFrameOptions \<mapsto> ''DENY'')\<rparr>"

text \<open>
  The public handler on a new connection's response writer. When it returns without a status, the
  server sends 200 with an empty body.
\<close>

definition new_writer :: "bool \<Rightarrow> ResponseWriter" where
  "new_writer broken =
     \<lparr>RW_header = (\<lambda>_. None), RW_sent = None, RW_body = [], RW_broken = broken\<rparr>"

definition serve :: "Router \<Rightarrow> int \<Rightarrow> Request \<Rightarrow> bool \<Rightarrow> server \<Rightarrow> ResponseWriter \<times> server" where
  "serve rt elapsed req broken srv =
     (let (w, srv') = serve_mux rt elapsed req (securityHeaders (new_writer broken)) srv
      in (RW_WriteHeader 200 w, srv'))"

end
