(* ===== verification/Serving.thy ===== *)
theory Serving
  imports Router
begin

text \<open>
  What the router relies on in a handler, as the locale \<open>served_handler\<close>: a run keeps the response
  writer and the buffer pool in order and leaves the security headers alone.  Every handler of the
  route table provides it, so it holds of every response of the server.
\<close>

section \<open>Security headers\<close>

definition secured_header :: "Header \<Rightarrow> bool" where
  "secured_header h \<longleftrightarrow>
     h HeaderTypeOptions = Some ''nosniff'' \<and> h HeaderReferrerPolicy = Some ''no-referrer'' \<and>
     h HeaderFrameOptions = Some ''DENY''"

definition secured :: "ResponseWriter \<Rightarrow> bool" where
  "secured w \<longleftrightarrow> secured_header (RW_header w) \<and>
     (case RW_sent w of None \<Rightarrow> True | Some (status, h) \<Rightarrow> secured_header h)"

definition response_header_names :: "string list" where
  "response_header_names = [HeaderContentType, HeaderContentLength, HeaderCacheControl, HeaderCSP]"

lemma secured_header_upd:
  "k \<in> set response_header_names \<Longrightarrow> secured_header h \<Longrightarrow> secured_header (h(k \<mapsto> v))"
  by (auto simp: secured_header_def response_header_names_def header_name_defs)

lemma secured_SetHeader:
  "k \<in> set response_header_names \<Longrightarrow> secured (SW_writer w) \<Longrightarrow> secured (SW_writer (SW_SetHeader k v w))"
  by (simp add: secured_def secured_header_upd)

lemma secured_RW: "secured w \<Longrightarrow> secured (RW_WriteHeader status w)" "secured w \<Longrightarrow> secured (RW_Write d w)"
  by (auto simp: secured_def RW_WriteHeader_def RW_Write_def Let_def split: option.splits)

lemma secured_WriteHeader: "secured (SW_writer w) \<Longrightarrow> secured (SW_writer (statusWriter_WriteHeader status w))"
  by (simp add: statusWriter_WriteHeader_def secured_RW)

lemma secured_Write: "secured (SW_writer w) \<Longrightarrow> secured (SW_writer (statusWriter_Write d w))"
  by (simp add: statusWriter_Write_def Let_def secured_RW secured_WriteHeader)

text \<open>The exchanges the server hands around.\<close>

definition exchange_served :: "exchange \<Rightarrow> bool" where
  "exchange_served x \<longleftrightarrow> exchange_ok x \<and> secured (raw_writer x)"

lemma response_headers_known [simp]:
  "HeaderContentType \<in> set response_header_names" "HeaderContentLength \<in> set response_header_names"
  "HeaderCacheControl \<in> set response_header_names" "HeaderCSP \<in> set response_header_names"
  by (simp_all add: response_header_names_def)

lemma served_set_header:
  "k \<in> set response_header_names \<Longrightarrow> exchange_served x \<Longrightarrow> exchange_served (set_header k v x)"
  by (simp add: exchange_served_def exchange_ok_set_header secured_SetHeader)

lemma served_log_add [simp]: "exchange_served (log_add e x) \<longleftrightarrow> exchange_served x"
  by (simp add: exchange_served_def)

lemma secured_writeJSON: "secured (raw_writer x) \<Longrightarrow> secured (raw_writer (writeJSON r status v x))"
  by (simp add: writeJSON_def Let_def secured_Write secured_WriteHeader secured_SetHeader
      split: prod.splits)

lemma served_writeJSON: "exchange_served x \<Longrightarrow> exchange_served (writeJSON r status v x)"
  by (simp add: exchange_served_def exchange_ok_writeJSON secured_writeJSON)

lemma served_Problem: "exchange_served x \<Longrightarrow> exchange_served (Problem r path status title detail x)"
  by (simp add: Problem_def served_writeJSON served_set_header)

lemma served_BadRequest: "exchange_served x \<Longrightarrow> exchange_served (BadRequest r path e x)"
  by (simp add: BadRequest_def served_Problem)

lemma served_RepositoryError: "exchange_served x \<Longrightarrow> exchange_served (RepositoryError r path e x)"
  by (simp add: RepositoryError_def served_Problem)

lemma served_Asset: "exchange_served x \<Longrightarrow> exchange_served (Asset r ct doc x)"
  by (simp add: exchange_served_def exchange_ok_Asset)
    (simp add: Asset_def Let_def secured_Write secured_WriteHeader secured_SetHeader)

lemma served_bad_request: "exchange_served x \<Longrightarrow> exchange_served (run_state (bad_request r req e x))"
  by (simp add: bad_request_def served_BadRequest)

lemma served_repository_reply:
  "exchange_served x \<Longrightarrow> exchange_served (run_state (repository_reply r req f res x))"
  by (simp add: repository_reply_def served_writeJSON served_RepositoryError split: outcome.splits)

lemmas served_replies = served_bad_request served_repository_reply

section \<open>The contract of a handler\<close>

locale served_handler =
  fixes h :: handler
  assumes run_served: "exchange_served x \<Longrightarrow> exchange_served (run_state (h req x))"
begin

lemma recovered_served: "exchange_served x \<Longrightarrow> exchange_served (recover_panic r route req (h req x))"
  using run_served[of x req]
  by (auto simp: recover_panic_def Let_def served_Problem split: run.splits)

lemma wrap_served:
  assumes "secured w" "RW_sent w = None" "RW_body w = []" "pool_ok (Srv_pool srv)"
    and "wrap rt route h elapsed req w srv = (w', srv')"
  shows "secured w' \<and> pool_ok (Srv_pool srv')"
proof -
  let ?x = "\<lparr>Ex_writer = \<lparr>SW_writer = w, SW_status = 200, SW_wroteHeader = False\<rparr>,
             Ex_pool = Srv_pool srv, Ex_log = Srv_log srv\<rparr>"
  have "exchange_served ?x"
    using assms by (simp add: exchange_served_def exchange_ok_def writer_ok_def status_writer_ok_def)
  from recovered_served[OF this, of "R_responder rt" route req] assms(5) show ?thesis
    by (auto simp: wrap_def Let_def exchange_served_def exchange_ok_def split: if_splits)
qed

end

text \<open>The handlers of the route table.\<close>

interpretation artists: served_handler "ArtistHandler_Search repo r" for repo r
  by unfold_locales (simp add: ArtistHandler_Search_def served_replies split: sum.splits)

interpretation artist: served_handler "ArtistHandler_Get repo r" for repo r
  by unfold_locales (simp add: ArtistHandler_Get_def served_replies split: sum.splits)

interpretation artist_releases: served_handler "ArtistHandler_Releases repo r" for repo r
  by unfold_locales (simp add: ArtistHandler_Releases_def served_replies split: sum.splits)

interpretation labels: served_handler "LabelHandler_Search repo r" for repo r
  by unfold_locales (simp add: LabelHandler_Search_def served_replies split: sum.splits)

interpretation label: served_handler "LabelHandler_Get repo r" for repo r
  by unfold_locales (simp add: LabelHandler_Get_def served_replies split: sum.splits)

interpretation label_releases: served_handler "LabelHandler_Releases repo r" for repo r
  by unfold_locales (simp add: LabelHandler_Releases_def served_replies split: sum.splits)

interpretation masters: served_handler "MasterHandler_Search repo r" for repo r
  by unfold_locales (simp add: MasterHandler_Search_def served_replies split: sum.splits)

interpretation master: served_handler "MasterHandler_Get repo r" for repo r
  by unfold_locales (simp add: MasterHandler_Get_def served_replies split: sum.splits)

interpretation master_releases: served_handler "MasterHandler_Releases repo r" for repo r
  by unfold_locales (simp add: MasterHandler_Releases_def served_replies split: sum.splits)

lemma served_Filtered:
  "exchange_served x \<Longrightarrow> exchange_served (run_state (ReleaseHandler_Filtered repo r req page x))"
  by (simp add: ReleaseHandler_Filtered_def served_replies split: sum.splits)

interpretation releases: served_handler "ReleaseHandler_Search repo r" for repo r
  by unfold_locales
    (simp add: ReleaseHandler_Search_def served_replies served_Filtered split: sum.splits releaseLookup.splits)

interpretation release: served_handler "ReleaseHandler_Get repo r" for repo r
  by unfold_locales (simp add: ReleaseHandler_Get_def served_replies split: sum.splits)

interpretation tracks: served_handler "ReleaseHandler_Tracks repo r" for repo r
  by unfold_locales (simp add: ReleaseHandler_Tracks_def served_replies split: sum.splits prod.splits)

interpretation identifiers: served_handler "ReleaseHandler_Identifiers repo r" for repo r
  by unfold_locales (simp add: ReleaseHandler_Identifiers_def served_replies split: sum.splits prod.splits)

interpretation snapshot: served_handler "SnapshotHandler_Get fmt repo r" for fmt repo r
  by unfold_locales (simp add: SnapshotHandler_Get_def served_replies)

interpretation openapi: served_handler "\<lambda>_. DocumentationHandler_OpenAPI files r" for files r
  by unfold_locales (simp add: DocumentationHandler_OpenAPI_def Document_def served_Asset)

interpretation reference_page: served_handler "\<lambda>_. DocumentationHandler_Reference files r" for files r
  by unfold_locales (simp add: DocumentationHandler_Reference_def served_Asset served_set_header)

interpretation reference_script: served_handler "\<lambda>_. DocumentationHandler_ReferenceScript files r" for files r
  by unfold_locales (simp add: DocumentationHandler_ReferenceScript_def served_Asset)

interpretation scalar_script: served_handler "\<lambda>_. DocumentationHandler_ScalarScript files r" for files r
  by unfold_locales (simp add: DocumentationHandler_ScalarScript_def served_Asset)

interpretation version: served_handler "version_handler rt" for rt
  by unfold_locales (simp add: version_handler_def served_writeJSON)

lemmas served_handlers =
  artists.served_handler_axioms artist.served_handler_axioms artist_releases.served_handler_axioms
  labels.served_handler_axioms label.served_handler_axioms label_releases.served_handler_axioms
  masters.served_handler_axioms master.served_handler_axioms master_releases.served_handler_axioms
  releases.served_handler_axioms release.served_handler_axioms tracks.served_handler_axioms
  identifiers.served_handler_axioms snapshot.served_handler_axioms openapi.served_handler_axioms
  reference_page.served_handler_axioms reference_script.served_handler_axioms
  scalar_script.served_handler_axioms version.served_handler_axioms

lemma route_table_served: "(route, h) \<in> set (route_table rt) \<Longrightarrow> served_handler h"
  by (auto simp: route_table_def Let_def intro: served_handlers)

section \<open>Dispatch\<close>

lemma matching_routes_sound:
  "(route, h, v) \<in> set (matching_routes table path) \<Longrightarrow>
    (route, h) \<in> set table \<and> match_route route path = Some v"
  by (auto simp: matching_routes_def List.map_filter_def split: option.splits)

lemma http_Error_secured: "secured w \<Longrightarrow> secured (http_Error message status w)"
  unfolding http_Error_def Let_def
  by (intro secured_RW) (auto simp: secured_def secured_header_def header_name_defs split: option.splits)

text \<open>Every response of the server carries the security headers, and the pool stays bounded.\<close>

lemma serve_mux_served:
  assumes "secured w" "RW_sent w = None" "RW_body w = []" "pool_ok (Srv_pool srv)"
    and "serve_mux rt elapsed req w srv = (w', srv')"
  shows "secured w' \<and> pool_ok (Srv_pool srv')"
proof (cases "matching_routes (route_table rt) (Req_Path req)")
  case Nil
  with assms show ?thesis by (auto simp: serve_mux_def http_Error_secured)
next
  case (Cons m ms)
  obtain route h v where m: "m = (route, h, v)" by (cases m)
  then have "served_handler h"
    using Cons matching_routes_sound[of route h v "route_table rt" "Req_Path req"] route_table_served by auto
  then show ?thesis
    using assms Cons m served_handler.wrap_served[of h w srv rt route elapsed "req\<lparr>Req_PathID := v\<rparr>"]
    by (auto simp: serve_mux_def split: if_splits intro!: http_Error_secured)
      (auto simp: secured_def secured_header_def header_name_defs)
qed

end
