(* ===== verification/Api_Properties.thy ===== *)
theory Api_Properties
  imports Serving Example_Catalog
begin

text \<open>
  The theorems about the HTTP side of the API: what reaches a client, whatever the request and
  whatever the repository answers.
\<close>

section \<open>A router for the witnesses\<close>

definition example_files :: embedded_files where
  "example_files = \<lparr>openAPIDocument = ''{}'', documentationHTML = ''<html>'', documentationScript = ''js'',
     scalarScript = ''js''\<rparr>"

definition example_responder :: Responder where
  "example_responder = \<lparr>Rsp_cacheControl = ''public'', Rsp_grow = max\<rparr>"

definition example_router :: Router where
  "example_router = \<lparr>R_accessLog = False, R_responder = example_responder,
     R_repository = store_repository example_store, R_files = example_files, R_version = ''dev'',
     R_formatTime = (\<lambda>_. '''')\<rparr>"

definition example_server :: server where
  "example_server = \<lparr>Srv_pool = [], Srv_log = [], Srv_metrics = NewMetrics True\<rparr>"

definition get :: "string \<Rightarrow> Values \<Rightarrow> Request" where
  "get path query = \<lparr>Req_Method = ''GET'', Req_Path = path, Req_PathID = [], Req_Query = query\<rparr>"

section \<open>Every response\<close>

text \<open>
  C3. Whatever the request and the repository do (answer, fail, panic, match no route), the response
  has exactly one status line, carries the three security headers, and leaves at most 16 buffers of
  at most 256 KiB in the pool.
\<close>

theorem every_response_secured:
  assumes "pool_ok (Srv_pool srv)" and "serve rt elapsed req broken srv = (w, srv')"
  shows "(\<exists>status h. RW_sent w = Some (status, h) \<and> secured_header h) \<and>
    pool_ok (Srv_pool srv') \<and>
    sum_list (Srv_pool srv') \<le> responseBufferCount * maximumPooledResponseSize"
proof -
  obtain w0 where w0: "serve_mux rt elapsed req (securityHeaders (new_writer broken)) srv = (w0, srv')"
    and w: "w = RW_WriteHeader 200 w0"
    using assms(2) by (auto simp: serve_def split: prod.splits)
  have "secured (securityHeaders (new_writer broken))"
    by (simp add: secured_def secured_header_def securityHeaders_def new_writer_def header_name_defs)
  from serve_mux_served[OF this _ _ assms(1) w0]
  have "secured w0" "pool_ok (Srv_pool srv')" by (simp_all add: securityHeaders_def new_writer_def)
  moreover from this(1) have "secured w" unfolding w by (rule secured_RW)
  moreover have "RW_sent w \<noteq> None" by (simp add: w RW_WriteHeader_def split: option.splits)
  ultimately show ?thesis by (auto simp: secured_def pool_ok_bytes)
qed

theorem every_response_secured_witness:
  "\<exists>status h. RW_sent (fst (serve example_router 0 (get ''/nowhere'' []) False example_server)) = Some (status, h)
    \<and> secured_header h"
  using every_response_secured[of example_server example_router 0 "get ''/nowhere'' []" False
      "fst (serve example_router 0 (get ''/nowhere'' []) False example_server)"
      "snd (serve example_router 0 (get ''/nowhere'' []) False example_server)"]
  by (simp add: example_server_def pool_ok_def)

section \<open>Routes\<close>

text \<open>Two patterns that differ in a literal segment at one position, or in their length.\<close>

definition literal :: "string \<Rightarrow> bool" where
  "literal p \<longleftrightarrow> p \<noteq> ''{id}'' \<and> p \<noteq> ''{$}''"

fun apart :: "string list \<Rightarrow> string list \<Rightarrow> bool" where
  "apart [] [] \<longleftrightarrow> False"
| "apart (p # ps) (q # qs) \<longleftrightarrow>
     (literal p \<and> literal q \<and> p \<noteq> q) \<or> (literal p \<and> q = ''{$}'' \<and> p \<noteq> []) \<or>
     (literal q \<and> p = ''{$}'' \<and> q \<noteq> []) \<or> apart ps qs"
| "apart _ _ \<longleftrightarrow> True"

lemma match_segments_length: "match_segments ps ss = Some v \<Longrightarrow> length ss = length ps"
  by (induction ps ss arbitrary: v rule: match_segments.induct) (auto split: if_splits)

lemma match_segments_Cons:
  "match_segments (p # ps) (s # ss) = Some v \<Longrightarrow>
    (p \<noteq> ''{id}'' \<longrightarrow> p = s \<or> p = ''{$}'' \<and> s = []) \<and> (ps = [] \<or> (\<exists>u. match_segments ps ss = Some u))"
  by (cases ps; cases ss) (auto split: if_splits)

lemma apart_no_match:
  "apart ps qs \<Longrightarrow> match_segments ps ss = Some v \<Longrightarrow> match_segments qs ss = Some u \<Longrightarrow> False"
proof (induction ps qs arbitrary: ss v u rule: apart.induct)
  case (2 p ps q qs)
  obtain s ss' where ss: "ss = s # ss'"
    using match_segments_length[OF 2(3)] by (cases ss) auto
  have p: "(p \<noteq> ''{id}'' \<longrightarrow> p = s \<or> p = ''{$}'' \<and> s = []) \<and> (ps = [] \<or> (\<exists>u. match_segments ps ss' = Some u))"
    using match_segments_Cons[of p ps s ss' v] 2(3) ss by simp
  have q: "(q \<noteq> ''{id}'' \<longrightarrow> q = s \<or> q = ''{$}'' \<and> s = []) \<and> (qs = [] \<or> (\<exists>u. match_segments qs ss' = Some u))"
    using match_segments_Cons[of q qs s ss' u] 2(4) ss by simp
  have len: "length ps = length qs"
    using match_segments_length[OF 2(3)] match_segments_length[OF 2(4)] by simp
  have "apart ps qs" using 2(2) p q by (auto simp: literal_def)
  moreover from this have "ps \<noteq> []" "qs \<noteq> []" using len by auto
  ultimately show ?case using 2(1) p q by blast
next
  case 1
  then show ?case by simp
next
  case "3_1"
  then show ?case using match_segments_length by fastforce
next
  case "3_2"
  then show ?case using match_segments_length by fastforce
qed

lemma routes_apart:
  "sorted_wrt (\<lambda>a b. apart (segments a) (segments b)) (map fst (route_table rt))"
  by (simp add: route_table_def Let_def route_defs segments_def literal_def)

lemma at_most_one_match:
  assumes "sorted_wrt P xs" and "\<And>x y. P x y \<Longrightarrow> f x \<noteq> None \<Longrightarrow> f y \<noteq> None \<Longrightarrow> False"
  shows "length (List.map_filter f xs) \<le> 1"
  using assms(1)
proof (induction xs)
  case (Cons x xs)
  show ?case
  proof (cases "f x")
    case None
    with Cons show ?thesis by (simp add: List.map_filter_simps)
  next
    case (Some v)
    with Cons.prems assms(2) have "\<forall>y \<in> set xs. f y = None" by fastforce
    then have "List.map_filter f xs = []" by (induction xs) (auto simp: List.map_filter_simps)
    with Some show ?thesis by (simp add: List.map_filter_simps)
  qed
qed (simp add: List.map_filter_simps)

text \<open>
  No path matches two routes, so dispatch does not depend on the order of registration (and
  \<open>ServeMux\<close> does not panic on a conflict at start-up).
\<close>

theorem routes_unambiguous:
  "length (matching_routes (route_table rt) path) \<le> 1"
proof -
  have "sorted_wrt (\<lambda>a b. apart (segments (fst a)) (segments (fst b))) (route_table rt)"
    using routes_apart[of rt] by (simp add: sorted_wrt_map)
  then show ?thesis
    unfolding matching_routes_def
    by (rule at_most_one_match) (auto simp: match_route_def dest: apart_no_match)
qed

section \<open>Runs of one handler\<close>

definition started :: "ResponseWriter \<Rightarrow> server \<Rightarrow> exchange" where
  "started w srv = \<lparr>Ex_writer = \<lparr>SW_writer = w, SW_status = 200, SW_wroteHeader = False\<rparr>,
     Ex_pool = Srv_pool srv, Ex_log = Srv_log srv\<rparr>"

definition connection :: "bool \<Rightarrow> ResponseWriter" where
  "connection broken = securityHeaders (new_writer broken)"

lemma fresh_started: "RW_sent w = None \<Longrightarrow> RW_body w = [] \<Longrightarrow> fresh (started w srv)"
  by (simp add: fresh_def started_def)

lemma fresh_connection: "fresh (started (connection broken) srv)"
  by (simp add: connection_def fresh_started securityHeaders_def new_writer_def)

lemma connection_fields [simp]:
  "RW_header (connection broken) HeaderContentType = None"
  "RW_header (connection broken) HeaderCacheControl = None"
  "RW_broken (connection broken) = broken"
  by (simp_all add: connection_def securityHeaders_def new_writer_def header_name_defs)

lemma started_fields [simp]: "raw_writer (started w srv) = w"
  by (simp add: started_def)

text \<open>A request whose path matches one route, run by that route's handler to its end.\<close>

lemma serve_done:
  assumes "matching_routes (route_table rt) (Req_Path req) = [(route, h, v)]" "method_served (Req_Method req)"
    and "h (req\<lparr>Req_PathID := v\<rparr>) (started (connection broken) srv) = Done x"
    and "replied status hdr body x"
  shows "RW_sent (fst (serve rt elapsed req broken srv)) = Some (status, hdr) \<and>
    RW_body (fst (serve rt elapsed req broken srv)) = (if RW_broken (raw_writer x) then [] else body)"
  using assms
  by (simp add: serve_def serve_mux_def wrap_def Let_def recover_panic_def started_def connection_def
      replied_def log_add_def RW_WriteHeader_def split: prod.splits option.splits if_splits)

section \<open>Failures of the repository\<close>

text \<open>The reply an error stands for; a cancelled request gets none.\<close>

definition error_reply :: "go_error \<Rightarrow> (int \<times> string \<times> string) option" where
  "error_reply e =
     (if errors_is e ErrNotFound then Some (404, ProblemTitleNotFound, ProblemDetailNotFound)
      else if errors_is e DeadlineExceeded then Some (504, ProblemTitleTimeout, ProblemDetailTimeout)
      else if errors_is e Canceled then None
      else Some (500, ProblemTitleInternal, ProblemDetailInternal))"

definition problem_body :: "string \<Rightarrow> int \<times> string \<times> string \<Rightarrow> string" where
  "problem_body path p = Encode (json_problemDocument
     \<lparr>Problem_Type = ProblemTypeAboutBlank, Problem_Title = fst (snd p), Problem_Status = fst p,
      Problem_Detail = snd (snd p), Problem_Instance = path\<rparr>)"

lemma fresh_log_add: "fresh (log_add e x) = fresh x"
  by (simp add: fresh_def)

lemma Problem_answers:
  assumes "fresh x" "fst p \<ge> 300"
  shows "\<exists>h. replied (fst p) h (problem_body path p) (Problem r path (fst p) (fst (snd p)) (snd (snd p)) x) \<and>
      h HeaderContentType = Some ContentTypeProblemJSON \<and>
      h HeaderCacheControl = RW_header (raw_writer x) HeaderCacheControl"
  using Problem_replied[OF assms(1), of "fst p" r path "fst (snd p)" "snd (snd p)"] assms(2)
  by (auto simp: problem_body_def)

lemma RepositoryError_answers:
  assumes "fresh x" "error_reply e = Some p"
  shows "\<exists>h. replied (fst p) h (problem_body path p) (RepositoryError r path e x) \<and>
      h HeaderContentType = Some ContentTypeProblemJSON \<and>
      h HeaderCacheControl = RW_header (raw_writer x) HeaderCacheControl"
proof -
  obtain y where y: "RepositoryError r path e x = Problem r path (fst p) (fst (snd p)) (snd (snd p)) y"
    "fresh y" "raw_writer y = raw_writer x"
    using assms by (fastforce simp: RepositoryError_def error_reply_def fresh_log_add split: if_splits)
  have "fst p \<ge> 300" using assms(2) by (auto simp: error_reply_def split: if_splits)
  from Problem_answers[OF y(2) this, where r = r and path = path] show ?thesis by (simp add: y)
qed

lemma RepositoryError_canceled: "error_reply e = None \<Longrightarrow> RepositoryError r path e x = x"
  by (auto simp: RepositoryError_def error_reply_def split: if_splits)

text \<open>
  C14. An error of the repository becomes a problem document that depends only on its class: 404 for a
  missing resource, 504 for an expired deadline, 500 otherwise, without a cache header and without the
  text of the error, which goes to the log alone.  A cancelled request writes nothing.
\<close>

theorem repository_error_reply:
  assumes "fresh x"
  shows "case error_reply e of
      None \<Rightarrow> RepositoryError r path e x = x
    | Some p \<Rightarrow> \<exists>h. replied (fst p) h (problem_body path p) (RepositoryError r path e x) \<and>
        h HeaderContentType = Some ContentTypeProblemJSON \<and>
        h HeaderCacheControl = RW_header (raw_writer x) HeaderCacheControl"
  using RepositoryError_answers[OF assms] RepositoryError_canceled by (auto split: option.splits)

theorem repository_error_reply_witness:
  "\<exists>h. replied 404 h (problem_body ''/x'' (404, ProblemTitleNotFound, ProblemDetailNotFound))
     (RepositoryError example_responder ''/x'' ErrNotFound (started (connection False) example_server))"
  using repository_error_reply[OF fresh_connection[of False example_server],
      where e = ErrNotFound and r = example_responder and path = "''/x''"]
  by (auto simp: error_reply_def)

section \<open>Panics\<close>

lemma log_kept_writeJSON: "set (Ex_log x) \<subseteq> set (Ex_log (writeJSON r status v x))"
  by (auto simp: writeJSON_def write_body_def write_status_def set_header_def log_add_def Let_def
      split: prod.splits)

lemma log_kept_Problem: "set (Ex_log x) \<subseteq> set (Ex_log (Problem r path status title detail x))"
  using log_kept_writeJSON[of "set_header HeaderContentType ContentTypeProblemJSON x"]
  by (simp add: Problem_def set_header_def)

lemma broken_writeJSON: "RW_broken (raw_writer (writeJSON r status v x)) = RW_broken (raw_writer x)"
  by (simp add: writeJSON_def Let_def writer_defs split: prod.splits option.splits)

lemma broken_Problem: "RW_broken (raw_writer (Problem r path status title detail x)) = RW_broken (raw_writer x)"
  by (simp add: Problem_def broken_writeJSON)

lemma wrap_panicked:
  assumes "h req (started (connection broken) srv) = Panicked m (started (connection broken) srv)"
    and "wrap rt route h elapsed req (connection broken) srv = (w, srv')"
  obtains hdr where "RW_sent w = Some (500, hdr)" "hdr HeaderContentType = Some ContentTypeProblemJSON"
    "RW_body w = (if broken then []
      else problem_body (Req_Path req) (500, ProblemTitleInternal, ProblemDetailInternal))"
    "(LevelError, logMessagePanic, [(''route'', route), (''panic'', m)]) \<in> set (Srv_log srv')"
    "Srv_metrics srv' = RequestFinished route (Req_Method req) 500 elapsed (RequestStarted route (Srv_metrics srv))"
proof -
  let ?x = "log_add (LevelError, logMessagePanic, [(''route'', route), (''panic'', m)])
    (started (connection broken) srv)"
  let ?y = "Problem (R_responder rt) (Req_Path req) 500 ProblemTitleInternal ProblemDetailInternal ?x"
  have fresh: "fresh ?x" by (simp add: fresh_log_add fresh_connection)
  obtain hdr where hdr: "replied 500 hdr (problem_body (Req_Path req) (500, ProblemTitleInternal, ProblemDetailInternal)) ?y"
      "hdr HeaderContentType = Some ContentTypeProblemJSON"
    using Problem_answers[OF fresh, of "(500, ProblemTitleInternal, ProblemDetailInternal)" "Req_Path req" "R_responder rt"]
    by auto
  have log: "(LevelError, logMessagePanic, [(''route'', route), (''panic'', m)]) \<in> set (Ex_log ?y)"
    using log_kept_Problem[of ?x] by (auto simp: log_add_def)
  have "recover_panic (R_responder rt) route req (h req (started (connection broken) srv)) = ?y"
    using fresh by (simp add: assms(1) recover_panic_def fresh_def)
  with assms(2) have w: "w = raw_writer ?y" "Ex_log ?y @ [] = Ex_log ?y" "set (Ex_log ?y) \<subseteq> set (Srv_log srv')"
    and m: "Srv_metrics srv' = RequestFinished route (Req_Method req) (SW_status (Ex_writer ?y)) elapsed
        (RequestStarted route (Srv_metrics srv))"
    by (auto simp: wrap_def Let_def started_def[symmetric] log_add_def split: if_splits)
  show thesis
    using hdr log w m by (intro that[of hdr]) (auto simp: replied_def broken_Problem)
qed


text \<open>
  C15. When a handler panics before it has written, the client gets the 500 problem document, the panic
  is logged with its route, and the request is counted under status 500 and leaves the gauge.
\<close>

theorem panic_is_answered:
  assumes "h req (started (connection broken) srv) = Panicked m (started (connection broken) srv)"
    and "wrap rt route h elapsed req (connection broken) srv = (w, srv')"
  shows "(\<exists>hdr. RW_sent w = Some (500, hdr) \<and> hdr HeaderContentType = Some ContentTypeProblemJSON) \<and>
    RW_body w = (if broken then []
      else problem_body (Req_Path req) (500, ProblemTitleInternal, ProblemDetailInternal)) \<and>
    (LevelError, logMessagePanic, [(''route'', route), (''panic'', m)]) \<in> set (Srv_log srv') \<and>
    Srv_metrics srv' = RequestFinished route (Req_Method req) 500 elapsed (RequestStarted route (Srv_metrics srv))"
  using assms by (rule wrap_panicked) blast

text \<open>A repository whose snapshot query panics, behind the snapshot handler.\<close>

definition panicking_repository :: Repository where
  "panicking_repository = (store_repository example_store)\<lparr>Repo_Snapshot := Panic ''boom''\<rparr>"

lemma panicking_snapshot:
  "SnapshotHandler_Get fmt panicking_repository r req x = Panicked ''boom'' x"
  by (simp add: SnapshotHandler_Get_def panicking_repository_def repository_reply_def)

theorem panic_is_answered_witness:
  "\<exists>hdr. RW_sent (fst (wrap example_router RouteSnapshot
      (SnapshotHandler_Get (\<lambda>_. []) panicking_repository example_responder)
      0 (get ''/snapshot'' []) (connection False) example_server)) = Some (500, hdr)"
  using panic_is_answered[where h = "SnapshotHandler_Get (\<lambda>_. []) panicking_repository example_responder"
      and req = "get ''/snapshot'' []" and broken = False and srv = example_server and m = "''boom''"
      and rt = example_router and route = RouteSnapshot and elapsed = 0,
      OF panicking_snapshot prod.collapse[symmetric]]
  by blast

end
