(* ===== verification/Api_Requests.thy ===== *)
theory Api_Requests
  imports Api_Properties
begin

text \<open>
  Requests from the path to the rows of the database: the answer of a route over the store, and the
  requests the parsers refuse.
\<close>

section \<open>The answer of a route\<close>

definition reply_of :: "ResponseWriter \<Rightarrow> (int \<times> string) option" where
  "reply_of w = map_option (\<lambda>(status, h). (status, RW_body w)) (RW_sent w)"

definition problem_answer :: "string \<Rightarrow> int \<times> string \<times> string \<Rightarrow> int \<times> string" where
  "problem_answer path p = (fst p, problem_body path p)"

definition bad_request_answer :: "string \<Rightarrow> string \<Rightarrow> int \<times> string" where
  "bad_request_answer path message = problem_answer path (400, ProblemTitleBadRequest, message)"

definition internal_answer :: "string \<Rightarrow> int \<times> string" where
  "internal_answer path = problem_answer path (500, ProblemTitleInternal, ProblemDetailInternal)"

definition repository_answer :: "string \<Rightarrow> ('a \<Rightarrow> json) \<Rightarrow> 'a outcome \<Rightarrow> int \<times> string" where
  "repository_answer path render res =
     (case res of
        Ok v \<Rightarrow> (200, Encode (render v))
      | Fail e \<Rightarrow> (case error_reply e of None \<Rightarrow> (200, []) | Some p \<Rightarrow> problem_answer path p)
      | Panic m \<Rightarrow> internal_answer path)"

lemma serve_wrap:
  assumes "matching_routes (route_table rt) (Req_Path req) = [(route, h, v)]" "method_served (Req_Method req)"
  shows "fst (serve rt elapsed req broken srv) =
    RW_WriteHeader 200 (fst (wrap rt route h elapsed (req\<lparr>Req_PathID := v\<rparr>) (connection broken) srv))"
  using assms by (simp add: serve_def serve_mux_def connection_def split: prod.splits)

lemma reply_of_sent: "RW_sent w = Some (status, hdr) \<Longrightarrow> reply_of (RW_WriteHeader 200 w) = Some (status, RW_body w)"
  by (simp add: reply_of_def RW_WriteHeader_def)

lemma wrap_done:
  assumes "h req (started (connection broken) srv) = Done x"
  shows "fst (wrap rt route h elapsed req (connection broken) srv) = raw_writer x"
  using assms by (simp add: wrap_def Let_def recover_panic_def started_def[symmetric])

lemma serve_replied:
  assumes "matching_routes (route_table rt) (Req_Path req) = [(route, h, v)]" "method_served (Req_Method req)"
    and "h (req\<lparr>Req_PathID := v\<rparr>) (started (connection broken) srv) = Done x"
    and "replied status hdr body x"
  shows "reply_of (fst (serve rt elapsed req broken srv)) =
    Some (status, if RW_broken (raw_writer x) then [] else body)"
  using assms(4) unfolding serve_wrap[OF assms(1,2)] wrap_done[where h = h, OF assms(3)]
  by (auto simp: replied_def reply_of_sent)

lemma broken_RepositoryError: "RW_broken (raw_writer (RepositoryError r path e x)) = RW_broken (raw_writer x)"
  by (simp add: RepositoryError_def broken_Problem)

lemma serve_repository:
  assumes route: "matching_routes (route_table rt) (Req_Path req) = [(route, h, v)]" "method_served (Req_Method req)"
    and h: "h (req\<lparr>Req_PathID := v\<rparr>) (started (connection False) srv) =
      repository_reply r (req\<lparr>Req_PathID := v\<rparr>) render res (started (connection False) srv)"
  shows "reply_of (fst (serve rt elapsed req False srv)) = Some (repository_answer (Req_Path req) render res)"
proof (cases res)
  case (Ok v)
  show ?thesis
    using serve_replied[OF route h[unfolded repository_reply_def Ok outcome.case]
        writeJSON_replied[OF fresh_connection]]
    by (simp add: repository_answer_def Ok broken_writeJSON)
next
  case (Fail e)
  note answered = h[unfolded repository_reply_def Fail outcome.case]
  show ?thesis
  proof (cases "error_reply e")
    case None
    have "fst (serve rt elapsed req False srv) = RW_WriteHeader 200 (connection False)"
      using answered unfolding serve_wrap[OF route] RepositoryError_canceled[OF None]
      by (simp add: wrap_done[where h = h])
    then show ?thesis
      using None by (simp add: repository_answer_def Fail reply_of_def connection_def securityHeaders_def
          new_writer_def RW_WriteHeader_def)
  next
    case (Some p)
    from RepositoryError_answers[OF fresh_connection Some] obtain hdr where
      "replied (fst p) hdr (problem_body (Req_Path req) p)
        (RepositoryError r (Req_Path req) e (started (connection False) srv))" by blast
    from serve_replied[OF route answered[simplified] this] show ?thesis
      using Some by (simp add: repository_answer_def Fail problem_answer_def broken_RepositoryError)
  qed
next
  case (Panic m)
  obtain w srv' where w: "wrap rt route h elapsed (req\<lparr>Req_PathID := v\<rparr>) (connection False) srv = (w, srv')"
    by fastforce
  have h': "h (req\<lparr>Req_PathID := v\<rparr>) (started (connection False) srv) = Panicked m (started (connection False) srv)"
    using h by (simp add: repository_reply_def Panic)
  show ?thesis
    by (rule wrap_panicked[OF h' w])
      (simp add: serve_wrap[OF route] w reply_of_sent repository_answer_def Panic internal_answer_def problem_answer_def)
qed

lemma BadRequest_answers:
  "fresh x \<Longrightarrow> \<exists>h. replied 400 h (problem_body path (400, ProblemTitleBadRequest, message))
    (BadRequest r path message x)"
  using Problem_answers[of x "(400, ProblemTitleBadRequest, message)" path r] by (auto simp: BadRequest_def)

lemma serve_bad_request:
  assumes route: "matching_routes (route_table rt) (Req_Path req) = [(route, h, v)]" "method_served (Req_Method req)"
    and h: "h (req\<lparr>Req_PathID := v\<rparr>) (started (connection False) srv) =
      bad_request r (req\<lparr>Req_PathID := v\<rparr>) message (started (connection False) srv)"
  shows "reply_of (fst (serve rt elapsed req False srv)) = Some (bad_request_answer (Req_Path req) message)"
proof -
  from BadRequest_answers[OF fresh_connection] obtain hdr where
    "replied 400 hdr (problem_body (Req_Path req) (400, ProblemTitleBadRequest, message))
      (BadRequest r (Req_Path req) message (started (connection False) srv))" by blast
  from serve_replied[OF route h[unfolded bad_request_def, simplified] this] show ?thesis
    by (simp add: bad_request_answer_def problem_answer_def BadRequest_def broken_Problem)
qed

lemma broken_Asset: "RW_broken (raw_writer (Asset r ct doc x)) = RW_broken (raw_writer x)"
  by (simp add: Asset_def Let_def writer_defs split: option.splits)

lemma serve_asset:
  assumes "matching_routes (route_table rt) path = [(route, h, v)]"
    and "\<And>req x. h req x = Done (Asset r ct doc (adjust x))"
    and "\<And>x. fresh x \<Longrightarrow> fresh (adjust x) \<and> RW_broken (raw_writer (adjust x)) = RW_broken (raw_writer x)"
  shows "reply_of (fst (serve rt elapsed (get path query) False srv)) = Some (200, doc)"
proof -
  let ?x = "adjust (started (connection False) srv)"
  have x: "fresh ?x" "RW_broken (raw_writer ?x) = False"
    using assms(3)[OF fresh_connection[of False srv]] by simp_all
  have "method_served (Req_Method (get path query))" "matching_routes (route_table rt) (Req_Path (get path query)) = [(route, h, v)]"
    using assms(1) by (simp_all add: get_def method_served_def)
  from serve_replied[OF this(2,1) assms(2) Asset_replied[OF x(1)]] show ?thesis
    by (simp add: broken_Asset x(2))
qed

section \<open>Paths\<close>

text \<open>A path segment as a client may write it: not empty, without slashes, and not a dot segment.\<close>

definition segment :: "string \<Rightarrow> bool" where
  "segment s \<longleftrightarrow> s \<noteq> [] \<and> CHR ''/'' \<notin> set s \<and> s \<noteq> ''.'' \<and> s \<noteq> ''..''"

lemma split_slash_segment: "CHR ''/'' \<notin> set s \<Longrightarrow> split_slash s = [s]"
  by (induction s) auto

definition release_path :: "string \<Rightarrow> string" where
  "release_path s = ''/releases/'' @ s"

lemma release_path_segments:
  "segment s \<Longrightarrow> segments (release_path s) = [''releases'', s]"
  by (simp add: segments_def split_slash_segment segment_def release_path_def)

lemma release_path_route:
  "segment s \<Longrightarrow> matching_routes (route_table rt) (release_path s) =
    [(RouteRelease, ReleaseHandler_Get (R_repository rt) (R_responder rt), s)]"
  using release_path_segments[of s]
  by (simp add: matching_routes_def route_table_def Let_def match_route_def route_defs segments_def
      List.map_filter_def segment_def)

lemma segment_FormatInt: "0 \<le> i \<Longrightarrow> segment (FormatInt i)"
proof -
  have "\<not> is_digit (CHR ''/'')" "\<not> is_digit (CHR ''.'')" by (simp_all add: is_digit_def char_eval)
  moreover assume "0 \<le> i"
  ultimately show ?thesis
    using format_nat_all_digits[of "nat i"] format_nat_nonempty[of "nat i"]
    by (auto simp: segment_def FormatInt_def list_all_iff)
qed

lemma artists_path_route:
  "matching_routes (route_table rt) ''/artists'' =
    [(RouteArtists, ArtistHandler_Search (R_repository rt) (R_responder rt), [])]"
  by (simp add: matching_routes_def route_table_def Let_def match_route_def route_defs segments_def
      List.map_filter_def)


section \<open>Release details\<close>

text \<open>
  C2. \<open>GET /releases/{id}\<close> over a database in order answers, for every path segment: 400 when it is not
  a resource identifier; 404 when no release has it; otherwise 200 with the JSON of the release and its
  artists, labels, companies, formats, genres, styles, credits and videos, as they stand in the tables.
\<close>

theorem release_detail_served:
  assumes "R_repository rt = store_repository st" "answers_detail st queryRelease" "segment s"
  shows "reply_of (fst (serve rt elapsed (get (release_path s) query) False srv)) = Some
    (case pathID s of
       Inl e \<Rightarrow> bad_request_answer (release_path s) errorIDRange
     | Inr i \<Rightarrow>
         (case filter (\<lambda>r. r_id r = i) (db_release_item (St_db st)) of
            [] \<Rightarrow> problem_answer (release_path s) (404, ProblemTitleNotFound, ProblemDetailNotFound)
          | r # _ \<Rightarrow> (200, Encode (json_ReleaseDetail (release_detail st r)))))"
proof -
  let ?req = "get (release_path s) query"
  have route: "matching_routes (route_table rt) (Req_Path ?req) =
      [(RouteRelease, ReleaseHandler_Get (R_repository rt) (R_responder rt), s)]" "method_served (Req_Method ?req)"
    using assms(3) by (simp_all add: get_def release_path_route method_served_def)
  show ?thesis
  proof (cases "pathID s")
    case (Inl e)
    have "ReleaseHandler_Get (R_repository rt) (R_responder rt) (?req\<lparr>Req_PathID := s\<rparr>) x =
        bad_request (R_responder rt) (?req\<lparr>Req_PathID := s\<rparr>) e x" for x
      by (simp add: ReleaseHandler_Get_def Inl)
    from serve_bad_request[OF route this] show ?thesis
      using pathID_error[OF Inl] by (simp add: Inl) (simp add: get_def)
  next
    case (Inr i)
    have "ReleaseHandler_Get (R_repository rt) (R_responder rt) (?req\<lparr>Req_PathID := s\<rparr>) x =
        repository_reply (R_responder rt) (?req\<lparr>Req_PathID := s\<rparr>) json_ReleaseDetail (Release st i) x" for x
      by (simp add: ReleaseHandler_Get_def Inr assms(1) store_repository_def)
    from serve_repository[OF route this]
    have reply: "reply_of (fst (serve rt elapsed ?req False srv)) =
        Some (repository_answer (release_path s) json_ReleaseDetail (Release st i))"
      by (simp add: get_def)
    show ?thesis
    proof (cases "filter (\<lambda>r. r_id r = i) (db_release_item (St_db st))")
      case Nil
      then have "i \<notin> r_id ` set (db_release_item (St_db st))" by (auto simp: filter_empty_conv)
      with Release_not_found[OF assms(2)] reply Nil Inr show ?thesis
        by (simp add: repository_answer_def error_reply_def)
    next
      case (Cons r rs)
      then have "r \<in> set (db_release_item (St_db st)) \<and> r_id r = i"
        using filter_eq_ConsD[OF Cons] by auto
      with Release_found[OF assms(2)] reply Cons Inr show ?thesis
        by (auto simp: repository_answer_def)
    qed
  qed
qed

lemma example_repository: "R_repository example_router = store_repository example_store"
  by (simp add: example_router_def)

theorem release_detail_served_witness:
  "reply_of (fst (serve example_router 0 (get (release_path (FormatInt 9)) []) False example_server)) =
     Some (problem_answer (release_path (FormatInt 9)) (404, ProblemTitleNotFound, ProblemDetailNotFound)) \<and>
   (\<exists>body. reply_of (fst (serve example_router 0 (get (release_path (FormatInt 1)) []) False example_server)) =
     Some (200, body))"
proof -
  have ids: "pathID (FormatInt 9) = Inr 9" "pathID (FormatInt 1) = Inr 1"
    by (simp_all add: pathID_FormatInt MaximumResourceID_def)
  note served = release_detail_served[OF example_repository example_answers_detail segment_FormatInt]
  show ?thesis
    using served[of 9 0 "[]" example_server] served[of 1 0 "[]" example_server]
    unfolding ids by (simp add: example_rows)
qed

section \<open>A search term with a NUL byte\<close>

text \<open>
  C23. A search term that the parser accepts and that contains a NUL byte is answered with 500, not with
  400: the byte is valid UTF-8, counts as a character, and is first refused by the database.
\<close>

theorem nul_in_search_term:
  assumes "R_repository rt = store_repository st" "Pool_queryFault (St_pool st) queryArtistsError = None"
    and "optionalSearchTerm raw ParameterName = Inr name" "CHR 0x00 \<in> set name"
  shows "reply_of (fst (serve rt elapsed (get ''/artists'' [(ParameterName, raw)]) False srv)) =
    Some (internal_answer ''/artists'')"
proof -
  let ?req = "get ''/artists'' [(ParameterName, raw)]"
  have route: "matching_routes (route_table rt) (Req_Path ?req) =
      [(RouteArtists, ArtistHandler_Search (R_repository rt) (R_responder rt), [])]" "method_served (Req_Method ?req)"
    by (simp_all add: get_def artists_path_route method_served_def)
  have names: "ParameterName \<noteq> ParameterRealName" "ParameterName \<noteq> ParameterAfterID" "ParameterName \<noteq> ParameterSize"
    by (simp_all add: parameter_defs)
  have page: "parseCursorPage [(ParameterName, raw)] = Inr \<lparr>AfterID = 0, Size = defaultPageSize\<rparr>"
    using names by (simp add: parseCursorPage_def Values_Get_Cons Values_Get_Nil parseBoundedInt64_def
        parseBoundedInt_def)
  let ?filter = "\<lparr>ArtistFilter_Name = name, ArtistFilter_RealName = []\<rparr>"
  let ?page = "\<lparr>AfterID = 0, Size = defaultPageSize\<rparr>"
  have "ArtistHandler_Search (R_repository rt) (R_responder rt) (?req\<lparr>Req_PathID := []\<rparr>) x =
      repository_reply (R_responder rt) (?req\<lparr>Req_PathID := []\<rparr>) (page_json Artist_ID json_Artist (?req\<lparr>Req_PathID := []\<rparr>))
        (SearchArtists st ?filter ?page) x" for x
    using page names assms(1,3)
    by (simp add: ArtistHandler_Search_def get_def Values_Get_Cons Values_Get_Nil store_repository_def
        optionalSearchTerm_def optionalTextFilter_def TrimSpace_Nil)
  from serve_repository[OF route this] have reply: "reply_of (fst (serve rt elapsed ?req False srv)) =
      Some (repository_answer ''/artists'' (page_json Artist_ID json_Artist (?req\<lparr>Req_PathID := []\<rparr>))
        (SearchArtists st ?filter ?page))"
    by (simp add: get_def)
  have "TrimSpace name = name" "name \<noteq> []"
    using optionalTextFilter_Inr[OF assms(3)[unfolded optionalSearchTerm_def]] assms(4)
    by (auto simp: TrimSpace_idem)
  then have "has_nul [optionalText name, optionalText []]"
    using assms(4) by (simp add: optionalText_def)
  then have "SearchArtists st ?filter ?page = Fail (Wrapped queryArtistsError invalid_byte_sequence)"
    using assms(2) by (simp add: SearchArtists_def Let_def loadPage_def load_items_def pool_Query_def collectRows_def)
  with reply show ?thesis
    by (simp add: repository_answer_def error_reply_def internal_answer_def invalid_byte_sequence_def)
qed

theorem nul_in_search_term_witness:
  "reply_of (fst (serve example_router 0 (get ''/artists'' [(ParameterName, [CHR ''a'', CHR 0x00, CHR ''b''])]) False example_server)) =
    Some (internal_answer ''/artists'')"
proof (rule nul_in_search_term[OF example_repository, where name = "[CHR ''a'', CHR 0x00, CHR ''b'']"])
  have "TrimSpace [CHR ''a'', CHR 0x00, CHR ''b''] = [CHR ''a'', CHR 0x00, CHR ''b'']"
    by (rule TrimSpace_printable) (simp_all add: printable_def byte_def)
  then show "optionalSearchTerm [CHR ''a'', CHR 0x00, CHR ''b''] ParameterName = Inr [CHR ''a'', CHR 0x00, CHR ''b'']"
    by (simp add: optionalSearchTerm_def optionalTextFilter_def Let_def length_defs
        ValidString_ascii_Cons RuneCountInString_ascii_Cons char_eval)
qed (simp_all add: example_store_def New_def example_pool_def)


section \<open>Accepted requests\<close>

text \<open>
  C34. An accepted page request asks for 1 to 30 items after an identifier in range; one row more is
  fetched, without overflow.  Whatever rows come back, cutting the page does not panic, leaves at most
  the requested number of items, and a page that announces more has a cursor to continue from.
\<close>

theorem accepted_page_request:
  assumes "parseCursorPage values = Inr r"
  shows "0 \<le> AfterID r \<and> AfterID r \<le> MaximumResourceID \<and> 1 \<le> Size r \<and> Size r \<le> maximumPageSize \<and>
    FetchSize r = Size r + 1 \<and>
    (\<exists>page. NewPage items (Size r) = Ok page \<and> slice_len (Items page) \<le> Size r \<and>
      HasMore page = (slice_len items > Size r) \<and> (NextAfterID pageID page = None) = (\<not> HasMore page))"
proof -
  note bounds = parseCursorPage_bounds[OF assms]
  have fetch: "FetchSize r = Size r + 1"
    using bounds by (simp add: FetchSize_def wrap64_id maximumPageSize_def)
  have "\<exists>page. NewPage items (Size r) = Ok page \<and> slice_len (Items page) \<le> Size r \<and>
      HasMore page = (slice_len items > Size r) \<and> (NextAfterID pageID page = None) = (\<not> HasMore page)"
    using bounds by (cases items) (auto simp: page_simps NextAfterID_def)
  with bounds fetch show ?thesis by simp
qed

theorem accepted_page_request_witness:
  "\<exists>page. NewPage (Slice [1 :: int, 2, 3]) defaultPageSize = Ok page \<and> slice_len (Items page) \<le> defaultPageSize"
proof -
  have "parseCursorPage [] = Inr \<lparr>AfterID = 0, Size = defaultPageSize\<rparr>"
    by (simp add: parseCursorPage_def Values_Get_Nil parseBoundedInt64_def parseBoundedInt_def)
  from accepted_page_request[OF this, of "Slice [1 :: int, 2, 3]"] show ?thesis by auto
qed



text \<open>
  C35. A hash cursor comes back as the hash it was made of, over the whole range of \<open>int32\<close>; and
  whatever text a client sends as a cursor, it is refused or stands for a value of that range.
\<close>

theorem hash_cursor_round_trip:
  assumes "- (2 ^ 31) \<le> h" "h < 2 ^ 31"
  shows "(\<exists>c. encodeHashCursor (Some h) = Some c \<and> c \<noteq> [] \<and> decodeHashCursor c = Inr (Some h)) \<and>
    (\<forall>raw. case decodeHashCursor raw of Inr (Some g) \<Rightarrow> - (2 ^ 31) \<le> g \<and> g < 2 ^ 31 | _ \<Rightarrow> True)"
  using decodeHashCursor_encode[OF assms] by (auto split: sum.splits option.splits dest: decodeHashCursor_range)

theorem hash_cursor_round_trip_witness:
  "\<exists>c. encodeHashCursor (Some (- 2147483648)) = Some c \<and> decodeHashCursor c = Inr (Some (- 2147483648))"
  using hash_cursor_round_trip[of "- 2147483648"] by auto

section \<open>Metrics\<close>


lemma two_started: "\<exists>s. metric_reach s \<and> live_on ''/artists'' s = 2"
proof -
  obtain s1 where s1: "metric_step metric_init (Started 0 ''/artists'') s1" "MR_live s1 = [(0, ''/artists'')]"
    using metric_step.start[of 0 metric_init "''/artists''"] by (force simp: metric_init_def)
  obtain s2 where s2: "metric_step s1 (Started 1 ''/artists'') s2" "MR_live s2 = [(1, ''/artists''), (0, ''/artists'')]"
    using metric_step.start[of 1 s1 "''/artists''"] s1(2) by force
  have "metric_reach s2" using s1(1) s2(1) metric_reach.intros by blast
  then show ?thesis using s2(2) by (auto simp: live_on_def)
qed


section \<open>Schema validation\<close>

text \<open>
  The start-up check accepts a schema exactly when the catalogs can be read, the schema exists and
  is usable, and every relation the queries need is there and readable.
\<close>

theorem schema_accepted:
  "ValidateSchema pg schema = None \<longleftrightarrow>
    pg_fault pg = None \<and> schema \<in> set (pg_schemas pg) \<and> pg_usage pg schema \<and>
    set (string_to_array requiredAPIRelationNames) \<subseteq> set (pg_relations pg schema) \<inter> Collect (pg_select pg schema)"
  unfolding ValidateSchema_None by auto

end
