(* ===== verification/Zod_Object.thy ===== *)
theory Zod_Object
  imports Go_Strconv "HOL-Library.AList"
begin

text \<open>
  The object schema of the validation library in \<open>docs/scalar-1.75.0.js\<close> (\<open>$ZodObject\<close> and
  \<open>$ZodObjectJIT\<close>), which checks what the reference page stores and is configured with. An object
  schema validates key by key; the JIT writes a specialised function as JavaScript text and compiles it
  with \<open>new Function\<close>. The generated text is modelled as statements of a small language with its own
  evaluation, in which a name read before its declaration or declared twice is an error.

  The model is that of a synchronous parse. A JavaScript value is an option, \<open>None\<close> for \<open>undefined\<close>; an
  object under construction is the list of its properties in the order of creation.  Of an issue, the
  fields \<open>input\<close> (but for a type error) and \<open>inst\<close> are left out.
\<close>

section \<open>Values, issues, schemas\<close>

datatype path_part = Key string | Index nat

datatype ('v, 'd) issue_kind =
    Invalid_type string "'v option"
  | Unrecognized_keys "string list"
  | Other_issue 'd

record ('v, 'd) issue =
  Iss_kind :: "('v, 'd) issue_kind"
  Iss_path :: "path_part list option"

record ('v, 'd) zod_result =
  Res_value :: "'v option"
  Res_issues :: "('v, 'd) issue list"

record ('v, 'd) zod_schema =
  Z_optin :: bool
  Z_optout :: bool
  Z_never :: bool
  Z_run :: "'v option \<Rightarrow> ('v, 'd) zod_result"

text \<open>An input object: its own and inherited properties, and the keys a \<open>for in\<close> loop visits.\<close>

record 'v js_input =
  In_props :: "string \<Rightarrow> 'v option option"
  In_enum :: "string list"

definition js_in :: "string \<Rightarrow> 'v js_input \<Rightarrow> bool" where
  "js_in k inp \<longleftrightarrow> In_props inp k \<noteq> None"

definition js_get :: "string \<Rightarrow> 'v js_input \<Rightarrow> 'v option" where
  "js_get k inp = (case In_props inp k of None \<Rightarrow> None | Some v \<Rightarrow> v)"

type_synonym 'v js_object = "(string \<times> 'v option) list"

definition js_set :: "string \<Rightarrow> 'v option \<Rightarrow> 'v js_object \<Rightarrow> 'v js_object" where
  "js_set k v obj = AList.update k v obj"

text \<open>The payload of an object parse, while its value is the object under construction.\<close>

record ('v, 'd) payload =
  P_value :: "'v js_object"
  P_issues :: "('v, 'd) issue list"

definition push_issues :: "('v, 'd) issue list \<Rightarrow> ('v, 'd) payload \<Rightarrow> ('v, 'd) payload" where
  "push_issues is t = t\<lparr>P_issues := P_issues t @ is\<rparr>"

definition set_prop :: "string \<Rightarrow> 'v option \<Rightarrow> ('v, 'd) payload \<Rightarrow> ('v, 'd) payload" where
  "set_prop k v t = t\<lparr>P_value := js_set k v (P_value t)\<rparr>"

definition nonoptional_issue :: "string \<Rightarrow> ('v, 'd) issue" where
  "nonoptional_issue k = \<lparr>Iss_kind = Invalid_type ''nonoptional'' None, Iss_path = Some [Key k]\<rparr>"

definition UY :: "string \<Rightarrow> ('v, 'd) issue list \<Rightarrow> ('v, 'd) issue list" where
  "UY k is = map (\<lambda>i. i\<lparr>Iss_path := Some (Key k # (case Iss_path i of None \<Rightarrow> [] | Some p \<Rightarrow> p))\<rparr>) is"

section \<open>The interpreter\<close>

definition hX ::
  "('v, 'd) zod_result \<Rightarrow> ('v, 'd) payload \<Rightarrow> string \<Rightarrow> 'v js_input \<Rightarrow> bool \<Rightarrow> bool \<Rightarrow> ('v, 'd) payload" where
  "hX e t n r i a =
     (let present = js_in n r in
      if Res_issues e \<noteq> [] \<and> i \<and> a \<and> \<not> present then t
      else
        let t1 = (if Res_issues e \<noteq> [] then push_issues (UY n (Res_issues e)) t else t) in
        if \<not> present \<and> \<not> i
        then (if Res_issues e \<noteq> [] then t1 else push_issues [nonoptional_issue n] t1)
        else case Res_value e of
               None \<Rightarrow> if present then set_prop n None t1 else t1
             | Some v \<Rightarrow> set_prop n (Some v) t1)"

text \<open>An object schema: its shape, with distinct keys in order, and the schema of all other keys.\<close>

record ('v, 'd) object_schema =
  Obj_shape :: "(string \<times> ('v, 'd) zod_schema) list"
  Obj_catchall :: "('v, 'd) zod_schema option"

fun parse_keys ::
  "(string \<times> ('v, 'd) zod_schema) list \<Rightarrow> 'v js_input \<Rightarrow> ('v, 'd) payload \<Rightarrow> ('v, 'd) payload" where
  "parse_keys [] s t = t"
| "parse_keys ((k, z) # shape) s t =
     parse_keys shape s (hX (Z_run z (js_get k s)) t k s (Z_optin z) (Z_optout z))"

text \<open>\<open>y$t\<close>: the keys outside the shape go to the catch-all schema, or are reported when it is \<open>never\<close>.\<close>

fun catchall_keys ::
  "('v, 'd) zod_schema \<Rightarrow> string set \<Rightarrow> string list \<Rightarrow> 'v js_input \<Rightarrow> string list \<Rightarrow> ('v, 'd) payload \<Rightarrow>
   string list \<times> ('v, 'd) payload" where
  "catchall_keys c known [] s bad n = (bad, n)"
| "catchall_keys c known (k # ks) s bad n =
     (if k = ''__proto__'' \<or> k \<in> known then catchall_keys c known ks s bad n
      else if Z_never c then catchall_keys c known ks s (bad @ [k]) n
      else catchall_keys c known ks s bad (hX (Z_run c (js_get k s)) n k s (Z_optin c) (Z_optout c)))"

definition catchall_rest :: "('v, 'd) object_schema \<Rightarrow> 'v js_input \<Rightarrow> ('v, 'd) payload \<Rightarrow> ('v, 'd) payload" where
  "catchall_rest sch s t =
     (case Obj_catchall sch of
        None \<Rightarrow> t
      | Some c \<Rightarrow>
          (let (bad, n) = catchall_keys c (set (map fst (Obj_shape sch))) (In_enum s) s [] t
           in if bad \<noteq> [] then push_issues [\<lparr>Iss_kind = Unrecognized_keys bad, Iss_path = None\<rparr>] n else n))"

text \<open>
  \<open>$ZodObject\<close>'s parse. Whether a value is an object (\<open>LY\<close>), and with what properties, is the argument
  \<open>as_object\<close>; a value that is none stays in the payload.
\<close>

definition object_issue :: "'v option \<Rightarrow> ('v, 'd) issue" where
  "object_issue s = \<lparr>Iss_kind = Invalid_type ''object'' s, Iss_path = None\<rparr>"

definition ZodObject_parse ::
  "('v option \<Rightarrow> 'v js_input option) \<Rightarrow> ('v, 'd) object_schema \<Rightarrow> 'v option \<Rightarrow> ('v, 'd) issue list \<Rightarrow>
   ('v, 'd) zod_result + ('v, 'd) payload" where
  "ZodObject_parse as_object sch s is =
     (case as_object s of
        None \<Rightarrow> Inl \<lparr>Res_value = s, Res_issues = is @ [object_issue s]\<rparr>
      | Some inp \<Rightarrow>
          Inr (catchall_rest sch inp (parse_keys (Obj_shape sch) inp \<lparr>P_value = [], P_issues = is\<rparr>)))"

section \<open>The generated code\<close>

datatype jcond =
    Has_issues string
  | In_input string
  | Value_undefined string
  | Is_present string
  | Not_cond jcond
  | And_cond jcond jcond

datatype jstmt =
    Const_input
  | Const_new_result
  | Const_run string string
  | Const_present string string
  | Concat_issues string string
  | Push_nonoptional string
  | Set_undefined string
  | Set_value string string
  | If_else jcond "jstmt list" "jstmt list"
  | Assign_payload_value
  | Return_payload

definition present_name :: "string \<Rightarrow> string" where
  "present_name n = n @ ''_present''"

text \<open>
  The statements written for one key, whose result is in the constant \<open>n\<close>: the three templates, for a
  key that is optional on both sides, on the input side only, and not on the input side.
\<close>

definition jit_set_value :: "string \<Rightarrow> string \<Rightarrow> jstmt list" where
  "jit_set_value n k =
     [If_else (Value_undefined n) [If_else (In_input k) [Set_undefined k] []] [Set_value k n]]"

definition jit_key :: "string \<Rightarrow> string \<Rightarrow> bool \<Rightarrow> bool \<Rightarrow> jstmt list" where
  "jit_key n k optin optout =
     Const_run n k #
     (if optin \<and> optout then
        If_else (Has_issues n) [If_else (In_input k) [Concat_issues n k] []] [] #
        jit_set_value n k
      else if optin then
        If_else (Has_issues n) [Concat_issues n k] [] #
        jit_set_value n k
      else
        [Const_present (present_name n) k,
         If_else (Has_issues n) [Concat_issues n k] [],
         If_else (And_cond (Not_cond (Is_present (present_name n))) (Not_cond (Has_issues n)))
           [Push_nonoptional k] [],
         If_else (Is_present (present_name n))
           [If_else (Value_undefined n) [Set_undefined k] [Set_value k n]] []])"

definition key_name :: "nat \<Rightarrow> string" where
  "key_name i = ''key_'' @ format_nat i"

fun jit_keys :: "nat \<Rightarrow> (string \<times> ('v, 'd) zod_schema) list \<Rightarrow> jstmt list" where
  "jit_keys i [] = []"
| "jit_keys i ((k, z) # shape) = jit_key (key_name i) k (Z_optin z) (Z_optout z) @ jit_keys (Suc i) shape"

definition jit_code :: "('v, 'd) object_schema \<Rightarrow> jstmt list" where
  "jit_code sch =
     Const_input # Const_new_result # jit_keys 0 (Obj_shape sch) @ [Assign_payload_value, Return_payload]"

section \<open>Its evaluation\<close>

text \<open>The constants in scope, the payload the function was called with, and whether it has returned.\<close>

record ('v, 'd) jstate =
  J_input :: "'v js_input option"
  J_new :: "'v js_object option"
  J_results :: "string \<rightharpoonup> ('v, 'd) zod_result"
  J_present :: "string \<rightharpoonup> bool"
  J_value :: "'v js_object option"
  J_issues :: "('v, 'd) issue list"
  J_returned :: bool

definition declared :: "('v, 'd) jstate \<Rightarrow> string set" where
  "declared st = {''shape'', ''payload'', ''ctx'', ''input'', ''newResult''}
     \<union> dom (J_results st) \<union> dom (J_present st)"

fun eval_cond :: "('v, 'd) jstate \<Rightarrow> jcond \<Rightarrow> bool option" where
  "eval_cond st (Has_issues n) = map_option (\<lambda>r. Res_issues r \<noteq> []) (J_results st n)"
| "eval_cond st (In_input k) = map_option (js_in k) (J_input st)"
| "eval_cond st (Value_undefined n) = map_option (\<lambda>r. Res_value r = None) (J_results st n)"
| "eval_cond st (Is_present n) = J_present st n"
| "eval_cond st (Not_cond c) = map_option Not (eval_cond st c)"
| "eval_cond st (And_cond c d) =
     (case eval_cond st c of None \<Rightarrow> None | Some b \<Rightarrow> if b then eval_cond st d else Some False)"

definition new_set :: "string \<Rightarrow> 'v option \<Rightarrow> ('v, 'd) jstate \<Rightarrow> ('v, 'd) jstate option" where
  "new_set k v st = map_option (\<lambda>obj. st\<lparr>J_new := Some (js_set k v obj)\<rparr>) (J_new st)"

text \<open>
  \<open>shape\<close> and the payload's input object are the function's arguments. \<open>None\<close> is an error thrown.
\<close>

fun exec_stmt :: "(string \<rightharpoonup> ('v, 'd) zod_schema) \<Rightarrow> 'v js_input \<Rightarrow> jstmt \<Rightarrow> ('v, 'd) jstate \<Rightarrow> ('v, 'd) jstate option"
and exec_stmts :: "(string \<rightharpoonup> ('v, 'd) zod_schema) \<Rightarrow> 'v js_input \<Rightarrow> jstmt list \<Rightarrow> ('v, 'd) jstate \<Rightarrow> ('v, 'd) jstate option"
where
  "exec_stmt shape arg Const_input st = (if J_input st = None then Some (st\<lparr>J_input := Some arg\<rparr>) else None)"
| "exec_stmt shape arg Const_new_result st = (if J_new st = None then Some (st\<lparr>J_new := Some []\<rparr>) else None)"
| "exec_stmt shape arg (Const_run n k) st =
     (if n \<in> declared st then None
      else case (shape k, J_input st) of
        (Some z, Some inp) \<Rightarrow> Some (st\<lparr>J_results := (J_results st)(n \<mapsto> Z_run z (js_get k inp))\<rparr>)
      | _ \<Rightarrow> None)"
| "exec_stmt shape arg (Const_present n k) st =
     (if n \<in> declared st then None
      else map_option (\<lambda>inp. st\<lparr>J_present := (J_present st)(n \<mapsto> js_in k inp)\<rparr>) (J_input st))"
| "exec_stmt shape arg (Concat_issues n k) st =
     map_option (\<lambda>r. st\<lparr>J_issues := J_issues st @ UY k (Res_issues r)\<rparr>) (J_results st n)"
| "exec_stmt shape arg (Push_nonoptional k) st = Some (st\<lparr>J_issues := J_issues st @ [nonoptional_issue k]\<rparr>)"
| "exec_stmt shape arg (Set_undefined k) st = new_set k None st"
| "exec_stmt shape arg (Set_value k n) st =
     (case J_results st n of None \<Rightarrow> None | Some r \<Rightarrow> new_set k (Res_value r) st)"
| "exec_stmt shape arg (If_else c thens elses) st =
     (case eval_cond st c of None \<Rightarrow> None
      | Some b \<Rightarrow> if b then exec_stmts shape arg thens st else exec_stmts shape arg elses st)"
| "exec_stmt shape arg Assign_payload_value st =
     (case J_new st of None \<Rightarrow> None | Some obj \<Rightarrow> Some (st\<lparr>J_value := Some obj\<rparr>))"
| "exec_stmt shape arg Return_payload st = Some (st\<lparr>J_returned := True\<rparr>)"
| "exec_stmts shape arg [] st = Some st"
| "exec_stmts shape arg (c # cs) st =
     (if J_returned st then Some st
      else case exec_stmt shape arg c st of None \<Rightarrow> None | Some st' \<Rightarrow> exec_stmts shape arg cs st')"

definition jit_start :: "('v, 'd) issue list \<Rightarrow> ('v, 'd) jstate" where
  "jit_start is = \<lparr>J_input = None, J_new = None, J_results = Map.empty, J_present = Map.empty,
     J_value = None, J_issues = is, J_returned = False\<rparr>"

text \<open>The compiled function, called with a payload whose value is the input object.\<close>

definition jit_call :: "('v, 'd) object_schema \<Rightarrow> 'v js_input \<Rightarrow> ('v, 'd) issue list \<Rightarrow> ('v, 'd) payload option" where
  "jit_call sch inp is =
     (case exec_stmts (map_of (Obj_shape sch)) inp (jit_code sch) (jit_start is) of
        None \<Rightarrow> None
      | Some st \<Rightarrow> map_option (\<lambda>v. \<lparr>P_value = v, P_issues = J_issues st\<rparr>) (J_value st))"

text \<open>
  \<open>$ZodObjectJIT\<close>'s parse: the generated code when the page may compile text (\<open>sQt\<close>) and the parse is
  synchronous, the interpreter otherwise. \<open>None\<close> is an error thrown. \<open>sQt\<close> tries to compile an empty
  function, which the content security policy of the page may forbid.
\<close>

definition sQt :: "bool \<Rightarrow> bool \<Rightarrow> bool \<Rightarrow> bool" where
  "sQt jitless cloudflare eval_allowed = (if jitless \<or> cloudflare then False else eval_allowed)"

record parse_context =
  Ctx_async :: "bool option"
  Ctx_jitless :: bool

definition ZodObjectJIT_parse ::
  "('v option \<Rightarrow> 'v js_input option) \<Rightarrow> bool \<Rightarrow> ('v, 'd) object_schema \<Rightarrow> parse_context \<Rightarrow> 'v option \<Rightarrow>
   ('v, 'd) issue list \<Rightarrow> (('v, 'd) zod_result + ('v, 'd) payload) option" where
  "ZodObjectJIT_parse as_object may_compile sch ctx s is =
     (case as_object s of
        None \<Rightarrow> Some (Inl \<lparr>Res_value = s, Res_issues = is @ [object_issue s]\<rparr>)
      | Some inp \<Rightarrow>
          if may_compile \<and> Ctx_async ctx = Some False \<and> \<not> Ctx_jitless ctx
          then map_option (\<lambda>d. Inr (catchall_rest sch inp d)) (jit_call sch inp is)
          else Some (ZodObject_parse as_object sch s is))"

end
