(* ===== verification/Zod_Properties.thy ===== *)
theory Zod_Properties
  imports Zod_Object
begin

text \<open>
  The generated code of an object schema against the interpreter: where they agree, where they do not,
  and what an accepted object looks like.
\<close>

section \<open>Names\<close>

lemma format_nat_inj: "format_nat i = format_nat j \<longleftrightarrow> i = j"
  by (metis ParseUint10_format_nat option.inject)

lemma key_name_inj [simp]: "key_name i = key_name j \<longleftrightarrow> i = j"
  by (simp add: key_name_def format_nat_inj)

lemma last_digit: "is_digit (last (format_nat i))"
  using format_nat_all_digits[of i] by (simp add: list_all_iff)

lemma key_name_present: "key_name i \<noteq> present_name n"
proof
  assume "key_name i = present_name n"
  then have "last (key_name i) = last (present_name n)" by simp
  then have "is_digit (CHR ''t'')" using last_digit[of i] by (simp add: key_name_def present_name_def)
  then show False by (simp add: is_digit_def byte_def)
qed

lemma present_name_inj [simp]: "present_name a = present_name b \<longleftrightarrow> a = b"
  by (simp add: present_name_def)

definition names_from :: "nat \<Rightarrow> string set" where
  "names_from i = {key_name j | j. i \<le> j} \<union> {present_name (key_name j) | j. i \<le> j}"

lemma names_reserved: "names_from i \<inter> {''shape'', ''payload'', ''ctx'', ''input'', ''newResult''} = {}"
  by (auto simp: names_from_def key_name_def present_name_def)

section \<open>One key\<close>

lemma exec_stmts_append:
  "exec_stmts shape arg (xs @ ys) st = Option.bind (exec_stmts shape arg xs st) (exec_stmts shape arg ys)"
proof (induction xs arbitrary: st)
  case (Cons x xs)
  have "J_returned s \<Longrightarrow> exec_stmts shape arg zs s = Some s" for s zs by (cases zs) auto
  with Cons show ?case by (auto split: option.splits)
qed simp

text \<open>
  The results on which the two agree: a key that is absent and optional on both sides, and whose schema
  rejects \<open>undefined\<close>, yields no value.
\<close>

definition settled :: "(string \<times> ('v, 'd) zod_schema) list \<Rightarrow> 'v js_input \<Rightarrow> bool" where
  "settled shape inp \<longleftrightarrow>
     (\<forall>(k, z) \<in> set shape. Z_optin z \<and> Z_optout z \<and> \<not> js_in k inp \<and> Res_issues (Z_run z None) \<noteq> []
        \<longrightarrow> Res_value (Z_run z None) = None)"

definition running :: "'v js_input \<Rightarrow> ('v, 'd) payload \<Rightarrow> ('v, 'd) jstate \<Rightarrow> bool" where
  "running inp t st \<longleftrightarrow> J_input st = Some inp \<and> J_new st = Some (P_value t) \<and> J_issues st = P_issues t \<and>
     J_value st = None \<and> \<not> J_returned st"

lemma js_get_absent: "\<not> js_in k inp \<Longrightarrow> js_get k inp = None"
  by (simp add: js_in_def js_get_def)

lemma exec_jit_key:
  assumes st: "running inp t st" and names: "n \<notin> declared st" "present_name n \<notin> declared st" "n \<noteq> present_name n"
    and z: "shape k = Some z" and settled: "settled [(k, z)] inp"
  shows "\<exists>st'. exec_stmts shape inp (jit_key n k (Z_optin z) (Z_optout z)) st = Some st' \<and>
    running inp (hX (Z_run z (js_get k inp)) t k inp (Z_optin z) (Z_optout z)) st' \<and>
    declared st' \<subseteq> declared st \<union> {n, present_name n}"
proof (cases "js_in k inp")
  case True
  with assms show ?thesis
    by (cases "Res_value (Z_run z (js_get k inp))")
      (auto simp: jit_key_def jit_set_value_def running_def hX_def declared_def new_set_def set_prop_def
        push_issues_def Let_def)
next
  case False
  with assms show ?thesis
    by (cases "Res_value (Z_run z None)")
      (auto simp: jit_key_def jit_set_value_def running_def hX_def declared_def new_set_def set_prop_def
        push_issues_def Let_def js_get_absent settled_def)
qed

lemma exec_jit_keys:
  assumes "running inp t st" "declared st \<inter> names_from i = {}" "settled sh inp"
    and "\<And>k z. (k, z) \<in> set sh \<Longrightarrow> shape k = Some z"
  shows "\<exists>st'. exec_stmts shape inp (jit_keys i sh) st = Some st' \<and> running inp (parse_keys sh inp t) st'"
  using assms
proof (induction i sh arbitrary: t st rule: jit_keys.induct)
  case (2 i k z sh)
  have new: "key_name i \<notin> declared st" "present_name (key_name i) \<notin> declared st"
    using 2(3) by (auto simp: names_from_def)
  obtain st1 where st1: "exec_stmts shape inp (jit_key (key_name i) k (Z_optin z) (Z_optout z)) st = Some st1"
    "running inp (hX (Z_run z (js_get k inp)) t k inp (Z_optin z) (Z_optout z)) st1"
    "declared st1 \<subseteq> declared st \<union> {key_name i, present_name (key_name i)}"
    using exec_jit_key[OF 2(2) new key_name_present, of shape k z] 2(4,5)
    by (auto simp: settled_def)
  have "names_from (Suc i) \<subseteq> names_from i" "key_name i \<notin> names_from (Suc i)"
    "present_name (key_name i) \<notin> names_from (Suc i)"
    using key_name_present key_name_present[symmetric] by (auto simp: names_from_def)
  then have "declared st1 \<inter> names_from (Suc i) = {}" using st1(3) 2(3) by blast
  from 2(1)[OF st1(2) this] 2(4,5) st1(1) show ?case
    by (auto simp: exec_stmts_append settled_def)
qed simp

lemma jit_call_parse:
  assumes "distinct (map fst (Obj_shape sch))" "settled (Obj_shape sch) inp"
  shows "jit_call sch inp is = Some (parse_keys (Obj_shape sch) inp \<lparr>P_value = [], P_issues = is\<rparr>)"
proof -
  let ?t = "\<lparr>P_value = [], P_issues = is\<rparr>"
  let ?st = "(jit_start is)\<lparr>J_input := Some inp, J_new := Some []\<rparr>"
  have st: "running inp ?t ?st" "declared ?st \<inter> names_from 0 = {}"
    using names_reserved[of 0] by (auto simp: running_def jit_start_def declared_def)
  have shape: "(k, z) \<in> set (Obj_shape sch) \<Longrightarrow> map_of (Obj_shape sch) k = Some z" for k z
    using assms(1) by simp
  obtain st' where st': "exec_stmts (map_of (Obj_shape sch)) inp (jit_keys 0 (Obj_shape sch)) ?st = Some st'"
    "running inp (parse_keys (Obj_shape sch) inp ?t) st'"
    using exec_jit_keys[OF st assms(2), of "map_of (Obj_shape sch)"] shape by blast
  have "exec_stmts (map_of (Obj_shape sch)) inp (jit_code sch) (jit_start is) =
      exec_stmts (map_of (Obj_shape sch)) inp [Assign_payload_value, Return_payload] st'"
    using st'(1) by (simp add: jit_code_def exec_stmts_append jit_start_def)
  with st'(2) show ?thesis
    by (simp add: jit_call_def running_def)
qed

section \<open>The compiled parse\<close>

text \<open>
  C9. The specialised function that the JIT compiles is the interpreter: it runs without an error (every
  name is declared once and before it is read) and returns the same object and the same issues, for
  every shape, input and context, as long as no key that is optional on both sides is absent and
  yields a value together with an issue.
\<close>

theorem jit_equals_interpreter:
  assumes "distinct (map fst (Obj_shape sch))" "\<And>inp. as_object s = Some inp \<Longrightarrow> settled (Obj_shape sch) inp"
  shows "ZodObjectJIT_parse as_object may_compile sch ctx s is = Some (ZodObject_parse as_object sch s is)"
proof (cases "as_object s")
  case None
  then show ?thesis by (simp add: ZodObjectJIT_parse_def ZodObject_parse_def)
next
  case (Some inp)
  from jit_call_parse[OF assms(1) assms(2)[OF Some]] Some show ?thesis
    by (simp add: ZodObjectJIT_parse_def ZodObject_parse_def)
qed

text \<open>A string that must be present and a number that may be absent, over values that are texts.\<close>

definition example_text :: "bool \<Rightarrow> (string, unit) zod_schema" where
  "example_text optional = \<lparr>Z_optin = optional, Z_optout = optional, Z_never = False,
     Z_run = (\<lambda>v. \<lparr>Res_value = v, Res_issues = (if v = None \<and> \<not> optional
       then [\<lparr>Iss_kind = Invalid_type ''string'' None, Iss_path = None\<rparr>] else [])\<rparr>)\<rparr>"

definition example_object :: "(string, unit) object_schema" where
  "example_object = \<lparr>Obj_shape = [(''url'', example_text False), (''title'', example_text True)], Obj_catchall = None\<rparr>"

definition example_input :: "string js_input" where
  "example_input = \<lparr>In_props = [''url'' \<mapsto> Some ''/openapi.json''], In_enum = [''url'']\<rparr>"

theorem jit_equals_interpreter_witness:
  "ZodObjectJIT_parse (\<lambda>s. if s = Some ''o'' then Some example_input else None) True example_object
     \<lparr>Ctx_async = Some False, Ctx_jitless = False\<rparr> (Some ''o'') [] =
   Some (Inr \<lparr>P_value = [(''url'', Some ''/openapi.json'')], P_issues = []\<rparr>)"
  by (subst jit_equals_interpreter)
    (simp_all add: example_object_def example_text_def settled_def ZodObject_parse_def example_input_def
      hX_def js_in_def js_get_def set_prop_def js_set_def catchall_rest_def split: if_splits)

text \<open>
  Without that proviso they differ: for an absent key that is optional on both sides and whose
  schema yields a value with an issue (a default that a later step rejects), both report success, but
  the compiled function stores the rejected value where the interpreter leaves the key out.
\<close>

theorem jit_keeps_rejected_value:
  assumes "Z_optin z" "Z_optout z" "as_object s = Some inp" "\<not> js_in k inp"
    and "Z_run z None = \<lparr>Res_value = Some v, Res_issues = i # rest\<rparr>"
    and "Ctx_async ctx = Some False" "\<not> Ctx_jitless ctx"
  shows "ZodObject_parse as_object \<lparr>Obj_shape = [(k, z)], Obj_catchall = None\<rparr> s [] =
      Inr \<lparr>P_value = [], P_issues = []\<rparr> \<and>
    ZodObjectJIT_parse as_object True \<lparr>Obj_shape = [(k, z)], Obj_catchall = None\<rparr> ctx s [] =
      Some (Inr \<lparr>P_value = [(k, Some v)], P_issues = []\<rparr>)"
  using assms
  by (simp add: ZodObject_parse_def ZodObjectJIT_parse_def catchall_rest_def hX_def js_get_absent
      jit_call_def jit_code_def jit_key_def jit_set_value_def jit_start_def declared_def new_set_def js_set_def
      key_name_def)

text \<open>A text with the default \<open>x\<close>, which must then be \<open>y\<close>.\<close>

definition example_default :: "(string, unit) zod_schema" where
  "example_default = \<lparr>Z_optin = True, Z_optout = True, Z_never = False,
     Z_run = (\<lambda>v. let w = (case v of None \<Rightarrow> ''x'' | Some t \<Rightarrow> t) in
       \<lparr>Res_value = Some w, Res_issues = (if w = ''y'' then [] else [\<lparr>Iss_kind = Other_issue (), Iss_path = None\<rparr>])\<rparr>)\<rparr>"

theorem jit_keeps_rejected_value_witness:
  "ZodObjectJIT_parse (\<lambda>s. Some example_input) True \<lparr>Obj_shape = [(''mode'', example_default)], Obj_catchall = None\<rparr>
     \<lparr>Ctx_async = Some False, Ctx_jitless = False\<rparr> None [] =
   Some (Inr \<lparr>P_value = [(''mode'', Some ''x'')], P_issues = []\<rparr>)"
  using jit_keeps_rejected_value[of example_default "\<lambda>s. Some example_input" None example_input "''mode''" "''x''"
      "\<lparr>Iss_kind = Other_issue (), Iss_path = None\<rparr>" "[]" "\<lparr>Ctx_async = Some False, Ctx_jitless = False\<rparr>"]
  by (simp add: example_default_def example_input_def js_in_def)

section \<open>Accepted objects\<close>

text \<open>What a key contributes when it raises no issue: nothing, \<open>undefined\<close>, or a value.\<close>

definition key_ok :: "string \<Rightarrow> ('v, 'd) zod_schema \<Rightarrow> 'v js_input \<Rightarrow> bool" where
  "key_ok k z inp \<longleftrightarrow>
     (if Res_issues (Z_run z (js_get k inp)) = [] then Z_optin z \<or> js_in k inp
      else Z_optin z \<and> Z_optout z \<and> \<not> js_in k inp)"

definition key_entry :: "string \<Rightarrow> ('v, 'd) zod_schema \<Rightarrow> 'v js_input \<Rightarrow> 'v option option" where
  "key_entry k z inp =
     (let r = Z_run z (js_get k inp) in
      if Res_issues r \<noteq> [] then None
      else case Res_value r of None \<Rightarrow> if js_in k inp then Some None else None | Some v \<Rightarrow> Some (Some v))"

abbreviation check_key :: "string \<Rightarrow> ('v, 'd) zod_schema \<Rightarrow> 'v js_input \<Rightarrow> ('v, 'd) payload \<Rightarrow> ('v, 'd) payload" where
  "check_key k z inp t \<equiv> hX (Z_run z (js_get k inp)) t k inp (Z_optin z) (Z_optout z)"

lemma hX_issues: "\<exists>new. P_issues (hX r t k inp i a) = P_issues t @ new"
  by (auto simp: hX_def push_issues_def set_prop_def Let_def split: option.splits)

lemma check_key_ok: "P_issues (check_key k z inp t) = [] \<longleftrightarrow> P_issues t = [] \<and> key_ok k z inp"
  by (auto simp: hX_def key_ok_def push_issues_def set_prop_def UY_def Let_def js_get_absent split: option.splits)

lemma check_key_value:
  "key_ok k z inp \<Longrightarrow> P_value (check_key k z inp t) =
    (case key_entry k z inp of None \<Rightarrow> P_value t | Some v \<Rightarrow> js_set k v (P_value t))"
  by (auto simp: hX_def key_ok_def key_entry_def push_issues_def set_prop_def Let_def split: option.splits)

lemma js_set_lookup [simp]: "map_of (js_set k v obj) k' = (if k' = k then Some v else map_of obj k')"
  by (simp add: js_set_def update_conv')

lemma hX_other: "k' \<noteq> k \<Longrightarrow> map_of (P_value (hX r t k inp i a)) k' = map_of (P_value t) k'"
  by (simp add: hX_def push_issues_def set_prop_def Let_def split: option.splits)

lemma parse_keys_other:
  "k \<notin> fst ` set shape \<Longrightarrow> map_of (P_value (parse_keys shape inp t)) k = map_of (P_value t) k"
  by (induction shape inp t rule: parse_keys.induct) (auto simp: hX_other)

lemma parse_keys_issues:
  "P_issues (parse_keys shape inp t) = [] \<longleftrightarrow> P_issues t = [] \<and> (\<forall>(k, z) \<in> set shape. key_ok k z inp)"
  by (induction shape inp t rule: parse_keys.induct) (auto simp: check_key_ok)

lemma parse_keys_value:
  assumes "distinct (map fst shape)" "(k, z) \<in> set shape" "\<forall>(k, z) \<in> set shape. key_ok k z inp"
    and "k \<notin> fst ` set (P_value t)"
  shows "map_of (P_value (parse_keys shape inp t)) k = key_entry k z inp"
  using assms
proof (induction shape inp t rule: parse_keys.induct)
  case (2 k' z' shape inp t)
  show ?case
  proof (cases "k = k'")
    case True
    with 2(2,3) have "z = z'" "k \<notin> fst ` set shape" by force+
    with True 2(4,5) show ?thesis
      by (auto simp: parse_keys_other check_key_value map_of_eq_None_iff split: option.splits)
  next
    case False
    have "k \<notin> fst ` set (P_value (check_key k' z' inp t))"
      using hX_other[OF False, of "Z_run z' (js_get k' inp)" t] 2(5) by (simp flip: map_of_eq_None_iff)
    with 2 False show ?thesis by auto
  qed
qed simp

lemma catchall_keys_spec:
  assumes "catchall_keys c known ks inp bad t = (bad', n)"
  shows "(\<exists>new. P_issues n = P_issues t @ new) \<and> (\<forall>k \<in> known. map_of (P_value n) k = map_of (P_value t) k) \<and>
    set bad \<subseteq> set bad' \<and> (Z_never c \<longrightarrow> set ks \<subseteq> set bad' \<union> known \<union> {''__proto__''})"
  using assms
proof (induction c known ks inp bad t rule: catchall_keys.induct)
  case (2 c known k ks inp bad t)
  consider (skip) "k = ''__proto__'' \<or> k \<in> known" | (never) "k \<noteq> ''__proto__''" "k \<notin> known" "Z_never c"
    | (run) "k \<noteq> ''__proto__''" "k \<notin> known" "\<not> Z_never c" by blast
  then show ?case
  proof cases
    case skip
    with 2(1)[OF skip] 2(4) show ?thesis by auto
  next
    case never
    with 2(2)[of] 2(4) show ?thesis by auto
  next
    case run
    obtain new where new: "P_issues (check_key k c inp t) = P_issues t @ new"
      using hX_issues by blast
    from run 2(3)[of] 2(4) have
      "(\<exists>new. P_issues n = P_issues (check_key k c inp t) @ new)"
      "\<forall>j \<in> known. map_of (P_value n) j = map_of (P_value (check_key k c inp t)) j" "set bad \<subseteq> set bad'"
      by auto
    moreover have "map_of (P_value (check_key k c inp t)) j = map_of (P_value t) j" if "j \<in> known" for j
      using run(2) that by (intro hX_other) auto
    ultimately show ?thesis using run(3) new by auto
  qed
qed simp

text \<open>
  C25. When an object is accepted, every key of the shape that the input may not leave out is present,
  every result that was kept comes from a run without an issue and is stored under its key, and a key
  outside the shape is left out, or was refused when the schema is strict.
\<close>

theorem accepted_object:
  assumes "distinct (map fst (Obj_shape sch))" "as_object s = Some inp"
    and "ZodObject_parse as_object sch s [] = Inr p" "P_issues p = []" "(k, z) \<in> set (Obj_shape sch)"
  shows "(Z_optin z \<or> js_in k inp) \<and> map_of (P_value p) k = key_entry k z inp \<and>
    (Res_issues (Z_run z (js_get k inp)) \<noteq> [] \<longrightarrow> Z_optin z \<and> Z_optout z \<and> \<not> js_in k inp) \<and>
    (case Obj_catchall sch of
       None \<Rightarrow> fst ` set (P_value p) \<subseteq> fst ` set (Obj_shape sch)
     | Some c \<Rightarrow> Z_never c \<longrightarrow> set (In_enum inp) \<subseteq> fst ` set (Obj_shape sch) \<union> {''__proto__''})"
proof -
  let ?t = "\<lparr>P_value = [], P_issues = []\<rparr>" let ?q = "parse_keys (Obj_shape sch) inp ?t"
  have p: "p = catchall_rest sch inp ?q" using assms(2,3) by (simp add: ZodObject_parse_def)
  have rest: "P_issues ?q = [] \<and> map_of (P_value p) k = map_of (P_value ?q) k \<and>
     (case Obj_catchall sch of
       None \<Rightarrow> fst ` set (P_value p) \<subseteq> fst ` set (Obj_shape sch)
     | Some c \<Rightarrow> Z_never c \<longrightarrow> set (In_enum inp) \<subseteq> fst ` set (Obj_shape sch) \<union> {''__proto__''})"
  proof (cases "Obj_catchall sch")
    case None
    have "x \<in> fst ` set (Obj_shape sch)" if "x \<in> fst ` set (P_value ?q)" for x
      using that parse_keys_other[of x "Obj_shape sch" inp ?t] by (metis map_of_eq_None_iff map_of.simps(1) payload.select_convs(1))
    with None p assms(4) show ?thesis by (auto simp: catchall_rest_def)
  next
    case (Some c)
    obtain bad n where n: "catchall_keys c (set (map fst (Obj_shape sch))) (In_enum inp) inp [] ?q = (bad, n)" by fastforce
    have "k \<in> set (map fst (Obj_shape sch))" using assms(5) by force
    with catchall_keys_spec[OF n] Some n p assms(4) show ?thesis
      by (auto simp: catchall_rest_def push_issues_def split: if_splits)
  qed
  then have ok: "\<forall>(k, z) \<in> set (Obj_shape sch). key_ok k z inp" by (simp add: parse_keys_issues)
  with assms(5) have "key_ok k z inp" by blast
  with rest parse_keys_value[OF assms(1,5) ok] show ?thesis
    by (auto simp: key_ok_def split: if_splits)
qed

theorem accepted_object_witness:
  "map_of [(''url'', Some ''/openapi.json'')] ''url'' = key_entry ''url'' (example_text False) example_input"
  using accepted_object[of example_object "\<lambda>s. Some example_input" None example_input
      "\<lparr>P_value = [(''url'', Some ''/openapi.json'')], P_issues = []\<rparr>" "''url''" "example_text False"]
  by (simp add: example_object_def ZodObject_parse_def example_input_def example_text_def
      hX_def js_in_def js_get_def set_prop_def js_set_def catchall_rest_def)

end
