(* ===== verification/Go_Number.thy ===== *)
theory Go_Number
  imports Go_Strconv Complex_Main "HOL-Library.Log_Nat"
begin

text \<open>
  The other number formats of Go's \<open>strconv\<close> and \<open>time\<close> that the configuration reads: \<open>ParseInt\<close> with
  base 0, \<open>ParseFloat\<close> and \<open>ParseDuration\<close>. A float is not a number, infinite, or the rational it stands
  for (the sign of zero is not kept); rounding is to the nearest, ties to even, at the precision and
  the smallest exponent of \<open>float64\<close>. The program does not look at the error of a failed parse.
\<close>

section \<open>Integers with a base prefix\<close>

definition lower_ascii :: "char \<Rightarrow> char" where
  "lower_ascii c = (if 65 \<le> byte c \<and> byte c \<le> 90 then char_of (byte c + 32) else c)"

definition alnum_value :: "char \<Rightarrow> nat option" where
  "alnum_value c =
     (if is_digit c then Some (digit_value c)
      else let n = byte (lower_ascii c) in if 97 \<le> n \<and> n \<le> 122 then Some (n - 87) else None)"

text \<open>
  \<open>underscoreOK\<close>: an underscore stands between digits, or between a base prefix and a digit. The first
  argument is the last character seen, as \<open>^\<close>, \<open>0\<close>, \<open>_\<close> or \<open>!\<close>.
\<close>

datatype saw = Saw_start | Saw_digit | Saw_underscore | Saw_other

fun underscores_ok :: "bool \<Rightarrow> saw \<Rightarrow> string \<Rightarrow> bool" where
  "underscores_ok hex s [] \<longleftrightarrow> s \<noteq> Saw_underscore"
| "underscores_ok hex s (c # cs) =
     (if is_digit c \<or> hex \<and> (case alnum_value c of None \<Rightarrow> False | Some n \<Rightarrow> 10 \<le> n \<and> n < 16)
      then underscores_ok hex Saw_digit cs
      else if c = CHR ''_'' then s = Saw_digit \<and> underscores_ok hex Saw_underscore cs
      else s \<noteq> Saw_underscore \<and> underscores_ok hex Saw_other cs)"

definition underscoreOK :: "string \<Rightarrow> bool" where
  "underscoreOK s =
     (let t = snd (split_sign s) in
      case t of
        z # p # rest \<Rightarrow>
          if z = CHR ''0'' \<and> lower_ascii p \<in> {CHR ''b'', CHR ''o'', CHR ''x''}
          then underscores_ok (lower_ascii p = CHR ''x'') Saw_digit rest
          else underscores_ok False Saw_start t
      | _ \<Rightarrow> underscores_ok False Saw_start t)"

definition split_base :: "string \<Rightarrow> nat \<times> string" where
  "split_base s =
     (case s of
        [] \<Rightarrow> (10, s)
      | z # t \<Rightarrow>
          if z \<noteq> CHR ''0'' then (10, s)
          else case t of
            p # rest \<Rightarrow>
              if rest = [] then (8, t)
              else if lower_ascii p = CHR ''b'' then (2, rest)
              else if lower_ascii p = CHR ''o'' then (8, rest)
              else if lower_ascii p = CHR ''x'' then (16, rest)
              else (8, t)
          | [] \<Rightarrow> (8, t))"

fun base_digits :: "nat \<Rightarrow> nat \<Rightarrow> string \<Rightarrow> nat option" where
  "base_digits base acc [] = Some acc"
| "base_digits base acc (c # cs) =
     (if c = CHR ''_'' then base_digits base acc cs
      else case alnum_value c of
        None \<Rightarrow> None
      | Some d \<Rightarrow> if d < base then base_digits base (base * acc + d) cs else None)"

definition ParseInt0 :: "nat \<Rightarrow> string \<Rightarrow> int option" where
  "ParseInt0 bits s =
     (let (neg, t) = split_sign s in
      if t = [] then None
      else let (base, ds) = split_base t in
        case base_digits base 0 ds of
          None \<Rightarrow> None
        | Some un \<Rightarrow>
            if CHR ''_'' \<in> set ds \<and> \<not> underscoreOK t then None
            else if \<not> neg \<and> un \<ge> 2 ^ (bits - 1) then None
            else if neg \<and> un > 2 ^ (bits - 1) then None
            else Some (if neg then - int un else int un))"

section \<open>Floats\<close>

datatype float64 = NaN | Infinite bool | Finite rat

definition pow2 :: "int \<Rightarrow> rat" where
  "pow2 e = (if 0 \<le> e then 2 ^ nat e else 1 / 2 ^ nat (- e))"

definition round_even :: "rat \<Rightarrow> int" where
  "round_even x =
     (let f = \<lfloor>x\<rfloor>; d = x - of_int f in
      if d < 1 / 2 then f else if d > 1 / 2 then f + 1 else if even f then f else f + 1)"

text \<open>The exponent of the leading binary digit of a positive rational.\<close>

definition leading_exponent :: "rat \<Rightarrow> int" where
  "leading_exponent x =
     (let (n, d) = quotient_of x; e = bitlen n - bitlen d in if x \<ge> pow2 e then e else e - 1)"

definition round64 :: "rat \<Rightarrow> rat" where
  "round64 x =
     (if x = 0 then 0
      else let e = max (- 1074) (leading_exponent x - 52) in of_int (round_even (x / pow2 e)) * pow2 e)"

record mantissa =
  Man_value :: nat
  Man_fraction :: nat
  Man_digits :: bool
  Man_underscores :: bool
  Man_rest :: string

fun scan_mantissa :: "nat \<Rightarrow> bool \<Rightarrow> mantissa \<Rightarrow> string \<Rightarrow> mantissa" where
  "scan_mantissa base dot m [] = m\<lparr>Man_rest := []\<rparr>"
| "scan_mantissa base dot m (c # cs) =
     (if c = CHR ''_'' then scan_mantissa base dot (m\<lparr>Man_underscores := True\<rparr>) cs
      else if c = CHR ''.'' then (if dot then m\<lparr>Man_rest := c # cs\<rparr> else scan_mantissa base True m cs)
      else case alnum_value c of
        Some d \<Rightarrow>
          if d < base
          then scan_mantissa base dot
                 (m\<lparr>Man_value := base * Man_value m + d, Man_digits := True,
                    Man_fraction := (if dot then Suc (Man_fraction m) else Man_fraction m)\<rparr>) cs
          else m\<lparr>Man_rest := c # cs\<rparr>
      | None \<Rightarrow> m\<lparr>Man_rest := c # cs\<rparr>)"

text \<open>The exponent: digits and underscores to the end; it stops growing at five digits.\<close>

fun scan_exponent :: "nat \<Rightarrow> string \<Rightarrow> nat option" where
  "scan_exponent e [] = Some e"
| "scan_exponent e (c # cs) =
     (if c = CHR ''_'' then scan_exponent e cs
      else if is_digit c then scan_exponent (if e < 10000 then 10 * e + digit_value c else e) cs
      else None)"

definition parse_exponent :: "char \<Rightarrow> bool \<Rightarrow> string \<Rightarrow> int option" where
  "parse_exponent mark required s =
     (case s of
        [] \<Rightarrow> if required then None else Some 0
      | c # cs \<Rightarrow>
          if lower_ascii c \<noteq> mark then None
          else let (neg, ds) = split_sign cs in
            case ds of
              [] \<Rightarrow> None
            | d # _ \<Rightarrow>
                if is_digit d
                then map_option (\<lambda>e. if neg then - int e else int e) (scan_exponent 0 ds)
                else None)"

definition parse_special :: "string \<Rightarrow> float64 option" where
  "parse_special s =
     (let (neg, t) = split_sign s; u = map lower_ascii t in
      if u = ''inf'' \<or> u = ''infinity'' then Some (Infinite neg)
      else if map lower_ascii s = ''nan'' then Some NaN
      else None)"

definition ParseFloat :: "string \<Rightarrow> float64 option" where
  "ParseFloat s =
     (case parse_special s of
        Some f \<Rightarrow> Some f
      | None \<Rightarrow>
          let (neg, t) = split_sign s;
              hex = (case t of z # p # c # _ \<Rightarrow> z = CHR ''0'' \<and> lower_ascii p = CHR ''x'' | _ \<Rightarrow> False);
              base = (if hex then 16 else 10);
              m = scan_mantissa base False
                    \<lparr>Man_value = 0, Man_fraction = 0, Man_digits = False, Man_underscores = False, Man_rest = []\<rparr>
                    (if hex then drop 2 t else t)
          in if \<not> Man_digits m then None
             else case parse_exponent (if hex then CHR ''p'' else CHR ''e'') hex (Man_rest m) of
               None \<Rightarrow> None
             | Some e \<Rightarrow>
                 if CHR ''_'' \<in> set s \<and> \<not> underscoreOK s then None
                 else
                   let scale = (if hex then pow2 e else if 0 \<le> e then 10 ^ nat e else 1 / 10 ^ nat (- e));
                       x = round64 (of_nat (Man_value m) / of_nat base ^ Man_fraction m * scale)
                   in if x \<ge> 2 ^ 1024 then None else Some (Finite (if neg then - x else x)))"

definition float_less_rat :: "float64 \<Rightarrow> rat \<Rightarrow> bool" where
  "float_less_rat f x = (case f of NaN \<Rightarrow> False | Infinite neg \<Rightarrow> neg | Finite y \<Rightarrow> y < x)"

definition float_greater_rat :: "float64 \<Rightarrow> rat \<Rightarrow> bool" where
  "float_greater_rat f x = (case f of NaN \<Rightarrow> False | Infinite neg \<Rightarrow> \<not> neg | Finite y \<Rightarrow> x < y)"

section \<open>Durations\<close>

text \<open>In nanoseconds. The fraction is read up to the digits that fit, its scale is a float.\<close>

fun leadingFraction :: "nat \<Rightarrow> rat \<Rightarrow> bool \<Rightarrow> string \<Rightarrow> nat \<times> rat" where
  "leadingFraction x scale overflow [] = (x, scale)"
| "leadingFraction x scale overflow (c # cs) =
     (if overflow \<or> x > (2 ^ 63 - 1) div 10 then leadingFraction x scale True cs
      else let y = 10 * x + digit_value c in
        if y > 2 ^ 63 then leadingFraction x scale True cs
        else leadingFraction y (round64 (scale * 10)) False cs)"

definition unitMap :: "string \<rightharpoonup> nat" where
  "unitMap = map_of
     [(''ns'', 1), (''us'', 1000), ([CHR 0xC2, CHR 0xB5, CHR ''s''], 1000), ([CHR 0xCE, CHR 0xBC, CHR ''s''], 1000),
      (''ms'', 1000000), (''s'', 1000000000), (''m'', 60000000000), (''h'', 3600000000000)]"

definition duration_part :: "nat \<Rightarrow> nat \<Rightarrow> rat \<Rightarrow> nat \<Rightarrow> nat option" where
  "duration_part v f scale unit =
     (if v > 2 ^ 63 div unit then None
      else let w = v * unit +
                 (if f > 0 then nat \<lfloor>round64 (round64 (of_nat f) * round64 (of_nat unit / scale))\<rfloor> else 0)
           in if f > 0 \<and> w > 2 ^ 63 then None else Some w)"

definition unit_char :: "char \<Rightarrow> bool" where
  "unit_char c \<longleftrightarrow> c \<noteq> CHR ''.'' \<and> \<not> is_digit c"

text \<open>The digits before and after the dot of a number, and what follows it.\<close>

definition duration_number :: "string \<Rightarrow> string \<times> string \<times> string" where
  "duration_number s =
     (let ds = takeWhile is_digit s; s1 = dropWhile is_digit s in
      if s1 \<noteq> [] \<and> hd s1 = CHR ''.''
      then (ds, takeWhile is_digit (tl s1), dropWhile is_digit (tl s1))
      else (ds, [], s1))"

text \<open>One turn of the loop: a number, its unit, and what is left of the text.\<close>

definition duration_step :: "string \<Rightarrow> (nat \<times> string) option" where
  "duration_step s =
     (if \<not> (hd s = CHR ''.'' \<or> is_digit (hd s)) then None
      else
        let (ds, fs, s3) = duration_number s;
            v = digits_value 0 ds;
            (f, scale) = leadingFraction 0 1 False fs;
            u = takeWhile unit_char s3
        in if v > 2 ^ 63 \<or> ds = [] \<and> fs = [] then None
           else case unitMap u of
             None \<Rightarrow> None
           | Some unit \<Rightarrow> map_option (\<lambda>w. (w, drop (length u) s3)) (duration_part v f scale unit))"

lemma unitMap_Nil [simp]: "unitMap [] = None"
  by (simp add: unitMap_def)

lemma duration_number_rest: "duration_number s = (ds, fs, s3) \<Longrightarrow> length s3 \<le> length s"
  using length_dropWhile_le[of is_digit s] length_dropWhile_le[of is_digit "tl (dropWhile is_digit s)"]
  by (auto simp: duration_number_def Let_def split: if_splits)

lemma duration_step_shorter:
  assumes "duration_step s = Some (w, rest)"
  shows "length rest < length s"
proof -
  obtain ds fs s3 where s3: "duration_number s = (ds, fs, s3)" by (cases "duration_number s")
  with assms have "takeWhile unit_char s3 \<noteq> []" "rest = drop (length (takeWhile unit_char s3)) s3"
    by (auto simp: duration_step_def Let_def split: if_splits prod.splits option.splits)
  then have "length rest < length s3" by (cases s3) auto
  with duration_number_rest[OF s3] show ?thesis by simp
qed

function duration_parts :: "nat \<Rightarrow> string \<Rightarrow> nat option" where
  "duration_parts d s =
     (if s = [] then Some d
      else case duration_step s of
        None \<Rightarrow> None
      | Some (w, rest) \<Rightarrow> if d + w > 2 ^ 63 then None else duration_parts (d + w) rest)"
  by pat_completeness auto
termination
  by (relation "measure (\<lambda>(d, s). length s)") (auto dest: duration_step_shorter)

declare duration_parts.simps [simp del]

definition ParseDuration :: "string \<Rightarrow> int option" where
  "ParseDuration s =
     (let (neg, t) = split_sign s in
      if t = ''0'' then Some 0
      else if t = [] then None
      else case duration_parts 0 t of
        None \<Rightarrow> None
      | Some d \<Rightarrow> if neg then Some (- int d) else if d > 2 ^ 63 - 1 then None else Some (int d))"

lemma ParseDuration_range:
  assumes "ParseDuration s = Some d"
  shows "- (2 ^ 63) \<le> d \<and> d < 2 ^ 63"
proof -
  have bound: "b \<le> 2 ^ 63 \<Longrightarrow> duration_parts b t = Some r \<Longrightarrow> r \<le> 2 ^ 63" for b t r
  proof (induction b t rule: duration_parts.induct)
    case (1 b t)
    from 1(3) have "t = [] \<and> r = b \<or> t \<noteq> [] \<and> (\<exists>w rest. duration_step t = Some (w, rest) \<and>
        \<not> b + w > 2 ^ 63 \<and> duration_parts (b + w) rest = Some r)"
      by (subst (asm) duration_parts.simps) (auto split: if_splits option.splits)
    with 1(1,2) show ?case by (metis not_less)
  qed
  from assms bound[of 0 "snd (split_sign s)"] show ?thesis
    by (fastforce simp: ParseDuration_def Let_def split: prod.splits if_splits option.splits)
qed

end
