(* ===== verification/Page_Policy.thy ===== *)
theory Page_Policy
  imports Zod_Properties Handlers Go_Number
begin

text \<open>
  The content security policy of the reference page, as a browser reads it, and what it means for the
  scripts of the page: the validation library may not compile its generated code there.
\<close>

section \<open>Reading a policy\<close>

fun split_at :: "char \<Rightarrow> string \<Rightarrow> string list" where
  "split_at c [] = [[]]"
| "split_at c (d # s) =
     (if d = c then [] # split_at c s else (case split_at c s of [] \<Rightarrow> [[d]] | w # ws \<Rightarrow> (d # w) # ws))"

definition policy_words :: "string \<Rightarrow> string list" where
  "policy_words s = filter (\<lambda>w. w \<noteq> []) (split_at (CHR '' '') s)"

text \<open>The directives in order, a name with its sources; of two with one name the first counts.\<close>

definition policy_directives :: "string \<Rightarrow> (string \<times> string list) list" where
  "policy_directives policy =
     List.map_filter (\<lambda>d. case policy_words d of [] \<Rightarrow> None | name # sources \<Rightarrow> Some (map lower_ascii name, sources))
       (split_at (CHR '';'') policy)"

definition policy_sources :: "string \<Rightarrow> string \<Rightarrow> string list option" where
  "policy_sources policy name =
     (case map_of (policy_directives policy) name of
        Some sources \<Rightarrow> Some sources
      | None \<Rightarrow> map_of (policy_directives policy) ''default-src'')"

definition quoted :: "string \<Rightarrow> string" where
  "quoted s = [CHR 0x27] @ s @ [CHR 0x27]"

definition allows :: "string \<Rightarrow> string \<Rightarrow> string \<Rightarrow> bool" where
  "allows policy name keyword =
     (case policy_sources policy name of None \<Rightarrow> True | Some sources \<Rightarrow> quoted keyword \<in> set sources)"

text \<open>Compiling text, and the style element that carries the theme.\<close>

definition eval_allowed :: "string \<Rightarrow> bool" where
  "eval_allowed policy = allows policy ''script-src'' ''unsafe-eval''"

definition inline_style_allowed :: "string \<Rightarrow> bool" where
  "inline_style_allowed policy = allows policy ''style-src'' ''unsafe-inline''"

lemma contentSecurityPolicy_directives:
  "map_of (policy_directives contentSecurityPolicy) ''script-src'' = Some [quoted ''self'']"
  "map_of (policy_directives contentSecurityPolicy) ''style-src'' = Some [quoted ''self'', quoted ''unsafe-inline'']"
  by code_simp+

lemma contentSecurityPolicy_allows: "\<not> eval_allowed contentSecurityPolicy" "inline_style_allowed contentSecurityPolicy"
  by (simp_all add: eval_allowed_def inline_style_allowed_def allows_def policy_sources_def
      contentSecurityPolicy_directives quoted_def)

section \<open>Validation under the policy\<close>

text \<open>Where the policy forbids to compile text, the object schema is interpreted, for every schema.\<close>

lemma interpreted_under_policy:
  assumes "\<not> eval_allowed policy"
  shows "ZodObjectJIT_parse as_object (sQt jitless cloudflare (eval_allowed policy)) sch ctx s is =
    Some (ZodObject_parse as_object sch s is)"
  using assms by (simp add: ZodObjectJIT_parse_def ZodObject_parse_def sQt_def split: option.splits)

end
