(* ===== verification/Go_Flag.thy ===== *)
theory Go_Flag
  imports Go_Strconv
begin

text \<open>
  Go's \<open>flag\<close> package as \<open>internal/config\<close> uses it: a set of flags bound to the fields of a value, and
  \<open>Parse\<close> with \<open>ContinueOnError\<close>. A formal flag has a name, whether it is Boolean (and needs no value),
  and its \<open>Set\<close>, which fails on a text it cannot parse. The errors are constructors with the texts that
  go into their messages.
\<close>

datatype flag_error =
    ErrHelp
  | Bad_flag_syntax string
  | Flag_not_defined string
  | Invalid_boolean string string
  | Flag_needs_argument string
  | Invalid_value string string

record 'v formal =
  Formal_bool :: bool
  Formal_set :: "string \<Rightarrow> 'v \<Rightarrow> 'v option"

type_synonym 'v flag_set = "(string \<times> 'v formal) list"

text \<open>\<open>-name\<close>, \<open>--name\<close>, each with \<open>=value\<close> or not.\<close>

definition flag_name :: "string \<Rightarrow> string" where
  "flag_name s = (if take 2 s = ''--'' then drop 2 s else drop 1 s)"

definition split_equals :: "string \<Rightarrow> string \<times> string option" where
  "split_equals name =
     (let n = hd name # takeWhile (\<lambda>c. c \<noteq> CHR ''='') (tl name); rest = drop (length n) name
      in (n, if rest = [] then None else Some (tl rest)))"

definition set_boolean :: "'v formal \<Rightarrow> string \<Rightarrow> string option \<Rightarrow> 'v \<Rightarrow> flag_error + 'v" where
  "set_boolean fl name given v =
     (let text = (case given of None \<Rightarrow> ''true'' | Some t \<Rightarrow> t) in
      case Formal_set fl text v of None \<Rightarrow> Inl (Invalid_boolean text name) | Some w \<Rightarrow> Inr w)"

definition set_value :: "'v formal \<Rightarrow> string \<Rightarrow> string \<Rightarrow> 'v \<Rightarrow> flag_error + 'v" where
  "set_value fl name text v =
     (case Formal_set fl text v of None \<Rightarrow> Inl (Invalid_value text name) | Some w \<Rightarrow> Inr w)"

function flags_Parse :: "'v flag_set \<Rightarrow> string list \<Rightarrow> 'v \<Rightarrow> flag_error + string list \<times> 'v" where
  "flags_Parse flags args v =
     (case args of
        [] \<Rightarrow> Inr ([], v)
      | s # rest \<Rightarrow>
          if length s < 2 \<or> hd s \<noteq> CHR ''-'' then Inr (args, v)
          else if s = ''--'' then Inr (rest, v)
          else let raw = flag_name s in
            if raw = [] \<or> hd raw = CHR ''-'' \<or> hd raw = CHR ''='' then Inl (Bad_flag_syntax s)
            else let (name, given) = split_equals raw in
              case map_of flags name of
                None \<Rightarrow> if name = ''help'' \<or> name = ''h'' then Inl ErrHelp else Inl (Flag_not_defined name)
              | Some fl \<Rightarrow>
                  if Formal_bool fl
                  then case set_boolean fl name given v of Inl e \<Rightarrow> Inl e | Inr w \<Rightarrow> flags_Parse flags rest w
                  else case given of
                    Some text \<Rightarrow>
                      (case set_value fl name text v of Inl e \<Rightarrow> Inl e | Inr w \<Rightarrow> flags_Parse flags rest w)
                  | None \<Rightarrow>
                      (case rest of
                         [] \<Rightarrow> Inl (Flag_needs_argument name)
                       | text # rest' \<Rightarrow>
                           (case set_value fl name text v of
                              Inl e \<Rightarrow> Inl e | Inr w \<Rightarrow> flags_Parse flags rest' w)))"
  by pat_completeness auto
termination by (relation "measure (\<lambda>(flags, args, v). length args)") auto

declare flags_Parse.simps [simp del]

lemma flags_Parse_Nil [simp]: "flags_Parse flags [] v = Inr ([], v)"
  by (simp add: flags_Parse.simps)

text \<open>A flag given as \<open>--name=value\<close>.\<close>

definition flag_argument :: "string \<Rightarrow> string \<Rightarrow> string" where
  "flag_argument name text = ''--'' @ name @ ''='' @ text"

definition plain_name :: "string \<Rightarrow> bool" where
  "plain_name name \<longleftrightarrow> name \<noteq> [] \<and> hd name \<noteq> CHR ''-'' \<and> CHR ''='' \<notin> set name"

lemma flag_name_argument [simp]: "flag_name (flag_argument name text) = name @ ''='' @ text"
  by (simp add: flag_name_def flag_argument_def)

lemma split_equals_argument:
  assumes "plain_name name"
  shows "split_equals (name @ CHR ''='' # text) = (name, Some text)"
proof -
  obtain c cs where name: "name = c # cs" using assms by (cases name) (auto simp: plain_name_def)
  have "takeWhile (\<lambda>c. c \<noteq> CHR ''='') (cs @ CHR ''='' # text) = cs"
    using assms name by (auto simp: plain_name_def takeWhile_append)
  then show ?thesis by (simp add: split_equals_def name Let_def)
qed

lemma flags_Parse_argument:
  assumes "plain_name name" "map_of flags name = Some fl" "Formal_set fl text v = Some w"
  shows "flags_Parse flags (flag_argument name text # rest) v = flags_Parse flags rest w"
proof -
  have "hd (name @ CHR ''='' # text) \<noteq> CHR ''-''" "hd (name @ CHR ''='' # text) \<noteq> CHR ''=''"
    using assms(1) by (cases name; auto simp: plain_name_def)+
  then show ?thesis
    using assms split_equals_argument[OF assms(1)] flag_name_argument[of name "text"]
    by (subst flags_Parse.simps) (simp add: flag_argument_def set_boolean_def set_value_def)
qed

lemma flags_Parse_stop: "flags_Parse flags (''--'' # rest) v = Inr (rest, v)"
  by (subst flags_Parse.simps) simp

end
