(* ===== verification/Config.thy ===== *)
theory Config
  imports Go_Number Go_Flag
begin

text \<open>
  \<open>internal/config/config.go\<close>: the settings of the process from defaults, environment and command line,
  their validation, and the PostgreSQL URL built from split settings. \<open>net/url\<close>'s parser and the
  resolver of TCP addresses are arguments (record \<open>Platform\<close>): the parser's treatment of hosts depends
  on the version of Go, the resolver asks the network.
\<close>

section \<open>Names and defaults\<close>

definition FlagAddress :: string where "FlagAddress = ''address''"
definition FlagManagementAddress :: string where "FlagManagementAddress = ''management-address''"
definition FlagServerURL :: string where "FlagServerURL = ''server-url''"
definition FlagCacheControl :: string where "FlagCacheControl = ''cache-control''"
definition FlagAccessLog :: string where "FlagAccessLog = ''access-log''"
definition FlagMaxProcs :: string where "FlagMaxProcs = ''max-procs''"
definition FlagMemoryLimitMiB :: string where "FlagMemoryLimitMiB = ''memory-limit-mib''"
definition FlagLogLevel :: string where "FlagLogLevel = ''log-level''"
definition FlagQueryTimeout :: string where "FlagQueryTimeout = ''query-timeout''"
definition FlagShutdownTimeout :: string where "FlagShutdownTimeout = ''shutdown-timeout''"
definition FlagDatabaseURL :: string where "FlagDatabaseURL = ''database-url''"
definition FlagDatabaseSchema :: string where "FlagDatabaseSchema = ''database-schema''"
definition FlagDatabaseHost :: string where "FlagDatabaseHost = ''db-host''"
definition FlagDatabaseUsername :: string where "FlagDatabaseUsername = ''db-username''"
definition FlagDatabasePassword :: string where "FlagDatabasePassword = ''db-password''"
definition FlagDatabaseName :: string where "FlagDatabaseName = ''db-database''"
definition FlagDatabaseSSLMode :: string where "FlagDatabaseSSLMode = ''db-sslmode''"
definition FlagDatabaseMaxConns :: string where "FlagDatabaseMaxConns = ''db-max-conns''"
definition FlagDatabaseMinConns :: string where "FlagDatabaseMinConns = ''db-min-conns''"
definition FlagStatementCache :: string where "FlagStatementCache = ''db-statement-cache''"
definition FlagMetricsEnabled :: string where "FlagMetricsEnabled = ''metrics-enabled''"
definition FlagTracingEnabled :: string where "FlagTracingEnabled = ''tracing-enabled''"
definition FlagOTLPEndpoint :: string where "FlagOTLPEndpoint = ''otlp-endpoint''"
definition FlagTraceSampleRatio :: string where "FlagTraceSampleRatio = ''trace-sample-ratio''"
definition FlagHealthcheck :: string where "FlagHealthcheck = ''healthcheck''"
definition FlagVersion :: string where "FlagVersion = ''version''"

definition EnvAddress :: string where "EnvAddress = ''API_ADDRESS''"
definition EnvManagementAddress :: string where "EnvManagementAddress = ''API_MANAGEMENT_ADDRESS''"
definition EnvServerURL :: string where "EnvServerURL = ''API_SERVER_URL''"
definition EnvCacheControl :: string where "EnvCacheControl = ''API_CACHE_CONTROL''"
definition EnvAccessLog :: string where "EnvAccessLog = ''API_ACCESS_LOG''"
definition EnvMaxProcs :: string where "EnvMaxProcs = ''API_MAX_PROCS''"
definition EnvMemoryLimitMiB :: string where "EnvMemoryLimitMiB = ''API_MEMORY_LIMIT_MIB''"
definition EnvLogLevel :: string where "EnvLogLevel = ''API_LOG_LEVEL''"
definition EnvQueryTimeout :: string where "EnvQueryTimeout = ''API_QUERY_TIMEOUT''"
definition EnvShutdownTimeout :: string where "EnvShutdownTimeout = ''API_SHUTDOWN_TIMEOUT''"
definition EnvDatabaseURL :: string where "EnvDatabaseURL = ''API_DATABASE_URL''"
definition EnvDatabaseSchema :: string where "EnvDatabaseSchema = ''API_DATABASE_SCHEMA''"
definition EnvDatabaseHost :: string where "EnvDatabaseHost = ''API_DB_HOST''"
definition EnvDatabaseUsername :: string where "EnvDatabaseUsername = ''API_DB_USERNAME''"
definition EnvDatabasePassword :: string where "EnvDatabasePassword = ''API_DB_PASSWORD''"
definition EnvDatabaseName :: string where "EnvDatabaseName = ''API_DB_DATABASE''"
definition EnvDatabaseSSLMode :: string where "EnvDatabaseSSLMode = ''API_DB_SSLMODE''"
definition EnvDatabaseMaxConns :: string where "EnvDatabaseMaxConns = ''API_DB_MAX_CONNS''"
definition EnvDatabaseMinConns :: string where "EnvDatabaseMinConns = ''API_DB_MIN_CONNS''"
definition EnvStatementCache :: string where "EnvStatementCache = ''API_DB_STATEMENT_CACHE''"
definition EnvMetricsEnabled :: string where "EnvMetricsEnabled = ''API_METRICS_ENABLED''"
definition EnvTracingEnabled :: string where "EnvTracingEnabled = ''API_TRACING_ENABLED''"
definition EnvOTLPEndpoint :: string where "EnvOTLPEndpoint = ''OTEL_EXPORTER_OTLP_ENDPOINT''"
definition EnvTraceSampleRatio :: string where "EnvTraceSampleRatio = ''OTEL_TRACES_SAMPLER_ARG''"

lemmas flag_name_defs =
  FlagAddress_def FlagManagementAddress_def FlagServerURL_def FlagCacheControl_def FlagAccessLog_def
  FlagMaxProcs_def FlagMemoryLimitMiB_def FlagLogLevel_def FlagQueryTimeout_def
  FlagShutdownTimeout_def FlagDatabaseURL_def FlagDatabaseSchema_def FlagDatabaseHost_def
  FlagDatabaseUsername_def FlagDatabasePassword_def FlagDatabaseName_def FlagDatabaseSSLMode_def
  FlagDatabaseMaxConns_def FlagDatabaseMinConns_def FlagStatementCache_def FlagMetricsEnabled_def
  FlagTracingEnabled_def FlagOTLPEndpoint_def FlagTraceSampleRatio_def FlagHealthcheck_def
  FlagVersion_def

lemmas env_name_defs =
  EnvAddress_def EnvManagementAddress_def EnvServerURL_def EnvCacheControl_def EnvAccessLog_def
  EnvMaxProcs_def EnvMemoryLimitMiB_def EnvLogLevel_def EnvQueryTimeout_def EnvShutdownTimeout_def
  EnvDatabaseURL_def EnvDatabaseSchema_def EnvDatabaseHost_def EnvDatabaseUsername_def
  EnvDatabasePassword_def EnvDatabaseName_def EnvDatabaseSSLMode_def EnvDatabaseMaxConns_def
  EnvDatabaseMinConns_def EnvStatementCache_def EnvMetricsEnabled_def EnvTracingEnabled_def
  EnvOTLPEndpoint_def EnvTraceSampleRatio_def

definition DefaultAddress :: string where "DefaultAddress = '':8080''"
definition DefaultManagementAddress :: string where "DefaultManagementAddress = ''127.0.0.1:8081''"
definition DefaultServerURL :: string where "DefaultServerURL = ''http://localhost:8080''"
definition DefaultCacheControl :: string where
  "DefaultCacheControl = ''public, max-age=60, stale-while-revalidate=300''"
definition DefaultLogLevel :: string where "DefaultLogLevel = ''info''"
definition DefaultDatabaseName :: string where "DefaultDatabaseName = ''discogs''"
definition DefaultDatabaseSchema :: string where "DefaultDatabaseSchema = ''public''"
definition DefaultDatabaseSSLMode :: string where "DefaultDatabaseSSLMode = ''prefer''"
definition DefaultDatabaseMaxConns :: int where "DefaultDatabaseMaxConns = 10"
definition DefaultDatabaseMinConns :: int where "DefaultDatabaseMinConns = 0"
definition DefaultStatementCacheSize :: int where "DefaultStatementCacheSize = 128"
definition DefaultTraceSampleRatio :: float64 where "DefaultTraceSampleRatio = Finite (round64 (1 / 10))"
definition second :: int where "second = 1000000000"
definition DefaultReadHeaderTimeout :: int where "DefaultReadHeaderTimeout = 5 * second"
definition DefaultReadTimeout :: int where "DefaultReadTimeout = 15 * second"
definition DefaultWriteTimeout :: int where "DefaultWriteTimeout = 30 * second"
definition DefaultIdleTimeout :: int where "DefaultIdleTimeout = 90 * second"
definition DefaultShutdownTimeout :: int where "DefaultShutdownTimeout = 30 * second"
definition DefaultQueryTimeout :: int where "DefaultQueryTimeout = 10 * second"
definition DefaultMaxConnectionIdle :: int where "DefaultMaxConnectionIdle = 5 * 60 * second"
definition DefaultMaxConnectionLife :: int where "DefaultMaxConnectionLife = 30 * 60 * second"
definition DefaultHealthCheckPeriod :: int where "DefaultHealthCheckPeriod = 30 * second"
definition MaximumConnections :: int where "MaximumConnections = 1024"
definition MaximumStatementCacheSize :: int where "MaximumStatementCacheSize = 65536"
definition MaximumSchemaNameLength :: nat where "MaximumSchemaNameLength = 63"

section \<open>Settings\<close>

type_synonym LookupEnv = "string \<Rightarrow> string option"

record parsed_url =
  Url_Scheme :: string
  Url_Host :: string
  Url_String :: string

record Platform =
  Plat_Parse :: "string \<Rightarrow> parsed_url option"
  Plat_ResolveTCPAddr :: "string \<Rightarrow> go_error option"

record Tracing =
  Tracing_Enabled :: bool
  Tracing_Endpoint :: string
  Tracing_SampleRatio :: float64

record Database =
  Database_URL :: string
  Database_Schema :: string
  MaxConnections :: int
  MinConnections :: int
  MaxConnectionIdle :: int
  MaxConnectionLife :: int
  HealthCheckPeriod :: int
  StatementCacheSize :: int

record Config =
  PublicAddress :: string
  ManagementAddress :: string
  ServerURL :: string
  CacheControl :: string
  AccessLog :: bool
  MaxProcs :: int
  MemoryLimitBytes :: int
  LogLevel :: int
  ReadHeaderTimeout :: int
  ReadTimeout :: int
  WriteTimeout :: int
  IdleTimeout :: int
  ShutdownTimeout :: int
  QueryTimeout :: int
  MetricsEnabled :: bool
  Config_Tracing :: Tracing
  Config_Database :: Database

text \<open>The zero value of the struct.\<close>

definition zero_Config :: Config where
  "zero_Config =
     \<lparr>PublicAddress = [], ManagementAddress = [], ServerURL = [], CacheControl = [], AccessLog = False,
      MaxProcs = 0, MemoryLimitBytes = 0, LogLevel = 0, ReadHeaderTimeout = 0, ReadTimeout = 0,
      WriteTimeout = 0, IdleTimeout = 0, ShutdownTimeout = 0, QueryTimeout = 0, MetricsEnabled = False,
      Config_Tracing = \<lparr>Tracing_Enabled = False, Tracing_Endpoint = [], Tracing_SampleRatio = Finite 0\<rparr>,
      Config_Database = \<lparr>Database_URL = [], Database_Schema = [], MaxConnections = 0, MinConnections = 0,
        MaxConnectionIdle = 0, MaxConnectionLife = 0, HealthCheckPeriod = 0, StatementCacheSize = 0\<rparr>\<rparr>"

record Result =
  Result_Config :: Config
  CheckReadiness :: bool
  ShowVersion :: bool

definition zero_Result :: Result where
  "zero_Result = \<lparr>Result_Config = zero_Config, CheckReadiness = False, ShowVersion = False\<rparr>"

record rawValues =
  address :: string
  managementAddress :: string
  serverURL :: string
  cacheControl :: string
  accessLog :: bool
  maxProcs :: int
  memoryLimitMiB :: int
  logLevelText :: string
  queryTimeout :: int
  shutdownTimeout :: int
  databaseURL :: string
  databaseSchema :: string
  databaseHost :: string
  databaseUsername :: string
  databasePassword :: string
  databaseName :: string
  databaseSSLMode :: string
  databaseMaxConns :: int
  databaseMinConns :: int
  statementCache :: int
  metricsEnabled :: bool
  tracingEnabled :: bool
  otlpEndpoint :: string
  traceSampleRatio :: float64

datatype load_error =
    Flag_error flag_error
  | Not_a_boolean string
  | Not_an_integer string
  | Not_a_float string
  | Not_a_duration string
  | Unexpected_argument string
  | Invalid_setting go_error

section \<open>Environment\<close>

definition env_value :: "LookupEnv \<Rightarrow> string \<Rightarrow> string \<Rightarrow> string" where
  "env_value lookup name fallback = (case lookup name of Some configured \<Rightarrow> configured | None \<Rightarrow> fallback)"

definition environment_parsed ::
  "(string \<Rightarrow> 'a option) \<Rightarrow> (string \<Rightarrow> load_error) \<Rightarrow> LookupEnv \<Rightarrow> string \<Rightarrow> 'a \<Rightarrow> load_error + 'a" where
  "environment_parsed parse failure lookup name fallback =
     (let raw = TrimSpace (env_value lookup name []) in
      if raw = [] then Inr fallback
      else case parse raw of None \<Rightarrow> Inl (failure name) | Some parsed \<Rightarrow> Inr parsed)"

definition environmentBool :: "LookupEnv \<Rightarrow> string \<Rightarrow> bool \<Rightarrow> load_error + bool" where
  "environmentBool = environment_parsed ParseBool Not_a_boolean"

definition environmentInt :: "LookupEnv \<Rightarrow> string \<Rightarrow> int \<Rightarrow> load_error + int" where
  "environmentInt = environment_parsed Atoi Not_an_integer"

definition environmentInt64 :: "LookupEnv \<Rightarrow> string \<Rightarrow> int \<Rightarrow> load_error + int" where
  "environmentInt64 = environment_parsed (ParseInt10 64) Not_an_integer"

definition environmentFloat :: "LookupEnv \<Rightarrow> string \<Rightarrow> float64 \<Rightarrow> load_error + float64" where
  "environmentFloat = environment_parsed ParseFloat Not_a_float"

definition environmentDuration :: "LookupEnv \<Rightarrow> string \<Rightarrow> int \<Rightarrow> load_error + int" where
  "environmentDuration = environment_parsed ParseDuration Not_a_duration"

text \<open>One assignment of the chain in \<open>environmentValues\<close>: the first error ends it.\<close>

definition assign :: "(load_error + 'a) \<Rightarrow> ('a \<Rightarrow> rawValues) \<Rightarrow> (rawValues \<Rightarrow> load_error + rawValues) \<Rightarrow> load_error + rawValues" where
  "assign parsed store rest = (case parsed of Inl e \<Rightarrow> Inl e | Inr x \<Rightarrow> rest (store x))"

definition initialValues :: "LookupEnv \<Rightarrow> rawValues" where
  "initialValues lookup =
     \<lparr>address = env_value lookup EnvAddress DefaultAddress,
      managementAddress = env_value lookup EnvManagementAddress DefaultManagementAddress,
      serverURL = env_value lookup EnvServerURL DefaultServerURL,
      cacheControl = env_value lookup EnvCacheControl DefaultCacheControl,
      accessLog = False, maxProcs = 0, memoryLimitMiB = 0,
      logLevelText = env_value lookup EnvLogLevel DefaultLogLevel,
      queryTimeout = DefaultQueryTimeout, shutdownTimeout = DefaultShutdownTimeout,
      databaseURL = env_value lookup EnvDatabaseURL [],
      databaseSchema = env_value lookup EnvDatabaseSchema DefaultDatabaseSchema,
      databaseHost = env_value lookup EnvDatabaseHost [],
      databaseUsername = env_value lookup EnvDatabaseUsername [],
      databasePassword = env_value lookup EnvDatabasePassword [],
      databaseName = env_value lookup EnvDatabaseName DefaultDatabaseName,
      databaseSSLMode = env_value lookup EnvDatabaseSSLMode DefaultDatabaseSSLMode,
      databaseMaxConns = DefaultDatabaseMaxConns, databaseMinConns = DefaultDatabaseMinConns,
      statementCache = DefaultStatementCacheSize, metricsEnabled = True, tracingEnabled = False,
      otlpEndpoint = env_value lookup EnvOTLPEndpoint [], traceSampleRatio = DefaultTraceSampleRatio\<rparr>"

definition environmentValues :: "LookupEnv \<Rightarrow> load_error + rawValues" where
  "environmentValues lookup =
     (let v0 = initialValues lookup in
      assign (environmentBool lookup EnvAccessLog False) (\<lambda>x. v0\<lparr>accessLog := x\<rparr>) (\<lambda>v1.
      assign (environmentInt lookup EnvMaxProcs 0) (\<lambda>x. v1\<lparr>maxProcs := x\<rparr>) (\<lambda>v2.
      assign (environmentInt lookup EnvMemoryLimitMiB 0) (\<lambda>x. v2\<lparr>memoryLimitMiB := x\<rparr>) (\<lambda>v3.
      assign (environmentDuration lookup EnvQueryTimeout DefaultQueryTimeout) (\<lambda>x. v3\<lparr>queryTimeout := x\<rparr>) (\<lambda>v4.
      assign (environmentDuration lookup EnvShutdownTimeout DefaultShutdownTimeout)
        (\<lambda>x. v4\<lparr>shutdownTimeout := x\<rparr>) (\<lambda>v5.
      assign (environmentInt64 lookup EnvDatabaseMaxConns DefaultDatabaseMaxConns)
        (\<lambda>x. v5\<lparr>databaseMaxConns := x\<rparr>) (\<lambda>v6.
      assign (environmentInt64 lookup EnvDatabaseMinConns DefaultDatabaseMinConns)
        (\<lambda>x. v6\<lparr>databaseMinConns := x\<rparr>) (\<lambda>v7.
      assign (environmentInt lookup EnvStatementCache DefaultStatementCacheSize)
        (\<lambda>x. v7\<lparr>statementCache := x\<rparr>) (\<lambda>v8.
      assign (environmentBool lookup EnvMetricsEnabled True) (\<lambda>x. v8\<lparr>metricsEnabled := x\<rparr>) (\<lambda>v9.
      assign (environmentBool lookup EnvTracingEnabled False) (\<lambda>x. v9\<lparr>tracingEnabled := x\<rparr>) (\<lambda>v10.
      assign (environmentFloat lookup EnvTraceSampleRatio DefaultTraceSampleRatio)
        (\<lambda>x. v10\<lparr>traceSampleRatio := x\<rparr>) Inr)))))))))))"

definition emptyLookup :: LookupEnv where
  "emptyLookup = (\<lambda>_. None)"

section \<open>Command line\<close>

definition string_flag :: "(string \<Rightarrow> rawValues \<Rightarrow> rawValues) \<Rightarrow> rawValues formal" where
  "string_flag store = \<lparr>Formal_bool = False, Formal_set = (\<lambda>t v. Some (store t v))\<rparr>"

definition bool_flag :: "(bool \<Rightarrow> rawValues \<Rightarrow> rawValues) \<Rightarrow> rawValues formal" where
  "bool_flag store = \<lparr>Formal_bool = True, Formal_set = (\<lambda>t v. map_option (\<lambda>b. store b v) (ParseBool t))\<rparr>"

definition int_flag :: "(int \<Rightarrow> rawValues \<Rightarrow> rawValues) \<Rightarrow> rawValues formal" where
  "int_flag store = \<lparr>Formal_bool = False, Formal_set = (\<lambda>t v. map_option (\<lambda>i. store i v) (ParseInt0 64 t))\<rparr>"

definition duration_flag :: "(int \<Rightarrow> rawValues \<Rightarrow> rawValues) \<Rightarrow> rawValues formal" where
  "duration_flag store = \<lparr>Formal_bool = False, Formal_set = (\<lambda>t v. map_option (\<lambda>d. store d v) (ParseDuration t))\<rparr>"

definition float_flag :: "(float64 \<Rightarrow> rawValues \<Rightarrow> rawValues) \<Rightarrow> rawValues formal" where
  "float_flag store = \<lparr>Formal_bool = False, Formal_set = (\<lambda>t v. map_option (\<lambda>f. store f v) (ParseFloat t))\<rparr>"

definition bindFlags :: "rawValues flag_set" where
  "bindFlags =
     [(FlagAddress, string_flag (\<lambda>t v. v\<lparr>address := t\<rparr>)),
      (FlagManagementAddress, string_flag (\<lambda>t v. v\<lparr>managementAddress := t\<rparr>)),
      (FlagServerURL, string_flag (\<lambda>t v. v\<lparr>serverURL := t\<rparr>)),
      (FlagCacheControl, string_flag (\<lambda>t v. v\<lparr>cacheControl := t\<rparr>)),
      (FlagAccessLog, bool_flag (\<lambda>b v. v\<lparr>accessLog := b\<rparr>)),
      (FlagMaxProcs, int_flag (\<lambda>i v. v\<lparr>maxProcs := i\<rparr>)),
      (FlagMemoryLimitMiB, int_flag (\<lambda>i v. v\<lparr>memoryLimitMiB := i\<rparr>)),
      (FlagLogLevel, string_flag (\<lambda>t v. v\<lparr>logLevelText := t\<rparr>)),
      (FlagQueryTimeout, duration_flag (\<lambda>d v. v\<lparr>queryTimeout := d\<rparr>)),
      (FlagShutdownTimeout, duration_flag (\<lambda>d v. v\<lparr>shutdownTimeout := d\<rparr>)),
      (FlagDatabaseURL, string_flag (\<lambda>t v. v\<lparr>databaseURL := t\<rparr>)),
      (FlagDatabaseSchema, string_flag (\<lambda>t v. v\<lparr>databaseSchema := t\<rparr>)),
      (FlagDatabaseHost, string_flag (\<lambda>t v. v\<lparr>databaseHost := t\<rparr>)),
      (FlagDatabaseUsername, string_flag (\<lambda>t v. v\<lparr>databaseUsername := t\<rparr>)),
      (FlagDatabasePassword, string_flag (\<lambda>t v. v\<lparr>databasePassword := t\<rparr>)),
      (FlagDatabaseName, string_flag (\<lambda>t v. v\<lparr>databaseName := t\<rparr>)),
      (FlagDatabaseSSLMode, string_flag (\<lambda>t v. v\<lparr>databaseSSLMode := t\<rparr>)),
      (FlagDatabaseMaxConns, int_flag (\<lambda>i v. v\<lparr>databaseMaxConns := i\<rparr>)),
      (FlagDatabaseMinConns, int_flag (\<lambda>i v. v\<lparr>databaseMinConns := i\<rparr>)),
      (FlagStatementCache, int_flag (\<lambda>i v. v\<lparr>statementCache := i\<rparr>)),
      (FlagMetricsEnabled, bool_flag (\<lambda>b v. v\<lparr>metricsEnabled := b\<rparr>)),
      (FlagTracingEnabled, bool_flag (\<lambda>b v. v\<lparr>tracingEnabled := b\<rparr>)),
      (FlagOTLPEndpoint, string_flag (\<lambda>t v. v\<lparr>otlpEndpoint := t\<rparr>)),
      (FlagTraceSampleRatio, float_flag (\<lambda>f v. v\<lparr>traceSampleRatio := f\<rparr>)),
      (FlagHealthcheck, bool_flag (\<lambda>b v. v)),
      (FlagVersion, bool_flag (\<lambda>b v. v))]"

definition hasArgument :: "string list \<Rightarrow> string list \<Rightarrow> bool" where
  "hasArgument arguments candidates \<longleftrightarrow> (\<exists>argument \<in> set arguments. argument \<in> set candidates)"

section \<open>Validation\<close>

text \<open>
  \<open>slog.Level.UnmarshalText\<close> of the trimmed, lower-cased text: a name in any case and an optional
  signed offset. Of the runes outside ASCII, only the dotted capital I has an ASCII lower case among the
  letters of the names, and only the dotless small i an ASCII upper case.
\<close>

fun ToLower_ascii :: "string \<Rightarrow> string" where
  "ToLower_ascii (a # b # cs) =
     (if a = CHR 0xC4 \<and> b = CHR 0xB0 then CHR ''i'' # ToLower_ascii cs
      else lower_ascii a # ToLower_ascii (b # cs))"
| "ToLower_ascii [a] = [lower_ascii a]"
| "ToLower_ascii [] = []"

definition upper_ascii :: "char \<Rightarrow> char" where
  "upper_ascii c = (if 97 \<le> byte c \<and> byte c \<le> 122 then char_of (byte c - 32) else c)"

fun ToUpper_ascii :: "string \<Rightarrow> string" where
  "ToUpper_ascii (a # b # cs) =
     (if a = CHR 0xC4 \<and> b = CHR 0xB1 then CHR ''I'' # ToUpper_ascii cs
      else upper_ascii a # ToUpper_ascii (b # cs))"
| "ToUpper_ascii [a] = [upper_ascii a]"
| "ToUpper_ascii [] = []"

definition sign_char :: "char \<Rightarrow> bool" where
  "sign_char c \<longleftrightarrow> c = CHR ''+'' \<or> c = CHR ''-''"

definition level_of_name :: "string \<Rightarrow> int option" where
  "level_of_name name =
     (let n = ToUpper_ascii name in
      if n = ''DEBUG'' then Some (- 4) else if n = ''INFO'' then Some 0
      else if n = ''WARN'' then Some 4 else if n = ''ERROR'' then Some 8 else None)"

definition UnmarshalText :: "string \<Rightarrow> int option" where
  "UnmarshalText s =
     (let name = takeWhile (\<lambda>c. \<not> sign_char c) s; offset = drop (length name) s in
      if offset = [] then level_of_name name
      else case Atoi offset of
        None \<Rightarrow> None
      | Some i \<Rightarrow> map_option (\<lambda>l. wrap64 (l + i)) (level_of_name name))"

definition logLevel :: "string \<Rightarrow> load_error + int" where
  "logLevel raw =
     (case UnmarshalText (ToLower_ascii (TrimSpace raw)) of
        None \<Rightarrow> Inl (Invalid_setting (ErrorText (FlagLogLevel @ '' must be debug, info, warn, or error'')))
      | Some level \<Rightarrow> Inr level)"

definition absoluteHTTPURL :: "Platform \<Rightarrow> string \<Rightarrow> go_error + string" where
  "absoluteHTTPURL plat raw =
     (case Plat_Parse plat (TrimSpace raw) of
        None \<Rightarrow> Inl (ErrorText ''must be an absolute HTTP(S) URL'')
      | Some parsed \<Rightarrow>
          if Url_Scheme parsed \<noteq> ''http'' \<and> Url_Scheme parsed \<noteq> ''https'' \<or> Url_Host parsed = []
          then Inl (ErrorText ''must be an absolute HTTP(S) URL'')
          else Inr (TrimRightByte (CHR ''/'') (Url_String parsed)))"

definition validateAddress :: "Platform \<Rightarrow> string \<Rightarrow> string \<Rightarrow> load_error option" where
  "validateAddress plat name addr =
     map_option (\<lambda>e. Invalid_setting (Wrapped name e)) (Plat_ResolveTCPAddr plat addr)"

definition schema_start :: "char \<Rightarrow> bool" where
  "schema_start c \<longleftrightarrow> 97 \<le> byte c \<and> byte c \<le> 122 \<or> c = CHR ''_''"

definition schema_char :: "char \<Rightarrow> bool" where
  "schema_char c \<longleftrightarrow> schema_start c \<or> is_digit c"

definition schemaNamePattern :: "string \<Rightarrow> bool" where
  "schemaNamePattern s = (case s of [] \<Rightarrow> False | c # cs \<Rightarrow> schema_start c \<and> list_all schema_char cs)"

definition validSchemaName :: "string \<Rightarrow> bool" where
  "validSchemaName name \<longleftrightarrow>
     0 < length name \<and> length name \<le> MaximumSchemaNameLength \<and> schemaNamePattern name"

subsection \<open>The PostgreSQL URL\<close>

text \<open>\<open>net.SplitHostPort\<close>, as far as its error: \<open>None\<close> is a host with a port.\<close>

definition last_index :: "char \<Rightarrow> string \<Rightarrow> nat option" where
  "last_index c s = (if c \<in> set s then Some (length s - 1 - length (takeWhile (\<lambda>d. d \<noteq> c) (rev s))) else None)"

definition first_index :: "char \<Rightarrow> string \<Rightarrow> nat option" where
  "first_index c s = (if c \<in> set s then Some (length (takeWhile (\<lambda>d. d \<noteq> c) s)) else None)"

definition SplitHostPort :: "string \<Rightarrow> go_error option" where
  "SplitHostPort hostport =
     (let failed = (\<lambda>why. Some (ErrorText (''address '' @ hostport @ '': '' @ why))) in
      case last_index (CHR '':'') hostport of
        None \<Rightarrow> failed ''missing port in address''
      | Some i \<Rightarrow>
          let brackets = (\<lambda>j k.
                if CHR ''['' \<in> set (drop j hostport) then failed ''unexpected '[' in address''
                else if CHR '']'' \<in> set (drop k hostport) then failed ''unexpected ']' in address''
                else None)
          in if hd hostport = CHR ''[''
             then case first_index (CHR '']'') hostport of
                 None \<Rightarrow> failed ''missing ']' in address''
               | Some e \<Rightarrow>
                   if e + 1 = length hostport then failed ''missing port in address''
                   else if e + 1 \<noteq> i
                   then if hostport ! (e + 1) = CHR '':'' then failed ''too many colons in address''
                        else failed ''missing port in address''
                   else brackets 1 (e + 1)
             else if CHR '':'' \<in> set (take i hostport) then failed ''too many colons in address''
             else brackets 0 0)"

text \<open>\<open>net/url\<close>'s escaping of the parts of a URL that the program assembles.\<close>

datatype encoding = Encode_host | Encode_path | Encode_user_password | Encode_query_component

definition alphanumeric :: "char \<Rightarrow> bool" where
  "alphanumeric c \<longleftrightarrow> is_digit c \<or> 97 \<le> byte c \<and> byte c \<le> 122 \<or> 65 \<le> byte c \<and> byte c \<le> 90"

definition shouldEscape :: "char \<Rightarrow> encoding \<Rightarrow> bool" where
  "shouldEscape c mode =
     (if alphanumeric c then False
      else if mode = Encode_host \<and> (c \<in> set ''!$&()*+,;=:[]<>'' \<or> c = CHR 0x27 \<or> c = CHR 0x22) then False
      else if c \<in> set ''-_.~'' then False
      else if c \<in> set ''$&+,/:;=?@'' then
        (case mode of
           Encode_path \<Rightarrow> c = CHR ''?''
         | Encode_user_password \<Rightarrow> c \<in> set ''@/?:''
         | _ \<Rightarrow> True)
      else True)"

definition hex_char :: "nat \<Rightarrow> char" where
  "hex_char n = (if n < 10 then char_of (48 + n) else char_of (55 + n))"

definition escape_char :: "encoding \<Rightarrow> char \<Rightarrow> string" where
  "escape_char mode c =
     (if \<not> shouldEscape c mode then [c]
      else if c = CHR '' '' \<and> mode = Encode_query_component then ''+''
      else [CHR ''%'', hex_char (byte c div 16), hex_char (byte c mod 16)])"

definition url_escape :: "string \<Rightarrow> encoding \<Rightarrow> string" where
  "url_escape s mode = concat (map (escape_char mode) s)"

definition buildDatabaseURL :: "Platform \<Rightarrow> rawValues \<Rightarrow> load_error + string" where
  "buildDatabaseURL plat values =
     (let raw = TrimSpace (databaseURL values) in
      if raw \<noteq> [] then
        (case Plat_Parse plat raw of
           None \<Rightarrow> Inl (Invalid_setting (ErrorText (FlagDatabaseURL @ '' must be an absolute PostgreSQL URL'')))
         | Some parsed \<Rightarrow>
             if Url_Scheme parsed \<noteq> ''postgres'' \<and> Url_Scheme parsed \<noteq> ''postgresql'' \<or> Url_Host parsed = []
             then Inl (Invalid_setting (ErrorText (FlagDatabaseURL @ '' must be an absolute PostgreSQL URL'')))
             else Inr raw)
      else
        let host = TrimSpace (databaseHost values); username = TrimSpace (databaseUsername values);
            database = TrimSpace (databaseName values)
        in if host = [] \<or> username = [] \<or> databasePassword values = [] \<or> database = []
           then Inl (Invalid_setting (ErrorText (''set '' @ FlagDatabaseURL @ '' or the split database settings'')))
           else case SplitHostPort host of
             Some e \<Rightarrow> Inl (Invalid_setting (Wrapped (FlagDatabaseHost @ '' must include host and port'') e))
           | None \<Rightarrow>
               if CHR ''/'' \<in> set database
               then Inl (Invalid_setting (ErrorText (FlagDatabaseName @ '' must be a database name'')))
               else Inr (''postgres://'' @ url_escape username Encode_user_password @ '':'' @
                 url_escape (databasePassword values) Encode_user_password @ ''@'' @ url_escape host Encode_host @ ''/'' @
                 (if database = ''*'' then ''*'' else url_escape database Encode_path) @ ''?sslmode='' @
                 url_escape (TrimSpace (databaseSSLMode values)) Encode_query_component))"

subsection \<open>All settings\<close>

definition invalid :: "string \<Rightarrow> load_error + 'a" where
  "invalid message = Inl (Invalid_setting (ErrorText message))"

definition validate_limits :: "Platform \<Rightarrow> rawValues \<Rightarrow> string \<Rightarrow> int \<Rightarrow> string \<Rightarrow> load_error + Config" where
  "validate_limits plat values server level database =
     (if maxProcs values < 0 then invalid (FlagMaxProcs @ '' must be zero or positive'')
      else if \<not> validSchemaName (databaseSchema values)
      then invalid (FlagDatabaseSchema @ '' must be 1 to '' @ FormatInt (int MaximumSchemaNameLength) @
             '' lowercase letters, digits, or underscores and start with a letter or underscore'')
      else if memoryLimitMiB values < 0 then invalid (FlagMemoryLimitMiB @ '' must be zero or positive'')
      else if memoryLimitMiB values > (2 ^ 63 - 1) div 2 ^ 20
      then invalid (FlagMemoryLimitMiB @ '' is too large to represent in bytes'')
      else if databaseMaxConns values > 2 ^ 31 - 1 \<or> databaseMinConns values > 2 ^ 31 - 1
      then invalid (FlagDatabaseMaxConns @ '' and '' @ FlagDatabaseMinConns @
             '' must fit signed 32-bit PostgreSQL connection counts'')
      else if databaseMaxConns values < 1 \<or> databaseMaxConns values > MaximumConnections
      then invalid (FlagDatabaseMaxConns @ '' must be between 1 and '' @ FormatInt MaximumConnections)
      else if databaseMinConns values < 0 \<or> databaseMinConns values > databaseMaxConns values
      then invalid (FlagDatabaseMinConns @ '' must be between 0 and '' @ FlagDatabaseMaxConns)
      else if statementCache values < 0 \<or> statementCache values > MaximumStatementCacheSize
      then invalid (FlagStatementCache @ '' must be between 0 and '' @ FormatInt MaximumStatementCacheSize)
      else if queryTimeout values \<le> 0 \<or> shutdownTimeout values \<le> 0 then invalid ''timeouts must be positive''
      else if float_less_rat (traceSampleRatio values) 0 \<or> float_greater_rat (traceSampleRatio values) 1
      then invalid (FlagTraceSampleRatio @ '' must be between 0 and 1'')
      else case (if tracingEnabled values then absoluteHTTPURL plat (otlpEndpoint values) else Inr []) of
        Inl e \<Rightarrow> Inl (Invalid_setting (Wrapped (FlagOTLPEndpoint @ '' is required when tracing is enabled'') e))
      | Inr _ \<Rightarrow>
          Inr \<lparr>PublicAddress = address values, ManagementAddress = managementAddress values,
            ServerURL = server, CacheControl = cacheControl values, AccessLog = accessLog values,
            MaxProcs = maxProcs values, MemoryLimitBytes = wrap64 (memoryLimitMiB values * 2 ^ 20),
            LogLevel = level, ReadHeaderTimeout = DefaultReadHeaderTimeout,
            ReadTimeout = DefaultReadTimeout, WriteTimeout = DefaultWriteTimeout,
            IdleTimeout = DefaultIdleTimeout, ShutdownTimeout = shutdownTimeout values,
            QueryTimeout = queryTimeout values, MetricsEnabled = metricsEnabled values,
            Config_Tracing = \<lparr>Tracing_Enabled = tracingEnabled values, Tracing_Endpoint = otlpEndpoint values,
              Tracing_SampleRatio = traceSampleRatio values\<rparr>,
            Config_Database = \<lparr>Database_URL = database, Database_Schema = databaseSchema values,
              MaxConnections = wrap32 (databaseMaxConns values), MinConnections = wrap32 (databaseMinConns values),
              MaxConnectionIdle = DefaultMaxConnectionIdle, MaxConnectionLife = DefaultMaxConnectionLife,
              HealthCheckPeriod = DefaultHealthCheckPeriod, StatementCacheSize = statementCache values\<rparr>\<rparr>)"

definition validate :: "Platform \<Rightarrow> rawValues \<Rightarrow> load_error + Config" where
  "validate plat values =
     (case absoluteHTTPURL plat (serverURL values) of
        Inl e \<Rightarrow> Inl (Invalid_setting (Wrapped FlagServerURL e))
      | Inr server \<Rightarrow>
     (case validateAddress plat FlagAddress (address values) of
        Some e \<Rightarrow> Inl e
      | None \<Rightarrow>
     (case validateAddress plat FlagManagementAddress (managementAddress values) of
        Some e \<Rightarrow> Inl e
      | None \<Rightarrow>
     (case logLevel (logLevelText values) of
        Inl e \<Rightarrow> Inl e
      | Inr level \<Rightarrow>
     (case buildDatabaseURL plat values of
        Inl e \<Rightarrow> Inl e
      | Inr database \<Rightarrow> validate_limits plat values server level database)))))"

section \<open>Loading\<close>

definition Load :: "Platform \<Rightarrow> string list \<Rightarrow> LookupEnv \<Rightarrow> load_error + Result" where
  "Load plat arguments lookup =
     (if hasArgument arguments [''--'' @ FlagVersion, ''-'' @ FlagVersion]
      then Inr (zero_Result\<lparr>ShowVersion := True\<rparr>)
      else if hasArgument arguments [''--'' @ FlagHealthcheck, ''-'' @ FlagHealthcheck]
      then Inr (zero_Result\<lparr>CheckReadiness := True\<rparr>)
      else if hasArgument arguments [''--help'', ''-help'', ''-h'']
      then (case environmentValues emptyLookup of
              Inl e \<Rightarrow> Inl e
            | Inr values \<Rightarrow>
                (case flags_Parse bindFlags arguments values of
                   Inl e \<Rightarrow> Inl (Flag_error e) | Inr _ \<Rightarrow> Inr zero_Result))
      else
        (case environmentValues lookup of
           Inl e \<Rightarrow> Inl e
         | Inr values \<Rightarrow>
        (case flags_Parse bindFlags arguments values of
           Inl e \<Rightarrow> Inl (Flag_error e)
         | Inr (rest, values) \<Rightarrow>
             if rest \<noteq> [] then Inl (Unexpected_argument (hd rest))
             else case validate plat values of
               Inl e \<Rightarrow> Inl e
             | Inr config \<Rightarrow> Inr (zero_Result\<lparr>Result_Config := config\<rparr>))))"

section \<open>The inventory of settings\<close>

datatype ValueType = TypeString | TypeBoolean | TypeInteger | TypeDuration | TypeFloat

datatype Requirement = RequirementOptional | RequirementConditional

record Definition =
  Def_Flag :: string
  Def_Environment :: string
  Def_Type :: ValueType
  Def_Default :: string
  Def_Requirement :: Requirement
  Def_Sensitive :: bool
  Def_Description :: string

text \<open>The texts of the default durations and of the default ratio are written out.\<close>

definition Inventory :: "Definition list" where
  "Inventory =
    [\<lparr>Def_Flag = FlagAddress, Def_Environment = EnvAddress, Def_Type = TypeString, Def_Default = DefaultAddress,
       Def_Requirement = RequirementOptional, Def_Sensitive = False,
       Def_Description = ''Public HTTP listener.''\<rparr>,
     \<lparr>Def_Flag = FlagManagementAddress, Def_Environment = EnvManagementAddress, Def_Type = TypeString, Def_Default = DefaultManagementAddress,
       Def_Requirement = RequirementOptional, Def_Sensitive = False,
       Def_Description = ''Management HTTP listener.''\<rparr>,
     \<lparr>Def_Flag = FlagServerURL, Def_Environment = EnvServerURL, Def_Type = TypeString, Def_Default = DefaultServerURL,
       Def_Requirement = RequirementOptional, Def_Sensitive = False,
       Def_Description = ''Public URL used in API links.''\<rparr>,
     \<lparr>Def_Flag = FlagCacheControl, Def_Environment = EnvCacheControl, Def_Type = TypeString, Def_Default = DefaultCacheControl,
       Def_Requirement = RequirementOptional, Def_Sensitive = False,
       Def_Description = ''Cache-Control value for successful API responses.''\<rparr>,
     \<lparr>Def_Flag = FlagAccessLog, Def_Environment = EnvAccessLog, Def_Type = TypeBoolean, Def_Default = ''false'',
       Def_Requirement = RequirementOptional, Def_Sensitive = False,
       Def_Description = ''Emit one structured log per HTTP request.''\<rparr>,
     \<lparr>Def_Flag = FlagMaxProcs, Def_Environment = EnvMaxProcs, Def_Type = TypeInteger, Def_Default = ''0'',
       Def_Requirement = RequirementOptional, Def_Sensitive = False,
       Def_Description = ''Exact GOMAXPROCS when positive; zero applies no application limit.''\<rparr>,
     \<lparr>Def_Flag = FlagMemoryLimitMiB, Def_Environment = EnvMemoryLimitMiB, Def_Type = TypeInteger, Def_Default = ''0'',
       Def_Requirement = RequirementOptional, Def_Sensitive = False,
       Def_Description = ''Go soft memory limit in MiB when positive; zero applies no application limit.''\<rparr>,
     \<lparr>Def_Flag = FlagLogLevel, Def_Environment = EnvLogLevel, Def_Type = TypeString, Def_Default = DefaultLogLevel,
       Def_Requirement = RequirementOptional, Def_Sensitive = False,
       Def_Description = ''Structured log level.''\<rparr>,
     \<lparr>Def_Flag = FlagQueryTimeout, Def_Environment = EnvQueryTimeout, Def_Type = TypeDuration, Def_Default = ''10s'',
       Def_Requirement = RequirementOptional, Def_Sensitive = False,
       Def_Description = ''Maximum PostgreSQL operation duration.''\<rparr>,
     \<lparr>Def_Flag = FlagShutdownTimeout, Def_Environment = EnvShutdownTimeout, Def_Type = TypeDuration, Def_Default = ''30s'',
       Def_Requirement = RequirementOptional, Def_Sensitive = False,
       Def_Description = ''Graceful shutdown deadline.''\<rparr>,
     \<lparr>Def_Flag = FlagDatabaseURL, Def_Environment = EnvDatabaseURL, Def_Type = TypeString, Def_Default = [],
       Def_Requirement = RequirementConditional, Def_Sensitive = True,
       Def_Description = ''Complete PostgreSQL URL; overrides split database settings.''\<rparr>,
     \<lparr>Def_Flag = FlagDatabaseSchema, Def_Environment = EnvDatabaseSchema, Def_Type = TypeString, Def_Default = DefaultDatabaseSchema,
       Def_Requirement = RequirementOptional, Def_Sensitive = False,
       Def_Description = ''PostgreSQL schema containing canonical OpenDiscogs tables.''\<rparr>,
     \<lparr>Def_Flag = FlagDatabaseHost, Def_Environment = EnvDatabaseHost, Def_Type = TypeString, Def_Default = [],
       Def_Requirement = RequirementConditional, Def_Sensitive = False,
       Def_Description = ''PostgreSQL host and port when database-url is unset.''\<rparr>,
     \<lparr>Def_Flag = FlagDatabaseUsername, Def_Environment = EnvDatabaseUsername, Def_Type = TypeString, Def_Default = [],
       Def_Requirement = RequirementConditional, Def_Sensitive = False,
       Def_Description = ''PostgreSQL username when database-url is unset.''\<rparr>,
     \<lparr>Def_Flag = FlagDatabasePassword, Def_Environment = EnvDatabasePassword, Def_Type = TypeString, Def_Default = [],
       Def_Requirement = RequirementConditional, Def_Sensitive = True,
       Def_Description = ''PostgreSQL password when database-url is unset.''\<rparr>,
     \<lparr>Def_Flag = FlagDatabaseName, Def_Environment = EnvDatabaseName, Def_Type = TypeString, Def_Default = DefaultDatabaseName,
       Def_Requirement = RequirementOptional, Def_Sensitive = False,
       Def_Description = ''PostgreSQL database name.''\<rparr>,
     \<lparr>Def_Flag = FlagDatabaseSSLMode, Def_Environment = EnvDatabaseSSLMode, Def_Type = TypeString, Def_Default = DefaultDatabaseSSLMode,
       Def_Requirement = RequirementOptional, Def_Sensitive = False,
       Def_Description = ''PostgreSQL sslmode.''\<rparr>,
     \<lparr>Def_Flag = FlagDatabaseMaxConns, Def_Environment = EnvDatabaseMaxConns, Def_Type = TypeInteger, Def_Default = FormatInt DefaultDatabaseMaxConns,
       Def_Requirement = RequirementOptional, Def_Sensitive = False,
       Def_Description = ''Maximum PostgreSQL connections.''\<rparr>,
     \<lparr>Def_Flag = FlagDatabaseMinConns, Def_Environment = EnvDatabaseMinConns, Def_Type = TypeInteger, Def_Default = FormatInt DefaultDatabaseMinConns,
       Def_Requirement = RequirementOptional, Def_Sensitive = False,
       Def_Description = ''Minimum PostgreSQL connections.''\<rparr>,
     \<lparr>Def_Flag = FlagStatementCache, Def_Environment = EnvStatementCache, Def_Type = TypeInteger, Def_Default = FormatInt DefaultStatementCacheSize,
       Def_Requirement = RequirementOptional, Def_Sensitive = False,
       Def_Description = ''Per-connection prepared statement cache size.''\<rparr>,
     \<lparr>Def_Flag = FlagMetricsEnabled, Def_Environment = EnvMetricsEnabled, Def_Type = TypeBoolean, Def_Default = ''true'',
       Def_Requirement = RequirementOptional, Def_Sensitive = False,
       Def_Description = ''Expose local Prometheus metrics on the management listener.''\<rparr>,
     \<lparr>Def_Flag = FlagTracingEnabled, Def_Environment = EnvTracingEnabled, Def_Type = TypeBoolean, Def_Default = ''false'',
       Def_Requirement = RequirementOptional, Def_Sensitive = False,
       Def_Description = ''Enable OTLP trace export.''\<rparr>,
     \<lparr>Def_Flag = FlagOTLPEndpoint, Def_Environment = EnvOTLPEndpoint, Def_Type = TypeString, Def_Default = [],
       Def_Requirement = RequirementConditional, Def_Sensitive = False,
       Def_Description = ''OTLP HTTP endpoint required only when tracing is enabled.''\<rparr>,
     \<lparr>Def_Flag = FlagTraceSampleRatio, Def_Environment = EnvTraceSampleRatio, Def_Type = TypeFloat, Def_Default = ''0.1'',
       Def_Requirement = RequirementOptional, Def_Sensitive = False,
       Def_Description = ''Parent-based trace sampling ratio.''\<rparr>]"

definition description :: "string \<Rightarrow> string" where
  "description flagName =
     (case filter (\<lambda>d. Def_Flag d = flagName) Inventory of
        [] \<Rightarrow> flagName
      | d # _ \<Rightarrow> Def_Description d @ '' ENV: '' @ Def_Environment d @ ''.'')"

end
