(* ===== verification/Management.thy ===== *)
theory Management
  imports Router Store
begin

text \<open>
  The management server, \<open>internal/management/handler.go\<close>, and the readiness probe of
  \<open>internal/healthcheck/healthcheck.go\<close> that asks it. The checker is the outcome of its \<open>Ready\<close>, the
  Prometheus handler of the registry an action on the response writer, the probe's HTTP client a record of
  what building and executing a request gives.
\<close>

section \<open>Routes\<close>

definition RouteHealth :: string where "RouteHealth = ''/healthz''"
definition RouteReadiness :: string where "RouteReadiness = ''/readyz''"
definition RouteActuatorHealth :: string where "RouteActuatorHealth = ''/actuator/health''"
definition RouteMetrics :: string where "RouteMetrics = ''/metrics''"
definition RouteActuatorPrometheus :: string where "RouteActuatorPrometheus = ''/actuator/prometheus''"
definition StatusUp :: string where "StatusUp = ''UP''"
definition StatusDown :: string where "StatusDown = ''DOWN''"
definition DefaultReadinessTimeout :: int where "DefaultReadinessTimeout = 2 * 1000000000"

lemmas management_route_defs =
  RouteHealth_def RouteReadiness_def RouteActuatorHealth_def RouteMetrics_def RouteActuatorPrometheus_def

record Handler =
  H_checker :: "go_error option"
  H_metricsEnabled :: bool
  H_readinessTimeout :: int
  H_registry :: "ResponseWriter \<Rightarrow> ResponseWriter"

definition NewHandler :: "go_error option \<Rightarrow> (ResponseWriter \<Rightarrow> ResponseWriter) \<Rightarrow> bool \<Rightarrow> Handler" where
  "NewHandler checker registry metricsEnabled =
     \<lparr>H_checker = checker, H_metricsEnabled = metricsEnabled, H_readinessTimeout = DefaultReadinessTimeout,
      H_registry = registry\<rparr>"

definition json_healthDocument :: "string \<Rightarrow> json" where
  "json_healthDocument status = JObject [(''status'', JString status)]"

definition writeHealth :: "int \<Rightarrow> string \<Rightarrow> ResponseWriter \<Rightarrow> ResponseWriter" where
  "writeHealth statusCode status w =
     (let w1 = w\<lparr>RW_header := (RW_header w)(HeaderContentType \<mapsto> ContentTypeJSON)\<rparr>;
          w2 = RW_WriteHeader statusCode w1
      in RW_Write (Encode (json_healthDocument status)) w2)"

definition liveness :: "Handler \<Rightarrow> ResponseWriter \<Rightarrow> ResponseWriter" where
  "liveness h w = writeHealth 200 StatusUp w"

definition readiness :: "Handler \<Rightarrow> ResponseWriter \<Rightarrow> ResponseWriter" where
  "readiness h w =
     (case H_checker h of
        Some e \<Rightarrow> writeHealth 503 StatusDown w
      | None \<Rightarrow> writeHealth 200 StatusUp w)"

definition Routes :: "Handler \<Rightarrow> (string \<times> (ResponseWriter \<Rightarrow> ResponseWriter)) list" where
  "Routes h =
     [(RouteHealth, liveness h), (RouteReadiness, readiness h), (RouteActuatorHealth, readiness h)] @
     (if H_metricsEnabled h
      then [(RouteMetrics, H_registry h), (RouteActuatorPrometheus, H_registry h)]
      else [])"

text \<open>The mux of these routes, each registered for \<open>GET\<close>; then the server's implicit 200.\<close>

definition management_mux :: "Handler \<Rightarrow> string \<Rightarrow> string \<Rightarrow> ResponseWriter \<Rightarrow> ResponseWriter" where
  "management_mux h verb path w =
     (case filter (\<lambda>(route, _). match_route route path \<noteq> None) (Routes h) of
        [] \<Rightarrow> http_Error ''404 page not found'' 404 w
      | (_, action) # _ \<Rightarrow>
          if method_served verb then action w
          else http_Error ''Method Not Allowed'' 405 (w\<lparr>RW_header := (RW_header w)(''Allow'' \<mapsto> ''GET, HEAD'')\<rparr>))"

definition management_serve :: "Handler \<Rightarrow> string \<Rightarrow> string \<Rightarrow> bool \<Rightarrow> ResponseWriter" where
  "management_serve h verb path broken = RW_WriteHeader 200 (management_mux h verb path (new_writer broken))"

definition response_status :: "ResponseWriter \<Rightarrow> int" where
  "response_status w = (case RW_sent w of None \<Rightarrow> 200 | Some (status, _) \<Rightarrow> status)"

section \<open>Responses\<close>

text \<open>A pattern of literal segments matches its own path and no other.\<close>

definition literal_route :: "string \<Rightarrow> bool" where
  "literal_route route \<longleftrightarrow> list_all (\<lambda>p. p \<noteq> ''{id}'' \<and> p \<noteq> ''{$}'') (segments route)"

lemma match_segments_literal:
  "list_all (\<lambda>p. p \<noteq> ''{id}'' \<and> p \<noteq> ''{$}'') ps \<Longrightarrow> match_segments ps ss \<noteq> None \<longleftrightarrow> ps = ss"
  by (induction ps ss rule: match_segments.induct) auto

lemma split_slash_nonempty [simp]: "split_slash s \<noteq> []"
  by (cases s) (auto split: list.splits)

lemma join_Cons: "ss \<noteq> [] \<Longrightarrow> join_with sep (s # ss) = s @ sep @ join_with sep ss"
  by (cases ss) simp_all

lemma join_Cons_head: "join_with sep ((c # s) # ss) = c # join_with sep (s # ss)"
  by (cases ss) simp_all

lemma join_split_slash: "join_with ''/'' (split_slash s) = s"
  by (induction s) (auto simp: join_Cons join_Cons_head split: list.splits)

lemma match_literal_route:
  assumes "literal_route (CHR ''/'' # r)"
  shows "match_route (CHR ''/'' # r) (CHR ''/'' # p) \<noteq> None \<longleftrightarrow> r = p"
proof -
  have "match_route (CHR ''/'' # r) (CHR ''/'' # p) \<noteq> None \<longleftrightarrow> split_slash r = split_slash p"
    using match_segments_literal assms by (simp add: match_route_def literal_route_def segments_def)
  then show ?thesis by (metis join_split_slash)
qed

lemma management_routes_literal:
  "r \<in> {RouteHealth, RouteReadiness, RouteActuatorHealth, RouteMetrics, RouteActuatorPrometheus} \<Longrightarrow>
   match_route r (CHR ''/'' # p) \<noteq> None \<longleftrightarrow> r = CHR ''/'' # p"
proof -
  assume r: "r \<in> {RouteHealth, RouteReadiness, RouteActuatorHealth, RouteMetrics, RouteActuatorPrometheus}"
  then have "r = CHR ''/'' # tl r \<and> literal_route r"
    by (auto simp: management_route_defs literal_route_def segments_def)
  then show ?thesis by (metis match_literal_route list.inject)
qed

text \<open>What the mux answers on every path.\<close>

definition management_action :: "Handler \<Rightarrow> string \<Rightarrow> (ResponseWriter \<Rightarrow> ResponseWriter) option" where
  "management_action h path =
     (if path = RouteHealth then Some (liveness h)
      else if path = RouteReadiness \<or> path = RouteActuatorHealth then Some (readiness h)
      else if H_metricsEnabled h \<and> (path = RouteMetrics \<or> path = RouteActuatorPrometheus) then Some (H_registry h)
      else None)"

lemma route_names_distinct:
  "distinct [RouteHealth, RouteReadiness, RouteActuatorHealth, RouteMetrics, RouteActuatorPrometheus]"
  by (simp add: management_route_defs)

lemma management_mux_action:
  assumes "path = CHR ''/'' # p"
  shows "management_mux h verb path w =
     (case management_action h path of
        None \<Rightarrow> http_Error ''404 page not found'' 404 w
      | Some action \<Rightarrow>
          if method_served verb then action w
          else http_Error ''Method Not Allowed'' 405 (w\<lparr>RW_header := (RW_header w)(''Allow'' \<mapsto> ''GET, HEAD'')\<rparr>))"
proof -
  have "r \<in> {RouteHealth, RouteReadiness, RouteActuatorHealth, RouteMetrics, RouteActuatorPrometheus}"
    if "(r, a) \<in> set (Routes h)" for r a
    using that by (auto simp: Routes_def split: if_splits)
  from management_routes_literal[OF this] assms
  have exact: "filter (\<lambda>(r, _). match_route r path \<noteq> None) (Routes h) = filter (\<lambda>(r, _). r = path) (Routes h)"
    by (intro filter_cong) auto
  show ?thesis
    using route_names_distinct unfolding management_mux_def exact by (auto simp: Routes_def management_action_def)
qed

lemma response_status_sent [simp]:
  "response_status (RW_WriteHeader status w) = (case RW_sent w of None \<Rightarrow> status | Some (s, _) \<Rightarrow> s)"
  by (auto simp: response_status_def RW_WriteHeader_def split: option.splits)

lemma RW_sent_writeHealth [simp]:
  "RW_sent w = None \<Longrightarrow>
   RW_sent (writeHealth status text w) = Some (status, (RW_header w)(HeaderContentType \<mapsto> ContentTypeJSON))"
  by (simp add: writeHealth_def RW_Write_def RW_WriteHeader_def Let_def)

lemma RW_body_writeHealth:
  "RW_sent w = None \<Longrightarrow> \<not> RW_broken w \<Longrightarrow>
   RW_body (writeHealth status text w) = RW_body w @ Encode (json_healthDocument text)"
  by (simp add: writeHealth_def RW_Write_def RW_WriteHeader_def Let_def)

section \<open>The readiness probe\<close>

definition ManagementReadinessURL :: string where "ManagementReadinessURL = ''http://127.0.0.1:8081/readyz''"
definition errorCreateRequest :: string where "errorCreateRequest = ''create readiness request''"
definition errorExecuteRequest :: string where "errorExecuteRequest = ''execute readiness request''"

definition errorUnexpectedStatus :: "int \<Rightarrow> string" where
  "errorUnexpectedStatus code = ''readiness endpoint returned HTTP '' @ FormatInt code"

record http_client =
  Cl_NewRequest :: "string \<Rightarrow> go_error option"
  Cl_Do :: "string \<Rightarrow> go_error + int"

definition probe :: "http_client \<Rightarrow> string \<Rightarrow> go_error option" where
  "probe client endpoint =
     (case Cl_NewRequest client endpoint of
        Some e \<Rightarrow> Some (Wrapped errorCreateRequest e)
      | None \<Rightarrow>
          (case Cl_Do client endpoint of
             Inl e \<Rightarrow> Some (Wrapped errorExecuteRequest e)
           | Inr code \<Rightarrow> if code \<noteq> 200 then Some (ErrorText (errorUnexpectedStatus code)) else None))"

definition Readiness :: "http_client \<Rightarrow> go_error option" where
  "Readiness client = probe client ManagementReadinessURL"

text \<open>
  A client of the same host: \<open>listening\<close> gives the management server behind a loopback address. A request
  to \<open>http://\<close>, an address and a path reaches it, or fails when nobody listens there.
\<close>

definition url_target :: "string \<Rightarrow> string \<times> string" where
  "url_target url = (let t = drop 7 url in (takeWhile (\<lambda>c. c \<noteq> CHR ''/'') t, dropWhile (\<lambda>c. c \<noteq> CHR ''/'') t))"

definition local_client :: "(string \<Rightarrow> Handler option) \<Rightarrow> http_client" where
  "local_client listening =
     \<lparr>Cl_NewRequest = (\<lambda>_. None),
      Cl_Do = (\<lambda>url. case url_target url of (addr, path) \<Rightarrow>
        (case listening addr of
           None \<Rightarrow> Inl (ErrorText ''connection refused'')
         | Some h \<Rightarrow> Inr (response_status (management_serve h ''GET'' path False))))\<rparr>"

end
