(* ===== verification/Serve_Loop.thy ===== *)
theory Serve_Loop
  imports Config Router Management Details
begin

text \<open>
  \<open>serve\<close> of \<open>internal/app/app.go\<close>: the listeners are opened in order, one goroutine per server runs
  \<open>http.Server.Serve\<close> and sends its result on a channel of two places, the main goroutine waits for the
  context or for a result and then shuts every server down. The steps of all goroutines interleave; the
  network, the end of the context and the outcome of a shutdown are free choices of a step. Of
  \<open>http.Server\<close>, \<open>Serve\<close> returns \<open>ErrServerClosed\<close> when \<open>Shutdown\<close> was called before or meanwhile, it
  closes its listener when it returns, and \<open>Shutdown\<close> closes the listeners that are being served.
\<close>

section \<open>Servers\<close>

definition serverRolePublic :: string where "serverRolePublic = ''public''"
definition serverRoleManagement :: string where "serverRoleManagement = ''management''"
definition serverErrorBufferSize :: nat where "serverErrorBufferSize = 2"
definition logMessageListening :: string where "logMessageListening = ''HTTP listener started''"
definition logMessageShutdown :: string where "logMessageShutdown = ''HTTP servers stopped''"

datatype server_handler = Public_handler Router | Management_handler Handler

record configuredServer =
  CS_role :: string
  CS_Addr :: string
  CS_Handler :: server_handler
  CS_ReadHeaderTimeout :: int
  CS_ReadTimeout :: int
  CS_WriteTimeout :: int
  CS_IdleTimeout :: int

definition newConfiguredServer :: "string \<Rightarrow> string \<Rightarrow> server_handler \<Rightarrow> Config \<Rightarrow> configuredServer" where
  "newConfiguredServer role addr handler cfg =
     \<lparr>CS_role = role, CS_Addr = addr, CS_Handler = handler, CS_ReadHeaderTimeout = ReadHeaderTimeout cfg,
      CS_ReadTimeout = ReadTimeout cfg, CS_WriteTimeout = WriteTimeout cfg, CS_IdleTimeout = IdleTimeout cfg\<rparr>"

definition stopServer :: "string \<Rightarrow> go_error option \<Rightarrow> go_error option" where
  "stopServer role outcome = map_option (Wrapped (''stop '' @ role @ '' server'')) outcome"

definition listen_error :: "configuredServer \<Rightarrow> go_error \<Rightarrow> go_error" where
  "listen_error c e = Wrapped (''listen on '' @ CS_role c @ '' address '' @ CS_Addr c) e"

section \<open>States and steps\<close>

datatype goroutine = Spawned | Serving | Returned "go_error option" | Sent

datatype main_pc =
    Opening nat
  | Spawning nat
  | Waiting
  | Stopping nat "go_error option"
  | Closing nat "go_error option"
  | Finished "go_error option"

text \<open>Per server: whether its listener is open, whether \<open>Shutdown\<close> was called, and its goroutine.\<close>

record serve_state =
  S_pc :: main_pc
  S_open :: "bool list"
  S_shutdown :: "bool list"
  S_routines :: "goroutine list"
  S_channel :: "go_error option list"
  S_cancelled :: bool

definition serve_init :: "configuredServer list \<Rightarrow> serve_state" where
  "serve_init servers =
     \<lparr>S_pc = Opening 0, S_open = [], S_shutdown = replicate (length servers) False, S_routines = [], S_channel = [],
      S_cancelled = False\<rparr>"

definition closeListeners :: "bool list \<Rightarrow> bool list" where
  "closeListeners listeners = map (\<lambda>_. False) listeners"

inductive serve_step :: "configuredServer list \<Rightarrow> serve_state \<Rightarrow> serve_state \<Rightarrow> bool" for servers where
  listen: "S_pc s = Opening i \<Longrightarrow> i < length servers \<Longrightarrow>
    serve_step servers s (s\<lparr>S_pc := Opening (Suc i), S_open := S_open s @ [True]\<rparr>)"
| listen_fails: "S_pc s = Opening i \<Longrightarrow> i < length servers \<Longrightarrow>
    serve_step servers s (s\<lparr>S_pc := Finished (Some (listen_error (servers ! i) e)), S_open := closeListeners (S_open s)\<rparr>)"
| listening: "S_pc s = Opening (length servers) \<Longrightarrow> serve_step servers s (s\<lparr>S_pc := Spawning 0\<rparr>)"
| spawn: "S_pc s = Spawning i \<Longrightarrow> i < length servers \<Longrightarrow>
    serve_step servers s (s\<lparr>S_pc := Spawning (Suc i), S_routines := S_routines s @ [Spawned]\<rparr>)"
| spawned: "S_pc s = Spawning (length servers) \<Longrightarrow> serve_step servers s (s\<lparr>S_pc := Waiting\<rparr>)"
| cancel: "\<not> S_cancelled s \<Longrightarrow> serve_step servers s (s\<lparr>S_cancelled := True\<rparr>)"
| enter: "j < length (S_routines s) \<Longrightarrow> S_routines s ! j = Spawned \<Longrightarrow> \<not> S_shutdown s ! j \<Longrightarrow>
    serve_step servers s (s\<lparr>S_routines := (S_routines s)[j := Serving]\<rparr>)"
| enter_closed: "j < length (S_routines s) \<Longrightarrow> S_routines s ! j = Spawned \<Longrightarrow> S_shutdown s ! j \<Longrightarrow>
    serve_step servers s (s\<lparr>S_routines := (S_routines s)[j := Returned None], S_open := (S_open s)[j := False]\<rparr>)"
| serve_fails: "j < length (S_routines s) \<Longrightarrow> S_routines s ! j = Serving \<Longrightarrow> \<not> S_shutdown s ! j \<Longrightarrow>
    serve_step servers s (s\<lparr>S_routines := (S_routines s)[j := Returned (Some e)], S_open := (S_open s)[j := False]\<rparr>)"
| serve_closed: "j < length (S_routines s) \<Longrightarrow> S_routines s ! j = Serving \<Longrightarrow> S_shutdown s ! j \<Longrightarrow>
    serve_step servers s (s\<lparr>S_routines := (S_routines s)[j := Returned None], S_open := (S_open s)[j := False]\<rparr>)"
| send: "j < length (S_routines s) \<Longrightarrow> S_routines s ! j = Returned r \<Longrightarrow> length (S_channel s) < serverErrorBufferSize \<Longrightarrow>
    serve_step servers s (s\<lparr>S_routines := (S_routines s)[j := Sent], S_channel := S_channel s @ [r]\<rparr>)"
| select_done: "S_pc s = Waiting \<Longrightarrow> S_cancelled s \<Longrightarrow> serve_step servers s (s\<lparr>S_pc := Stopping 0 None\<rparr>)"
| select_error: "S_pc s = Waiting \<Longrightarrow> S_channel s = r # rest \<Longrightarrow>
    serve_step servers s (s\<lparr>S_pc := Stopping 0 r, S_channel := rest\<rparr>)"
| shutdown: "S_pc s = Stopping j err \<Longrightarrow> j < length servers \<Longrightarrow>
    serve_step servers s
      (s\<lparr>S_pc := Closing j err, S_shutdown := (S_shutdown s)[j := True],
         S_open := (if S_routines s ! j = Serving then (S_open s)[j := False] else S_open s)\<rparr>)"
| shutdown_returns: "S_pc s = Closing j err \<Longrightarrow>
    serve_step servers s (s\<lparr>S_pc := Stopping (Suc j) (errors_Join [err, stopServer (CS_role (servers ! j)) outcome])\<rparr>)"
| finish: "S_pc s = Stopping (length servers) err \<Longrightarrow> serve_step servers s (s\<lparr>S_pc := Finished err\<rparr>)"

inductive_cases serve_stepE: "serve_step servers s t"

definition serve_reachable :: "configuredServer list \<Rightarrow> serve_state \<Rightarrow> bool" where
  "serve_reachable servers = (serve_step servers)\<^sup>*\<^sup>* (serve_init servers)"

lemma serve_reachable_induct [consumes 1, case_names init step]:
  assumes "serve_reachable servers s" "P (serve_init servers)"
    and "\<And>s t. serve_reachable servers s \<Longrightarrow> P s \<Longrightarrow> serve_step servers s t \<Longrightarrow> P t"
  shows "P s"
  using assms(1) unfolding serve_reachable_def
proof (induction rule: rtranclp_induct)
  case (step s t)
  with assms(3) show ?case by (simp add: serve_reachable_def)
qed (rule assms(2))

section \<open>Systems whose runs end\<close>

text \<open>
  The contract of a transition system that comes to an end: an invariant of its reachable states, and a
  measure that every step from such a state decreases.
\<close>

locale bounded_system =
  fixes step :: "'s \<Rightarrow> 's \<Rightarrow> bool" and start :: 's and inv :: "'s \<Rightarrow> bool" and rank :: "'s \<Rightarrow> nat"
  assumes inv_start: "inv start"
    and inv_step: "inv s \<Longrightarrow> step s t \<Longrightarrow> inv t"
    and rank_step: "inv s \<Longrightarrow> step s t \<Longrightarrow> rank t < rank s"
begin

lemma reachable_inv: "step\<^sup>*\<^sup>* start s \<Longrightarrow> inv s"
  by (induction rule: rtranclp_induct) (auto intro: inv_start inv_step)

lemma run_inv: "(step ^^ k) start s \<Longrightarrow> inv s"
  using reachable_inv relpowp_imp_rtranclp by metis

lemma run_bounded: "(step ^^ k) start s \<Longrightarrow> k + rank s \<le> rank start"
proof (induction k arbitrary: s)
  case (Suc k)
  then obtain r where "(step ^^ k) start r" "step r s" by auto
  with Suc.IH[of r] run_inv[of k r] rank_step[of r s] show ?case by simp
qed simp

lemma steps_wf: "wf {(t, s). inv s \<and> step s t}"
  by (rule wf_subset[OF wf_measure[of rank]]) (auto simp: rank_step)

end

section \<open>Every step is progress\<close>

fun pc_rank :: "nat \<Rightarrow> main_pc \<Rightarrow> nat" where
  "pc_rank n (Opening i) = 6 * n + 4 + (n - i)"
| "pc_rank n (Spawning i) = 2 * n + 3 + 4 * (n - i)"
| "pc_rank n Waiting = 2 * n + 2"
| "pc_rank n (Stopping j _) = 2 * (n - j) + 1"
| "pc_rank n (Closing j _) = 2 * (n - j)"
| "pc_rank n (Finished _) = 0"

fun routine_rank :: "goroutine \<Rightarrow> nat" where
  "routine_rank Spawned = 3"
| "routine_rank Serving = 2"
| "routine_rank (Returned _) = 1"
| "routine_rank Sent = 0"

definition serve_measure :: "nat \<Rightarrow> serve_state \<Rightarrow> nat" where
  "serve_measure n s =
     pc_rank n (S_pc s) + sum_list (map routine_rank (S_routines s)) + (if S_cancelled s then 0 else 1)"

lemma sum_list_update_less:
  fixes xs :: "nat list"
  assumes "j < length xs" "x < xs ! j"
  shows "sum_list (xs[j := x]) < sum_list xs"
  using assms by (induction xs arbitrary: j) (auto simp: less_Suc_eq_0_disj nth_Cons')

lemma routine_rank_update:
  assumes "j < length gs" "routine_rank g < routine_rank (gs ! j)"
  shows "sum_list (map routine_rank (gs[j := g])) < sum_list (map routine_rank gs)"
  using assms by (simp add: map_update sum_list_update_less)

text \<open>The positions of the main goroutine stay in range.\<close>

definition pc_in_range :: "nat \<Rightarrow> main_pc \<Rightarrow> bool" where
  "pc_in_range n pc \<longleftrightarrow>
     (case pc of Opening i \<Rightarrow> i \<le> n | Spawning i \<Rightarrow> i \<le> n | Stopping j _ \<Rightarrow> j \<le> n | Closing j _ \<Rightarrow> j < n | _ \<Rightarrow> True)"

lemma serve_step_in_range: "serve_step servers s t \<Longrightarrow> pc_in_range (length servers) (S_pc s) \<Longrightarrow> pc_in_range (length servers) (S_pc t)"
  by (induction rule: serve_step.induct) (auto simp: pc_in_range_def)

lemma serve_step_measure:
  assumes "serve_step servers s t" "pc_in_range (length servers) (S_pc s)"
  shows "serve_measure (length servers) t < serve_measure (length servers) s"
  using assms
  by (induction rule: serve_step.induct) (auto simp: serve_measure_def pc_in_range_def routine_rank_update)

interpretation serving: bounded_system "serve_step servers" "serve_init servers"
  "\<lambda>s. pc_in_range (length servers) (S_pc s)" "serve_measure (length servers)" for servers
  by unfold_locales
    (auto simp: serve_init_def pc_in_range_def serve_step_measure dest: serve_step_in_range)

section \<open>Invariants\<close>

text \<open>The shape of a state at each position of the main goroutine.\<close>

definition shutdown_upto :: "nat \<Rightarrow> serve_state \<Rightarrow> bool" where
  "shutdown_upto k s \<longleftrightarrow> (\<forall>j < length (S_shutdown s). S_shutdown s ! j \<longleftrightarrow> j < k)"

definition started_all :: "nat \<Rightarrow> serve_state \<Rightarrow> bool" where
  "started_all n s \<longleftrightarrow> length (S_open s) = n \<and> length (S_routines s) = n"

fun serve_shape :: "nat \<Rightarrow> serve_state \<Rightarrow> main_pc \<Rightarrow> bool" where
  "serve_shape n s (Opening i) \<longleftrightarrow> 
     i \<le> n \<and> length (S_open s) = i \<and> False \<notin> set (S_open s) \<and> S_routines s = [] \<and> S_channel s = [] \<and> shutdown_upto 0 s"
| "serve_shape n s (Spawning i) \<longleftrightarrow> i \<le> n \<and> length (S_open s) = n \<and> length (S_routines s) = i \<and>
     (\<forall>j < n. i \<le> j \<longrightarrow> S_open s ! j) \<and> shutdown_upto 0 s"
| "serve_shape n s Waiting \<longleftrightarrow> started_all n s \<and> shutdown_upto 0 s"
| "serve_shape n s (Stopping j err) \<longleftrightarrow>
     j \<le> n \<and> started_all n s \<and> shutdown_upto j s \<and> (err = None \<longrightarrow> S_cancelled s)"
| "serve_shape n s (Closing j err) \<longleftrightarrow>
     j < n \<and> started_all n s \<and> shutdown_upto (Suc j) s \<and> (err = None \<longrightarrow> S_cancelled s)"
| "serve_shape n s (Finished err) \<longleftrightarrow>
     (S_routines s = [] \<and> S_channel s = [] \<and> True \<notin> set (S_open s) \<and> err \<noteq> None \<or>
      started_all n s \<and> shutdown_upto n s \<and> (err = None \<longrightarrow> S_cancelled s))"

text \<open>
  A listener is open exactly while its goroutine can still serve on it; a result that is not an error comes
  after a shutdown; every place of the channel belongs to a goroutine that has sent.
\<close>

fun routine_ok :: "bool \<Rightarrow> bool \<Rightarrow> goroutine \<Rightarrow> bool" where
  "routine_ok opened stopped Spawned \<longleftrightarrow> opened"
| "routine_ok opened stopped Serving \<longleftrightarrow> (opened \<longleftrightarrow> \<not> stopped)"
| "routine_ok opened stopped (Returned r) \<longleftrightarrow> \<not> opened \<and> (r = None \<longrightarrow> stopped)"
| "routine_ok opened stopped Sent \<longleftrightarrow> \<not> opened"

definition shape_inv :: "nat \<Rightarrow> serve_state \<Rightarrow> bool" where
  "shape_inv n s \<longleftrightarrow> length (S_shutdown s) = n \<and> serve_shape n s (S_pc s)"

definition routine_inv :: "serve_state \<Rightarrow> bool" where
  "routine_inv s \<longleftrightarrow> length (S_routines s) \<le> length (S_open s) \<and> length (S_routines s) \<le> length (S_shutdown s) \<and>
     (\<forall>j < length (S_routines s). routine_ok (S_open s ! j) (S_shutdown s ! j) (S_routines s ! j))"

definition channel_inv :: "serve_state \<Rightarrow> bool" where
  "channel_inv s \<longleftrightarrow>
     (None \<in> set (S_channel s) \<longrightarrow> True \<in> set (S_shutdown s)) \<and>
     length (S_channel s) \<le> length (filter (\<lambda>g. g = Sent) (S_routines s))"

lemma errors_Join_two: "errors_Join [err, e] = None \<longleftrightarrow> err = None \<and> e = None"
  by (cases err; cases e) (simp_all add: errors_Join_def List.map_filter_def split: list.splits)

lemma shutdown_upto_update:
  "shutdown_upto j s \<Longrightarrow> shutdown_upto (Suc j) (s\<lparr>S_shutdown := (S_shutdown s)[j := True], S_open := opened, S_pc := pc\<rparr>)"
  by (auto simp: shutdown_upto_def nth_list_update less_Suc_eq)

lemma no_shutdown: "shutdown_upto 0 s \<Longrightarrow> True \<notin> set (S_shutdown s)"
  by (auto simp: shutdown_upto_def in_set_conv_nth)

lemma shape_inv_routine:
  assumes "shape_inv n s" "j < length (S_routines s)"
    and "S_pc t = S_pc s" "S_shutdown t = S_shutdown s" "length (S_routines t) = length (S_routines s)"
    and "S_open t = S_open s \<or> S_open t = (S_open s)[j := False]" "S_cancelled t = S_cancelled s"
  shows "shape_inv n t"
proof -
  have lengths: "length (S_open t) = length (S_open s)" using assms(6) by auto
  have tail: "S_open t ! k = S_open s ! k" if "length (S_routines s) \<le> k" for k using assms(2,6) that by auto
  show ?thesis
    using assms(1-5,7) lengths tail
    by (cases "S_pc s") (simp_all add: shape_inv_def started_all_def shutdown_upto_def, auto)
qed

lemmas shape_defs = shape_inv_def started_all_def shutdown_upto_def

lemma shape_inv_step:
  assumes "serve_step servers s t" "shape_inv (length servers) s" "channel_inv s"
  shows "shape_inv (length servers) t"
  using assms
proof (induction rule: serve_step.induct)
  case (shutdown s j err)
  then show ?case
    by (auto simp: shape_defs nth_list_update less_Suc_eq)
next
  case (select_error s r rest)
  then have "r \<noteq> None" using no_shutdown[of s] by (cases r) (auto simp: shape_inv_def channel_inv_def)
  with select_error show ?case by (auto simp: shape_defs)
next
  case (cancel s)
  then show ?case by (cases "S_pc s") (auto simp: shape_defs)
next
  case (listen_fails s i e)
  then show ?case by (simp add: shape_defs closeListeners_def)
next
  case (spawned s)
  then show ?case by (simp add: shape_defs)
next
  case (listening s)
  then show ?case by (auto simp: shape_defs in_set_conv_nth)
next
  case (finish s err)
  then show ?case by (simp add: shape_defs)
next
  case (shutdown_returns s j err outcome)
  then show ?case by (auto simp: shape_defs errors_Join_two)
next
  case (enter j s)
  then show ?case by (auto intro: shape_inv_routine[of _ s j])
next
  case (enter_closed j s)
  then show ?case by (auto intro: shape_inv_routine[of _ s j])
next
  case (serve_fails j s e)
  then show ?case by (auto intro: shape_inv_routine[of _ s j])
next
  case (serve_closed j s)
  then show ?case by (auto intro: shape_inv_routine[of _ s j])
next
  case (send j s r)
  then show ?case by (auto intro: shape_inv_routine[of _ s j])
qed (auto simp: shape_defs)

lemma routine_okI: "routine_inv s \<Longrightarrow> j < length (S_routines s) \<Longrightarrow> routine_ok (S_open s ! j) (S_shutdown s ! j) (S_routines s ! j)"
  by (simp add: routine_inv_def)

lemma routine_inv_frame:
  "routine_inv s \<Longrightarrow> S_open t = S_open s \<Longrightarrow> S_shutdown t = S_shutdown s \<Longrightarrow> S_routines t = S_routines s \<Longrightarrow> routine_inv t"
  by (simp add: routine_inv_def)

lemma routine_inv_update:
  assumes "routine_inv s" "j < length (S_routines s)" "routine_ok (opened ! j) (S_shutdown s ! j) g"
    and "S_shutdown t = S_shutdown s" "S_routines t = (S_routines s)[j := g]" "S_open t = opened"
    and "opened = S_open s \<or> opened = (S_open s)[j := False]"
  shows "routine_inv t"
proof -
  have "routine_ok (S_open t ! k) (S_shutdown t ! k) (S_routines t ! k)" if "k < length (S_routines t)" for k
    using that assms routine_okI[OF assms(1), of k] by (cases "k = j") auto
  with assms show ?thesis by (auto simp: routine_inv_def)
qed

lemma routine_inv_step:
  assumes "serve_step servers s t" "routine_inv s" "shape_inv (length servers) s"
  shows "routine_inv t"
  using assms
proof (induction rule: serve_step.induct)
  case (listen s i)
  then show ?case by (simp add: routine_inv_def shape_inv_def)
next
  case (listen_fails s i e)
  then show ?case by (simp add: routine_inv_def shape_inv_def)
next
  case (spawn s i)
  then show ?case
    by (auto simp: routine_inv_def shape_inv_def nth_append less_Suc_eq)
next
  case (shutdown s j err)
  have "routine_ok (S_open (s\<lparr>S_open := (if S_routines s ! j = Serving then (S_open s)[j := False] else S_open s)\<rparr>) ! k)
      ((S_shutdown s)[j := True] ! k) (S_routines s ! k)" if "k < length (S_routines s)" for k
    using shutdown that routine_okI[of s k]
    by (cases "S_routines s ! k"; cases "k = j") (auto simp: routine_inv_def)
  with shutdown show ?case by (simp add: routine_inv_def)
next
  case (enter j s)
  then show ?case using routine_okI[of s j] by (auto intro: routine_inv_update[of s j "S_open s" Serving])
next
  case (enter_closed j s)
  then have "j < length (S_open s)" by (simp add: routine_inv_def)
  with enter_closed show ?case
    by (auto intro: routine_inv_update[of s j "(S_open s)[j := False]" "Returned None"])
next
  case (serve_fails j s e)
  then have "j < length (S_open s)" by (simp add: routine_inv_def)
  with serve_fails show ?case
    by (auto intro: routine_inv_update[of s j "(S_open s)[j := False]" "Returned (Some e)"])
next
  case (serve_closed j s)
  then have "j < length (S_open s)" by (simp add: routine_inv_def)
  with serve_closed show ?case
    by (auto intro: routine_inv_update[of s j "(S_open s)[j := False]" "Returned None"])
next
  case (send j s r)
  then show ?case
    using routine_okI[of s j] by (auto intro: routine_inv_update[of s j "S_open s" Sent])
qed (rule routine_inv_frame; simp)+

lemma length_filter_update_Sent:
  "j < length gs \<Longrightarrow> gs ! j \<noteq> Sent \<Longrightarrow>
   length (filter (\<lambda>g. g = Sent) (gs[j := g'])) = length (filter (\<lambda>g. g = Sent) gs) + (if g' = Sent then 1 else 0)"
  by (induction gs arbitrary: j) (auto simp: less_Suc_eq_0_disj nth_Cons')

lemma True_update: "True \<in> set xs \<Longrightarrow> True \<in> set (xs[j := True])"
  by (induction xs arbitrary: j) (auto split: nat.splits)

lemma channel_inv_step:
  assumes "serve_step servers s t" "channel_inv s" "routine_inv s"
  shows "channel_inv t"
  using assms
proof (induction rule: serve_step.induct)
  case (send j s r)
  then have "j < length (S_shutdown s)" "r = None \<Longrightarrow> S_shutdown s ! j"
    using routine_okI[of s j] by (auto simp: routine_inv_def)
  then have "r = None \<longrightarrow> True \<in> set (S_shutdown s)" by (metis nth_mem)
  with send show ?case by (auto simp: channel_inv_def length_filter_update_Sent)
next
  case (shutdown s j err)
  then show ?case by (auto simp: channel_inv_def True_update)
qed (auto simp: channel_inv_def length_filter_update_Sent)

definition serve_inv :: "nat \<Rightarrow> serve_state \<Rightarrow> bool" where
  "serve_inv n s \<longleftrightarrow> shape_inv n s \<and> routine_inv s \<and> channel_inv s"

lemma serve_reachable_inv: "serve_reachable servers s \<Longrightarrow> serve_inv (length servers) s"
proof (induction rule: serve_reachable_induct)
  case init
  then show ?case
    by (simp add: serve_inv_def serve_init_def shape_inv_def routine_inv_def channel_inv_def shutdown_upto_def)
next
  case (step s t)
  then show ?case
    unfolding serve_inv_def by (blast intro: shape_inv_step routine_inv_step channel_inv_step)
qed

section \<open>Progress and the end of a run\<close>

text \<open>With at most two servers, no goroutine waits to send.\<close>

lemma channel_has_room:
  assumes "serve_inv n s" "n \<le> serverErrorBufferSize" "j < length (S_routines s)" "S_routines s ! j \<noteq> Sent"
  shows "length (S_channel s) < serverErrorBufferSize"
proof -
  have "length (filter (\<lambda>g. g = Sent) (S_routines s)) < length (S_routines s)"
    using assms(3,4) by (intro length_filter_less[of "S_routines s ! j"]) auto
  moreover have "length (S_routines s) \<le> n"
    using assms(1) by (simp add: serve_inv_def routine_inv_def shape_inv_def)
  moreover have "length (S_channel s) \<le> length (filter (\<lambda>g. g = Sent) (S_routines s))"
    using assms(1) by (simp add: serve_inv_def channel_inv_def)
  ultimately show ?thesis using assms(2) by linarith
qed

definition serve_final :: "serve_state \<Rightarrow> bool" where
  "serve_final s \<longleftrightarrow> (\<exists>err. S_pc s = Finished err) \<and> (\<forall>g \<in> set (S_routines s). g = Sent)"

text \<open>The main goroutine can go on wherever the context has ended.\<close>

lemma main_can_step:
  assumes "serve_inv (length servers) s" "S_cancelled s" "\<nexists>err. S_pc s = Finished err"
  shows "\<exists>t. serve_step servers s t \<and> pc_rank (length servers) (S_pc t) < pc_rank (length servers) (S_pc s)"
proof (cases "S_pc s")
  case (Opening i)
  then consider "i < length servers" | "i = length servers"
    using assms(1) by (fastforce simp: serve_inv_def shape_inv_def)
  then show ?thesis
  proof cases
    case 1
    with listen[OF Opening] show ?thesis using Opening by fastforce
  next
    case 2
    with listening[of s servers] show ?thesis using Opening by fastforce
  qed
next
  case (Spawning i)
  then consider "i < length servers" | "i = length servers"
    using assms(1) by (fastforce simp: serve_inv_def shape_inv_def)
  then show ?thesis
  proof cases
    case 1
    with spawn[OF Spawning] show ?thesis using Spawning by fastforce
  next
    case 2
    with spawned[of s servers] show ?thesis using Spawning by fastforce
  qed
next
  case Waiting
  with select_done[of s servers] assms(2) show ?thesis by fastforce
next
  case (Stopping j err)
  then consider "j < length servers" | "j = length servers"
    using assms(1) by (fastforce simp: serve_inv_def shape_inv_def)
  then show ?thesis
  proof cases
    case 1
    with shutdown[OF Stopping] show ?thesis using Stopping by fastforce
  next
    case 2
    with finish[of s servers] show ?thesis using Stopping by fastforce
  qed
next
  case (Closing j err)
  then have "j < length servers" using assms(1) by (simp add: serve_inv_def shape_inv_def)
  with shutdown_returns[OF Closing, of servers] Closing show ?thesis by fastforce
qed (use assms(3) in blast)

lemma routine_can_step:
  assumes "serve_inv (length servers) s" "length servers \<le> serverErrorBufferSize"
    and "j < length (S_routines s)" "S_routines s ! j \<noteq> Sent"
  shows "\<exists>t. serve_step servers s t"
proof (cases "S_routines s ! j")
  case Spawned
  with assms(3) show ?thesis by (cases "S_shutdown s ! j") (blast intro: enter enter_closed)+
next
  case Serving
  with assms(3) show ?thesis by (cases "S_shutdown s ! j") (blast intro: serve_fails serve_closed)+
next
  case (Returned r)
  with assms(3) channel_has_room[OF assms] show ?thesis by (blast intro: send)
qed (use assms(4) in simp)

lemma stuck_final:
  assumes "serve_inv (length servers) s" "length servers \<le> serverErrorBufferSize" "\<nexists>t. serve_step servers s t"
  shows "serve_final s"
proof -
  have "S_cancelled s" using assms(3) cancel by blast
  then show ?thesis
    using main_can_step[OF assms(1)] routine_can_step[OF assms(1,2)] assms(3)
    by (metis in_set_conv_nth serve_final_def)
qed

lemma final_closed:
  assumes "serve_inv n s" "serve_final s"
  shows "True \<notin> set (S_open s)"
proof -
  obtain err where pc: "S_pc s = Finished err" and sent: "\<forall>g \<in> set (S_routines s). g = Sent"
    using assms(2) by (auto simp: serve_final_def)
  from assms(1) pc consider "True \<notin> set (S_open s)" | "started_all n s"
    by (auto simp: serve_inv_def shape_inv_def)
  then show ?thesis
  proof cases
    case 2
    have "\<not> S_open s ! j" if "j < length (S_open s)" for j
    proof -
      have j: "j < length (S_routines s)" using that 2 by (simp add: started_all_def)
      then have "S_routines s ! j = Sent" using sent nth_mem by blast
      with routine_okI[of s j] j assms(1) show ?thesis by (simp add: serve_inv_def)
    qed
    then show ?thesis by (metis in_set_conv_nth)
  qed
qed

end
