(* ===== verification/Telemetry.thy ===== *)
theory Telemetry
  imports Config
begin

text \<open>
  \<open>internal/telemetry/tracing.go\<close>: the tracing runtime of the process. The parser of URLs and the exporter
  that is made from the options are arguments; a provider is what it was built from. The registration of
  the provider, the propagator and the error handler as process-wide defaults has no part in the model.
\<close>

definition ApplicationName :: string where "ApplicationName = ''go-open-discogs-api''"
definition telemetryErrorMessage :: string where "telemetryErrorMessage = ''OpenTelemetry exporter error''"

datatype otlp_option = WithEndpointURL string | WithInsecure

datatype http_tracer = NoopHTTPTracer | OpenTelemetryHTTPTracer

record tracer_provider =
  TP_options :: "otlp_option list"
  TP_parentBasedRatio :: float64
  TP_serviceName :: string
  TP_serviceVersion :: string

record Runtime =
  Rt_httpTracer :: http_tracer
  Rt_queryTracer :: "tracer_provider option"
  Rt_provider :: "tracer_provider option"

record exporter_factory =
  EF_parse :: "string \<Rightarrow> go_error + parsed_url"
  EF_new :: "otlp_option list \<Rightarrow> go_error option"
  EF_version :: string

definition Setup :: "exporter_factory \<Rightarrow> Tracing \<Rightarrow> go_error + Runtime" where
  "Setup ef settings =
     (if \<not> Tracing_Enabled settings
      then Inr \<lparr>Rt_httpTracer = NoopHTTPTracer, Rt_queryTracer = None, Rt_provider = None\<rparr>
      else case EF_parse ef (Tracing_Endpoint settings) of
        Inl e \<Rightarrow> Inl e
      | Inr endpoint \<Rightarrow>
          let options = [WithEndpointURL (Tracing_Endpoint settings)] @
                (if Url_Scheme endpoint = ''http'' then [WithInsecure] else [])
          in case EF_new ef options of
            Some e \<Rightarrow> Inl e
          | None \<Rightarrow>
              let provider = \<lparr>TP_options = options, TP_parentBasedRatio = Tracing_SampleRatio settings,
                    TP_serviceName = ApplicationName, TP_serviceVersion = EF_version ef\<rparr>
              in Inr \<lparr>Rt_httpTracer = OpenTelemetryHTTPTracer, Rt_queryTracer = Some provider, Rt_provider = Some provider\<rparr>)"

text \<open>The shutdown of the provider, whose outcome is given; nothing to do without one.\<close>

definition Shutdown :: "Runtime \<Rightarrow> go_error option \<Rightarrow> go_error option" where
  "Shutdown r outcome = (case Rt_provider r of None \<Rightarrow> None | Some _ \<Rightarrow> outcome)"

text \<open>Tracing is all or nothing: requests are traced exactly when queries are, and when it is enabled.\<close>

lemma Setup_consistent:
  assumes "Setup ef settings = Inr r"
  shows "Rt_queryTracer r = Rt_provider r \<and> (Rt_provider r \<noteq> None \<longleftrightarrow> Tracing_Enabled settings) \<and>
    (Rt_httpTracer r = OpenTelemetryHTTPTracer \<longleftrightarrow> Tracing_Enabled settings)"
  using assms by (auto simp: Setup_def Let_def split: if_splits sum.splits option.splits)

end
