(* ===== verification/Lifecycle.thy ===== *)
theory Lifecycle
  imports Serve_Loop Telemetry Snapshots
begin

text \<open>
  \<open>internal/app/app.go\<close> and \<open>main.go\<close>: assembling the process from its configuration, the order in which
  its resources are opened and released, and the exit code. The calls that leave the program (making a
  pool, reading the catalogs, running the servers, flushing telemetry) have given outcomes, in the record
  \<open>externals\<close>; what \<open>serve\<close> can return is the subject of \<open>Serve_Loop\<close>.
\<close>

section \<open>The pool\<close>

definition databaseApplicationName :: string where "databaseApplicationName = ''go-open-discogs-api''"
definition connectionParameterName :: string where "connectionParameterName = ''application_name''"
definition databaseSearchPathName :: string where "databaseSearchPathName = ''search_path''"
definition databaseConnectionPrefix :: string where "databaseConnectionPrefix = ''configure PostgreSQL''"

record PoolConfig =
  PC_connString :: string
  PC_MaxConns :: int
  PC_MinConns :: int
  PC_MaxConnIdleTime :: int
  PC_MaxConnLifetime :: int
  PC_HealthCheckPeriod :: int
  PC_StatementCacheCapacity :: int
  PC_RuntimeParams :: "string \<rightharpoonup> string"
  PC_Tracer :: "tracer_provider option"

record externals =
  Ext_exporter :: exporter_factory
  Ext_ParseConfig :: "string \<Rightarrow> go_error + PoolConfig"
  Ext_newPool :: "PoolConfig \<Rightarrow> go_error + Pool"
  Ext_catalog :: pg_catalog
  Ext_serve :: "configuredServer list \<Rightarrow> int \<Rightarrow> go_error option"
  Ext_shutdown :: "go_error option"
  Ext_registry :: "ResponseWriter \<Rightarrow> ResponseWriter"
  Ext_files :: embedded_files
  Ext_grow :: "nat \<Rightarrow> nat \<Rightarrow> nat"
  Ext_formatTime :: "go_time \<Rightarrow> string"
  Ext_version :: string
  Ext_stdout :: "go_error option"
  Ext_client :: http_client

definition databaseConfig :: "externals \<Rightarrow> Config \<Rightarrow> Runtime \<Rightarrow> go_error + PoolConfig" where
  "databaseConfig ext cfg rt =
     (case Ext_ParseConfig ext (Database_URL (Config_Database cfg)) of
        Inl e \<Rightarrow> Inl (Wrapped databaseConnectionPrefix e)
      | Inr pc \<Rightarrow>
          let db = Config_Database cfg;
              pc1 = pc\<lparr>PC_MaxConns := MaxConnections db, PC_MinConns := MinConnections db,
                PC_MaxConnIdleTime := MaxConnectionIdle db, PC_MaxConnLifetime := MaxConnectionLife db,
                PC_HealthCheckPeriod := Config.HealthCheckPeriod db,
                PC_StatementCacheCapacity := StatementCacheSize db,
                PC_RuntimeParams := (PC_RuntimeParams pc)(connectionParameterName \<mapsto> databaseApplicationName,
                  databaseSearchPathName \<mapsto> [dquote] @ Database_Schema db @ [dquote])\<rparr>
          in Inr (case Rt_queryTracer rt of None \<Rightarrow> pc1 | Some tracer \<Rightarrow> pc1\<lparr>PC_Tracer := Some tracer\<rparr>))"

section \<open>Running\<close>

datatype app_event =
    Warned_public_schema
  | Telemetry_set_up
  | Pool_created
  | Pinged
  | Schema_validated
  | Servers_ran "configuredServer list"
  | Pool_closed
  | Telemetry_shut_down "go_error option"

text \<open>The two servers, with the components they serve.\<close>

definition public_router :: "externals \<Rightarrow> Config \<Rightarrow> Store \<Rightarrow> Router" where
  "public_router ext cfg repository =
     \<lparr>R_accessLog = AccessLog cfg,
      R_responder = \<lparr>Rsp_cacheControl = CacheControl cfg, Rsp_grow = Ext_grow ext\<rparr>,
      R_repository = store_repository repository, R_files = Ext_files ext, R_version = Ext_version ext,
      R_formatTime = Ext_formatTime ext\<rparr>"

definition configured_servers :: "externals \<Rightarrow> Config \<Rightarrow> Pool \<Rightarrow> configuredServer list" where
  "configured_servers ext cfg pool =
     (let repository = New pool (ServerURL cfg) (QueryTimeout cfg);
          publicHandler = Public_handler (public_router ext cfg repository);
          managementHandler = Management_handler (NewHandler (Ready repository) (Ext_registry ext) (MetricsEnabled cfg))
      in [newConfiguredServer serverRolePublic (PublicAddress cfg) publicHandler cfg,
          newConfiguredServer serverRoleManagement (ManagementAddress cfg) managementHandler cfg])"

definition run_with_pool :: "externals \<Rightarrow> Config \<Rightarrow> Pool \<Rightarrow> go_error option \<times> app_event list" where
  "run_with_pool ext cfg pool =
     (case Pool_pingFault pool of
        Some e \<Rightarrow> (Some (Wrapped ''connect to PostgreSQL'' e), [])
      | None \<Rightarrow>
          (case ValidateSchema (Ext_catalog ext) (Database_Schema (Config_Database cfg)) of
             Some e \<Rightarrow> (Some (Wrapped ''validate PostgreSQL schema'' e), [Pinged])
           | None \<Rightarrow>
               let servers = configured_servers ext cfg pool
               in (Ext_serve ext servers (ShutdownTimeout cfg), [Pinged, Schema_validated, Servers_ran servers])))"

definition run_with_telemetry :: "externals \<Rightarrow> Config \<Rightarrow> Runtime \<Rightarrow> go_error option \<times> app_event list" where
  "run_with_telemetry ext cfg rt =
     (case databaseConfig ext cfg rt of
        Inl e \<Rightarrow> (Some e, [])
      | Inr poolConfig \<Rightarrow>
          (case Ext_newPool ext poolConfig of
             Inl e \<Rightarrow> (Some (Wrapped ''create PostgreSQL pool'' e), [])
           | Inr pool \<Rightarrow>
               (case run_with_pool ext cfg pool of (err, events) \<Rightarrow> (err, [Pool_created] @ events @ [Pool_closed]))))"

definition app_run :: "externals \<Rightarrow> Config \<Rightarrow> go_error option \<times> app_event list" where
  "app_run ext cfg =
     (let warned = (if Database_Schema (Config_Database cfg) = DefaultDatabaseSchema then [Warned_public_schema] else []) in
      case Setup (Ext_exporter ext) (Config_Tracing cfg) of
        Inl e \<Rightarrow> (Some (Wrapped ''configure telemetry'' e), warned)
      | Inr rt \<Rightarrow>
          (case run_with_telemetry ext cfg rt of
             (err, events) \<Rightarrow>
               (err, warned @ [Telemetry_set_up] @ events @ [Telemetry_shut_down (Shutdown rt (Ext_shutdown ext))])))"

section \<open>The process\<close>

datatype main_error = Load_configuration load_error | Run_error go_error

record process =
  Proc_stdout :: string
  Proc_maxProcs :: "int option"
  Proc_memoryLimit :: "int option"
  Proc_events :: "app_event list"

definition idle_process :: process where
  "idle_process = \<lparr>Proc_stdout = [], Proc_maxProcs = None, Proc_memoryLimit = None, Proc_events = []\<rparr>"

definition runWithReadinessProbe ::
  "externals \<Rightarrow> Platform \<Rightarrow> string list \<Rightarrow> LookupEnv \<Rightarrow> go_error option \<Rightarrow> main_error option \<times> process" where
  "runWithReadinessProbe ext plat arguments lookup probed =
     (case Load plat arguments lookup of
        Inl e \<Rightarrow> (if e = Flag_error ErrHelp then None else Some (Load_configuration e), idle_process)
      | Inr result \<Rightarrow>
          if ShowVersion result
          then (map_option Run_error (Ext_stdout ext),
                if Ext_stdout ext = None then idle_process\<lparr>Proc_stdout := Ext_version ext @ [CHR 0x0A]\<rparr> else idle_process)
          else if CheckReadiness result then (map_option Run_error probed, idle_process)
          else
            let cfg = Result_Config result;
                p1 = (if MaxProcs cfg > 0 then idle_process\<lparr>Proc_maxProcs := Some (MaxProcs cfg)\<rparr> else idle_process);
                p2 = (if MemoryLimitBytes cfg > 0 then p1\<lparr>Proc_memoryLimit := Some (MemoryLimitBytes cfg)\<rparr> else p1)
            in case app_run ext cfg of (err, events) \<Rightarrow> (map_option Run_error err, p2\<lparr>Proc_events := events\<rparr>))"

definition main_run :: "externals \<Rightarrow> Platform \<Rightarrow> string list \<Rightarrow> LookupEnv \<Rightarrow> main_error option \<times> process" where
  "main_run ext plat arguments lookup =
     runWithReadinessProbe ext plat arguments lookup (Readiness (Ext_client ext))"

text \<open>The exit code: \<open>exit(1)\<close> on an error, else the process ends with 0.\<close>

definition mainWithExit :: "externals \<Rightarrow> Platform \<Rightarrow> string list \<Rightarrow> LookupEnv \<Rightarrow> int \<times> process" where
  "mainWithExit ext plat arguments lookup =
     (case main_run ext plat arguments lookup of
        (None, p) \<Rightarrow> (0, p)
      | (Some e, p) \<Rightarrow> (1, p))"

end
