(* ===== verification/Config_Settings.thy ===== *)
theory Config_Settings
  imports Config
begin

text \<open>
  What a setting promises, apart from how \<open>Load\<close> assembles it: each setting has a name on the command
  line, a name in the environment, a default and a reader for each source; the command line overrides the
  environment and the environment overrides the default. The lemmas relate this table to the fields that
  \<open>bindFlags\<close> and \<open>environmentValues\<close> assign.
\<close>

section \<open>The table of settings\<close>

datatype setting_value = Text string | Truth bool | Whole int | Nanoseconds int | Ratio float64

record setting =
  Set_flag :: string
  Set_env :: string
  Set_fallback :: setting_value
  Set_read :: "string \<Rightarrow> setting_value option"
  Set_env_read :: "string \<Rightarrow> setting_value option"
  Set_get :: "rawValues \<Rightarrow> setting_value"

text \<open>A blank variable counts as unset for every type but text.\<close>

definition trimmed_reader :: "setting_value \<Rightarrow> (string \<Rightarrow> setting_value option) \<Rightarrow> string \<Rightarrow> setting_value option" where
  "trimmed_reader fallback read t = (if TrimSpace t = [] then Some fallback else read (TrimSpace t))"

definition string_setting :: "string \<Rightarrow> string \<Rightarrow> string \<Rightarrow> (rawValues \<Rightarrow> string) \<Rightarrow> setting" where
  "string_setting flag env initial get =
     \<lparr>Set_flag = flag, Set_env = env, Set_fallback = Text initial, Set_read = Some \<circ> Text,
      Set_env_read = Some \<circ> Text, Set_get = Text \<circ> get\<rparr>"

definition parsed_setting ::
  "('a \<Rightarrow> setting_value) \<Rightarrow> (string \<Rightarrow> 'a option) \<Rightarrow> (string \<Rightarrow> 'a option) \<Rightarrow>
   string \<Rightarrow> string \<Rightarrow> 'a \<Rightarrow> (rawValues \<Rightarrow> 'a) \<Rightarrow> setting" where
  "parsed_setting wrap parse env_parse flag env initial get =
     \<lparr>Set_flag = flag, Set_env = env, Set_fallback = wrap initial, Set_read = map_option wrap \<circ> parse,
      Set_env_read = trimmed_reader (wrap initial) (map_option wrap \<circ> env_parse), Set_get = wrap \<circ> get\<rparr>"

definition bool_setting :: "string \<Rightarrow> string \<Rightarrow> bool \<Rightarrow> (rawValues \<Rightarrow> bool) \<Rightarrow> setting" where
  "bool_setting = parsed_setting Truth ParseBool ParseBool"

definition int_setting :: "string \<Rightarrow> string \<Rightarrow> int \<Rightarrow> (rawValues \<Rightarrow> int) \<Rightarrow> setting" where
  "int_setting = parsed_setting Whole (ParseInt0 64) (ParseInt10 64)"

definition duration_setting :: "string \<Rightarrow> string \<Rightarrow> int \<Rightarrow> (rawValues \<Rightarrow> int) \<Rightarrow> setting" where
  "duration_setting = parsed_setting Nanoseconds ParseDuration ParseDuration"

definition float_setting :: "string \<Rightarrow> string \<Rightarrow> float64 \<Rightarrow> (rawValues \<Rightarrow> float64) \<Rightarrow> setting" where
  "float_setting = parsed_setting Ratio ParseFloat ParseFloat"

lemmas setting_defs =
  string_setting_def parsed_setting_def bool_setting_def int_setting_def duration_setting_def float_setting_def

definition settings :: "setting list" where
  "settings =
    [string_setting FlagAddress EnvAddress DefaultAddress address,
     string_setting FlagManagementAddress EnvManagementAddress DefaultManagementAddress managementAddress,
     string_setting FlagServerURL EnvServerURL DefaultServerURL serverURL,
     string_setting FlagCacheControl EnvCacheControl DefaultCacheControl cacheControl,
     bool_setting FlagAccessLog EnvAccessLog False accessLog,
     int_setting FlagMaxProcs EnvMaxProcs 0 maxProcs,
     int_setting FlagMemoryLimitMiB EnvMemoryLimitMiB 0 memoryLimitMiB,
     string_setting FlagLogLevel EnvLogLevel DefaultLogLevel logLevelText,
     duration_setting FlagQueryTimeout EnvQueryTimeout DefaultQueryTimeout queryTimeout,
     duration_setting FlagShutdownTimeout EnvShutdownTimeout DefaultShutdownTimeout shutdownTimeout,
     string_setting FlagDatabaseURL EnvDatabaseURL [] databaseURL,
     string_setting FlagDatabaseSchema EnvDatabaseSchema DefaultDatabaseSchema databaseSchema,
     string_setting FlagDatabaseHost EnvDatabaseHost [] databaseHost,
     string_setting FlagDatabaseUsername EnvDatabaseUsername [] databaseUsername,
     string_setting FlagDatabasePassword EnvDatabasePassword [] databasePassword,
     string_setting FlagDatabaseName EnvDatabaseName DefaultDatabaseName databaseName,
     string_setting FlagDatabaseSSLMode EnvDatabaseSSLMode DefaultDatabaseSSLMode databaseSSLMode,
     int_setting FlagDatabaseMaxConns EnvDatabaseMaxConns DefaultDatabaseMaxConns databaseMaxConns,
     int_setting FlagDatabaseMinConns EnvDatabaseMinConns DefaultDatabaseMinConns databaseMinConns,
     int_setting FlagStatementCache EnvStatementCache DefaultStatementCacheSize statementCache,
     bool_setting FlagMetricsEnabled EnvMetricsEnabled True metricsEnabled,
     bool_setting FlagTracingEnabled EnvTracingEnabled False tracingEnabled,
     string_setting FlagOTLPEndpoint EnvOTLPEndpoint [] otlpEndpoint,
     float_setting FlagTraceSampleRatio EnvTraceSampleRatio DefaultTraceSampleRatio traceSampleRatio]"

section \<open>The layers\<close>

definition environment_layer :: "LookupEnv \<Rightarrow> setting \<Rightarrow> setting_value option" where
  "environment_layer lookup s =
     (case lookup (Set_env s) of None \<Rightarrow> Some (Set_fallback s) | Some t \<Rightarrow> Set_env_read s t)"

definition layered :: "LookupEnv \<Rightarrow> (string \<times> string) list \<Rightarrow> setting \<Rightarrow> setting_value option" where
  "layered lookup given s =
     (case map_of (rev given) (Set_flag s) of
        Some t \<Rightarrow> Set_read s t
      | None \<Rightarrow> environment_layer lookup s)"

text \<open>Each pair names a setting and gives a text that its reader takes.\<close>

definition readable :: "(string \<times> string) list \<Rightarrow> bool" where
  "readable given \<longleftrightarrow> (\<forall>(name, t) \<in> set given. \<exists>s \<in> set settings. Set_flag s = name \<and> Set_read s t \<noteq> None)"

section \<open>The environment\<close>

lemma environment_parsed_layer:
  "environment_parsed parse failure lookup name d = Inr x \<longleftrightarrow>
   (case lookup name of None \<Rightarrow> x = d | Some t \<Rightarrow> (if TrimSpace t = [] then x = d else parse (TrimSpace t) = Some x))"
  by (auto simp: environment_parsed_def env_value_def Let_def split: option.splits)

lemma assign_Inr: "assign p store rest = Inr v \<longleftrightarrow> (\<exists>x. p = Inr x \<and> rest (store x) = Inr v)"
  by (auto simp: assign_def split: sum.splits)

lemma environment_layer_string:
  "environment_layer lookup (string_setting fl env d get) = Some (Text (env_value lookup env d))"
  by (auto simp: environment_layer_def string_setting_def env_value_def split: option.splits)

lemma environment_layer_parsed:
  "environment_parsed env_parse failure lookup env d = Inr x \<Longrightarrow>
   environment_layer lookup (parsed_setting wrap parse env_parse fl env d get) = Some (wrap x)"
  by (auto simp: environment_layer_def parsed_setting_def trimmed_reader_def environment_parsed_layer
      split: option.splits if_splits)

lemmas environment_readers =
  environmentBool_def environmentInt_def environmentInt64_def environmentFloat_def environmentDuration_def

lemma Atoi_eq: "Atoi = ParseInt10 64"
  by (rule ext) (simp add: Atoi_def)

lemma Set_get_string [simp]: "Set_get (string_setting fl env d get) v = Text (get v)"
  and Set_get_parsed [simp]: "Set_get (parsed_setting wrap p ep fl env d' get') v = wrap (get' v)"
  by (simp_all add: string_setting_def parsed_setting_def)

lemma environmentValues_layer:
  assumes "environmentValues lookup = Inr v" "s \<in> set settings"
  shows "environment_layer lookup s = Some (Set_get s v)"
proof -
  from assms(1) obtain x1 x2 x3 x4 x5 x6 x7 x8 x9 x10 x11 where
    parsed: "environmentBool lookup EnvAccessLog False = Inr x1" "environmentInt lookup EnvMaxProcs 0 = Inr x2"
      "environmentInt lookup EnvMemoryLimitMiB 0 = Inr x3"
      "environmentDuration lookup EnvQueryTimeout DefaultQueryTimeout = Inr x4"
      "environmentDuration lookup EnvShutdownTimeout DefaultShutdownTimeout = Inr x5"
      "environmentInt64 lookup EnvDatabaseMaxConns DefaultDatabaseMaxConns = Inr x6"
      "environmentInt64 lookup EnvDatabaseMinConns DefaultDatabaseMinConns = Inr x7"
      "environmentInt lookup EnvStatementCache DefaultStatementCacheSize = Inr x8"
      "environmentBool lookup EnvMetricsEnabled True = Inr x9" "environmentBool lookup EnvTracingEnabled False = Inr x10"
      "environmentFloat lookup EnvTraceSampleRatio DefaultTraceSampleRatio = Inr x11"
    and v: "v = (initialValues lookup)\<lparr>accessLog := x1, maxProcs := x2, memoryLimitMiB := x3, queryTimeout := x4,
      shutdownTimeout := x5, databaseMaxConns := x6, databaseMinConns := x7, statementCache := x8,
      metricsEnabled := x9, tracingEnabled := x10, traceSampleRatio := x11\<rparr>"
    by (auto simp: environmentValues_def assign_Inr Let_def)
  note parsed = parsed[unfolded environment_readers Atoi_eq]
  note layers = parsed[THEN environment_layer_parsed]
  have "list_all (\<lambda>s. environment_layer lookup s = Some (Set_get s v)) settings"
    by (simp add: settings_def bool_setting_def int_setting_def duration_setting_def float_setting_def
        environment_layer_string layers v initialValues_def)
  with assms(2) show ?thesis by (simp add: list_all_iff)
qed

section \<open>The command line\<close>

text \<open>
  One flag after another. A step that sets one setting leaves every other as it is, because the flags
  have different names.
\<close>

lemma flag_names_distinct: "distinct (map fst bindFlags)"
  by (simp add: bindFlags_def flag_name_defs)

lemma flag_names_plain: "list_all plain_name (map fst bindFlags)"
  by (simp add: bindFlags_def flag_name_defs plain_name_def)

definition same_others :: "string \<Rightarrow> rawValues \<Rightarrow> rawValues \<Rightarrow> bool" where
  "same_others name w v \<longleftrightarrow> list_all (\<lambda>s. Set_flag s \<noteq> name \<longrightarrow> Set_get s w = Set_get s v) settings"

definition sets_only :: "setting \<Rightarrow> rawValues formal \<Rightarrow> bool" where
  "sets_only s fl \<longleftrightarrow>
     (\<forall>t v. case Formal_set fl t v of
        None \<Rightarrow> Set_read s t = None
      | Some w \<Rightarrow> Set_read s t = Some (Set_get s w) \<and> same_others (Set_flag s) w v)"

lemma sets_only_string:
  "(\<And>t v. get (store t v) = t \<and> same_others name (store t v) v) \<Longrightarrow>
   sets_only (string_setting name env initial get) (string_flag store)"
  by (simp add: sets_only_def string_setting_def string_flag_def)

lemma sets_only_parsed:
  "(\<And>x v. get (store x v) = x \<and> same_others name (store x v) v) \<Longrightarrow>
   sets_only (parsed_setting wrap parse env_parse name env initial get)
     \<lparr>Formal_bool = b, Formal_set = (\<lambda>t v. map_option (\<lambda>x. store x v) (parse t))\<rparr>"
  by (simp add: sets_only_def parsed_setting_def split: option.splits)

lemma Set_flag_string [simp]: "Set_flag (string_setting name env initial get) = name"
  and Set_flag_parsed [simp]: "Set_flag (parsed_setting wrap p ep name env initial' get') = name"
  by (simp_all add: string_setting_def parsed_setting_def)

lemmas typed_settings = bool_setting_def int_setting_def duration_setting_def float_setting_def
lemmas typed_flags = bool_flag_def int_flag_def duration_flag_def float_flag_def

lemma flags_match_settings:
  "list_all2 (\<lambda>s (name, fl). Set_flag s = name \<and> sets_only s fl) settings (take 24 bindFlags)"
proof -
  note others = same_others_def settings_def typed_settings
  show ?thesis
    unfolding settings_def bindFlags_def typed_settings typed_flags
    by (simp, intro conjI; (rule sets_only_string sets_only_parsed, simp add: others))
qed

lemma setting_names: "map Set_flag settings = take 24 (map fst bindFlags)"
  by (simp add: settings_def bindFlags_def typed_settings)

lemma settings_by_name: "s \<in> set settings \<Longrightarrow> s' \<in> set settings \<Longrightarrow> Set_flag s = Set_flag s' \<Longrightarrow> s = s'"
  using flag_names_distinct distinct_take[of "map fst bindFlags" 24]
  by (metis setting_names distinct_map inj_onD)

lemma list_all2_left: "list_all2 P xs ys \<Longrightarrow> x \<in> set xs \<Longrightarrow> \<exists>y \<in> set ys. P x y"
  by (metis in_set_conv_nth list_all2_conv_all_nth)

lemma flag_of_setting:
  assumes "s \<in> set settings"
  obtains fl where "map_of bindFlags (Set_flag s) = Some fl" "plain_name (Set_flag s)" "sets_only s fl"
proof -
  obtain name fl where "(name, fl) \<in> set (take 24 bindFlags)" "Set_flag s = name" "sets_only s fl"
    using list_all2_left[OF flags_match_settings assms] by auto
  then have "(Set_flag s, fl) \<in> set bindFlags" by (auto dest: in_set_takeD)
  with flag_names_distinct flag_names_plain \<open>sets_only s fl\<close> that show ?thesis
    by (force simp: list_all_iff)
qed

text \<open>The settings that a list of arguments leaves.\<close>

lemma flags_Parse_settings:
  assumes "readable given"
  shows "\<exists>w. flags_Parse bindFlags (map (\<lambda>(name, t). flag_argument name t) given) v = Inr ([], w) \<and>
    (\<forall>s \<in> set settings. (case map_of (rev given) (Set_flag s) of
        Some t \<Rightarrow> Set_read s t | None \<Rightarrow> Some (Set_get s v)) = Some (Set_get s w))"
  using assms
proof (induction given arbitrary: v)
  case (Cons p given)
  obtain name t where p: "p = (name, t)" by (cases p)
  from Cons.prems obtain s x where s: "s \<in> set settings" "Set_flag s = name" "Set_read s t = Some x"
    by (auto simp: readable_def p)
  obtain fl where fl: "map_of bindFlags name = Some fl" "plain_name name" "sets_only s fl"
    using flag_of_setting[OF s(1)] s(2) by metis
  obtain w1 where w1: "Formal_set fl t v = Some w1" "Set_read s t = Some (Set_get s w1)" "same_others name w1 v"
    using fl(3)[unfolded sets_only_def, rule_format, of t v] s(2,3) by (auto split: option.splits)
  from Cons.prems have "readable given" by (simp add: readable_def)
  from Cons.IH[OF this, of w1] obtain w where
    w: "flags_Parse bindFlags (map (\<lambda>(name, t). flag_argument name t) given) w1 = Inr ([], w)"
      "\<And>s. s \<in> set settings \<Longrightarrow> (case map_of (rev given) (Set_flag s) of
        Some t \<Rightarrow> Set_read s t | None \<Rightarrow> Some (Set_get s w1)) = Some (Set_get s w)"
    by blast
  have step: "(case map_of (rev given @ [(name, t)]) (Set_flag s') of
        Some t \<Rightarrow> Set_read s' t | None \<Rightarrow> Some (Set_get s' v)) = Some (Set_get s' w)" if "s' \<in> set settings" for s'
  proof (cases "map_of (rev given) (Set_flag s')")
    case None
    then show ?thesis
      using w(2)[OF that] w1 s that settings_by_name[of s' s]
      by (cases "Set_flag s' = name") (auto simp: map_add_def same_others_def list_all_iff)
  qed (use w(2)[OF that] in \<open>auto simp: map_add_def\<close>)
  then show ?case
    using w(1) flags_Parse_argument[OF fl(2,1) w1(1)] by (auto simp: p)
qed simp

end
