(* ===== verification/Database_Url.thy ===== *)
theory Database_Url
  imports Config
begin

text \<open>
  Reading a PostgreSQL URL back into its parts, in the order of \<open>net/url\<close>: fragment, query, scheme,
  authority and path, then the user before the last at sign of the authority; every part is unescaped. The
  lemmas show that the escaping of \<open>buildDatabaseURL\<close> is undone and puts no delimiter into a part.
\<close>

section \<open>The reader\<close>

definition hex_value :: "char \<Rightarrow> nat option" where
  "hex_value c =
     (let n = byte c in
      if 48 \<le> n \<and> n \<le> 57 then Some (n - 48)
      else if 65 \<le> n \<and> n \<le> 70 then Some (n - 55)
      else if 97 \<le> n \<and> n \<le> 102 then Some (n - 87)
      else None)"

text \<open>A plus sign stands for a blank in a query only.\<close>

fun url_unescape :: "bool \<Rightarrow> string \<Rightarrow> string option" where
  "url_unescape query [] = Some []"
| "url_unescape query (c # cs) =
     (if c = CHR ''%'' then
        (case cs of
           a # b # rest \<Rightarrow>
             (case (hex_value a, hex_value b) of
                (Some x, Some y) \<Rightarrow> map_option ((#) (char_of (16 * x + y))) (url_unescape query rest)
              | _ \<Rightarrow> None)
         | _ \<Rightarrow> None)
      else map_option ((#) (if query \<and> c = CHR ''+'' then CHR '' '' else c)) (url_unescape query cs))"

definition cut :: "char \<Rightarrow> string \<Rightarrow> string \<times> string option" where
  "cut c s = (takeWhile (\<lambda>d. d \<noteq> c) s, case dropWhile (\<lambda>d. d \<noteq> c) s of [] \<Rightarrow> None | _ # t \<Rightarrow> Some t)"

definition cut_last :: "char \<Rightarrow> string \<Rightarrow> string option \<times> string" where
  "cut_last c s = (case cut c (rev s) of (after, before) \<Rightarrow> (map_option rev before, rev after))"

record connection_parts =
  Conn_user :: string
  Conn_password :: string
  Conn_host :: string
  Conn_database :: string
  Conn_sslmode :: string

definition postgres_scheme :: string where "postgres_scheme = ''postgres://''"
definition sslmode_key :: string where "sslmode_key = ''sslmode=''"

definition read_connection :: "string \<Rightarrow> connection_parts option" where
  "read_connection url =
     (case cut (CHR ''?'') (fst (cut (CHR ''#'') url)) of
        (_, None) \<Rightarrow> None
      | (front, Some query) \<Rightarrow>
          if take (length postgres_scheme) front \<noteq> postgres_scheme \<or> take (length sslmode_key) query \<noteq> sslmode_key
          then None
          else case cut (CHR ''/'') (drop (length postgres_scheme) front) of
            (_, None) \<Rightarrow> None
          | (authority, Some path) \<Rightarrow>
              (case cut_last (CHR ''@'') authority of
                 (None, _) \<Rightarrow> None
               | (Some userinfo, host) \<Rightarrow>
                   (case cut (CHR '':'') userinfo of
                      (_, None) \<Rightarrow> None
                    | (user, Some password) \<Rightarrow>
                        (case (url_unescape False user, url_unescape False password, url_unescape False path,
                               url_unescape True (drop (length sslmode_key) query)) of
                           (Some u, Some p, Some d, Some m) \<Rightarrow>
                             Some \<lparr>Conn_user = u, Conn_password = p, Conn_host = host, Conn_database = d, Conn_sslmode = m\<rparr>
                         | _ \<Rightarrow> None))))"

section \<open>Escaping is undone\<close>

lemma hex_value_hex_char [simp]: "n < 16 \<Longrightarrow> hex_value (hex_char n) = Some n"
  by (auto simp: hex_value_def hex_char_def)

lemma alphanumeric_hex_char: "n < 16 \<Longrightarrow> alphanumeric (hex_char n)"
  by (auto simp: hex_char_def alphanumeric_def is_digit_def)

lemma percent_escaped: "shouldEscape (CHR ''%'') mode"
  by (cases mode) (simp_all add: shouldEscape_def alphanumeric_def is_digit_def char_eval)

lemma plus_escaped: "shouldEscape (CHR ''+'') Encode_query_component"
  by code_simp

lemma char_of_hex_digits: "char_of (16 * (byte c div 16) + byte c mod 16) = c"
  by simp

lemma unescape_escape_char:
  assumes "mode = Encode_query_component \<longleftrightarrow> query"
  shows "url_unescape query (escape_char mode c @ rest) = map_option ((#) c) (url_unescape query rest)"
proof -
  have "byte c div 16 < 16" using byte_less[of c] by linarith
  then show ?thesis
    using assms percent_escaped[of mode] plus_escaped
    by (auto simp: escape_char_def char_of_hex_digits simp del: byte_less)
qed

lemma unescape_escape:
  assumes "mode = Encode_query_component \<longleftrightarrow> query"
  shows "url_unescape query (url_escape s mode) = Some s"
  by (induction s) (simp_all add: url_escape_def unescape_escape_char[OF assms])

lemma hex_digit_range: "byte c div 16 < 16" "byte c mod 16 < 16"
  using byte_less[of c] by linarith+

lemma escape_char_chars:
  "set (escape_char mode d) \<subseteq> {c. \<not> shouldEscape c mode \<or> alphanumeric c} \<union> {CHR ''%'', CHR ''+''}"
  by (simp add: escape_char_def alphanumeric_hex_char hex_digit_range)

lemma url_escape_chars:
  "set (url_escape s mode) \<subseteq> {c. \<not> shouldEscape c mode \<or> alphanumeric c} \<union> {CHR ''%'', CHR ''+''}"
  using escape_char_chars by (fastforce simp: url_escape_def)

lemma delimiter_escaped:
  assumes "shouldEscape c mode" "\<not> alphanumeric c" "c \<noteq> CHR ''%''" "c \<noteq> CHR ''+''"
  shows "c \<notin> set (url_escape s mode)"
  using assms url_escape_chars by blast

lemma url_escape_plain: "\<forall>c \<in> set s. \<not> shouldEscape c mode \<Longrightarrow> url_escape s mode = s"
  by (induction s) (simp_all add: url_escape_def escape_char_def)

section \<open>Cutting at a delimiter\<close>

lemma cut_append: "c \<notin> set a \<Longrightarrow> cut c (a @ c # b) = (a, Some b)"
  by (simp add: cut_def takeWhile_append dropWhile_append)

lemma cut_none: "c \<notin> set a \<Longrightarrow> cut c a = (a, None)"
  by (induction a) (auto simp: cut_def)

lemma cut_last_append: "c \<notin> set b \<Longrightarrow> cut_last c (a @ c # b) = (Some a, b)"
  using cut_append[of c "rev b" "rev a"] by (simp add: cut_last_def)

section \<open>The assembled URL\<close>

lemma delimiters_escaped:
  "CHR ''@'' \<notin> set (url_escape s Encode_user_password)" "CHR ''/'' \<notin> set (url_escape s Encode_user_password)"
  "CHR ''?'' \<notin> set (url_escape s Encode_user_password)" "CHR '':'' \<notin> set (url_escape s Encode_user_password)"
  "CHR ''#'' \<notin> set (url_escape s Encode_user_password)"
  "CHR ''?'' \<notin> set (url_escape s Encode_path)" "CHR ''#'' \<notin> set (url_escape s Encode_path)"
  "CHR ''#'' \<notin> set (url_escape s Encode_query_component)"
  "CHR ''@'' \<notin> set (url_escape s Encode_host)" "CHR ''/'' \<notin> set (url_escape s Encode_host)"
  "CHR ''?'' \<notin> set (url_escape s Encode_host)" "CHR ''#'' \<notin> set (url_escape s Encode_host)"
  by (rule delimiter_escaped; simp add: shouldEscape_def alphanumeric_def is_digit_def char_eval)+

text \<open>The text \<open>buildDatabaseURL\<close> assembles from the parts.\<close>

definition assembled_url :: "connection_parts \<Rightarrow> string" where
  "assembled_url c =
     ''postgres://'' @ url_escape (Conn_user c) Encode_user_password @ '':'' @
     url_escape (Conn_password c) Encode_user_password @ ''@'' @ url_escape (Conn_host c) Encode_host @ ''/'' @
     (if Conn_database c = ''*'' then ''*'' else url_escape (Conn_database c) Encode_path) @ ''?sslmode='' @
     url_escape (Conn_sslmode c) Encode_query_component"

lemma read_assembled:
  assumes "\<forall>ch \<in> set (Conn_host c). \<not> shouldEscape ch Encode_host"
  shows "read_connection (assembled_url c) = Some c"
proof -
  define user where "user = url_escape (Conn_user c) Encode_user_password"
  define password where "password = url_escape (Conn_password c) Encode_user_password"
  define path where "path = (if Conn_database c = ''*'' then ''*'' else url_escape (Conn_database c) Encode_path)"
  define mode where "mode = url_escape (Conn_sslmode c) Encode_query_component"
  have host: "url_escape (Conn_host c) Encode_host = Conn_host c" by (rule url_escape_plain[OF assms])
  define authority where "authority = user @ CHR '':'' # password @ CHR ''@'' # Conn_host c"
  define front where "front = postgres_scheme @ authority @ CHR ''/'' # path"
  define query where "query = sslmode_key @ mode"
  note parts = user_def password_def path_def mode_def
  have url: "assembled_url c = front @ CHR ''?'' # query"
    by (simp add: assembled_url_def front_def authority_def query_def parts host postgres_scheme_def sslmode_key_def)
  have "CHR ''#'' \<notin> set (front @ CHR ''?'' # query)"
    using delimiters_escaped delimiters_escaped(9-12)[of "Conn_host c", unfolded host]
    by (simp add: front_def authority_def query_def parts postgres_scheme_def sslmode_key_def)
  then have fragment: "cut (CHR ''#'') (assembled_url c) = (front @ CHR ''?'' # query, None)"
    by (simp add: url cut_none)
  have "CHR ''?'' \<notin> set front"
    using delimiters_escaped delimiters_escaped(9-12)[of "Conn_host c", unfolded host]
    by (simp add: front_def authority_def parts postgres_scheme_def)
  then have "cut (CHR ''?'') (front @ CHR ''?'' # query) = (front, Some query)" by (rule cut_append)
  moreover have "CHR ''/'' \<notin> set authority"
    using delimiters_escaped delimiters_escaped(9-12)[of "Conn_host c", unfolded host]
    by (simp add: authority_def parts)
  then have "cut (CHR ''/'') (authority @ CHR ''/'' # path) = (authority, Some path)" by (rule cut_append)
  moreover have "CHR ''@'' \<notin> set (Conn_host c)"
    using delimiters_escaped(9)[of "Conn_host c", unfolded host] .
  then have "cut_last (CHR ''@'') ((user @ CHR '':'' # password) @ CHR ''@'' # Conn_host c) =
      (Some (user @ CHR '':'' # password), Conn_host c)" by (rule cut_last_append)
  moreover have "CHR '':'' \<notin> set user" using delimiters_escaped(4) by (simp add: user_def)
  then have "cut (CHR '':'') (user @ CHR '':'' # password) = (user, Some password)" by (rule cut_append)
  moreover have "url_unescape False user = Some (Conn_user c)" "url_unescape False password = Some (Conn_password c)"
    "url_unescape False path = Some (Conn_database c)" "url_unescape True mode = Some (Conn_sslmode c)"
    by (simp_all add: parts unescape_escape)
  ultimately show ?thesis
    unfolding read_connection_def fragment fst_conv
    by (simp add: front_def query_def authority_def)
qed

end
