(* ===== verification/Config_Properties.thy ===== *)
theory Config_Properties
  imports Config_Settings Database_Url
begin

text \<open>
  The theorems about the settings of the process: what an accepted configuration satisfies, which source
  of a setting wins, where environment and command line differ, and the URL built from split settings.
\<close>

section \<open>Limits\<close>

text \<open>A name that is one unquoted or quoted identifier of PostgreSQL, without a character to escape.\<close>

definition within_limits :: "Config \<Rightarrow> bool" where
  "within_limits c \<longleftrightarrow>
     0 \<le> MaxProcs c \<and> 0 \<le> MemoryLimitBytes c \<and> MemoryLimitBytes c < 2 ^ 63 \<and> MemoryLimitBytes c mod 2 ^ 20 = 0 \<and>
     0 < QueryTimeout c \<and> 0 < ShutdownTimeout c \<and>
     1 \<le> MaxConnections (Config_Database c) \<and> MaxConnections (Config_Database c) \<le> 1024 \<and>
     0 \<le> MinConnections (Config_Database c) \<and>
     MinConnections (Config_Database c) \<le> MaxConnections (Config_Database c) \<and>
     0 \<le> StatementCacheSize (Config_Database c) \<and> StatementCacheSize (Config_Database c) \<le> 65536 \<and>
     Database_Schema (Config_Database c) \<noteq> [] \<and> length (Database_Schema (Config_Database c)) \<le> 63 \<and>
     (\<forall>ch \<in> set (Database_Schema (Config_Database c)). ch = CHR ''_'' \<or> is_digit ch \<or> 97 \<le> byte ch \<and> byte ch \<le> 122)"

definition exact_values :: "rawValues \<Rightarrow> Config \<Rightarrow> bool" where
  "exact_values v c \<longleftrightarrow>
     MaxConnections (Config_Database c) = databaseMaxConns v \<and> MinConnections (Config_Database c) = databaseMinConns v \<and>
     MemoryLimitBytes c = memoryLimitMiB v * 2 ^ 20"

lemma validSchemaName_chars:
  assumes "validSchemaName s"
  shows "s \<noteq> [] \<and> length s \<le> 63 \<and> (\<forall>ch \<in> set s. ch = CHR ''_'' \<or> is_digit ch \<or> 97 \<le> byte ch \<and> byte ch \<le> 122)"
  using assms
  by (cases s) (auto simp: validSchemaName_def schemaNamePattern_def MaximumSchemaNameLength_def schema_char_def
      schema_start_def list_all_iff)

lemma invalid_guard: "((if b then invalid m else r) = Inr c) = (\<not> b \<and> r = Inr c)"
  by (simp add: invalid_def)

lemma validate_limits_Inr:
  assumes "validate_limits plat v server level database = Inr c"
  shows "within_limits c \<and> exact_values v c"
proof -
  from assms have guards: "1 \<le> databaseMaxConns v" "databaseMaxConns v \<le> 1024" "0 \<le> databaseMinConns v"
      "databaseMinConns v \<le> databaseMaxConns v" "0 \<le> memoryLimitMiB v" "memoryLimitMiB v \<le> (2 ^ 63 - 1) div 2 ^ 20"
      "validSchemaName (databaseSchema v)" "0 \<le> maxProcs v" "0 < queryTimeout v" "0 < shutdownTimeout v"
      "0 \<le> statementCache v" "statementCache v \<le> 65536"
    unfolding validate_limits_def invalid_guard MaximumConnections_def MaximumStatementCacheSize_def by linarith+
  then have exact: "wrap64 (memoryLimitMiB v * 2 ^ 20) = memoryLimitMiB v * 2 ^ 20"
    "wrap32 (databaseMaxConns v) = databaseMaxConns v" "wrap32 (databaseMinConns v) = databaseMinConns v"
    by (auto intro!: wrap64_id wrap32_id)
  from assms have "MaxProcs c = maxProcs v \<and> MemoryLimitBytes c = wrap64 (memoryLimitMiB v * 2 ^ 20) \<and>
      QueryTimeout c = queryTimeout v \<and> ShutdownTimeout c = shutdownTimeout v \<and>
      MaxConnections (Config_Database c) = wrap32 (databaseMaxConns v) \<and>
      MinConnections (Config_Database c) = wrap32 (databaseMinConns v) \<and>
      StatementCacheSize (Config_Database c) = statementCache v \<and> Database_Schema (Config_Database c) = databaseSchema v"
    unfolding validate_limits_def invalid_guard
    by (auto simp del: power_numeral split: sum.splits)
  with guards exact validSchemaName_chars[OF guards(7)] show ?thesis
    by (simp add: within_limits_def exact_values_def)
qed

lemma validate_Inr:
  assumes "validate plat v = Inr c"
  obtains server level database where "validate_limits plat v server level database = Inr c"
  using assms by (auto simp: validate_def split: sum.splits option.splits)

lemma validate_fields:
  assumes "validate plat v = Inr c"
  shows "Database_Schema (Config_Database c) = databaseSchema v \<and> StatementCacheSize (Config_Database c) = statementCache v \<and>
    Tracing_Enabled (Config_Tracing c) = tracingEnabled v"
proof -
  obtain server level database where "validate_limits plat v server level database = Inr c"
    using validate_Inr[OF assms] by blast
  then show ?thesis
    unfolding validate_limits_def invalid_guard by (auto simp del: power_numeral split: sum.splits)
qed


definition example_platform :: Platform where
  "example_platform = \<lparr>Plat_Parse = (\<lambda>s. if s = ''http://localhost:8080''
       then Some \<lparr>Url_Scheme = ''http'', Url_Host = ''localhost:8080'', Url_String = s\<rparr> else None),
     Plat_ResolveTCPAddr = (\<lambda>_. None)\<rparr>"

definition example_values :: rawValues where
  "example_values = (initialValues emptyLookup)
     \<lparr>databaseHost := ''db:5432'', databaseUsername := ''reader'', databasePassword := ''p@ss/word''\<rparr>"

lemmas default_defs =
  DefaultAddress_def DefaultManagementAddress_def DefaultServerURL_def DefaultCacheControl_def DefaultLogLevel_def
  DefaultDatabaseName_def DefaultDatabaseSchema_def DefaultDatabaseSSLMode_def DefaultDatabaseMaxConns_def
  DefaultDatabaseMinConns_def DefaultStatementCacheSize_def DefaultQueryTimeout_def DefaultShutdownTimeout_def
  second_def

lemma example_resolves [simp]: "Plat_ResolveTCPAddr example_platform addr = None"
  by (simp add: example_platform_def)

lemma example_values_eq:
  "example_values =
     \<lparr>address = DefaultAddress, managementAddress = DefaultManagementAddress, serverURL = DefaultServerURL,
      cacheControl = DefaultCacheControl, accessLog = False, maxProcs = 0, memoryLimitMiB = 0,
      logLevelText = DefaultLogLevel, queryTimeout = DefaultQueryTimeout, shutdownTimeout = DefaultShutdownTimeout,
      databaseURL = [], databaseSchema = DefaultDatabaseSchema, databaseHost = ''db:5432'',
      databaseUsername = ''reader'', databasePassword = ''p@ss/word'', databaseName = DefaultDatabaseName,
      databaseSSLMode = DefaultDatabaseSSLMode, databaseMaxConns = DefaultDatabaseMaxConns,
      databaseMinConns = DefaultDatabaseMinConns, statementCache = DefaultStatementCacheSize, metricsEnabled = True,
      tracingEnabled = False, otlpEndpoint = [], traceSampleRatio = DefaultTraceSampleRatio\<rparr>"
  by (simp add: example_values_def initialValues_def env_value_def emptyLookup_def)

lemma example_parts:
  "absoluteHTTPURL example_platform (serverURL example_values) = Inr ''http://localhost:8080''"
  "logLevel (logLevelText example_values) = Inr 0"
  "validSchemaName (databaseSchema example_values)"
proof -
  have trims: "TrimSpace ''http://localhost:8080'' = ''http://localhost:8080''" "TrimSpace ''info'' = ''info''"
    by (rule TrimSpace_printable; simp add: printable_def char_eval)+
  show "absoluteHTTPURL example_platform (serverURL example_values) = Inr ''http://localhost:8080''"
    by (simp add: absoluteHTTPURL_def example_values_eq DefaultServerURL_def trims)
      (simp add: example_platform_def TrimRightByte_def)
  have "UnmarshalText (ToLower_ascii ''info'') = Some 0" by code_simp
  then show "logLevel (logLevelText example_values) = Inr 0"
    by (simp add: logLevel_def example_values_eq DefaultLogLevel_def trims)
  show "validSchemaName (databaseSchema example_values)"
    unfolding example_values_eq rawValues.simps by code_simp
qed

lemma example_database: "\<exists>d. buildDatabaseURL example_platform example_values = Inr d"
proof -
  have trims: "TrimSpace ''db:5432'' = ''db:5432''" "TrimSpace ''reader'' = ''reader''" "TrimSpace ''discogs'' = ''discogs''"
    by (rule TrimSpace_printable; simp add: printable_def char_eval)+
  show ?thesis
    by (simp add: buildDatabaseURL_def example_values_eq DefaultDatabaseName_def trims TrimSpace_Nil SplitHostPort_def
        last_index_def)
qed

lemma default_ratio:
  "\<not> float_less_rat DefaultTraceSampleRatio 0" "\<not> float_greater_rat DefaultTraceSampleRatio 1"
  unfolding DefaultTraceSampleRatio_def by code_simp+

lemma example_validates: "\<exists>c. validate example_platform example_values = Inr c"
proof -
  obtain d where d: "buildDatabaseURL example_platform example_values = Inr d" using example_database by blast
  have "\<exists>c. validate_limits example_platform example_values server level d = Inr c" for server level
    using example_parts(3)
    by (simp add: validate_limits_def example_values_eq default_defs default_ratio MaximumConnections_def
        MaximumStatementCacheSize_def)
  then show ?thesis
    by (simp add: validate_def validateAddress_def example_parts d)
qed


section \<open>The sample ratio\<close>

text \<open>
  A trace sampling ratio that is not a number passes the check "between 0 and 1", since both of its
  comparisons are false; \<open>strconv.ParseFloat\<close> accepts the text \<open>NaN\<close>.
\<close>

theorem nan_ratio_accepted:
  assumes "validate plat v = Inr c"
  shows "ParseFloat ''NaN'' = Some NaN \<and>
    (\<exists>c'. validate plat (v\<lparr>traceSampleRatio := NaN\<rparr>) = Inr c' \<and> Tracing_SampleRatio (Config_Tracing c') = NaN)"
proof
  have "parse_special ''NaN'' = Some NaN"
    by (simp add: parse_special_def split_sign_def lower_ascii_def Let_def char_eval)
  then show "ParseFloat ''NaN'' = Some NaN"
    by (simp add: ParseFloat_def)
  have "buildDatabaseURL plat (v\<lparr>traceSampleRatio := NaN\<rparr>) = buildDatabaseURL plat v"
    by (simp add: buildDatabaseURL_def Let_def cong: option.case_cong)
  with assms show "\<exists>c'. validate plat (v\<lparr>traceSampleRatio := NaN\<rparr>) = Inr c' \<and> Tracing_SampleRatio (Config_Tracing c') = NaN"
    by (auto simp: validate_def validate_limits_def invalid_def float_less_rat_def float_greater_rat_def
        split: sum.splits option.splits if_splits)
qed

theorem nan_ratio_accepted_witness:
  "\<exists>c. validate example_platform (example_values\<lparr>traceSampleRatio := NaN\<rparr>) = Inr c"
  using example_validates nan_ratio_accepted[of example_platform example_values] by blast

section \<open>Which source wins\<close>

lemma no_bare_argument:
  assumes "CHR ''='' \<notin> set c"
  shows "c \<notin> set (map (\<lambda>(name, t). flag_argument name t) given)"
  using assms by (auto simp: flag_argument_def)

lemma Load_settings:
  fixes given :: "(string \<times> string) list"
  shows "Load plat (map (\<lambda>(name, t). flag_argument name t) given) lookup =
    (case environmentValues lookup of
       Inl e \<Rightarrow> Inl e
     | Inr values \<Rightarrow>
    (case flags_Parse bindFlags (map (\<lambda>(name, t). flag_argument name t) given) values of
       Inl e \<Rightarrow> Inl (Flag_error e)
     | Inr (rest, values) \<Rightarrow>
         if rest \<noteq> [] then Inl (Unexpected_argument (hd rest))
         else case validate plat values of
           Inl e \<Rightarrow> Inl e
         | Inr config \<Rightarrow> Inr (zero_Result\<lparr>Result_Config := config\<rparr>)))"
proof -
  have "\<not> hasArgument (map (\<lambda>(name, t). flag_argument name t) given) cs" if "\<forall>c \<in> set cs. CHR ''='' \<notin> set c" for cs
    using that no_bare_argument by (fastforce simp: hasArgument_def)
  note this [simp]
  show ?thesis by (simp add: Load_def FlagVersion_def FlagHealthcheck_def)
qed


definition example_environment :: LookupEnv where
  "example_environment = [''API_ADDRESS'' \<mapsto> '':9000'', ''API_CACHE_CONTROL'' \<mapsto> ''no-store'']"

lemma example_environment_values: "\<exists>v. environmentValues example_environment = Inr v"
proof -
  have "environment_parsed parse failure example_environment name d = Inr d"
    if "name \<noteq> ''API_ADDRESS''" "name \<noteq> ''API_CACHE_CONTROL''"
    for parse :: "string \<Rightarrow> 'a option" and failure name d
    using that by (simp add: environment_parsed_layer example_environment_def)
  note this [simp]
  show ?thesis
    by (simp add: environmentValues_def environment_readers assign_def env_name_defs Let_def)
qed


section \<open>Numbers in the two sources\<close>

lemma base_digits_decimal: "list_all is_digit s \<Longrightarrow> base_digits 10 acc s = Some (digits_value acc s)"
proof (induction s arbitrary: acc)
  case (Cons c cs)
  have "digit_value c < 10" "c \<noteq> CHR ''_''" using Cons.prems by (auto simp: is_digit_def digit_value_def char_eval)
  with Cons show ?case by (simp add: alnum_value_def mult.commute)
qed simp

lemma hd_format_nat: "0 < n \<Longrightarrow> hd (format_nat n) \<noteq> CHR ''0''"
proof (induction n rule: format_nat.induct)
  case (1 n)
  show ?case
  proof (cases "n < 10")
    case True
    have "byte (CHR ''0'') = 48" by (simp add: char_eval)
    with 1(2) True have "digit_char n \<noteq> CHR ''0''" by (metis add_cancel_left_right byte_digit_char less_numeral_extra(3))
    then show ?thesis using True by (simp add: format_nat.simps[of n])
  next
    case False
    with 1(1) show ?thesis by (simp add: format_nat.simps[of n])
  qed
qed

lemma no_underscore: "list_all is_digit s \<Longrightarrow> CHR ''_'' \<notin> set s"
  by (auto simp: list_all_iff is_digit_def char_eval)

lemma ParseUint0_format_nat:
  "\<exists>base ds. split_base (format_nat n) = (base, ds) \<and> base_digits base 0 ds = Some n \<and> CHR ''_'' \<notin> set ds"
proof (cases "n = 0")
  case True
  then show ?thesis by (simp add: format_nat.simps[of 0] split_base_def digit_char_def char_eval)
next
  case False
  then have "split_base (format_nat n) = (10, format_nat n)"
    using hd_format_nat[of n] format_nat_nonempty[of n] by (cases "format_nat n") (auto simp: split_base_def)
  then show ?thesis
    using format_nat_digits[of n] by (simp add: base_digits_decimal no_underscore)
qed

lemma ParseInt0_FormatInt:
  assumes "- (2 ^ 63) \<le> i" "i < 2 ^ 63"
  shows "ParseInt0 64 (FormatInt i) = Some i"
proof -
  have digits: "\<exists>base ds. split_base (format_nat n) = (base, ds) \<and> base_digits base 0 ds = Some n \<and> CHR ''_'' \<notin> set ds" for n
    by (rule ParseUint0_format_nat)
  show ?thesis
  proof (cases "i < 0")
    case True
    with assms have "nat (- i) \<le> 2 ^ 63" by (simp add: nat_le_iff)
    with True digits[of "nat (- i)"] show ?thesis
      by (auto simp: ParseInt0_def FormatInt_def split_sign_def)
  next
    case False
    with assms have "nat i < 2 ^ 63" by (simp add: nat_less_iff)
    with False digits[of "nat i"] show ?thesis
      by (auto simp: ParseInt0_def FormatInt_def split_sign_digits format_nat_all_digits)
  qed
qed

text \<open>
  An integer setting takes every 64-bit integer in plain decimals from the command line and from its
  variable, with the same value.  With a leading zero the sources differ: the flag reads \<open>010\<close> as the
  octal eight, the variable as ten.
\<close>

theorem integer_sources:
  assumes "- (2 ^ 63) \<le> i" "i < 2 ^ 63"
  shows "Formal_set (int_flag store) (FormatInt i) v = Some (store i v) \<and>
    environmentInt [name \<mapsto> FormatInt i] name d = Inr i \<and>
    Formal_set (int_flag store) ''010'' v = Some (store 8 v) \<and> environmentInt [name \<mapsto> ''010''] name d = Inr 10"
proof (intro conjI)
  have sign: "split_sign ''010'' = (False, ''010'')" by (simp add: split_sign_def)
  have digits: "split_base ''010'' = (8, ''10'')" "base_digits 8 0 ''10'' = Some 8" "ParseUint10 ''010'' = Some 10"
    by code_simp+
  have octal: "ParseInt0 64 ''010'' = Some 8" by (simp add: ParseInt0_def sign digits del: base_digits.simps)
  have decimal: "ParseInt10 64 ''010'' = Some 10" by (simp add: ParseInt10_def sign digits)
  have trim: "TrimSpace ''010'' = ''010''" by (rule TrimSpace_printable; simp add: printable_def char_eval)
  show "Formal_set (int_flag store) (FormatInt i) v = Some (store i v)"
    using ParseInt0_FormatInt[OF assms] by (simp add: int_flag_def)
  show "environmentInt [name \<mapsto> FormatInt i] name d = Inr i"
    using ParseInt10_FormatInt[of 64 i] assms by (simp add: environmentInt_def environment_parsed_layer Atoi_eq)
  show "Formal_set (int_flag store) ''010'' v = Some (store 8 v)" by (simp add: int_flag_def octal)
  show "environmentInt [name \<mapsto> ''010''] name d = Inr 10"
    by (simp add: environmentInt_def environment_parsed_layer Atoi_eq decimal trim)
qed

theorem integer_sources_witness:
  "Formal_set (int_flag (\<lambda>i v. v\<lparr>maxProcs := i\<rparr>)) (FormatInt 4) example_values = Some (example_values\<lparr>maxProcs := 4\<rparr>)"
  using integer_sources[of 4 "\<lambda>i v. v\<lparr>maxProcs := i\<rparr>" example_values "''API_MAX_PROCS''" 0] by simp

section \<open>The documented settings\<close>

definition documents :: "Definition \<Rightarrow> setting \<Rightarrow> bool" where
  "documents d s \<longleftrightarrow>
     Def_Flag d = Set_flag s \<and> Def_Environment d = Set_env s \<and> Set_read s (Def_Default d) = Some (Set_fallback s)"

lemma parse_default_durations: "ParseDuration ''10s'' = Some DefaultQueryTimeout" "ParseDuration ''30s'' = Some DefaultShutdownTimeout"
proof -
  have number: "duration_number ''10s'' = (''10'', [], ''s'')" "duration_number ''30s'' = (''30'', [], ''s'')"
    "digits_value 0 ''10'' = 10" "digits_value 0 ''30'' = 30" "unit_char (CHR ''s'')" "is_digit (CHR ''1'')" "is_digit (CHR ''3'')"
    by code_simp+
  have unit: "unitMap ''s'' = Some 1000000000" by (simp add: unitMap_def)
  have "duration_step ''10s'' = Some (10000000000, [])" "duration_step ''30s'' = Some (30000000000, [])"
    by (simp_all add: duration_step_def number unit duration_part_def Let_def del: digits_value.simps)
  then show "ParseDuration ''10s'' = Some DefaultQueryTimeout" "ParseDuration ''30s'' = Some DefaultShutdownTimeout"
    by (simp_all add: ParseDuration_def split_sign_def duration_parts.simps default_defs)
qed

lemma parse_default_ratio: "ParseFloat ''0.1'' = Some DefaultTraceSampleRatio"
proof -
  let ?m = "\<lparr>Man_value = 0, Man_fraction = 0, Man_digits = False, Man_underscores = False, Man_rest = []\<rparr>"
  have sign: "split_sign ''0.1'' = (False, ''0.1'')" by (simp add: split_sign_def)
  have scan: "scan_mantissa 10 False ?m ''0.1'' =
      \<lparr>Man_value = 1, Man_fraction = 1, Man_digits = True, Man_underscores = False, Man_rest = []\<rparr>"
    "lower_ascii CHR ''0'' = CHR ''0''" "lower_ascii CHR ''.'' \<noteq> CHR ''x''" "lower_ascii CHR ''.'' = CHR ''.''"
    by code_simp+
  have "round64 (1 / 10) \<le> 1"
    using default_ratio(2) by (simp add: DefaultTraceSampleRatio_def float_greater_rat_def)
  moreover have "(1::rat) < 2 ^ 1024" by (rule one_less_power) simp_all
  ultimately have "\<not> round64 (1 / 10) \<ge> 2 ^ 1024" by (meson le_less_trans not_le)
  moreover have "parse_special ''0.1'' = None" by (simp add: parse_special_def sign scan)
  moreover have "parse_exponent mark False [] = Some 0" for mark by (simp add: parse_exponent_def)
  ultimately show ?thesis
    by (simp add: ParseFloat_def sign scan DefaultTraceSampleRatio_def Let_def del: scan_mantissa.simps)
qed


section \<open>Arguments that end the process or are ignored\<close>

lemma environmentValues_empty: "\<exists>v. environmentValues emptyLookup = Inr v"
  by (simp add: environmentValues_def environment_parsed_def environment_readers assign_def emptyLookup_def
      env_value_def Let_def)

text \<open>
  After the terminator \<open>--\<close> a request for help is still recognised, by \<open>hasArgument\<close>, but the flag
  parser stops before it and reports no error: \<open>Load\<close> returns without an error and with the zero
  configuration, which keeps none of the limits, whatever the environment holds.
\<close>

theorem help_after_terminator:
  "Load plat [''--'', ''--help''] lookup = Inr zero_Result \<and> \<not> within_limits (Result_Config zero_Result)"
proof
  obtain v where v: "environmentValues emptyLookup = Inr v" using environmentValues_empty by blast
  show "Load plat [''--'', ''--help''] lookup = Inr zero_Result"
    by (simp add: Load_def hasArgument_def FlagVersion_def FlagHealthcheck_def v flags_Parse_stop)
  show "\<not> within_limits (Result_Config zero_Result)"
    by (simp add: zero_Result_def zero_Config_def within_limits_def)
qed

lemma request_ignored:
  assumes "name \<in> {FlagVersion, FlagHealthcheck}" "ParseBool t \<noteq> None"
  shows "flags_Parse bindFlags [flag_argument name t] v = Inr ([], v)"
proof -
  obtain b where b: "ParseBool t = Some b" using assms(2) by blast
  have "map_of bindFlags name = Some (bool_flag (\<lambda>b v. v))"
    using assms(1) flag_names_distinct by (auto simp: map_of_eq_Some_iff) (simp_all add: bindFlags_def)
  moreover have "plain_name name" using assms(1) by (auto simp: plain_name_def FlagVersion_def FlagHealthcheck_def)
  ultimately show ?thesis using b by (simp add: flags_Parse_argument bool_flag_def)
qed

text \<open>
  The flags \<open>version\<close> and \<open>healthcheck\<close> act only in their bare form: with a Boolean value, be it true,
  \<open>Load\<close> does what it does without the argument, so the process starts serving instead of printing its
  version or probing.
\<close>

theorem request_with_value_ignored:
  assumes "name \<in> {FlagVersion, FlagHealthcheck}" "ParseBool t \<noteq> None"
  shows "Load plat [flag_argument name t] lookup = Load plat [] lookup"
  using Load_settings[of plat "[(name, t)]" lookup] Load_settings[of plat "[]" lookup] request_ignored[OF assms]
  by (simp split: sum.splits)

theorem request_with_value_ignored_witness:
  "Load example_platform [''--healthcheck=true''] emptyLookup = Load example_platform [] emptyLookup"
  using request_with_value_ignored[of FlagHealthcheck "''true''" example_platform emptyLookup]
  by (simp add: flag_argument_def FlagHealthcheck_def ParseBool_def)

section \<open>Split database settings\<close>

lemma buildDatabaseURL_split:
  assumes "TrimSpace (databaseURL v) = []" "buildDatabaseURL plat v = Inr url"
  shows "url = assembled_url \<lparr>Conn_user = TrimSpace (databaseUsername v), Conn_password = databasePassword v,
    Conn_host = TrimSpace (databaseHost v), Conn_database = TrimSpace (databaseName v),
    Conn_sslmode = TrimSpace (databaseSSLMode v)\<rparr>"
  using assms
  by (auto simp: buildDatabaseURL_def assembled_url_def Let_def split: if_splits option.splits)

text \<open>
  C22. The URL built from split settings loses nothing: reading it back gives the user, password, host,
  database and SSL mode that were set, whatever characters the credentials hold, for a host that needs no
  escaping.
\<close>

theorem database_url_roundtrip:
  assumes "TrimSpace (databaseURL v) = []" "buildDatabaseURL plat v = Inr url"
    and "\<forall>c \<in> set (TrimSpace (databaseHost v)). \<not> shouldEscape c Encode_host"
  shows "read_connection url = Some \<lparr>Conn_user = TrimSpace (databaseUsername v), Conn_password = databasePassword v,
    Conn_host = TrimSpace (databaseHost v), Conn_database = TrimSpace (databaseName v),
    Conn_sslmode = TrimSpace (databaseSSLMode v)\<rparr>"
  using read_assembled assms(3) buildDatabaseURL_split[OF assms(1,2)] by simp

theorem database_url_roundtrip_witness:
  "\<exists>url. buildDatabaseURL example_platform example_values = Inr url \<and>
    map_option Conn_password (read_connection url) = Some ''p@ss/word''"
proof -
  obtain url where url: "buildDatabaseURL example_platform example_values = Inr url" using example_database by blast
  have host: "TrimSpace ''db:5432'' = ''db:5432''"
    by (rule TrimSpace_printable; simp add: printable_def char_eval)
  have "\<forall>c \<in> set (TrimSpace (databaseHost example_values)). \<not> shouldEscape c Encode_host"
    by (simp add: example_values_eq host shouldEscape_def alphanumeric_def is_digit_def char_eval)
  with database_url_roundtrip[OF _ url] show ?thesis
    using url by (auto simp: example_values_eq)
qed

end
