(* ===== verification/Example_Process.thy ===== *)
theory Example_Process
  imports Lifecycle Config_Properties Example_Catalog
begin

text \<open>
  A process over the example catalog: a configuration given on the command line, outcomes of the calls that
  leave the program under which it serves, and a run of its servers that ends on a signal. It shows that the
  hypotheses of the theorems on the process can hold together.
\<close>

section \<open>A configuration\<close>

definition example_settings :: "(string \<times> string) list" where
  "example_settings = [(''db-host'', ''db:5432''), (''db-username'', ''reader''), (''db-password'', ''p@ss/word'')]"

definition example_arguments :: "string list" where
  "example_arguments = map (\<lambda>(name, t). flag_argument name t) example_settings"

definition example_config :: Config where
  "example_config = (case validate example_platform example_values of Inr c \<Rightarrow> c | Inl _ \<Rightarrow> zero_Config)"

lemma example_config: "validate example_platform example_values = Inr example_config"
  using example_validates by (auto simp: example_config_def)

lemma environmentValues_empty_eq: "environmentValues emptyLookup = Inr (initialValues emptyLookup)"
proof -
  have "environment_parsed parse failure emptyLookup name d = Inr d" for parse :: "string \<Rightarrow> 'a option" and failure name d
    by (simp add: environment_parsed_layer emptyLookup_def)
  note this [simp]
  show ?thesis
    by (simp add: environmentValues_def environment_readers assign_def Let_def) (simp add: initialValues_def)
qed

lemma bound_string:
  "(name, string_flag store) \<in> set bindFlags \<Longrightarrow> plain_name name \<Longrightarrow>
   flags_Parse bindFlags (flag_argument name t # rest) v = flags_Parse bindFlags rest (store t v)"
  using flag_names_distinct by (intro flags_Parse_argument) (auto simp: string_flag_def)

lemma example_parse: "flags_Parse bindFlags example_arguments (initialValues emptyLookup) = Inr ([], example_values)"
proof -
  have "(''db-host'', string_flag (\<lambda>t v. v\<lparr>databaseHost := t\<rparr>)) \<in> set bindFlags"
    "(''db-username'', string_flag (\<lambda>t v. v\<lparr>databaseUsername := t\<rparr>)) \<in> set bindFlags"
    "(''db-password'', string_flag (\<lambda>t v. v\<lparr>databasePassword := t\<rparr>)) \<in> set bindFlags"
    by (simp_all add: bindFlags_def flag_name_defs)
  note bound = this[THEN bound_string]
  show ?thesis
    by (simp add: example_arguments_def example_settings_def bound plain_name_def example_values_def)
qed

lemma example_load: "Load example_platform example_arguments emptyLookup = Inr (zero_Result\<lparr>Result_Config := example_config\<rparr>)"
  using Load_settings[of example_platform example_settings emptyLookup] example_parse example_config
  by (simp add: example_arguments_def environmentValues_empty_eq)

section \<open>Its surroundings\<close>

definition example_pg_catalog :: pg_catalog where
  "example_pg_catalog =
     \<lparr>pg_schemas = [''public''], pg_usage = (\<lambda>_. True), pg_relations = (\<lambda>_. string_to_array requiredAPIRelationNames),
      pg_select = (\<lambda>_ _. True), pg_collate = (\<lambda>s. s), pg_fault = None\<rparr>"

definition example_pool_config :: PoolConfig where
  "example_pool_config =
     \<lparr>PC_connString = [], PC_MaxConns = 4, PC_MinConns = 0, PC_MaxConnIdleTime = 0, PC_MaxConnLifetime = 0,
      PC_HealthCheckPeriod = 0, PC_StatementCacheCapacity = 512, PC_RuntimeParams = (\<lambda>_. None), PC_Tracer = None\<rparr>"

definition example_externals :: externals where
  "example_externals =
     \<lparr>Ext_exporter = \<lparr>EF_parse = (\<lambda>_. Inl (ErrorText ''parse'')), EF_new = (\<lambda>_. None), EF_version = ''dev''\<rparr>,
      Ext_ParseConfig = (\<lambda>_. Inr example_pool_config), Ext_newPool = (\<lambda>_. Inr example_pool),
      Ext_catalog = example_pg_catalog, Ext_serve = (\<lambda>_ _. None), Ext_shutdown = None, Ext_registry = id,
      Ext_files = \<lparr>openAPIDocument = [], documentationHTML = [], documentationScript = [], scalarScript = []\<rparr>,
      Ext_grow = (\<lambda>_ n. n), Ext_formatTime = (\<lambda>_. []), Ext_version = ''dev'', Ext_stdout = None,
      Ext_client = local_client (\<lambda>addr. map_option (\<lambda>st. NewHandler (Ready st) id True)
        (if addr = ''127.0.0.1:8081'' then Some example_store else None))\<rparr>"

definition example_servers :: "configuredServer list" where
  "example_servers = configured_servers example_externals example_config example_pool"

lemma example_config_fields:
  "Database_Schema (Config_Database example_config) = ''public''" "\<not> Tracing_Enabled (Config_Tracing example_config)"
  using validate_fields[OF example_config] by (simp_all add: example_values_eq DefaultDatabaseSchema_def)

lemma example_app_run:
  "app_run example_externals example_config =
    (None, [Warned_public_schema, Telemetry_set_up, Pool_created, Pinged, Schema_validated,
      Servers_ran example_servers, Pool_closed, Telemetry_shut_down None])"
proof -
  have valid: "ValidateSchema example_pg_catalog ''public'' = None"
    by (simp add: ValidateSchema_None example_pg_catalog_def)
  have fields: "Ext_catalog example_externals = example_pg_catalog" "Ext_newPool example_externals pc = Inr example_pool"
    "Ext_serve example_externals servers t = None" "Ext_shutdown example_externals = None"
    "Ext_ParseConfig example_externals url = Inr example_pool_config" "Pool_pingFault example_pool = None"
    for pc servers t url
    by (simp_all add: example_externals_def example_pool_def)
  have pool: "run_with_pool example_externals example_config example_pool =
      (None, [Pinged, Schema_validated, Servers_ran example_servers])"
    by (simp add: run_with_pool_def fields valid example_config_fields example_servers_def)
  obtain pc where config: "databaseConfig example_externals example_config
      \<lparr>Rt_httpTracer = NoopHTTPTracer, Rt_queryTracer = None, Rt_provider = None\<rparr> = Inr pc"
    by (simp add: databaseConfig_def fields Let_def)
  show ?thesis
    by (simp add: app_run_def run_with_telemetry_def example_config_fields DefaultDatabaseSchema_def
        Setup_def Shutdown_def config fields pool)
qed

lemma example_main: "\<exists>p. mainWithExit example_externals example_platform example_arguments emptyLookup = (0, p) \<and>
    Servers_ran example_servers \<in> set (Proc_events p) \<and>
    main_run example_externals example_platform example_arguments emptyLookup = (None, p)"
  by (simp add: mainWithExit_def main_run_def runWithReadinessProbe_def example_load example_app_run zero_Result_def Let_def)

section \<open>A run of the servers\<close>

text \<open>The main goroutine at a position, after the signal.\<close>

definition stops_at :: "configuredServer list \<Rightarrow> main_pc \<Rightarrow> bool" where
  "stops_at servers pc \<longleftrightarrow> (\<exists>s. serve_reachable servers s \<and> S_pc s = pc \<and> S_cancelled s)"

lemma stops_at_step:
  assumes "stops_at servers pc"
    and "\<And>s. S_pc s = pc \<Longrightarrow> S_cancelled s \<Longrightarrow> \<exists>t. serve_step servers s t \<and> S_pc t = pc' \<and> S_cancelled t"
  shows "stops_at servers pc'"
proof -
  obtain s where s: "serve_reachable servers s" "S_pc s = pc" "S_cancelled s" using assms(1) by (auto simp: stops_at_def)
  with assms(2)[OF s(2,3)] show ?thesis
    by (auto simp: stops_at_def serve_reachable_def intro: rtranclp.rtrancl_into_rtrancl)
qed

lemma stops_at_opening: "i \<le> length servers \<Longrightarrow> stops_at servers (Opening i)"
proof (induction i)
  case 0
  have "serve_step servers (serve_init servers) ((serve_init servers)\<lparr>S_cancelled := True\<rparr>)"
    by (rule cancel) (simp add: serve_init_def)
  then show ?case
    by (auto simp: stops_at_def serve_reachable_def serve_init_def intro!: exI[of _ "(serve_init servers)\<lparr>S_cancelled := True\<rparr>"])
next
  case (Suc i)
  then have "stops_at servers (Opening i)" by simp
  then show ?case by (rule stops_at_step) (intro exI conjI, erule listen, use Suc.prems in simp_all)
qed

lemma stops_at_spawning: "i \<le> length servers \<Longrightarrow> stops_at servers (Spawning i)"
proof (induction i)
  case 0
  have "stops_at servers (Opening (length servers))" by (rule stops_at_opening) simp
  then show ?case by (rule stops_at_step) (use listening in fastforce)
next
  case (Suc i)
  then have "stops_at servers (Spawning i)" by simp
  then show ?case by (rule stops_at_step) (intro exI conjI, erule spawn, use Suc.prems in simp_all)
qed

lemma stops_at_stopping: "j \<le> length servers \<Longrightarrow> stops_at servers (Stopping j None)"
proof (induction j)
  case 0
  have "stops_at servers (Spawning (length servers))" by (rule stops_at_spawning) simp
  then have "stops_at servers Waiting" by (rule stops_at_step) (use spawned in fastforce)
  then show ?case by (rule stops_at_step) (use select_done in fastforce)
next
  case (Suc j)
  then have "stops_at servers (Stopping j None)" by simp
  then have "stops_at servers (Closing j None)" by (rule stops_at_step) (intro exI conjI, erule shutdown, use Suc.prems in simp_all)
  then show ?case
    by (rule stops_at_step)
      (intro exI conjI, erule shutdown_returns[where outcome = None], simp_all add: errors_Join_two stopServer_def)
qed

lemma servers_can_stop: "\<exists>s. serve_reachable servers s \<and> S_pc s = Finished None"
proof -
  have "stops_at servers (Stopping (length servers) None)" by (rule stops_at_stopping) simp
  then have "stops_at servers (Finished None)" by (rule stops_at_step) (use finish in fastforce)
  then show ?thesis by (auto simp: stops_at_def)
qed

end
