(* ===== verification/Lifecycle_Properties.thy ===== *)
theory Lifecycle_Properties
  imports Example_Process
begin

text \<open>
  The theorems about the process: its servers come to an end and leave nothing open, its resources are
  released in order, it serves only with a validated configuration, and its exit code tells what happened.
\<close>

section \<open>The servers\<close>


definition example_server :: configuredServer where
  "example_server = \<lparr>CS_role = serverRoleManagement, CS_Addr = ''127.0.0.1:8081'',
     CS_Handler = Management_handler (NewHandler None id False), CS_ReadHeaderTimeout = 1, CS_ReadTimeout = 1,
     CS_WriteTimeout = 1, CS_IdleTimeout = 1\<rparr>"

text \<open>A run in which the first address is taken, and the process is told to stop afterwards.\<close>

definition refused_state :: "bool \<Rightarrow> serve_state" where
  "refused_state cancelled =
     \<lparr>S_pc = Finished (Some (listen_error example_server (ErrorText ''in use''))), S_open = [],
      S_shutdown = [False, False], S_routines = [], S_channel = [], S_cancelled = cancelled\<rparr>"

lemma refused_run:
  "serve_step [example_server, example_server] (serve_init [example_server, example_server]) (refused_state False)"
  "serve_step [example_server, example_server] (refused_state False) (refused_state True)"
proof -
  show "serve_step [example_server, example_server] (serve_init [example_server, example_server]) (refused_state False)"
    using listen_fails[of "serve_init [example_server, example_server]" 0 "[example_server, example_server]" "ErrorText ''in use''"]
    by (simp add: serve_init_def refused_state_def closeListeners_def)
  show "serve_step [example_server, example_server] (refused_state False) (refused_state True)"
    using cancel[of "refused_state False" "[example_server, example_server]"] by (simp add: refused_state_def)
qed

lemma refused_power:
  "(serve_step [example_server, example_server] ^^ 2) (serve_init [example_server, example_server]) (refused_state True)"
  using refused_run by (auto simp: numeral_2_eq_2)


text \<open>
  C4. With the program's two servers no goroutine is left behind: a run that cannot go on has returned from
  \<open>serve\<close>, every goroutine has delivered its result to the channel, and every listener is closed.
\<close>

theorem serve_drains:
  assumes "serve_reachable servers s" "length servers \<le> serverErrorBufferSize" "\<nexists>t. serve_step servers s t"
  shows "(\<exists>err. S_pc s = Finished err) \<and> (\<forall>g \<in> set (S_routines s). g = Sent) \<and> True \<notin> set (S_open s)"
  using stuck_final[OF serve_reachable_inv[OF assms(1)] assms(2,3)] final_closed serve_reachable_inv[OF assms(1)]
  by (auto simp: serve_final_def)

lemma refused_reachable: "serve_reachable [example_server, example_server] (refused_state c)"
proof -
  have "serve_reachable [example_server, example_server] (refused_state False)"
    using refused_run(1) by (simp add: serve_reachable_def r_into_rtranclp)
  then show ?thesis
    using refused_run(2) by (cases c) (auto simp: serve_reachable_def intro: rtranclp.rtrancl_into_rtrancl)
qed

theorem serve_drains_witness: "True \<notin> set (S_open (refused_state True))"
proof -
  have "\<not> serve_step [example_server, example_server] (refused_state True) t" for t
    by (rule notI, erule serve_stepE) (auto simp: refused_state_def)
  then show ?thesis
    using serve_drains[OF refused_reachable, of True] by (simp add: serverErrorBufferSize_def)
qed

lemma all_shutdown: "shutdown_upto (length (S_shutdown s)) s \<Longrightarrow> S_shutdown s = replicate (length (S_shutdown s)) True"
  by (simp add: shutdown_upto_def list_eq_iff_nth_eq)

text \<open>
  C17. When \<open>serve\<close> returns without an error the context had ended: a server that stops by itself always
  counts as a failure.  When it returns at all, it has called \<open>Shutdown\<close> on every server, or none was started
  because an address could not be opened; a listener that is still open then belongs to a goroutine that
  has not begun to serve.
\<close>

theorem serve_result:
  assumes "serve_reachable servers s" "S_pc s = Finished err"
  shows "(err = None \<longrightarrow> S_cancelled s) \<and>
    (S_routines s = [] \<and> True \<notin> set (S_open s) \<or> S_shutdown s = replicate (length servers) True) \<and>
    (\<forall>j < length (S_routines s). S_open s ! j \<longrightarrow> S_routines s ! j = Spawned)"
proof (intro conjI allI impI)
  have inv: "shape_inv (length servers) s" "routine_inv s"
    using serve_reachable_inv[OF assms(1)] by (simp_all add: serve_inv_def)
  from inv(1) assms(2) show "S_cancelled s" if "err = None" using that by (auto simp: shape_inv_def)
  from inv(1) assms(2) have "S_routines s = [] \<and> True \<notin> set (S_open s) \<or> shutdown_upto (length servers) s"
    by (auto simp: shape_inv_def)
  with inv(1) show "S_routines s = [] \<and> True \<notin> set (S_open s) \<or> S_shutdown s = replicate (length servers) True"
    by (metis shape_inv_def all_shutdown)
  fix j assume j: "j < length (S_routines s)" "S_open s ! j"
  then have "S_routines s \<noteq> []" by auto
  with inv(1) assms(2) have "shutdown_upto (length servers) s" "length (S_routines s) \<le> length (S_shutdown s)"
    using inv(2) by (auto simp: shape_inv_def routine_inv_def)
  with j inv(1) have "S_shutdown s ! j" by (simp add: shape_inv_def shutdown_upto_def)
  with routine_okI[OF inv(2) j(1)] j(2) show "S_routines s ! j = Spawned" by (cases "S_routines s ! j") auto
qed

theorem serve_result_witness: "S_routines (refused_state False) = []"
  using serve_result[OF refused_reachable, of False] by (simp add: refused_state_def)

section \<open>Resources\<close>

fun event_rank :: "app_event \<Rightarrow> nat" where
  "event_rank Warned_public_schema = 0"
| "event_rank Telemetry_set_up = 1"
| "event_rank Pool_created = 2"
| "event_rank Pinged = 3"
| "event_rank Schema_validated = 4"
| "event_rank (Servers_ran _) = 5"
| "event_rank Pool_closed = 6"
| "event_rank (Telemetry_shut_down _) = 7"

definition ordered_events :: "app_event list \<Rightarrow> bool" where
  "ordered_events es \<longleftrightarrow> sorted_wrt (<) (map event_rank es)"

lemmas run_defs = app_run_def run_with_telemetry_def run_with_pool_def Let_def

lemma run_with_pool_cases:
  "(\<exists>e es. run_with_pool ext cfg pool = (Some e, es) \<and> es \<in> {[], [Pinged]}) \<or>
   (\<exists>servers. run_with_pool ext cfg pool =
      (Ext_serve ext servers (ShutdownTimeout cfg), [Pinged, Schema_validated, Servers_ran servers]))"
  by (simp add: run_with_pool_def Let_def split: option.splits)

lemma run_with_telemetry_cases:
  "(\<exists>e. run_with_telemetry ext cfg rt = (Some e, [])) \<or>
   (\<exists>pool err es. run_with_pool ext cfg pool = (err, es) \<and>
      run_with_telemetry ext cfg rt = (err, Pool_created # es @ [Pool_closed]))"
  by (auto simp: run_with_telemetry_def split: sum.splits prod.splits)

text \<open>How far a run gets once telemetry is set up.\<close>

definition pool_events :: "externals \<Rightarrow> Config \<Rightarrow> go_error option \<Rightarrow> app_event list \<Rightarrow> bool" where
  "pool_events ext cfg err es \<longleftrightarrow>
     err \<noteq> None \<and> es \<in> {[], [Pool_created, Pool_closed], [Pool_created, Pinged, Pool_closed]} \<or>
     (\<exists>servers. es = [Pool_created, Pinged, Schema_validated, Servers_ran servers, Pool_closed] \<and>
        err = Ext_serve ext servers (ShutdownTimeout cfg))"

lemma run_with_telemetry_events: "run_with_telemetry ext cfg rt = (err, es) \<Longrightarrow> pool_events ext cfg err es"
proof -
  assume run: "run_with_telemetry ext cfg rt = (err, es)"
  from run_with_telemetry_cases[of ext cfg rt] show ?thesis
  proof (elim disjE exE conjE)
    fix pool err' es'
    assume pool: "run_with_pool ext cfg pool = (err', es')"
      and tel: "run_with_telemetry ext cfg rt = (err', Pool_created # es' @ [Pool_closed])"
    from run_with_pool_cases[of ext cfg pool] run pool tel show ?thesis
      by (elim disjE exE conjE) (auto simp: pool_events_def)
  qed (simp add: pool_events_def run)
qed

lemma app_run_cases:
  obtains (failed) w e where "w = [] \<or> w = [Warned_public_schema]" "app_run ext cfg = (Some e, w)"
  | (ran) w err es r where "w = [] \<or> w = [Warned_public_schema]" "pool_events ext cfg err es"
      "app_run ext cfg = (err, w @ Telemetry_set_up # es @ [Telemetry_shut_down r])"
proof -
  let ?w = "if Database_Schema (Config_Database cfg) = DefaultDatabaseSchema then [Warned_public_schema] else []"
  have w: "?w = [] \<or> ?w = [Warned_public_schema]" by simp
  show ?thesis
  proof (cases "Setup (Ext_exporter ext) (Config_Tracing cfg)")
    case (Inl e)
    then have "app_run ext cfg = (Some (Wrapped ''configure telemetry'' e), ?w)" by (simp add: app_run_def)
    with w failed show ?thesis by blast
  next
    case (Inr rt)
    obtain err es where tel: "run_with_telemetry ext cfg rt = (err, es)" by fastforce
    with Inr have "app_run ext cfg = (err, ?w @ Telemetry_set_up # es @ [Telemetry_shut_down (Shutdown rt (Ext_shutdown ext))])"
      by (simp add: app_run_def)
    with w ran run_with_telemetry_events[OF tel] show ?thesis by blast
  qed
qed

text \<open>What a finished run has recorded.\<close>

definition released :: "externals \<Rightarrow> Config \<Rightarrow> go_error option \<times> app_event list \<Rightarrow> bool" where
  "released ext cfg run \<longleftrightarrow>
     ordered_events (snd run) \<and>
     (Pool_created \<in> set (snd run) \<longleftrightarrow> Pool_closed \<in> set (snd run)) \<and>
     (Telemetry_set_up \<in> set (snd run) \<longleftrightarrow> (\<exists>r. Telemetry_shut_down r \<in> set (snd run))) \<and>
     (fst run = None \<longleftrightarrow>
        (\<exists>servers. Servers_ran servers \<in> set (snd run) \<and> Ext_serve ext servers (ShutdownTimeout cfg) = None))"

lemma app_run_released: "released ext cfg (app_run ext cfg)"
proof (cases rule: app_run_cases[of ext cfg])
  case (failed w e)
  then show ?thesis by (elim disjE) (simp_all add: released_def ordered_events_def)
next
  case (ran w err es r)
  from ran(2) show ?thesis
    unfolding pool_events_def ran(3) using ran(1)
    by (elim disjE exE conjE insertE emptyE) (simp_all add: released_def ordered_events_def)
qed

text \<open>
  C16. Whatever fails, the application releases what it opened, in the reverse order: the pool is closed
  exactly when it was created and after the servers ran, telemetry is shut down exactly when it was set up
  and last, and the servers run only after the ping and the validation of the schema.
\<close>

theorem resources_released:
  "ordered_events (snd (app_run ext cfg)) \<and>
   (Pool_created \<in> set (snd (app_run ext cfg)) \<longleftrightarrow> Pool_closed \<in> set (snd (app_run ext cfg))) \<and>
   (Telemetry_set_up \<in> set (snd (app_run ext cfg)) \<longleftrightarrow> (\<exists>r. Telemetry_shut_down r \<in> set (snd (app_run ext cfg)))) \<and>
   (fst (app_run ext cfg) = None \<longleftrightarrow>
      (\<exists>servers. Servers_ran servers \<in> set (snd (app_run ext cfg)) \<and> Ext_serve ext servers (ShutdownTimeout cfg) = None))"
  using app_run_released[of ext cfg] by (simp add: released_def)

section \<open>What the servers run with\<close>

lemma Load_Inr:
  assumes "Load plat arguments lookup = Inr r" "\<not> ShowVersion r" "\<not> CheckReadiness r"
  shows "Result_Config r = zero_Config \<or> within_limits (Result_Config r)"
proof -
  have "within_limits c" if "validate plat v = Inr c" for v c
    using that validate_limits_Inr by (metis validate_Inr)
  with assms show ?thesis
    by (auto simp: Load_def zero_Result_def split: if_splits sum.splits prod.splits)
qed

lemma main_run_events:
  assumes "Servers_ran servers \<in> set (Proc_events (snd (main_run ext plat arguments lookup)))"
  shows "\<exists>r. Load plat arguments lookup = Inr r \<and> \<not> ShowVersion r \<and> \<not> CheckReadiness r \<and>
    Servers_ran servers \<in> set (snd (app_run ext (Result_Config r))) \<and>
    fst (main_run ext plat arguments lookup) = map_option Run_error (fst (app_run ext (Result_Config r)))"
  using assms
  by (auto simp: main_run_def runWithReadinessProbe_def idle_process_def Let_def split: sum.splits if_splits prod.splits)

lemma app_run_servers:
  assumes "Servers_ran servers \<in> set (snd (app_run ext cfg))"
  shows "\<exists>pool. servers = configured_servers ext cfg pool \<and> Pool_pingFault pool = None \<and>
    ValidateSchema (Ext_catalog ext) (Database_Schema (Config_Database cfg)) = None \<and>
    fst (app_run ext cfg) = Ext_serve ext servers (ShutdownTimeout cfg)"
  using assms by (auto simp: run_defs split: sum.splits option.splits prod.splits if_splits)





section \<open>The pool's settings\<close>

text \<open>PostgreSQL's reading of a search path of one quoted name: a doubled quote stands for one.\<close>

fun read_quoted :: "string \<Rightarrow> (string \<times> string) option" where
  "read_quoted [] = None"
| "read_quoted [c] = (if c = dquote then Some ([], []) else None)"
| "read_quoted (c # d # cs) =
     (if c \<noteq> dquote then map_option (\<lambda>(name, rest). (c # name, rest)) (read_quoted (d # cs))
      else if d = dquote then map_option (\<lambda>(name, rest). (dquote # name, rest)) (read_quoted cs)
      else Some ([], d # cs))"

definition search_path_name :: "string \<Rightarrow> string option" where
  "search_path_name s =
     (case s of
        [] \<Rightarrow> None
      | q # t \<Rightarrow>
          if q \<noteq> dquote then None
          else case read_quoted t of Some (name, []) \<Rightarrow> Some (take 63 name) | _ \<Rightarrow> None)"

lemma read_quoted_plain: "dquote \<notin> set s \<Longrightarrow> read_quoted (s @ [dquote]) = Some (s, [])"
proof (induction s)
  case (Cons c s)
  then show ?case by (cases "s @ [dquote]") auto
qed simp

lemma schema_char_not_quote: "ch = CHR ''_'' \<or> is_digit ch \<or> 97 \<le> byte ch \<and> byte ch \<le> 122 \<Longrightarrow> ch \<noteq> dquote"
  by (auto simp: dquote_def is_digit_def char_eval)

text \<open>
  C21. The pool made from an accepted configuration searches the configured schema and no other: the quoted
  search path reads as exactly its name.  Connections, cache and tracer are those of the configuration.
\<close>

theorem pool_settings:
  assumes "validate plat v = Inr cfg" "Ext_ParseConfig ext (Database_URL (Config_Database cfg)) = Inr base"
    and "Setup (Ext_exporter ext) (Config_Tracing cfg) = Inr rt" "PC_Tracer base = None"
  shows "\<exists>pc path. databaseConfig ext cfg rt = Inr pc \<and> PC_RuntimeParams pc databaseSearchPathName = Some path \<and>
    search_path_name path = Some (databaseSchema v) \<and> PC_MaxConns pc = databaseMaxConns v \<and>
    PC_StatementCacheCapacity pc = statementCache v \<and> PC_Tracer pc = Rt_provider rt"
proof -
  obtain server level database where limits: "validate_limits plat v server level database = Inr cfg"
    using validate_Inr[OF assms(1)] by blast
  note inv = validate_limits_Inr[OF limits]
  note fields = validate_fields[OF assms(1)]
  from inv have chars: "\<forall>ch \<in> set (databaseSchema v). ch \<noteq> dquote"
    using schema_char_not_quote by (auto simp: within_limits_def fields)
  then have "dquote \<notin> set (databaseSchema v)" by blast
  then have "search_path_name ([dquote] @ databaseSchema v @ [dquote]) = Some (take 63 (databaseSchema v))"
    by (simp add: search_path_name_def read_quoted_plain)
  moreover have "take 63 (databaseSchema v) = databaseSchema v"
    using inv by (simp add: within_limits_def fields)
  moreover have "databaseSearchPathName \<noteq> connectionParameterName"
    by (simp add: databaseSearchPathName_def connectionParameterName_def)
  moreover have "MaxConnections (Config_Database cfg) = databaseMaxConns v"
    using inv by (simp add: exact_values_def)
  ultimately show ?thesis
    using Setup_consistent[OF assms(3)] assms(2,4)
    by (auto simp: databaseConfig_def Let_def fields split: option.splits)
qed

theorem pool_settings_witness:
  "\<exists>pc path. databaseConfig example_externals example_config
      \<lparr>Rt_httpTracer = NoopHTTPTracer, Rt_queryTracer = None, Rt_provider = None\<rparr> = Inr pc \<and>
    PC_RuntimeParams pc databaseSearchPathName = Some path \<and> search_path_name path = Some ''public''"
proof -
  have "Setup (Ext_exporter example_externals) (Config_Tracing example_config) =
      Inr \<lparr>Rt_httpTracer = NoopHTTPTracer, Rt_queryTracer = None, Rt_provider = None\<rparr>"
    by (simp add: Setup_def example_config_fields)
  moreover have "Ext_ParseConfig example_externals (Database_URL (Config_Database example_config)) = Inr example_pool_config"
    by (simp add: example_externals_def)
  moreover have "PC_Tracer example_pool_config = None" by (simp add: example_pool_config_def)
  moreover have "databaseSchema example_values = ''public''" by (simp add: example_values_eq DefaultDatabaseSchema_def)
  ultimately show ?thesis using pool_settings[OF example_config] by force
qed

section \<open>Control commands\<close>

lemma Load_healthcheck: "Load plat [''--healthcheck''] lookup = Inr (zero_Result\<lparr>CheckReadiness := True\<rparr>)"
  by (simp add: Load_def hasArgument_def FlagVersion_def FlagHealthcheck_def)

lemma url_target_readiness: "url_target ManagementReadinessURL = (''127.0.0.1:8081'', RouteReadiness)"
  by (simp add: url_target_def ManagementReadinessURL_def RouteReadiness_def)

lemma readiness_status:
  "response_status (management_serve h ''GET'' RouteReadiness False) = (if H_checker h = None then 200 else 503)"
proof -
  have "management_mux h ''GET'' RouteReadiness w = readiness h w" for w
    using management_mux_action[of RouteReadiness "''readyz''" h "''GET''" w] route_names_distinct
    by (simp add: management_action_def method_served_def management_route_defs)
  then show ?thesis
    by (simp add: management_serve_def readiness_def new_writer_def split: option.splits)
qed

text \<open>
  C20. \<open>--healthcheck\<close> exits with 0 exactly when a management server answers at the default loopback
  address and its database can be reached; it starts nothing, whatever else is configured.
\<close>

theorem healthcheck_exit:
  assumes "Ext_client ext = local_client (\<lambda>addr. map_option (\<lambda>st. NewHandler (Ready st) registry enabled) (listening addr))"
  shows "(fst (mainWithExit ext plat [''--healthcheck''] lookup) = 0 \<longleftrightarrow>
      (\<exists>st. listening ''127.0.0.1:8081'' = Some st \<and> Pool_pingFault (St_pool st) = None)) \<and>
    snd (mainWithExit ext plat [''--healthcheck''] lookup) = idle_process"
proof -
  have "Readiness (Ext_client ext) = None \<longleftrightarrow>
      (\<exists>st. listening ''127.0.0.1:8081'' = Some st \<and> Pool_pingFault (St_pool st) = None)"
    by (cases "listening ''127.0.0.1:8081''")
      (simp_all add: assms Readiness_def probe_def local_client_def url_target_readiness readiness_status
        NewHandler_def Ready_def)
  then show ?thesis
    by (cases "Readiness (Ext_client ext)")
      (auto simp: mainWithExit_def main_run_def runWithReadinessProbe_def Load_healthcheck zero_Result_def)
qed

theorem healthcheck_exit_witness:
  "fst (mainWithExit example_externals example_platform [''--healthcheck''] emptyLookup) = 0"
proof -
  have "Ext_client example_externals = local_client (\<lambda>addr. map_option (\<lambda>st. NewHandler (Ready st) id True)
      (if addr = ''127.0.0.1:8081'' then Some example_store else None))"
    by (simp add: example_externals_def)
  from healthcheck_exit[OF this] show ?thesis by (simp add: example_store_def New_def example_pool_def)
qed

end
