(* ===== verification/Js_Text.thy ===== *)
theory Js_Text
  imports Main
begin

text \<open>
  JavaScript strings as the scripts of the page use them: a string is the list of its code units.  The
  operations of the standard library are those the modelled code calls; of \<open>toLowerCase\<close>, only results in
  ASCII are looked at, which the letters of ASCII and the sign for kelvin have.
\<close>

section \<open>Strings by index\<close>

type_synonym units = "nat list"

definition units :: "string \<Rightarrow> units" where
  "units s = map of_char s"

definition charCodeAt :: "units \<Rightarrow> nat \<Rightarrow> nat option" where
  "charCodeAt e i = (if i < length e then Some (e ! i) else None)"

definition slice_of :: "units \<Rightarrow> nat \<Rightarrow> nat \<Rightarrow> units" where
  "slice_of e i j = drop i (take j e)"

primrec find_unit :: "nat \<Rightarrow> units \<Rightarrow> nat option" where
  "find_unit c [] = None"
| "find_unit c (x # xs) = (if x = c then Some 0 else map_option Suc (find_unit c xs))"

definition indexOf :: "nat \<Rightarrow> units \<Rightarrow> nat \<Rightarrow> nat option" where
  "indexOf c e n = map_option ((+) n) (find_unit c (drop n e))"

lemma find_unit_less: "find_unit c xs = Some i \<Longrightarrow> i < length xs"
  by (induction xs arbitrary: i) (auto split: if_splits)

lemma indexOf_bounds: "indexOf c e n = Some r \<Longrightarrow> n \<le> r \<and> r < length e"
  using find_unit_less[of c "drop n e"] by (auto simp: indexOf_def)

section \<open>Searching, splitting, joining\<close>

definition starts_with :: "units \<Rightarrow> units \<Rightarrow> bool" where
  "starts_with p s \<longleftrightarrow> take (length p) s = p"

fun js_includes :: "units \<Rightarrow> units \<Rightarrow> bool" where
  "js_includes [] p \<longleftrightarrow> p = []"
| "js_includes (c # s) p \<longleftrightarrow> starts_with p (c # s) \<or> js_includes s p"

text \<open>\<open>split\<close> at a separator that is not empty.\<close>

function split_on :: "units \<Rightarrow> units \<Rightarrow> units \<Rightarrow> units list" where
  "split_on sep acc s =
     (if sep = [] \<or> s = [] then [acc @ s]
      else if starts_with sep s then acc # split_on sep [] (drop (length sep) s)
      else split_on sep (acc @ [hd s]) (tl s))"
  by pat_completeness auto
termination
  by (relation "measure (\<lambda>(_, _, s). length s)") auto

declare split_on.simps [simp del]

definition split_string :: "units \<Rightarrow> units \<Rightarrow> units list" where
  "split_string sep s = split_on sep [] s"

fun join_units :: "units \<Rightarrow> units list \<Rightarrow> units" where
  "join_units sep [] = []"
| "join_units sep [x] = x"
| "join_units sep (x # y # ys) = x @ sep @ join_units sep (y # ys)"

definition replaceAll :: "units \<Rightarrow> units \<Rightarrow> units \<Rightarrow> units" where
  "replaceAll old new s = join_units new (split_string old s)"

section \<open>Letters and white space\<close>

definition lower_unit :: "nat \<Rightarrow> nat" where
  "lower_unit u = (if u < 128 then if 65 \<le> u \<and> u \<le> 90 then u + 32 else u else if u = 8490 then 107 else u)"

definition toLowerCase :: "units \<Rightarrow> units" where
  "toLowerCase s = map lower_unit s"

definition is_space :: "nat \<Rightarrow> bool" where
  "is_space u \<longleftrightarrow>
     (if u < 128 then 9 \<le> u \<and> u \<le> 13 \<or> u = 32
      else u \<in> {160, 5760, 8232, 8233, 8239, 8287, 12288, 65279} \<or> 8192 \<le> u \<and> u \<le> 8202)"

definition trim :: "units \<Rightarrow> units" where
  "trim s = rev (dropWhile is_space (rev (dropWhile is_space s)))"

definition letter_or_digit :: "nat \<Rightarrow> bool" where
  "letter_or_digit u \<longleftrightarrow> 48 \<le> u \<and> u \<le> 57 \<or> 65 \<le> u \<and> u \<le> 90 \<or> 97 \<le> u \<and> u \<le> 122"

section \<open>Percent encoding\<close>

definition percent_byte :: "nat \<Rightarrow> units" where
  "percent_byte b = (let hex = (\<lambda>d. if d < 10 then 48 + d else 55 + d) in [37, hex (b div 16), hex (b mod 16)])"

definition utf8 :: "nat \<Rightarrow> nat list" where
  "utf8 c =
     (if c < 128 then [c]
      else if c < 2048 then [192 + c div 64, 128 + c mod 64]
      else if c < 65536 then [224 + c div 4096, 128 + c div 64 mod 64, 128 + c mod 64]
      else [240 + c div 262144, 128 + c div 4096 mod 64, 128 + c div 64 mod 64, 128 + c mod 64])"

definition unreserved :: "nat \<Rightarrow> bool" where
  "unreserved u \<longleftrightarrow> letter_or_digit u \<or> u \<in> {33, 39, 40, 41, 42, 45, 46, 95, 126}"

text \<open>A surrogate that stands alone is an error.\<close>

fun encodeURIComponent :: "units \<Rightarrow> units option" where
  "encodeURIComponent [] = Some []"
| "encodeURIComponent (u # us) =
     (if unreserved u then map_option ((#) u) (encodeURIComponent us)
      else if u < 128 then map_option ((@) (percent_byte u)) (encodeURIComponent us)
      else if 56320 \<le> u \<and> u \<le> 57343 then None
      else if 55296 \<le> u \<and> u \<le> 56319 then
        (case us of
           [] \<Rightarrow> None
         | v # vs \<Rightarrow>
             if 56320 \<le> v \<and> v \<le> 57343 then
               map_option ((@) (concat (map percent_byte (utf8 (65536 + (u - 55296) * 1024 + (v - 56320))))))
                 (encodeURIComponent vs)
             else None)
      else map_option ((@) (concat (map percent_byte (utf8 u)))) (encodeURIComponent us))"

end
