(* ===== verification/Event_Stream.thy ===== *)
theory Event_Stream
  imports Go_Number Js_Text
begin

text \<open>
  The parser of server-sent events in \<open>docs/scalar-1.75.0.js\<close> (\<open>v1n\<close> of the bundle, \<open>createParser\<close> of
  its source), with which the page reads streamed answers.  Text arrives in chunks that end anywhere;
  the parser keeps what is not yet a line, and has a fast path for texts without a carriage return.  The
  model keeps its indices and its two scanning loops.  A second, plain definition reads a whole text
  line by line.

  The callbacks are the list of the calls made to
  them; they are taken to return and not to call the parser. \<open>maxBufferSize\<close> is a number of code units.
\<close>

section \<open>Configuration, state and calls\<close>

record parse_error =
  PE_message :: units
  PE_type :: string
  PE_field :: "units option"
  PE_value :: "units option"
  PE_line :: "units option"

datatype call =
    OnEvent "units option" "units option" units
  | OnError parse_error
  | OnRetry float64
  | OnComment units

record parser_config =
  Has_onComment :: bool
  MaxBufferSize :: "nat option"

record parser =
  Ps_pending :: "units list"
  Ps_length :: nat
  Ps_first :: bool
  Ps_id :: "units option"
  Ps_data :: units
  Ps_lines :: nat
  Ps_event :: "units option"
  Ps_terminated :: bool

definition createParser :: parser where
  "createParser =
     \<lparr>Ps_pending = [], Ps_length = 0, Ps_first = True, Ps_id = None, Ps_data = [], Ps_lines = 0, Ps_event = None,
      Ps_terminated = False\<rparr>"

section \<open>A line\<close>

definition clear_event :: "parser \<Rightarrow> parser" where
  "clear_event st = st\<lparr>Ps_id := None, Ps_data := [], Ps_lines := 0, Ps_event := None\<rparr>"

text \<open>A blank line ends the event.\<close>

definition dispatch :: "parser \<Rightarrow> parser \<times> call list" where
  "dispatch st = (clear_event st, if 0 < Ps_lines st then [OnEvent (Ps_id st) (Ps_event st) (Ps_data st)] else [])"

definition add_data :: "units \<Rightarrow> parser \<Rightarrow> parser" where
  "add_data v st =
     st\<lparr>Ps_data := (if Ps_lines st = 0 then v else Ps_data st @ [10] @ v), Ps_lines := Suc (Ps_lines st)\<rparr>"

definition nonempty :: "units \<Rightarrow> units option" where
  "nonempty v = (if v = [] then None else Some v)"

definition digits_only :: "units \<Rightarrow> bool" where
  "digits_only v \<longleftrightarrow> v \<noteq> [] \<and> (\<forall>c \<in> set v. 48 \<le> c \<and> c \<le> 57)"

text \<open>\<open>parseInt\<close> of digits: the nearest number, infinite from the first that rounds to \<open>2 ^ 1024\<close>.\<close>

definition parseInt10 :: "units \<Rightarrow> float64" where
  "parseInt10 v =
     (let x = round64 (of_nat (foldl (\<lambda>n c. 10 * n + (c - 48)) 0 v)) in
      if x \<ge> 2 ^ 1024 then Infinite False else Finite x)"

definition invalid_retry :: "units \<Rightarrow> units \<Rightarrow> parse_error" where
  "invalid_retry v line =
     \<lparr>PE_message = units ''Invalid `retry` value: '' @ [34] @ v @ [34], PE_type = ''invalid-retry'',
      PE_field = None, PE_value = Some v, PE_line = Some line\<rparr>"

definition unknown_field :: "units \<Rightarrow> units \<Rightarrow> units \<Rightarrow> parse_error" where
  "unknown_field name v line =
     \<lparr>PE_message = units ''Unknown field '' @ [34] @ (if length name > 20 then take 20 name @ [8230] else name) @ [34],
      PE_type = ''unknown-field'', PE_field = Some name, PE_value = Some v, PE_line = Some line\<rparr>"

definition processField :: "units \<Rightarrow> units \<Rightarrow> units \<Rightarrow> parser \<Rightarrow> parser \<times> call list" where
  "processField name v line st =
     (if name = units ''event'' then (st\<lparr>Ps_event := nonempty v\<rparr>, [])
      else if name = units ''data'' then (add_data v st, [])
      else if name = units ''id'' then (if 0 \<in> set v then st else st\<lparr>Ps_id := Some v\<rparr>, [])
      else if name = units ''retry'' then
        (st, [if digits_only v then OnRetry (parseInt10 v) else OnError (invalid_retry v line)])
      else (st, [OnError (unknown_field name v line)]))"

definition isDataPrefix :: "units \<Rightarrow> nat \<Rightarrow> nat option \<Rightarrow> bool" where
  "isDataPrefix e t n \<longleftrightarrow>
     n = Some 100 \<and> charCodeAt e (t + 1) = Some 97 \<and> charCodeAt e (t + 2) = Some 116 \<and>
     charCodeAt e (t + 3) = Some 97 \<and> charCodeAt e (t + 4) = Some 58"

definition isEventPrefix :: "units \<Rightarrow> nat \<Rightarrow> nat option \<Rightarrow> bool" where
  "isEventPrefix e t n \<longleftrightarrow>
     n = Some 101 \<and> charCodeAt e (t + 1) = Some 118 \<and> charCodeAt e (t + 2) = Some 101 \<and>
     charCodeAt e (t + 3) = Some 110 \<and> charCodeAt e (t + 4) = Some 116 \<and> charCodeAt e (t + 5) = Some 58"

text \<open>Where a value begins, given the index behind the colon.\<close>

definition value_start :: "units \<Rightarrow> nat \<Rightarrow> nat" where
  "value_start e k = (if charCodeAt e k = Some 32 then k + 1 else k)"

definition parseLine :: "parser_config \<Rightarrow> units \<Rightarrow> nat \<Rightarrow> nat \<Rightarrow> parser \<Rightarrow> parser \<times> call list" where
  "parseLine cfg e t n st =
     (if t = n then dispatch st
      else let r = charCodeAt e t in
        if isDataPrefix e t r then (add_data (slice_of e (value_start e (t + 5)) n) st, [])
        else if isEventPrefix e t r then (st\<lparr>Ps_event := nonempty (slice_of e (value_start e (t + 6)) n)\<rparr>, [])
        else if r = Some 105 \<and> charCodeAt e (t + 1) = Some 100 \<and> charCodeAt e (t + 2) = Some 58 then
          (let v = slice_of e (value_start e (t + 3)) n in (if 0 \<in> set v then st else st\<lparr>Ps_id := Some v\<rparr>, []))
        else if r = Some 58 then
          (st, if Has_onComment cfg
               then [OnComment (drop (if charCodeAt e (t + 1) = Some 32 then 2 else 1) (slice_of e t n))] else [])
        else let a = slice_of e t n in
          case indexOf 58 a 0 of
            None \<Rightarrow> processField a [] a st
          | Some k \<Rightarrow> processField (slice_of a 0 k) (drop (k + (if charCodeAt a (k + 1) = Some 32 then 2 else 1)) a) a st)"

section \<open>The lines of a text\<close>

text \<open>Without carriage returns.  A single data line that ends an event is delivered without being stored.\<close>

function scanLF :: "parser_config \<Rightarrow> units \<Rightarrow> nat \<Rightarrow> parser \<Rightarrow> parser \<times> call list \<times> units" where
  "scanLF cfg e n st =
     (case indexOf 10 e n of
        None \<Rightarrow> (st, [], drop n e)
      | Some r \<Rightarrow>
          if n = r then
            (let (st1, cs) = dispatch st; (st2, cs2, rest) = scanLF cfg e (n + 1) st1 in (st2, cs @ cs2, rest))
          else let i = charCodeAt e n in
            if isDataPrefix e n i then
              (let a = slice_of e (value_start e (n + 5)) r in
               if Ps_lines st = 0 \<and> charCodeAt e (r + 1) = Some 10 then
                 (let st1 = st\<lparr>Ps_id := None, Ps_data := [], Ps_event := None\<rparr>;
                      (st2, cs2, rest) = scanLF cfg e (r + 2) st1
                  in (st2, OnEvent (Ps_id st) (Ps_event st) a # cs2, rest))
               else scanLF cfg e (r + 1) (add_data a st))
            else if isEventPrefix e n i then
              scanLF cfg e (r + 1) (st\<lparr>Ps_event := nonempty (slice_of e (value_start e (n + 6)) r)\<rparr>)
            else (let (st1, cs) = parseLine cfg e n r st; (st2, cs2, rest) = scanLF cfg e (r + 1) st1
                  in (st2, cs @ cs2, rest)))"
  by pat_completeness auto
termination
  by (relation "measure (\<lambda>(_, e, n, _). Suc (length e) - n)") (auto dest: indexOf_bounds)

text \<open>The end of the line that begins at \<open>n\<close>: a carriage return at the end of the text may be half of one.\<close>

definition line_end :: "units \<Rightarrow> nat \<Rightarrow> nat option" where
  "line_end e n =
     (case (indexOf 13 e n, indexOf 10 e n) of
        (Some t, Some r) \<Rightarrow> Some (if t < r then t else r)
      | (None, r) \<Rightarrow> r
      | (Some t, None) \<Rightarrow> if t = length e - 1 then None else Some t)"

lemma line_end_bounds: "line_end e n = Some i \<Longrightarrow> n \<le> i \<and> i < length e"
  by (auto simp: line_end_def dest!: indexOf_bounds split: option.splits if_splits)

function scanAny :: "parser_config \<Rightarrow> units \<Rightarrow> nat \<Rightarrow> parser \<Rightarrow> parser \<times> call list \<times> units" where
  "scanAny cfg e n st =
     (if n < length e then
        (case line_end e n of
           None \<Rightarrow> (st, [], drop n e)
         | Some i \<Rightarrow>
             let (st1, cs) = parseLine cfg e n i st; n1 = i + 1;
                 n2 = (if charCodeAt e (n1 - 1) = Some 13 \<and> charCodeAt e n1 = Some 10 then n1 + 1 else n1);
                 (st2, cs2, rest) = scanAny cfg e n2 st1
             in (st2, cs @ cs2, rest))
      else (st, [], drop n e))"
  by pat_completeness auto
termination
  by (relation "measure (\<lambda>(_, e, n, _). length e - n)") (auto dest: line_end_bounds)

declare scanLF.simps [simp del] scanAny.simps [simp del]

definition parseChunk :: "parser_config \<Rightarrow> units \<Rightarrow> parser \<Rightarrow> parser \<times> call list \<times> units" where
  "parseChunk cfg e st = (if 13 \<in> set e then scanAny cfg e 0 st else scanLF cfg e 0 st)"

section \<open>The parser's interface\<close>

definition buffer_exceeded :: "nat \<Rightarrow> parse_error" where
  "buffer_exceeded a =
     \<lparr>PE_message = units (''Buffered data exceeded max buffer size of '' @ FormatInt (int a) @ '' characters''),
      PE_type = ''max-buffer-size-exceeded'', PE_field = None, PE_value = None, PE_line = None\<rparr>"

definition checkBufferSize :: "parser_config \<Rightarrow> parser \<Rightarrow> parser \<times> call list" where
  "checkBufferSize cfg st =
     (case MaxBufferSize cfg of
        None \<Rightarrow> (st, [])
      | Some a \<Rightarrow>
          if Ps_length st + length (Ps_data st) \<le> a then (st, [])
          else (clear_event (st\<lparr>Ps_terminated := True, Ps_pending := [], Ps_length := 0\<rparr>), [OnError (buffer_exceeded a)]))"

text \<open>Scanning a text and keeping what is left of it.\<close>

definition scan_and_keep :: "parser_config \<Rightarrow> units \<Rightarrow> parser \<Rightarrow> parser \<times> call list" where
  "scan_and_keep cfg e st =
     (let (st1, cs, rest) = parseChunk cfg e st;
          st2 = (if rest \<noteq> [] then st1\<lparr>Ps_pending := Ps_pending st1 @ [rest], Ps_length := length rest\<rparr> else st1);
          (st3, cs3) = checkBufferSize cfg st2
      in (st3, cs @ cs3))"

definition strip_BOM :: "units \<Rightarrow> units" where
  "strip_BOM e =
     (if charCodeAt e 0 = Some 239 \<and> charCodeAt e 1 = Some 187 \<and> charCodeAt e 2 = Some 191 then drop 3 e else e)"

datatype feed_error = Fed_after_termination

definition feed :: "parser_config \<Rightarrow> units \<Rightarrow> parser \<Rightarrow> feed_error + parser \<times> call list" where
  "feed cfg e st =
     (if Ps_terminated st then Inl Fed_after_termination
      else let e1 = (if Ps_first st then strip_BOM e else e); st0 = st\<lparr>Ps_first := False\<rparr> in
        if Ps_pending st0 = [] then Inr (scan_and_keep cfg e1 st0)
        else if 10 \<notin> set e1 \<and> 13 \<notin> set e1 then
          Inr (checkBufferSize cfg
                 (st0\<lparr>Ps_pending := Ps_pending st0 @ [e1], Ps_length := Ps_length st0 + length e1\<rparr>))
        else let t = concat (Ps_pending st0 @ [e1]) in
          Inr (scan_and_keep cfg t (st0\<lparr>Ps_pending := [], Ps_length := 0\<rparr>)))"

definition reset :: "parser_config \<Rightarrow> bool \<Rightarrow> parser \<Rightarrow> parser \<times> call list" where
  "reset cfg consume st =
     (let (st1, cs) =
        (if consume \<and> Ps_pending st \<noteq> []
         then let e = concat (Ps_pending st) in parseLine cfg e 0 (length e) st else (st, []))
      in (clear_event (st1\<lparr>Ps_first := True, Ps_pending := [], Ps_length := 0, Ps_terminated := False\<rparr>), cs))"

primrec feed_all :: "parser_config \<Rightarrow> units list \<Rightarrow> parser \<Rightarrow> feed_error + parser \<times> call list" where
  "feed_all cfg [] st = Inr (st, [])"
| "feed_all cfg (e # es) st =
     (case feed cfg e st of
        Inl x \<Rightarrow> Inl x
      | Inr (st1, cs) \<Rightarrow> map_sum id (map_prod id ((@) cs)) (feed_all cfg es st1))"

section \<open>A text read line by line\<close>

text \<open>
  Lines end with a line feed, a carriage return or both; a carriage return at the end of the text stays
  with the rest, as what follows may be its line feed.
\<close>

fun split_lines :: "units \<Rightarrow> units \<Rightarrow> units list \<times> units" where
  "split_lines acc [] = ([], acc)"
| "split_lines acc [c] = (if c = 10 then ([acc], []) else ([], acc @ [c]))"
| "split_lines acc (c # d # cs) =
     (if c = 10 then map_prod ((#) acc) id (split_lines [] (d # cs))
      else if c = 13 then map_prod ((#) acc) id (split_lines [] (if d = 10 then cs else d # cs))
      else split_lines (acc @ [c]) (d # cs))"

definition unspace :: "units \<Rightarrow> units" where
  "unspace v = (if take 1 v = [32] then drop 1 v else v)"

definition field_of :: "units \<Rightarrow> units \<times> units" where
  "field_of line =
     (takeWhile ((\<noteq>) 58) line,
      case dropWhile ((\<noteq>) 58) line of [] \<Rightarrow> [] | _ # v \<Rightarrow> unspace v)"

definition spec_line :: "parser_config \<Rightarrow> units \<Rightarrow> parser \<Rightarrow> parser \<times> call list" where
  "spec_line cfg line st =
     (if line = [] then dispatch st
      else let (name, v) = field_of line in
        if name = [] then (st, if Has_onComment cfg then [OnComment v] else []) else processField name v line st)"

primrec spec_lines :: "parser_config \<Rightarrow> units list \<Rightarrow> parser \<Rightarrow> parser \<times> call list" where
  "spec_lines cfg [] st = (st, [])"
| "spec_lines cfg (l # ls) st =
     (let (st1, cs) = spec_line cfg l st; (st2, cs2) = spec_lines cfg ls st1 in (st2, cs @ cs2))"

definition spec_text :: "parser_config \<Rightarrow> parser \<Rightarrow> units \<Rightarrow> parser \<times> call list \<times> units" where
  "spec_text cfg st e =
     (let (ls, rest) = split_lines [] e; (st1, cs) = spec_lines cfg ls st in (st1, cs, rest))"

end
