(* ===== verification/Chunked_Text.thy ===== *)
theory Chunked_Text
  imports Go_Prelude
begin

text \<open>
  Texts that arrive in chunks.  A scanner takes a state and a text and gives a new state, what it put out
  and the rest it could not use yet.  The contract of the locale \<open>chunked_scanner\<close> is that scanning may
  stop and go on from its rest; then it does not matter how a text was cut, nor whether a chunk is
  scanned at once or only kept for later.
\<close>

definition after_output :: "'o list \<Rightarrow> 's \<times> 'o list \<times> 'c list \<Rightarrow> 's \<times> 'o list \<times> 'c list" where
  "after_output os r = (case r of (s, os2, rest) \<Rightarrow> (s, os @ os2, rest))"

lemma after_output_simps [simp]:
  "after_output os (s, os2, rest) = (s, os @ os2, rest)" "after_output [] r = r"
  "after_output os (after_output os2 r) = after_output (os @ os2) r"
  by (simp_all add: after_output_def split: prod.splits)

locale chunked_scanner =
  fixes scan :: "'s \<Rightarrow> 'c list \<Rightarrow> 's \<times> 'o list \<times> 'c list"
  assumes scan_append: "scan s x = (s1, os, rest) \<Longrightarrow> scan s (x @ y) = after_output os (scan s1 (rest @ y))"
begin

lemma scan_rest:
  assumes "scan s x = (s1, os, rest)"
  shows "scan s1 rest = (s1, [], rest)"
  using scan_append[OF assms, of "[]"] assms by (cases "scan s1 rest") simp

text \<open>Chunks, each with the decision whether to scan after it.\<close>

primrec scan_chunks :: "'s \<Rightarrow> 'c list \<Rightarrow> (bool \<times> 'c list) list \<Rightarrow> 's \<times> 'o list \<times> 'c list" where
  "scan_chunks s kept [] = (s, [], kept)"
| "scan_chunks s kept (c # cs) =
     (if fst c then (case scan s (kept @ snd c) of (s1, os, rest) \<Rightarrow> after_output os (scan_chunks s1 rest cs))
      else scan_chunks s (kept @ snd c) cs)"

lemma scan_chunks_sound:
  assumes "scan_chunks s kept cs = (s1, os, rest)"
  shows "scan s (kept @ concat (map snd cs)) = after_output os (scan s1 rest)"
  using assms
proof (induction cs arbitrary: s kept os)
  case (Cons c cs)
  show ?case
  proof (cases "fst c")
    case True
    obtain s2 os2 kept2 where first: "scan s (kept @ snd c) = (s2, os2, kept2)" by (metis prod_cases3)
    obtain os3 where "scan_chunks s2 kept2 cs = (s1, os3, rest)" "os = os2 @ os3"
      using Cons.prems True first by (cases "scan_chunks s2 kept2 cs") simp
    with Cons.IH[OF this(1)] scan_append[OF first, of "concat (map snd cs)"] show ?thesis by simp
  next
    case False
    with Cons.prems Cons.IH[of s "kept @ snd c" os] show ?thesis by simp
  qed
qed simp

text \<open>Nothing is put out late when the last chunk was scanned.\<close>

lemma scan_chunks_settled:
  assumes "scan_chunks s kept cs = (s1, os, rest)" "cs \<noteq> []" "fst (last cs)"
  shows "scan s1 rest = (s1, [], rest)"
  using assms
proof (induction cs arbitrary: s kept os)
  case (Cons c cs)
  show ?case
  proof (cases "cs = []")
    case True
    with Cons.prems show ?thesis by (auto simp: after_output_def split: prod.splits dest: scan_rest)
  next
    case False
    with Cons.prems Cons.IH show ?thesis
      by (auto simp: after_output_def split: if_splits prod.splits)
  qed
qed simp

end

end
