(* ===== verification/Event_Stream_Lines.thy ===== *)
theory Event_Stream_Lines
  imports Event_Stream Chunked_Text
begin

text \<open>
  The two scanning loops of the event stream parser give what the plain definition gives, line by line,
  and the plain definition may stop at any point and go on from its rest.
\<close>

section \<open>Indices and lists\<close>

lemma charCodeAt_simps [simp]:
  "charCodeAt [] k = None" "charCodeAt (x # xs) 0 = Some x" "charCodeAt (x # xs) (Suc k) = charCodeAt xs k"
  by (simp_all add: charCodeAt_def)

lemma charCodeAt_drop: "charCodeAt e (t + k) = charCodeAt (drop t e) k"
  by (auto simp: charCodeAt_def)

lemma charCodeAt_append: "k < length l \<Longrightarrow> charCodeAt (l @ rest) k = charCodeAt l k"
  by (simp add: charCodeAt_def nth_append)

lemma slice_of_drop: "slice_of e (t + k) n = drop k (slice_of e t n)"
  by (simp add: slice_of_def add.commute)

definition begins :: "units \<Rightarrow> units \<Rightarrow> bool" where
  "begins p s \<longleftrightarrow> take (length p) s = p"

lemma begins_simps [simp]:
  "begins [] s" "\<not> begins (x # p) []" "begins (x # p) (y # s) \<longleftrightarrow> x = y \<and> begins p s"
  by (auto simp: begins_def)

text \<open>What follows a line: nothing, or a line break.\<close>

definition line_rest :: "units \<Rightarrow> bool" where
  "line_rest rest \<longleftrightarrow> rest = [] \<or> hd rest \<in> {10, 13}"

lemma begins_line: "line_rest rest \<Longrightarrow> 10 \<notin> set p \<Longrightarrow> 13 \<notin> set p \<Longrightarrow> begins p (l @ rest) \<longleftrightarrow> begins p l"
proof (induction p arbitrary: l)
  case (Cons x p)
  then show ?case by (cases l; cases rest) (auto simp: line_rest_def)
qed simp

lemma charCodeAt_line:
  "line_rest rest \<Longrightarrow> c \<noteq> 10 \<Longrightarrow> c \<noteq> 13 \<Longrightarrow> k \<le> length l \<Longrightarrow> charCodeAt (l @ rest) k = Some c \<longleftrightarrow> charCodeAt l k = Some c"
proof (induction l arbitrary: k)
  case Nil
  then show ?case by (cases rest) (auto simp: line_rest_def)
next
  case (Cons x l)
  then show ?case by (cases k) auto
qed

lemma begins_drop: "begins (x # p) (drop t e) \<longleftrightarrow> charCodeAt e t = Some x \<and> begins p (drop (Suc t) e)"
  by (cases "t < length e") (auto simp: Cons_nth_drop_Suc[symmetric] charCodeAt_def)

lemma isDataPrefix_iff: "isDataPrefix e t (charCodeAt e t) \<longleftrightarrow> begins [100, 97, 116, 97, 58] (drop t e)"
  by (simp add: isDataPrefix_def begins_drop eval_nat_numeral)

lemma isEventPrefix_iff: "isEventPrefix e t (charCodeAt e t) \<longleftrightarrow> begins [101, 118, 101, 110, 116, 58] (drop t e)"
  by (simp add: isEventPrefix_def begins_drop eval_nat_numeral)

lemma isIdPrefix_iff:
  "charCodeAt e t = Some 105 \<and> charCodeAt e (Suc t) = Some 100 \<and> charCodeAt e (Suc (Suc t)) = Some 58 \<longleftrightarrow>
   begins [105, 100, 58] (drop t e)"
  by (simp add: begins_drop eval_nat_numeral)

text \<open>A line of a text, from \<open>t\<close> to \<open>n\<close>.\<close>

definition line_at :: "units \<Rightarrow> nat \<Rightarrow> nat \<Rightarrow> bool" where
  "line_at e t n \<longleftrightarrow> t \<le> n \<and> n \<le> length e \<and> line_rest (drop n e)"

lemma line_at_drop: "line_at e t n \<Longrightarrow> drop t e = slice_of e t n @ drop n e"
  unfolding line_at_def slice_of_def by (metis append_take_drop_id drop_append drop_take length_take min.absorb2 diff_is_0_eq drop0)

lemma begins_at:
  "line_at e t n \<Longrightarrow> 10 \<notin> set p \<Longrightarrow> 13 \<notin> set p \<Longrightarrow> begins p (drop t e) \<longleftrightarrow> begins p (slice_of e t n)"
  by (simp add: line_at_drop begins_line line_at_def)

lemma unspace_eq: "unspace v = drop (if charCodeAt v 0 = Some 32 then 1 else 0) v"
  by (cases v) (auto simp: unspace_def)

lemma value_at:
  assumes "line_at e t n" "k \<le> length (slice_of e t n)"
  shows "slice_of e (value_start e (t + k)) n = unspace (drop k (slice_of e t n))"
proof -
  have "charCodeAt e (t + k) = Some 32 \<longleftrightarrow> charCodeAt (slice_of e t n) k = Some 32"
    using assms by (simp add: charCodeAt_drop line_at_drop charCodeAt_line line_at_def)
  then show ?thesis
    using charCodeAt_drop[of "slice_of e t n" k 0] slice_of_drop[of e t] slice_of_drop[of e t "Suc k"]
    by (simp add: value_start_def unspace_eq)
qed

lemma begins_length: "begins p l \<Longrightarrow> length p \<le> length l"
  by (metis begins_def length_take min.cobounded1 min.commute)

lemma begins_split: "begins p l \<Longrightarrow> l = p @ drop (length p) l"
  by (metis append_take_drop_id begins_def)

lemma field_of_split: "58 \<notin> set name \<Longrightarrow> field_of (name @ 58 # v) = (name, unspace v)"
  by (induction name) (auto simp: field_of_def)

lemma field_of_begins:
  "begins (name @ [58]) l \<Longrightarrow> k = Suc (length name) \<Longrightarrow> 58 \<notin> set name \<Longrightarrow> field_of l = (name, unspace (drop k l))"
  using begins_split[of "name @ [58]" l] field_of_split[of name "drop k l"] by simp

lemma field_of_plain: "58 \<notin> set a \<Longrightarrow> field_of a = (a, [])"
  by (induction a) (simp_all add: field_of_def)

lemma units_fields [simp]:
  "units ''event'' = [101, 118, 101, 110, 116]" "units ''data'' = [100, 97, 116, 97]"
  "units ''id'' = [105, 100]" "units ''retry'' = [114, 101, 116, 114, 121]"
  by (simp_all add: units_def)

section \<open>A line\<close>

lemma find_unit_None: "find_unit c xs = None \<longleftrightarrow> c \<notin> set xs"
  by (induction xs) auto

lemma find_unit_Some: "find_unit c xs = Some i \<Longrightarrow> xs = take i xs @ c # drop (Suc i) xs \<and> c \<notin> set (take i xs)"
  by (induction xs arbitrary: i) (auto split: if_splits)

lemma processField_any:
  "(case indexOf 58 a 0 of
      None \<Rightarrow> processField a [] a st
    | Some k \<Rightarrow> processField (slice_of a 0 k) (drop (k + (if charCodeAt a (k + 1) = Some 32 then 2 else 1)) a) a st) =
   (case field_of a of (name, v) \<Rightarrow> processField name v a st)"
proof (cases "find_unit 58 a")
  case None
  then have "field_of a = (a, [])" by (simp add: field_of_plain find_unit_None)
  with None show ?thesis by (simp add: indexOf_def)
next
  case (Some k)
  from find_unit_Some[OF Some] field_of_split
  have "field_of a = (take k a, unspace (drop (Suc k) a))" by metis
  with Some charCodeAt_drop[of a "Suc k" 0] show ?thesis
    by (simp add: indexOf_def slice_of_def unspace_eq)
qed

lemma processField_simps [simp]:
  "processField [101, 118, 101, 110, 116] v line st = (st\<lparr>Ps_event := nonempty v\<rparr>, [])"
  "processField [100, 97, 116, 97] v line st = (add_data v st, [])"
  "processField [105, 100] v line st = (if 0 \<in> set v then st else st\<lparr>Ps_id := Some v\<rparr>, [])"
  by (simp_all add: processField_def)

text \<open>The tests for the common fields do not change what a line means.\<close>

lemma parseLine_spec:
  assumes "line_at e t n"
  shows "parseLine cfg e t n st = spec_line cfg (slice_of e t n) st"
proof (cases "t = n")
  case True
  then show ?thesis by (simp add: parseLine_def spec_line_def slice_of_def)
next
  case False
  let ?l = "slice_of e t n"
  note at = begins_at[OF assms]
  from False assms have l: "?l \<noteq> []" by (simp add: slice_of_def line_at_def)
  have first58: "charCodeAt e t = Some 58 \<longleftrightarrow> begins [58] ?l"
    using begins_drop[of 58 "[]" t e] at[of "[58]"] by simp
  have val: "slice_of e (value_start e (t + k)) n = unspace (drop k ?l)" if "begins p ?l" "length p = k" for p k
    using value_at[OF assms begins_length[OF that(1)]] that(2) by simp
  consider (data) "begins [100, 97, 116, 97, 58] ?l" | (event) "begins [101, 118, 101, 110, 116, 58] ?l"
    | (id) "begins [105, 100, 58] ?l" | (comment) "begins [58] ?l"
    | (other) "\<not> begins [100, 97, 116, 97, 58] ?l" "\<not> begins [101, 118, 101, 110, 116, 58] ?l" "\<not> begins [105, 100, 58] ?l"
        "\<not> begins [58] ?l"
    by blast
  then show ?thesis
  proof cases
    case data
    then have "field_of ?l = ([100, 97, 116, 97], unspace (drop 5 ?l))" by (intro field_of_begins) simp_all
    with data val[OF data, of 5] False l show ?thesis
      by (simp add: parseLine_def spec_line_def isDataPrefix_iff at Let_def)
  next
    case event
    then have "field_of ?l = ([101, 118, 101, 110, 116], unspace (drop 6 ?l))" by (intro field_of_begins) simp_all
    with event val[OF event, of 6] False l show ?thesis
      by (cases ?l) (simp_all add: parseLine_def spec_line_def isDataPrefix_iff isEventPrefix_iff at Let_def)
  next
    case id
    then have "field_of ?l = ([105, 100], unspace (drop 3 ?l))" by (intro field_of_begins) simp_all
    with id val[OF id, of 3] False l show ?thesis
      by (cases ?l) (simp_all add: parseLine_def spec_line_def isDataPrefix_iff isEventPrefix_iff isIdPrefix_iff at Let_def)
  next
    case comment
    then have "field_of ?l = ([], unspace (drop 1 ?l))" by (intro field_of_begins) simp_all
    moreover have "drop (if charCodeAt e (t + 1) = Some 32 then 2 else 1) ?l = unspace (drop 1 ?l)"
      using val[OF comment, of 1] slice_of_drop[of e t 1 n] slice_of_drop[of e t 2 n]
      by (simp add: value_start_def split: if_split_asm)
    ultimately show ?thesis using comment False l
      by (cases ?l) (simp_all add: parseLine_def spec_line_def isDataPrefix_iff isEventPrefix_iff isIdPrefix_iff first58 at Let_def)
  next
    case other
    then have "fst (field_of ?l) \<noteq> []" using l by (cases ?l) (auto simp: field_of_def)
    with other False l show ?thesis
      by (auto simp: parseLine_def spec_line_def isDataPrefix_iff isEventPrefix_iff isIdPrefix_iff first58 at Let_def
        processField_any split: prod.splits)
  qed
qed

section \<open>The lines of a text\<close>

definition no_break :: "units \<Rightarrow> bool" where
  "no_break l \<longleftrightarrow> 10 \<notin> set l \<and> 13 \<notin> set l"

lemma no_break_simps [simp]: "no_break []" "no_break (c # l) \<longleftrightarrow> c \<noteq> 10 \<and> c \<noteq> 13 \<and> no_break l"
  by (auto simp: no_break_def)

lemma split_lines_none: "no_break l \<Longrightarrow> split_lines acc l = ([], acc @ l)"
  by (induction acc l rule: split_lines.induct) auto

lemma split_lines_CR: "no_break l \<Longrightarrow> split_lines acc (l @ [13]) = ([], acc @ l @ [13])"
proof (induction l arbitrary: acc)
  case (Cons c l)
  then show ?case by (cases l) auto
qed simp

lemma split_lines_break:
  assumes "no_break l" "c = 10 \<or> c = 13 \<and> y \<noteq> []"
  shows "split_lines acc (l @ c # y) =
    map_prod ((#) (acc @ l)) id (split_lines [] (if c = 13 \<and> hd y = 10 then tl y else y))"
  using assms
proof (induction l arbitrary: acc)
  case Nil
  then show ?case by (cases y) (auto simp: id_def)
next
  case (Cons d l)
  then show ?case by (cases l) auto
qed

lemma spec_text_rest: "no_break l \<Longrightarrow> spec_text cfg st l = (st, [], l)" "no_break l \<Longrightarrow> spec_text cfg st (l @ [13]) = (st, [], l @ [13])"
  by (simp_all add: spec_text_def split_lines_none split_lines_CR)

lemma spec_text_line:
  assumes "no_break l" "c = 10 \<or> c = 13 \<and> y \<noteq> []"
  shows "spec_text cfg st (l @ c # y) =
    (case spec_line cfg l st of (st1, cs) \<Rightarrow> after_output cs (spec_text cfg st1 (if c = 13 \<and> hd y = 10 then tl y else y)))"
proof -
  define z where "z = (if c = 13 \<and> hd y = 10 then tl y else y)"
  have "split_lines [] (l @ c # y) = map_prod ((#) l) id (split_lines [] z)"
    using split_lines_break[OF assms, of "[]"] by (simp add: z_def)
  then show ?thesis
    unfolding z_def[symmetric]
    by (cases "split_lines [] z"; cases "spec_line cfg l st") (simp add: spec_text_def split: prod.splits)
qed

lemma drop_find:
  assumes "find_unit c (drop n e) = Some k"
  shows "drop n e = slice_of e n (n + k) @ c # drop (n + Suc k) e" "c \<notin> set (slice_of e n (n + k))"
    "drop (n + k) e = c # drop (n + Suc k) e" "n + k < length e"
proof -
  note f = find_unit_Some[OF assms] find_unit_less[OF assms]
  have take: "slice_of e n (n + k) = take k (drop n e)" by (simp add: slice_of_def drop_take)
  with f show split: "drop n e = slice_of e n (n + k) @ c # drop (n + Suc k) e" "c \<notin> set (slice_of e n (n + k))"
    by (simp_all add: add.commute)
  from f(2) show "n + k < length e" by simp
  then show "drop (n + k) e = c # drop (n + Suc k) e"
    using f by (metis add.commute append_take_drop_id drop_drop same_append_eq take split(1))
qed

text \<open>The loop for texts without a carriage return.\<close>

lemma no_CR_slice: "13 \<notin> set e \<Longrightarrow> 13 \<notin> set (slice_of e i j)" "13 \<notin> set e \<Longrightarrow> 13 \<notin> set (drop i e)"
  by (auto simp: slice_of_def dest: in_set_dropD in_set_takeD)

lemma dispatch_spec: "dispatch st = spec_line cfg [] st"
  by (simp add: spec_line_def)

lemma spec_text_LF:
  assumes "find_unit 10 (drop n e) = Some k" "13 \<notin> set (slice_of e n (n + k))"
  shows "spec_text cfg st (drop n e) =
      (case parseLine cfg e n (n + k) st of (st1, cs) \<Rightarrow> after_output cs (spec_text cfg st1 (drop (n + k + 1) e)))"
proof -
  note d = drop_find[OF assms(1)]
  have "line_at e n (n + k)" using d(3,4) by (simp add: line_at_def line_rest_def)
  moreover have "no_break (slice_of e n (n + k))" using d(2) assms(2) by (simp add: no_break_def)
  ultimately show ?thesis
    using spec_text_line[of "slice_of e n (n + k)" 10 "drop (n + Suc k) e" cfg st] d(1)
    by (simp add: parseLine_spec)
qed

lemma direct_delivery:
  assumes "charCodeAt e r = Some 10" "Ps_lines st = 0"
  shows "spec_text cfg (add_data a st) (drop r e) =
    after_output [OnEvent (Ps_id st) (Ps_event st) a]
      (spec_text cfg (st\<lparr>Ps_id := None, Ps_data := [], Ps_event := None\<rparr>) (drop (r + 1) e))"
proof -
  from assms(1) have "drop r e = 10 # drop (r + 1) e"
    using Cons_nth_drop_Suc[of r e] by (simp add: charCodeAt_def split: if_split_asm)
  moreover have "clear_event (add_data a st) = st\<lparr>Ps_id := None, Ps_data := [], Ps_event := None\<rparr>"
    using assms(2) by (simp add: clear_event_def add_data_def)
  ultimately show ?thesis
    using spec_text_line[of "[]" 10 "drop (r + 1) e" cfg "add_data a st"] assms(2)
    by (simp add: spec_line_def dispatch_def) (simp add: add_data_def)
qed

lemma scanLF_spec: "13 \<notin> set e \<Longrightarrow> scanLF cfg e n st = spec_text cfg st (drop n e)"
proof (induction cfg e n st rule: scanLF.induct)
  case (1 cfg e n st)
  show ?case
  proof (cases "find_unit 10 (drop n e)")
    case None
    then have "no_break (drop n e)" using no_CR_slice(2)[OF "1.prems"] by (simp add: no_break_def find_unit_None)
    with None show ?thesis by (simp add: scanLF.simps[of cfg e n st] indexOf_def spec_text_rest)
  next
    case (Some k)
    let ?r = "n + k"
    have r: "indexOf 10 e n = Some ?r" using Some by (simp add: indexOf_def)
    note IH = "1.IH"[OF r]
    note step = spec_text_LF[OF Some no_CR_slice(1)[OF "1.prems"], of cfg st]
    show ?thesis
    proof (cases "n = ?r")
      case True
      have "parseLine cfg e n ?r st = dispatch st" using True by (simp add: parseLine_def)
      with IH(1)[OF True] True step "1.prems" r show ?thesis
        by (simp add: scanLF.simps[of cfg e n st] Let_def split: prod.splits)
    next
      case line: False
      show ?thesis
      proof (cases "isDataPrefix e n (charCodeAt e n)")
        case data: True
        define a where "a = slice_of e (value_start e (n + 5)) ?r"
        have p: "parseLine cfg e n ?r st = (add_data a st, [])" using line data by (simp add: parseLine_def a_def)
        show ?thesis
        proof (cases "Ps_lines st = 0 \<and> charCodeAt e (?r + 1) = Some 10")
          case True
          then show ?thesis
            using IH(2)[OF line refl data a_def True refl] direct_delivery[of e "?r + 1" st cfg a] step p r line data "1.prems"
            by (simp add: scanLF.simps[of cfg e n st] Let_def a_def[symmetric] split: prod.splits)
        next
          case False
          then show ?thesis
            using IH(3)[OF line refl data a_def False] step p r line data "1.prems"
            by (auto simp add: scanLF.simps[of cfg e n st] Let_def a_def[symmetric] split: prod.splits)
        qed
      next
        case no_data: False
        show ?thesis
        proof (cases "isEventPrefix e n (charCodeAt e n)")
          case True
          then have "parseLine cfg e n ?r st =
              (st\<lparr>Ps_event := nonempty (slice_of e (value_start e (n + 6)) ?r)\<rparr>, [])"
            using line no_data by (simp add: parseLine_def)
          with IH(4)[OF line refl no_data True] step r line no_data True "1.prems" show ?thesis
            by (simp add: scanLF.simps[of cfg e n st])
        next
          case False
          with IH(5)[OF line refl no_data False] step r line no_data "1.prems" show ?thesis
            by (simp add: scanLF.simps[of cfg e n st] Let_def split: prod.splits)
        qed
      qed
    qed
  qed
qed

text \<open>The loop for any text.\<close>

lemma slice_of_mono: "i \<le> j \<Longrightarrow> set (slice_of e n i) \<subseteq> set (slice_of e n j)"
proof -
  assume "i \<le> j"
  then have "slice_of e n i = take (i - n) (slice_of e n j)" by (simp add: slice_of_def drop_take min_def)
  then show ?thesis by (metis set_take_subset)
qed

lemma line_end_Some:
  assumes "line_end e n = Some i"
  shows "\<exists>c. drop n e = slice_of e n i @ c # drop (i + 1) e \<and> drop i e = c # drop (i + 1) e \<and> no_break (slice_of e n i) \<and>
    line_at e n i \<and> (c = 10 \<or> c = 13 \<and> drop (i + 1) e \<noteq> [])"
proof -
  have line: "line_at e n i" if "drop i e = c # drop (i + 1) e" "c = 10 \<or> c = 13" for c
    using that line_end_bounds[OF assms] by (auto simp: line_at_def line_rest_def)
  consider (CR) t where "find_unit 13 (drop n e) = Some t" "i = n + t" "\<And>r. find_unit 10 (drop n e) = Some r \<Longrightarrow> t < r" "n + t \<noteq> length e - 1"
    | (LF) r where "find_unit 10 (drop n e) = Some r" "i = n + r" "\<And>t. find_unit 13 (drop n e) = Some t \<Longrightarrow> r \<le> t"
    using assms find_unit_less[of 10 "drop n e"]
    by (cases "find_unit 13 (drop n e)"; cases "find_unit 10 (drop n e)")
      (fastforce simp: line_end_def indexOf_def split: if_splits)+
  then show ?thesis
  proof cases
    case CR
    note d = drop_find[OF CR(1)]
    have "10 \<notin> set (slice_of e n i)"
    proof (cases "find_unit 10 (drop n e)")
      case None
      then have "10 \<notin> set (drop n e)" by (simp add: find_unit_None)
      with d(1) CR(2) show ?thesis by (metis UnCI set_append)
    next
      case (Some r)
      with CR(3)[OF Some] slice_of_mono[of "n + t" "n + r" e n] drop_find(2)[OF Some] CR(2) show ?thesis by auto
    qed
    with d CR(2,4) line show ?thesis by (intro exI[of _ 13]) (auto simp: no_break_def)
  next
    case LF
    note d = drop_find[OF LF(1)]
    have "13 \<notin> set (slice_of e n i)"
    proof (cases "find_unit 13 (drop n e)")
      case None
      then have "13 \<notin> set (drop n e)" by (simp add: find_unit_None)
      with d(1) LF(2) show ?thesis by (metis UnCI set_append)
    next
      case (Some t)
      with LF(3)[OF Some] slice_of_mono[of "n + r" "n + t" e n] drop_find(2)[OF Some] LF(2) show ?thesis by auto
    qed
    with d LF(2) line show ?thesis by (intro exI[of _ 10]) (auto simp: no_break_def)
  qed
qed

lemma line_end_None:
  assumes "line_end e n = None"
  shows "spec_text cfg st (drop n e) = (st, [], drop n e)"
proof -
  have LF: "find_unit 10 (drop n e) = None"
    using assms by (auto simp: line_end_def indexOf_def split: option.splits)
  show ?thesis
  proof (cases "find_unit 13 (drop n e)")
    case None
    with LF show ?thesis by (simp add: spec_text_rest no_break_def find_unit_None)
  next
    case (Some t)
    note d = drop_find[OF Some]
    from assms LF Some have "n + t = length e - 1" by (simp add: line_end_def indexOf_def split: if_splits)
    with d have l: "drop n e = slice_of e n (n + t) @ [13]" by simp
    moreover have "no_break (slice_of e n (n + t))"
      using d(2) LF l by (simp add: no_break_def find_unit_None)
    ultimately show ?thesis using spec_text_rest(2) by metis
  qed
qed

lemma scanAny_spec: "scanAny cfg e n st = spec_text cfg st (drop n e)"
proof (induction cfg e n st rule: scanAny.induct)
  case (1 cfg e n st)
  show ?case
  proof (cases "n < length e")
    case False
    then show ?thesis by (simp add: scanAny.simps[of cfg e n st] spec_text_rest)
  next
    case n: True
    show ?thesis
    proof (cases "line_end e n")
      case None
      with n line_end_None[OF None] show ?thesis by (simp add: scanAny.simps[of cfg e n st])
    next
      case (Some i)
      obtain c where c: "drop n e = slice_of e n i @ c # drop (i + 1) e" "drop i e = c # drop (i + 1) e"
        "no_break (slice_of e n i)" "line_at e n i" "c = 10 \<or> c = 13 \<and> drop (i + 1) e \<noteq> []"
        using line_end_Some[OF Some] by blast
      define n2 where
        "n2 = (if charCodeAt e (i + 1 - 1) = Some 13 \<and> charCodeAt e (i + 1) = Some 10 then i + 1 + 1 else i + 1)"
      have "charCodeAt e i = Some c" using charCodeAt_drop[of e i 0] c(2) by simp
      moreover have "charCodeAt e (i + 1) = Some 10 \<longleftrightarrow> drop (i + 1) e \<noteq> [] \<and> hd (drop (i + 1) e) = 10"
        using charCodeAt_drop[of e "i + 1" 0] by (cases "drop (i + 1) e") auto
      ultimately have n2: "drop n2 e = (if c = 13 \<and> hd (drop (i + 1) e) = 10 then tl (drop (i + 1) e) else drop (i + 1) e)"
        using c(5) by (auto simp: n2_def tl_drop drop_Suc)
      obtain st1 cs where p: "(st1, cs) = parseLine cfg e n i st" by (metis prod.exhaust)
      have "scanAny cfg e n st = after_output cs (scanAny cfg e n2 st1)"
        using n Some by (simp add: scanAny.simps[of cfg e n st] p[symmetric] n2_def Let_def after_output_def split: prod.splits)
      also have "scanAny cfg e n2 st1 = spec_text cfg st1 (drop n2 e)"
        using "1.IH"[OF n Some refl p refl n2_def] .
      also have "after_output cs (spec_text cfg st1 (drop n2 e)) = spec_text cfg st (drop n e)"
      proof -
        have "spec_line cfg (slice_of e n i) st = (st1, cs)" using parseLine_spec[OF c(4), of cfg st] p by simp
        then show ?thesis
          unfolding n2 c(1) using spec_text_line[OF c(3,5), of cfg st] by (simp del: drop_Suc)
      qed
      finally show ?thesis .
    qed
  qed
qed

lemma parseChunk_spec: "parseChunk cfg e st = spec_text cfg st e"
  by (simp add: parseChunk_def scanAny_spec scanLF_spec)

end
