(* ===== verification/Event_Stream_Properties.thy ===== *)
theory Event_Stream_Properties
  imports Event_Stream_Lines "HOL-Library.Sublist"
begin

text \<open>
  The theorems about the event stream parser: what it delivers does not depend on where the text was cut,
  except that lone carriage returns may delay it, and what it keeps is bounded.
\<close>

section \<open>Stopping and going on\<close>

lemma no_break_append [simp]: "no_break (x @ y) \<longleftrightarrow> no_break x \<and> no_break y"
  by (auto simp: no_break_def)

lemma split_lines_acc: "no_break acc \<Longrightarrow> split_lines b (acc @ y) = split_lines (b @ acc) y"
proof (induction acc arbitrary: b)
  case (Cons c acc)
  then have "split_lines b (c # acc @ y) = split_lines (b @ [c]) (acc @ y)" by (cases "acc @ y") auto
  with Cons show ?case by simp
qed simp

lemma split_lines_append:
  assumes "no_break acc"
  shows "split_lines acc (x @ y) = map_prod ((@) (fst (split_lines acc x))) id (split_lines [] (snd (split_lines acc x) @ y))"
  using assms
proof (induction acc x rule: split_lines.induct)
  case (1 acc)
  then show ?case by (simp add: split_lines_acc prod.map_ident_strong)
next
  case (2 acc c)
  then show ?case
    using split_lines_break[of "[]" 10 y acc] split_lines_acc[of acc "[]" "c # y"]
    by (auto simp: prod.map_ident_strong id_def)
next
  case (3 acc c d cs)
  then show ?case by (auto simp: map_prod_def split: prod.splits)
qed

lemma spec_lines_append:
  "spec_lines cfg (ls @ ls2) st =
    (case spec_lines cfg ls st of (st1, cs) \<Rightarrow> map_prod id ((@) cs) (spec_lines cfg ls2 st1))"
  by (induction ls arbitrary: st) (auto simp: map_prod_def split: prod.splits)

lemma spec_text_append:
  assumes "spec_text cfg st x = (st1, os, rest)"
  shows "spec_text cfg st (x @ y) = after_output os (spec_text cfg st1 (rest @ y))"
proof -
  obtain ls where ls: "split_lines [] x = (ls, rest)" "spec_lines cfg ls st = (st1, os)"
    using assms by (auto simp: spec_text_def split: prod.splits)
  then show ?thesis
    using split_lines_append[of "[]" x y]
    by (auto simp: spec_text_def spec_lines_append split: prod.splits)
qed

interpretation event_stream: chunked_scanner "\<lambda>st e. parseChunk cfg e st" for cfg
  by unfold_locales (simp add: parseChunk_spec spec_text_append)

section \<open>Scanning and what is kept\<close>

text \<open>Scanning neither reads nor changes the buffer; \<open>scanned\<close> sets it aside.\<close>

definition scanned :: "parser \<Rightarrow> parser" where
  "scanned st = st\<lparr>Ps_pending := [], Ps_length := 0, Ps_first := False\<rparr>"

definition same_buffer :: "parser \<Rightarrow> parser \<Rightarrow> bool" where
  "same_buffer st st1 \<longleftrightarrow>
     Ps_pending st1 = Ps_pending st \<and> Ps_length st1 = Ps_length st \<and> Ps_first st1 = Ps_first st \<and>
     Ps_terminated st1 = Ps_terminated st \<and> ((Ps_lines st = 0 \<longrightarrow> Ps_data st = []) \<longrightarrow> Ps_lines st1 = 0 \<longrightarrow> Ps_data st1 = [])"

lemma same_buffer_refl [simp]: "same_buffer st st" by (simp add: same_buffer_def)

lemma same_buffer_trans: "same_buffer a b \<Longrightarrow> same_buffer b c \<Longrightarrow> same_buffer a c"
  by (auto simp: same_buffer_def)

definition framed :: "parser \<Rightarrow> parser \<times> call list \<Rightarrow> parser \<times> call list \<Rightarrow> bool" where
  "framed st r r2 \<longleftrightarrow> same_buffer st (fst r) \<and> r2 = map_prod scanned id r"

lemma processField_frame: "framed st (processField name v l st) (processField name v l (scanned st))"
  by (simp add: framed_def processField_def add_data_def same_buffer_def scanned_def)

lemma dispatch_frame: "framed st (dispatch st) (dispatch (scanned st))"
  by (simp add: framed_def dispatch_def clear_event_def same_buffer_def scanned_def)

lemma spec_line_frame: "framed st (spec_line cfg l st) (spec_line cfg l (scanned st))"
proof (cases "l = [] \<or> fst (field_of l) = []")
  case True
  then show ?thesis
    using dispatch_frame[of st] by (cases "l = []") (auto simp: spec_line_def framed_def split: prod.splits)
next
  case False
  then show ?thesis by (auto simp: spec_line_def processField_frame split: prod.splits)
qed

lemma framed_then:
  assumes "framed st r r2" "framed (fst r) q q2"
  shows "framed st (fst q, snd r @ snd q) (fst q2, snd r2 @ snd q2)"
  using assms by (auto simp: framed_def intro: same_buffer_trans)

lemma spec_lines_frame: "framed st (spec_lines cfg ls st) (spec_lines cfg ls (scanned st))"
proof (induction ls arbitrary: st)
  case Nil
  show ?case by (simp add: framed_def)
next
  case (Cons l ls)
  let ?r = "spec_line cfg l st"
  have r2: "fst (spec_line cfg l (scanned st)) = scanned (fst ?r)" using spec_line_frame[of st cfg l] by (simp add: framed_def)
  from framed_then[OF spec_line_frame[of st cfg l] Cons.IH] show ?case by (simp add: case_prod_beta Let_def r2)
qed

lemma spec_text_frame:
  assumes "spec_text cfg st e = (st1, os, rest)"
  shows "same_buffer st st1 \<and> spec_text cfg (scanned st) e = (scanned st1, os, rest)"
  using assms spec_lines_frame[of st cfg "fst (split_lines [] e)"]
  by (auto simp: spec_text_def framed_def case_prod_beta Let_def)

lemma split_lines_rest:
  "set (snd (split_lines acc e)) \<subseteq> set acc \<union> set e" "10 \<notin> set acc \<Longrightarrow> 10 \<notin> set (snd (split_lines acc e))"
  by (induction acc e rule: split_lines.induct) (auto split: if_splits)

lemma spec_text_rest_set:
  "spec_text cfg st e = (st1, os, rest) \<Longrightarrow> set rest \<subseteq> set e \<and> 10 \<notin> set rest"
  using split_lines_rest[of "[]" e] by (auto simp: spec_text_def split: prod.splits)

lemma spec_text_none: "no_break e \<Longrightarrow> spec_text cfg st e = (st, [], e)"
  by (rule spec_text_rest(1))

text \<open>What every state of a parser satisfies.\<close>

definition wf_parser :: "parser_config \<Rightarrow> parser \<Rightarrow> bool" where
  "wf_parser cfg st \<longleftrightarrow>
     Ps_length st = length (concat (Ps_pending st)) \<and> 10 \<notin> set (concat (Ps_pending st)) \<and>
     (Ps_lines st = 0 \<longrightarrow> Ps_data st = []) \<and>
     (\<forall>a. MaxBufferSize cfg = Some a \<longrightarrow> Ps_length st + length (Ps_data st) \<le> a) \<and>
     (Ps_terminated st \<longrightarrow> MaxBufferSize cfg \<noteq> None \<and> Ps_pending st = [] \<and> Ps_data st = [])"

lemma checkBufferSize_wf:
  assumes "Ps_length st = length (concat (Ps_pending st))" "10 \<notin> set (concat (Ps_pending st))"
    "Ps_lines st = 0 \<longrightarrow> Ps_data st = []" "\<not> Ps_terminated st"
  shows "wf_parser cfg (fst (checkBufferSize cfg st))"
  using assms by (auto simp: wf_parser_def checkBufferSize_def clear_event_def split: option.splits)

text \<open>The state before the check of the buffer's size, when a text has been scanned.\<close>

lemma scan_and_keep_cases:
  assumes "Ps_pending st = []" "Ps_length st = 0" "\<not> Ps_terminated st"
  shows "\<exists>st2 os rest. scan_and_keep cfg e st = (case checkBufferSize cfg st2 of (st3, cs3) \<Rightarrow> (st3, os @ cs3)) \<and>
    parseChunk cfg e (scanned st) = (scanned st2, os, rest) \<and> rest = concat (Ps_pending st2) \<and>
    Ps_length st2 = length rest \<and> 10 \<notin> set rest \<and> set rest \<subseteq> set e \<and> Ps_first st2 = Ps_first st \<and> \<not> Ps_terminated st2 \<and>
    ((Ps_lines st = 0 \<longrightarrow> Ps_data st = []) \<longrightarrow> Ps_lines st2 = 0 \<longrightarrow> Ps_data st2 = [])"
proof -
  obtain st1 os rest where p: "spec_text cfg st e = (st1, os, rest)" by (metis prod_cases3)
  from spec_text_frame[OF p] assms spec_text_rest_set[OF p]
  have f: "Ps_pending st1 = []" "Ps_length st1 = 0" "Ps_first st1 = Ps_first st" "\<not> Ps_terminated st1"
    "(Ps_lines st = 0 \<longrightarrow> Ps_data st = []) \<longrightarrow> Ps_lines st1 = 0 \<longrightarrow> Ps_data st1 = []"
    "spec_text cfg (scanned st) e = (scanned st1, os, rest)" "10 \<notin> set rest" "set rest \<subseteq> set e"
    by (auto simp: same_buffer_def)
  define st2 where "st2 = (if rest \<noteq> [] then st1\<lparr>Ps_pending := Ps_pending st1 @ [rest], Ps_length := length rest\<rparr> else st1)"
  have "scanned st2 = scanned st1" by (simp add: st2_def scanned_def)
  with f show ?thesis
    by (intro exI[of _ st2] exI[of _ os] exI[of _ rest])
      (auto simp: scan_and_keep_def parseChunk_spec p st2_def split: prod.splits)
qed

section \<open>Chunks\<close>

definition chunk_text :: "parser \<Rightarrow> units \<Rightarrow> units" where
  "chunk_text st e = (if Ps_first st then strip_BOM e else e)"

definition scanned_at_once :: "parser \<Rightarrow> units \<Rightarrow> bool" where
  "scanned_at_once st e \<longleftrightarrow> Ps_pending st = [] \<or> \<not> no_break (chunk_text st e)"

lemma feed_cases:
  assumes "wf_parser cfg st" "\<not> Ps_terminated st"
  shows "\<exists>st2 os. feed cfg e st = Inr (case checkBufferSize cfg st2 of (st3, cs3) \<Rightarrow> (st3, os @ cs3)) \<and>
    Ps_length st2 = length (concat (Ps_pending st2)) \<and> 10 \<notin> set (concat (Ps_pending st2)) \<and>
    (Ps_lines st2 = 0 \<longrightarrow> Ps_data st2 = []) \<and> \<not> Ps_terminated st2 \<and> \<not> Ps_first st2 \<and>
    set (concat (Ps_pending st2)) \<subseteq> set (concat (Ps_pending st)) \<union> set (chunk_text st e) \<and>
    (scanned_at_once st e \<longrightarrow>
       parseChunk cfg (concat (Ps_pending st) @ chunk_text st e) (scanned st) =
         (scanned st2, os, concat (Ps_pending st2))) \<and>
    (\<not> scanned_at_once st e \<longrightarrow>
       os = [] \<and> scanned st2 = scanned st \<and> concat (Ps_pending st2) = concat (Ps_pending st) @ chunk_text st e)"
proof (cases "scanned_at_once st e")
  case True
  let ?t = "concat (Ps_pending st) @ chunk_text st e"
  let ?st = "st\<lparr>Ps_first := False, Ps_pending := [], Ps_length := 0\<rparr>"
  have wf: "Ps_length st = length (concat (Ps_pending st))" "Ps_lines st = 0 \<longrightarrow> Ps_data st = []"
    using assms by (auto simp: wf_parser_def)
  have "Ps_pending st = [] \<Longrightarrow> st\<lparr>Ps_first := False\<rparr> = ?st" using wf(1) by simp
  then have feed: "feed cfg e st = Inr (scan_and_keep cfg ?t ?st)"
    using True assms(2) by (auto simp: feed_def scanned_at_once_def chunk_text_def no_break_def Let_def)
  have "scanned ?st = scanned st" by (simp add: scanned_def)
  moreover obtain st2 os rest where
    "scan_and_keep cfg ?t ?st = (case checkBufferSize cfg st2 of (st3, cs3) \<Rightarrow> (st3, os @ cs3))"
    "parseChunk cfg ?t (scanned ?st) = (scanned st2, os, rest)" "rest = concat (Ps_pending st2)"
    "Ps_length st2 = length rest" "10 \<notin> set rest" "set rest \<subseteq> set ?t" "Ps_first st2 = Ps_first ?st" "\<not> Ps_terminated st2"
    "(Ps_lines ?st = 0 \<longrightarrow> Ps_data ?st = []) \<longrightarrow> Ps_lines st2 = 0 \<longrightarrow> Ps_data st2 = []"
    using scan_and_keep_cases[of ?st cfg ?t] assms(2) by auto
  ultimately show ?thesis using True wf(2) feed by (intro exI[of _ st2] exI[of _ os]) auto
next
  case False
  let ?st = "st\<lparr>Ps_first := False, Ps_pending := Ps_pending st @ [chunk_text st e],
    Ps_length := Ps_length st + length (chunk_text st e)\<rparr>"
  have "feed cfg e st = Inr (checkBufferSize cfg ?st)"
    using False assms(2) by (simp add: feed_def scanned_at_once_def chunk_text_def no_break_def Let_def)
  moreover have "10 \<notin> set (chunk_text st e)" using False by (simp add: scanned_at_once_def no_break_def)
  ultimately show ?thesis using False assms
    by (intro exI[of _ ?st] exI[of _ "[]"]) (auto simp: wf_parser_def scanned_def)
qed

lemma feed_wf:
  assumes "wf_parser cfg st" "feed cfg e st = Inr (st1, os)"
  shows "wf_parser cfg st1"
proof -
  from assms(2) have "\<not> Ps_terminated st" by (auto simp: feed_def)
  from feed_cases[OF assms(1) this, of e] obtain st2 os2 where
    "feed cfg e st = Inr (case checkBufferSize cfg st2 of (st3, cs3) \<Rightarrow> (st3, os2 @ cs3))"
    "Ps_length st2 = length (concat (Ps_pending st2))" "10 \<notin> set (concat (Ps_pending st2))"
    "Ps_lines st2 = 0 \<longrightarrow> Ps_data st2 = []" "\<not> Ps_terminated st2"
    by (elim exE conjE) (rule that, assumption+)
  with checkBufferSize_wf[of st2 cfg] assms(2) show ?thesis by (auto split: prod.splits)
qed

lemma reset_wf: "reset cfg consume st = (st1, os) \<Longrightarrow> wf_parser cfg st1"
  by (auto simp: reset_def wf_parser_def clear_event_def Let_def split: prod.splits)

definition chunk_texts :: "parser \<Rightarrow> units list \<Rightarrow> units list" where
  "chunk_texts st es = (case es of [] \<Rightarrow> [] | e # es \<Rightarrow> chunk_text st e # es)"

lemma chunk_texts_later: "\<not> Ps_first st \<Longrightarrow> chunk_texts st es = es"
  by (simp add: chunk_texts_def chunk_text_def split: list.splits)

lemma feed_all_scan:
  assumes "MaxBufferSize cfg = None" "wf_parser cfg st" "\<not> Ps_terminated st"
  shows "\<exists>st1 os ds. feed_all cfg es st = Inr (st1, os) \<and> map snd ds = chunk_texts st es \<and>
    event_stream.scan_chunks cfg (scanned st) (concat (Ps_pending st)) ds = (scanned st1, os, concat (Ps_pending st1)) \<and>
    10 \<notin> set (concat (Ps_pending st1)) \<and>
    set (concat (Ps_pending st1)) \<subseteq> set (concat (Ps_pending st)) \<union> set (concat (chunk_texts st es)) \<and>
    (es \<noteq> [] \<longrightarrow> \<not> no_break (last (chunk_texts st es)) \<longrightarrow> fst (last ds))"
  using assms
proof (induction es arbitrary: st)
  case Nil
  then show ?case by (intro exI[of _ st] exI[of _ "[]"]) (auto simp: chunk_texts_def wf_parser_def)
next
  case (Cons e es)
  have check: "checkBufferSize cfg s = (s, [])" for s using Cons.prems(1) by (simp add: checkBufferSize_def)
  obtain st2 os where f: "feed cfg e st = Inr (st2, os)" "\<not> Ps_terminated st2" "\<not> Ps_first st2"
    "set (concat (Ps_pending st2)) \<subseteq> set (concat (Ps_pending st)) \<union> set (chunk_text st e)"
    "scanned_at_once st e \<longrightarrow>
       parseChunk cfg (concat (Ps_pending st) @ chunk_text st e) (scanned st) = (scanned st2, os, concat (Ps_pending st2))"
    "\<not> scanned_at_once st e \<longrightarrow>
       os = [] \<and> scanned st2 = scanned st \<and> concat (Ps_pending st2) = concat (Ps_pending st) @ chunk_text st e"
    using feed_cases[OF Cons.prems(2,3), of e] by (auto simp: check)
  note wf2 = feed_wf[OF Cons.prems(2) f(1)]
  obtain st1 os2 ds where r: "feed_all cfg es st2 = Inr (st1, os2)" "map snd ds = es"
    "event_stream.scan_chunks cfg (scanned st2) (concat (Ps_pending st2)) ds = (scanned st1, os2, concat (Ps_pending st1))"
    "10 \<notin> set (concat (Ps_pending st1))"
    "set (concat (Ps_pending st1)) \<subseteq> set (concat (Ps_pending st2)) \<union> set (concat es)"
    "es \<noteq> [] \<longrightarrow> \<not> no_break (last es) \<longrightarrow> fst (last ds)"
    using Cons.IH[OF Cons.prems(1) wf2 f(2)] chunk_texts_later[OF f(3)] by auto
  let ?ds = "(scanned_at_once st e, chunk_text st e) # ds"
  have texts: "chunk_texts st (e # es) = chunk_text st e # es" by (simp add: chunk_texts_def)
  have "feed_all cfg (e # es) st = Inr (st1, os @ os2)" using f(1) r(1) by simp
  moreover have "event_stream.scan_chunks cfg (scanned st) (concat (Ps_pending st)) ?ds =
      (scanned st1, os @ os2, concat (Ps_pending st1))"
    using f(5,6) r(3) by (cases "scanned_at_once st e") simp_all
  moreover have "\<not> no_break (last (chunk_texts st (e # es))) \<longrightarrow> fst (last ?ds)"
    unfolding texts using r(2,6) by (cases es) (auto simp: scanned_at_once_def)
  ultimately show ?case
    using r(2,4,5) f(4) by (intro exI[of _ st1] exI[of _ "os @ os2"] exI[of _ ?ds]) (auto simp: texts)
qed

lemma strip_BOM_no_break: "no_break (strip_BOM e) \<longleftrightarrow> no_break e"
proof (cases "charCodeAt e 0 = Some 239 \<and> charCodeAt e 1 = Some 187 \<and> charCodeAt e 2 = Some 191")
  case True
  then have "begins [239, 187, 191] e" using begins_drop[of _ _ 0 e] by (simp add: begins_drop eval_nat_numeral)
  from begins_split[OF this] have "e = [239, 187, 191] @ drop 3 e" by (simp add: numeral_3_eq_3)
  then have "no_break e \<longleftrightarrow> no_break ([239, 187, 191] @ drop 3 e)" by simp
  with True show ?thesis by (simp add: strip_BOM_def)
qed (auto simp: strip_BOM_def)

lemma strip_BOM_append:
  "3 \<le> length c \<or> take 1 (c @ y) \<noteq> [239] \<Longrightarrow> strip_BOM c @ y = strip_BOM (c @ y)"
  by (cases c; cases y) (auto simp: strip_BOM_def charCodeAt_def nth_append)

lemma createParser_wf: "wf_parser cfg createParser"
  by (simp add: wf_parser_def createParser_def)

text \<open>
  C11. What the event stream parser delivers does not depend on where the text was cut. It delivers calls
  in the order in which reading the whole text line by line gives them, and never more; after a chunk with
  a line break, and always when the text has no carriage return, it has delivered all of them, and what it
  keeps is the unfinished line. (The first chunk must not cut a byte order mark in two.)
\<close>

theorem event_stream_chunks:
  assumes "MaxBufferSize cfg = None" "3 \<le> length c \<or> take 1 (concat (c # cs)) \<noteq> [239]"
  shows "\<exists>st os. feed_all cfg (c # cs) createParser = Inr (st, os) \<and>
    (case spec_text cfg createParser (strip_BOM (concat (c # cs))) of (st1, all, rest) \<Rightarrow>
       prefix os all \<and>
       (\<not> no_break (last (c # cs)) \<or> 13 \<notin> set (concat (c # cs)) \<longrightarrow>
          os = all \<and> scanned st = scanned st1 \<and> concat (Ps_pending st) = rest))"
proof -
  let ?text = "strip_BOM (concat (c # cs))"
  have p: "Ps_pending createParser = []" "Ps_first createParser" by (simp_all add: createParser_def)
  then have texts: "chunk_texts createParser (c # cs) = strip_BOM c # cs" by (simp add: chunk_texts_def chunk_text_def)
  with strip_BOM_append[of c "concat cs"] assms(2) have all: "concat (chunk_texts createParser (c # cs)) = ?text" by simp
  have "\<not> Ps_terminated createParser" by (simp add: createParser_def)
  from feed_all_scan[OF assms(1) createParser_wf this, of "c # cs"] obtain st os ds where
    feed: "feed_all cfg (c # cs) createParser = Inr (st, os)" and ds: "map snd ds = chunk_texts createParser (c # cs)"
    and scan: "event_stream.scan_chunks cfg (scanned createParser) (concat (Ps_pending createParser)) ds =
      (scanned st, os, concat (Ps_pending st))"
    and rest: "10 \<notin> set (concat (Ps_pending st))"
      "set (concat (Ps_pending st)) \<subseteq>
        set (concat (Ps_pending createParser)) \<union> set (concat (chunk_texts createParser (c # cs)))"
    and last: "c # cs \<noteq> [] \<longrightarrow> \<not> no_break (last (chunk_texts createParser (c # cs))) \<longrightarrow> fst (last ds)"
    by (elim exE conjE) (rule that, assumption+)
  from event_stream.scan_chunks_sound[OF scan] all ds
  have sound: "spec_text cfg (scanned createParser) ?text =
      after_output os (spec_text cfg (scanned st) (concat (Ps_pending st)))"
    by (simp add: parseChunk_spec p(1))
  obtain st1 all rest where whole: "spec_text cfg createParser ?text = (st1, all, rest)" by (metis prod_cases3)
  note spec_text_frame[OF whole]
  moreover have "spec_text cfg (scanned st) (concat (Ps_pending st)) = (scanned st, [], concat (Ps_pending st))"
    if "\<not> no_break (last (c # cs)) \<or> 13 \<notin> set (concat (c # cs))"
  proof (cases "no_break (last (c # cs))")
    case False
    then have "\<not> no_break (last (strip_BOM c # cs))" by (auto simp: strip_BOM_no_break)
    with event_stream.scan_chunks_settled[OF scan] ds last texts show ?thesis by (auto simp: parseChunk_spec)
  next
    case True
    have "set ?text \<subseteq> set (concat (c # cs))" by (auto simp: strip_BOM_def dest: in_set_dropD)
    with that rest all p(1) True have "13 \<notin> set (concat (Ps_pending st))" by auto
    with rest(1) have "no_break (concat (Ps_pending st))" by (simp add: no_break_def)
    then show ?thesis by (rule spec_text_none)
  qed
  ultimately show ?thesis
    using sound feed whole by (cases "spec_text cfg (scanned st) (concat (Ps_pending st))") auto
qed

definition no_limit :: parser_config where
  "no_limit = \<lparr>Has_onComment = False, MaxBufferSize = None\<rparr>"

text \<open>A line cut in three, in the middle of its name and before its line feed.\<close>

theorem event_stream_chunks_witness:
  "\<exists>st. feed_all no_limit [units ''da'', units ''ta: 7'' @ [13], [10, 10]] createParser =
     Inr (st, [OnEvent None None (units ''7'')])"
proof -
  have "spec_text no_limit createParser (strip_BOM (concat [units ''da'', units ''ta: 7'' @ [13], [10, 10]])) =
      (createParser, [OnEvent None None (units ''7'')], [])"
    by code_simp
  moreover have "MaxBufferSize no_limit = None" by (simp add: no_limit_def)
  moreover have "take 1 (concat [units ''da'', units ''ta: 7'' @ [13], [10, 10]]) \<noteq> [239]" by (simp add: units_def)
  moreover have "\<not> no_break (last [units ''da'', units ''ta: 7'' @ [13], [10, 10]])" by simp
  ultimately show ?thesis
    using event_stream_chunks[of no_limit "units ''da''" "[units ''ta: 7'' @ [13], [10, 10]]"] by auto
qed

section \<open>Bounds\<close>

text \<open>The states of a parser that is fed and reset in any order.\<close>

inductive parser_reachable :: "parser_config \<Rightarrow> parser \<Rightarrow> bool" for cfg where
  created: "parser_reachable cfg createParser"
| fed: "parser_reachable cfg st \<Longrightarrow> feed cfg e st = Inr (st1, os) \<Longrightarrow> parser_reachable cfg st1"
| was_reset: "parser_reachable cfg st \<Longrightarrow> reset cfg consume st = (st1, os) \<Longrightarrow> parser_reachable cfg st1"

text \<open>
  C18. The event stream parser keeps no more than it may: what waits for its line and the data of the
  unfinished event are within \<open>maxBufferSize\<close> after every call, the length it counts is the length it
  keeps, and no line feed is ever kept. A parser that gave up keeps nothing and refuses every chunk until
  it is reset; without a limit it never gives up.
\<close>

theorem event_stream_bounded:
  assumes "parser_reachable cfg st"
  shows "Ps_length st = length (concat (Ps_pending st)) \<and> 10 \<notin> set (concat (Ps_pending st)) \<and>
    (\<forall>a. MaxBufferSize cfg = Some a \<longrightarrow> length (concat (Ps_pending st)) + length (Ps_data st) \<le> a) \<and>
    (Ps_terminated st \<longrightarrow>
       MaxBufferSize cfg \<noteq> None \<and> Ps_pending st = [] \<and> Ps_data st = [] \<and> feed cfg e st = Inl Fed_after_termination) \<and>
    (\<not> Ps_terminated st \<longrightarrow> (\<exists>st1 os. feed cfg e st = Inr (st1, os)))"
proof -
  from assms have "wf_parser cfg st"
    by induction (auto simp: createParser_wf dest: feed_wf reset_wf)
  then show ?thesis by (auto simp: wf_parser_def feed_def Let_def)
qed

theorem event_stream_bounded_witness:
  "\<exists>st. feed \<lparr>Has_onComment = False, MaxBufferSize = Some 4\<rparr> (units ''data: 7'') createParser =
      Inr (st, [OnError (buffer_exceeded 4)]) \<and> Ps_terminated st \<and> Ps_pending st = []"
proof -
  let ?cfg = "\<lparr>Has_onComment = False, MaxBufferSize = Some 4\<rparr>"
  let ?st = "createParser\<lparr>Ps_first := False, Ps_terminated := True\<rparr>"
  have f: "feed ?cfg (units ''data: 7'') createParser = Inr (?st, [OnError (buffer_exceeded 4)])" by code_simp
  have t: "Ps_terminated ?st" by simp
  from event_stream_bounded[OF fed[OF created f]] t have "Ps_pending ?st = []" by blast
  with f t show ?thesis by blast
qed

section \<open>Lone carriage returns\<close>

lemma feed_first:
  assumes "MaxBufferSize cfg = None" "take 1 e \<noteq> [239]" "spec_text cfg (scanned createParser) e = (st1, os, rest)"
  shows "\<exists>st. feed cfg e createParser = Inr (st, os) \<and> concat (Ps_pending st) = rest \<and> \<not> Ps_first st \<and> \<not> Ps_terminated st"
proof -
  have "\<not> Ps_terminated createParser" by (simp add: createParser_def)
  moreover have "chunk_text createParser e = e"
    using assms(2) by (cases e) (auto simp: chunk_text_def strip_BOM_def charCodeAt_def)
  moreover have "Ps_pending createParser = []" by (simp add: createParser_def)
  ultimately show ?thesis
    using feed_cases[OF createParser_wf, of cfg e] assms(1,3)
    by (auto simp: checkBufferSize_def scanned_at_once_def parseChunk_spec)
qed

lemma data_line_CR:
  assumes "no_break v" "y = [] \<or> no_break y"
  shows "spec_text cfg (scanned createParser) (units ''data:'' @ v @ 13 # 13 # y) =
    (if y = [] then (add_data (unspace v) (scanned createParser), [], [13])
     else (scanned createParser, [OnEvent None None (unspace v)], y))"
proof -
  have line: "units ''data:'' @ v = [100, 97, 116, 97] @ 58 # v" by (simp add: units_def)
  have "spec_line cfg (units ''data:'' @ v) st = (add_data (unspace v) st, [])" for st
    using field_of_split[of "[100, 97, 116, 97]" v] by (simp add: line spec_line_def)
  moreover have "no_break (units ''data:'' @ v)" using assms(1) by (simp add: line)
  ultimately have first: "spec_text cfg st ((units ''data:'' @ v) @ 13 # 13 # y) =
      spec_text cfg (add_data (unspace v) st) (13 # y)" for st
    using spec_text_line[of "units ''data:'' @ v" 13 "13 # y" cfg st] by simp
  show ?thesis
  proof (cases "y = []")
    case True
    then show ?thesis using first spec_text_rest(2)[of "[]" cfg] by simp
  next
    case False
    then have "hd y \<noteq> 10" using assms(2) by (cases y) auto
    moreover have "spec_line cfg [] (add_data (unspace v) (scanned createParser)) =
        (scanned createParser, [OnEvent None None (unspace v)])"
      by (simp add: spec_line_def dispatch_def clear_event_def add_data_def scanned_def createParser_def)
    ultimately show ?thesis
      using first spec_text_line[of "[]" 13 y cfg "add_data (unspace v) (scanned createParser)"] False assms(2)
      by (simp add: spec_text_none)
  qed
qed

text \<open>
  C39. An event that is complete can be withheld: when its text ends in a carriage return and the next chunk
  has no line break, the parser keeps both; fed the same text at once it delivers the event.
\<close>

theorem complete_event_withheld:
  assumes "MaxBufferSize cfg = None" "no_break v" "no_break x" "x \<noteq> []"
  shows "map_sum id snd (feed_all cfg [units ''data:'' @ v @ [13, 13], x] createParser) = Inr [] \<and>
    map_sum id snd (feed_all cfg [units ''data:'' @ v @ [13, 13] @ x] createParser) = Inr [OnEvent None None (unspace v)]"
proof
  have d: "take 1 (units ''data:'' @ y) \<noteq> [239]" for y by (simp add: units_def)
  have one: "spec_text cfg (scanned createParser) (units ''data:'' @ v @ [13, 13]) =
      (add_data (unspace v) (scanned createParser), [], [13])"
    using data_line_CR[OF assms(2), of "[]" cfg] by simp
  have all: "spec_text cfg (scanned createParser) (units ''data:'' @ v @ [13, 13] @ x) =
      (scanned createParser, [OnEvent None None (unspace v)], x)"
    using data_line_CR[OF assms(2), of x cfg] assms(3,4) by simp
  obtain st where st: "feed cfg (units ''data:'' @ v @ [13, 13]) createParser = Inr (st, [])"
    "concat (Ps_pending st) = [13]" "\<not> Ps_first st" "\<not> Ps_terminated st"
    using feed_first[OF assms(1) d one] by auto
  moreover from st(2) have "Ps_pending st \<noteq> []" by auto
  ultimately show "map_sum id snd (feed_all cfg [units ''data:'' @ v @ [13, 13], x] createParser) = Inr []"
    using assms(1,3) by (simp add: feed_def no_break_def checkBufferSize_def)
  show "map_sum id snd (feed_all cfg [units ''data:'' @ v @ [13, 13] @ x] createParser) = Inr [OnEvent None None (unspace v)]"
    using feed_first[OF assms(1) d all] by auto
qed

theorem complete_event_withheld_witness:
  "map_sum id snd (feed_all no_limit [units ''data:'' @ units ''7'' @ [13, 13], units '': ping''] createParser) = Inr []"
  using complete_event_withheld[of no_limit "units ''7''" "units '': ping''"] by (simp add: no_limit_def units_def)

text \<open>Reset with \<open>consume\<close> takes what is kept as one line, a carriage return included.\<close>

lemma consumed_line_keeps_CR:
  "\<exists>st. feed no_limit (units ''retry: 10'' @ [13]) createParser = Inr (st, []) \<and>
     snd (reset no_limit True st) = [OnError (invalid_retry (units ''10'' @ [13]) (units ''retry: 10'' @ [13]))]"
proof -
  let ?st = "createParser\<lparr>Ps_first := False, Ps_pending := [units ''retry: 10'' @ [13]], Ps_length := 10\<rparr>"
  have "feed no_limit (units ''retry: 10'' @ [13]) createParser = Inr (?st, [])" by code_simp
  moreover have "snd (reset no_limit True ?st) =
      [OnError (invalid_retry (units ''10'' @ [13]) (units ''retry: 10'' @ [13]))]" by code_simp
  ultimately show ?thesis by blast
qed

end
