(* ===== verification/Curl_Sample.thy ===== *)
theory Curl_Sample
  imports Js_Text
begin

text \<open>
  The \<open>curl\<close> sample that the API reference shows for a request (\<open>mWt\<close> of \<open>docs/scalar-1.75.0.js\<close>): a
  shell command assembled from the method, the URL, headers, cookies and the body.  A multipart body that
  \<open>curl --form\<close> cannot express is written by a group of \<open>printf\<close> and \<open>cat\<close> commands and piped in.

  Two uses of \<open>JSON\<close> are arguments of the model, any functions will do: \<open>reformat\<close> is a text parsed and
  written again with an indent of two, or nothing when it does not parse; \<open>stringify\<close> writes the form
  parameters.  A string member that may be \<open>undefined\<close> is an option.
\<close>

section \<open>The request\<close>

record har_pair =
  H_name :: units
  H_value :: units

record har_param =
  Pm_name :: units
  Pm_value :: "units option"
  Pm_fileName :: "units option"
  Pm_contentType :: "units option"

record har_post =
  Post_mimeType :: "units option"
  Post_text :: "units option"
  Post_params :: "har_param list option"

record har_request =
  Req_method :: "units option"
  Req_url :: "units option"
  Req_query :: "har_pair list option"
  Req_headers :: "har_pair list option"
  Req_cookies :: "har_pair list option"
  Req_postData :: "har_post option"

record sample_auth =
  Auth_username :: units
  Auth_password :: units

definition text_of :: "units option \<Rightarrow> units" where
  "text_of t = (case t of None \<Rightarrow> [] | Some s \<Rightarrow> s)"

definition list_of :: "'a list option \<Rightarrow> 'a list" where
  "list_of xs = (case xs of None \<Rightarrow> [] | Some ys \<Rightarrow> ys)"

section \<open>Method, address, cookies\<close>

definition http_methods :: "units list" where
  "http_methods =
     map units [''delete'', ''get'', ''head'', ''options'', ''patch'', ''post'', ''put'', ''query'', ''trace'']"

definition upper_unit :: "nat \<Rightarrow> nat" where
  "upper_unit u = (if 97 \<le> u \<and> u \<le> 122 then u - 32 else u)"

text \<open>A known method in lower case is written in upper case, any other stays as it is.\<close>

definition normalize_method :: "units option \<Rightarrow> units" where
  "normalize_method m =
     (case m of
        None \<Rightarrow> units ''GET''
      | Some e \<Rightarrow> if e = [] then units ''GET'' else if e \<in> set http_methods then map upper_unit e else e)"

definition encoded_pair :: "har_pair \<Rightarrow> units option" where
  "encoded_pair p =
     (case (encodeURIComponent (H_name p), encodeURIComponent (H_value p)) of
        (Some n, Some v) \<Rightarrow> Some (n @ units ''='' @ v)
      | _ \<Rightarrow> None)"

definition encoded_pairs :: "units \<Rightarrow> har_pair list \<Rightarrow> units option" where
  "encoded_pairs sep ps = map_option (join_units sep) (those (map encoded_pair ps))"

definition query_text :: "har_pair list option \<Rightarrow> units option" where
  "query_text qs =
     (if list_of qs = [] then Some [] else map_option ((@) (units ''?'')) (encoded_pairs (units ''&'') (list_of qs)))"

definition add_query :: "units \<Rightarrow> har_pair list option \<Rightarrow> units option" where
  "add_query e qs =
     map_option (\<lambda>n.
       if n = [] then e else if e = [] then n
       else let r = indexOf 35 e 0;
                i = (case r of None \<Rightarrow> e | Some k \<Rightarrow> take k e); a = (case r of None \<Rightarrow> [] | Some k \<Rightarrow> drop k e)
            in i @ (if 63 \<in> set i then units ''&'' else units ''?'') @ drop 1 n @ a) (query_text qs)"

definition cookie_header :: "har_pair list option \<Rightarrow> har_pair list option" where
  "cookie_header cookies =
     (if list_of cookies = [] then Some []
      else map_option (\<lambda>v. [\<lparr>H_name = units ''Cookie'', H_value = v\<rparr>]) (encoded_pairs (units ''; '') (list_of cookies)))"

section \<open>Media types\<close>

definition token_unit :: "nat \<Rightarrow> bool" where
  "token_unit u \<longleftrightarrow> letter_or_digit u \<or> u \<in> {33, 35, 36, 37, 38, 39, 42, 43, 45, 46, 94, 95, 96, 124, 126}"

definition token :: "units \<Rightarrow> bool" where
  "token s \<longleftrightarrow> s \<noteq> [] \<and> (\<forall>u \<in> set s. token_unit u)"

text \<open>Type and subtype; a text that is not a media type counts as \<open>text/plain\<close>.\<close>

definition parse_essence :: "units \<Rightarrow> units \<times> units" where
  "parse_essence e =
     (let parts = split_string [47] e;
          r = toLowerCase (trim (hd parts)); i = toLowerCase (trim (case tl parts of [] \<Rightarrow> [] | n # _ \<Rightarrow> n))
      in if token r \<and> token i then (r, i) else (units ''text'', units ''plain''))"

definition mime_type :: "units option \<Rightarrow> units \<times> units" where
  "mime_type m = parse_essence (hd (split_string [59] (case m of None \<Rightarrow> units ''text/plain'' | Some e \<Rightarrow> e)))"

definition ends_with :: "units \<Rightarrow> units \<Rightarrow> bool" where
  "ends_with p s \<longleftrightarrow> length p \<le> length s \<and> drop (length s - length p) s = p"

definition is_json :: "units option \<Rightarrow> bool" where
  "is_json m \<longleftrightarrow> (let t = snd (mime_type m) in t = units ''json'' \<or> ends_with (units ''+json'') t)"

definition is_streaming :: "units \<Rightarrow> bool" where
  "is_streaming m \<longleftrightarrow>
     (let (r, n) = mime_type (Some m); t = r @ units ''/'' @ n in
      t = units ''text/event-stream'' \<or> t = units ''application/json-seq'' \<or> ends_with (units ''+json-seq'') n \<or>
      t \<in> set (map units [''application/jsonl'', ''application/x-ndjson'', ''application/json-lines'']) \<or>
      r = units ''multipart'' \<and> (n = units ''mixed'' \<or> n = units ''x-mixed-replace''))"

section \<open>Multipart bodies\<close>

datatype body_part = Body_text units | Body_file units

definition escape_disposition :: "units \<Rightarrow> units" where
  "escape_disposition e =
     replaceAll [34] (units ''%22'') (replaceAll [10] (units ''%0A'') (replaceAll [13] (units ''%0D'') e))"

text \<open>The boundary grows until the parameters do not contain it.\<close>

lemma js_includes_length: "js_includes s p \<Longrightarrow> length p \<le> length s"
  by (induction s) (auto simp: starts_with_def min_def split: if_splits dest!: arg_cong[of _ _ length])

function free_boundary :: "units \<Rightarrow> units \<Rightarrow> units" where
  "free_boundary t n = (if js_includes t n then free_boundary t (n @ units ''-'') else n)"
  by pat_completeness auto
termination
  by (relation "measure (\<lambda>(t, n). Suc (length t) - length n)") (auto dest: js_includes_length simp: units_def)

declare free_boundary.simps [simp del]

definition crlf :: units where "crlf = [13, 10]"

definition multipart_part :: "units \<Rightarrow> har_param \<Rightarrow> body_part list" where
  "multipart_part n p =
     (let e = (case Pm_fileName p of
                 None \<Rightarrow> [] | Some f \<Rightarrow> units ''; filename='' @ [34] @ escape_disposition f @ [34]);
          i = (case Pm_contentType p of
                 Some c \<Rightarrow> c
               | None \<Rightarrow> (case Pm_fileName p of None \<Rightarrow> [] | Some _ \<Rightarrow> units ''application/octet-stream''))
      in [Body_text (units ''--'' @ n @ crlf @ units ''Content-Disposition: form-data; name='' @ [34] @
            escape_disposition (Pm_name p) @ [34] @ e @ crlf @
            (if i = [] then [] else units ''Content-Type: '' @ i @ crlf) @ crlf),
          (case Pm_fileName p of None \<Rightarrow> Body_text (text_of (Pm_value p)) | Some f \<Rightarrow> Body_file f),
          Body_text crlf])"

definition multipart_body :: "units \<Rightarrow> har_param list \<Rightarrow> body_part list" where
  "multipart_body n ps = concat (map (multipart_part n) ps) @ [Body_text (units ''--'' @ n @ units ''--'' @ crlf)]"

definition multipart_boundary :: "(har_param list \<Rightarrow> units) \<Rightarrow> har_param list \<Rightarrow> units" where
  "multipart_boundary stringify ps = free_boundary (stringify ps) (units ''scalar-boundary'')"

definition is_content_type :: "har_pair \<Rightarrow> bool" where
  "is_content_type h \<longleftrightarrow> toLowerCase (H_name h) = units ''content-type''"

text \<open>Headers and body of a request whose form parameters are sent as a multipart body.\<close>

definition multipart_headers :: "units \<Rightarrow> har_request \<Rightarrow> har_pair list option" where
  "multipart_headers n req =
     map_option (\<lambda>cookies.
       filter (\<lambda>h. \<not> is_content_type h) (list_of (Req_headers req) @ cookies) @
       [\<lparr>H_name = units ''Content-Type'', H_value = units ''multipart/form-data; boundary='' @ n\<rparr>])
       (cookie_header (Req_cookies req))"

definition has_file :: "body_part list \<Rightarrow> bool" where
  "has_file body \<longleftrightarrow> (\<exists>p \<in> set body. case p of Body_file _ \<Rightarrow> True | Body_text _ \<Rightarrow> False)"

text \<open>The boundary to replace at run time, read from the header, when a file is part of the body.\<close>

definition runtime_boundary :: "har_pair list \<Rightarrow> body_part list \<Rightarrow> units option" where
  "runtime_boundary headers body =
     (if has_file body then
        (case find is_content_type headers of
           None \<Rightarrow> None
         | Some h \<Rightarrow> (case tl (split_string (units ''boundary='') (H_value h)) of [] \<Rightarrow> None | n # _ \<Rightarrow> Some n))
      else None)"

section \<open>Quoting\<close>

definition escape_quotes :: "units \<Rightarrow> units" where
  "escape_quotes e = concat (map (\<lambda>c. if c = 39 then [39, 92, 39, 39] else [c]) e)"

definition single_quoted :: "units \<Rightarrow> units" where
  "single_quoted e = [39] @ escape_quotes e @ [39]"

definition boundary_variable :: units where
  "boundary_variable = [34] @ units ''$boundary'' @ [34]"

definition pieces :: "units option \<Rightarrow> units \<Rightarrow> units list" where
  "pieces t e = (case t of None \<Rightarrow> [e] | Some sep \<Rightarrow> if sep = [] then [e] else split_string sep e)"

definition quoted_header :: "units \<Rightarrow> units option \<Rightarrow> units" where
  "quoted_header e t = join_units boundary_variable (map single_quoted (pieces t e))"

definition octal3 :: "nat \<Rightarrow> units" where
  "octal3 c = [48 + c div 64, 48 + c div 8 mod 8, 48 + c mod 8]"

definition escape_printf :: "units \<Rightarrow> units" where
  "escape_printf e =
     concat (map (\<lambda>c. if c = 92 then [92, 92] else if c < 32 then [92, 48] @ octal3 c else [c]) e)"

definition body_command :: "units option \<Rightarrow> body_part \<Rightarrow> units" where
  "body_command t p =
     (case p of
        Body_file f \<Rightarrow> units ''  cat -- '' @ single_quoted f
      | Body_text x \<Rightarrow>
          join_units ([10] @ units ''  printf '' @ single_quoted (units ''%s'') @ [32] @ boundary_variable @ [10])
            (map (\<lambda>e. units ''  printf '' @ single_quoted (units ''%b'') @ [32] @ single_quoted (escape_printf e)) (pieces t x)))"

definition body_group :: "body_part list \<Rightarrow> units option \<Rightarrow> units" where
  "body_group body t = join_units [10] ([units ''{''] @ map (body_command t) body @ [units ''}''])"

definition boundary_assignment :: units where
  "boundary_assignment =
     units ''boundary=scalar-$(od -An -N16 -tx1 /dev/urandom | tr -d '' @ [39] @ units ''[:space:]'' @ [39] @ units '')'' @ [10]"

section \<open>The sample\<close>

definition plain_address_unit :: "nat \<Rightarrow> bool" where
  "plain_address_unit u \<longleftrightarrow> letter_or_digit u \<or> u \<in> {46, 95, 126, 58, 47, 37, 64, 43, 44, 61, 45}"

definition address_word :: "units \<Rightarrow> units" where
  "address_word i = (if \<forall>u \<in> set i. plain_address_unit u then i else single_quoted i)"

text \<open>Form parameters that \<open>--form\<close> would read differently.\<close>

definition special_param :: "har_param \<Rightarrow> bool" where
  "special_param e \<longleftrightarrow>
     (\<exists>u \<in> set (Pm_name e). u \<in> {59, 61, 34, 44, 13, 10}) \<or>
     (case Pm_fileName e of
        None \<Rightarrow> text_of (Pm_contentType e) \<noteq> [] \<and>
          (take 1 (text_of (Pm_value e)) \<in> {[64], [60], [34]} \<or> 59 \<in> set (text_of (Pm_value e)))
      | Some f \<Rightarrow> \<exists>u \<in> set f. u \<in> {59, 44, 34, 92, 13, 10})"

definition is_form :: "har_post \<Rightarrow> bool" where
  "is_form post \<longleftrightarrow> Post_mimeType post = Some (units ''multipart/form-data'')"

definition streams_form :: "har_request \<Rightarrow> bool" where
  "streams_form req \<longleftrightarrow>
     (case Req_postData req of
        None \<Rightarrow> False | Some post \<Rightarrow> is_form post \<and> (\<exists>p \<in> set (list_of (Post_params post)). special_param p))"

definition flag_quoted :: "string \<Rightarrow> units \<Rightarrow> units" where
  "flag_quoted flag x = units flag @ [32] @ single_quoted x"

definition json_or_text :: "(units \<Rightarrow> units option) \<Rightarrow> units \<Rightarrow> units" where
  "json_or_text reformat x = (case reformat x of Some y \<Rightarrow> y | None \<Rightarrow> x)"

definition header_parts :: "har_pair list \<Rightarrow> units option \<Rightarrow> units list" where
  "header_parts headers c =
     map (\<lambda>h. units ''--header '' @
            quoted_header (H_name h @ units '': '' @ H_value h) (if is_content_type h then c else None)) headers @
     (case find (\<lambda>h. toLowerCase (H_name h) = units ''accept-encoding'') headers of
        Some h \<Rightarrow> if js_includes (H_value h) (units ''gzip'') \<or> js_includes (H_value h) (units ''deflate'')
                  then [units ''--compressed''] else []
      | None \<Rightarrow> [])"

definition urlencoded_part :: "har_param \<Rightarrow> units option" where
  "urlencoded_part e =
     map_option (\<lambda>n. units ''--data-urlencode '' @ [39] @ escape_quotes n @ units ''='' @
         escape_quotes (text_of (Pm_value e)) @ [39])
       (encodeURIComponent (Pm_name e))"

definition form_part :: "(units \<Rightarrow> units option) \<Rightarrow> har_param \<Rightarrow> units" where
  "form_part reformat e =
     (let t = escape_quotes (Pm_name e); ct = text_of (Pm_contentType e);
          n = (if ct = [] then [] else units '';type='' @ ct)
      in case Pm_fileName e of
           Some f \<Rightarrow> units ''--form '' @ [39] @ t @ units ''=@'' @ escape_quotes (f @ n) @ [39]
         | None \<Rightarrow>
             let i = text_of (Pm_value e);
                 v = (if is_json (Pm_contentType e) \<and> i \<noteq> [] then json_or_text reformat i else i)
             in if ct = [] \<and> (take 1 v = [64] \<or> take 1 v = [60] \<or> 59 \<in> set v)
                then units ''--form-string '' @ [39] @ t @ units ''='' @ escape_quotes v @ [39]
                else units ''--form '' @ [39] @ t @ units ''='' @ escape_quotes (v @ n) @ [39])"

definition body_parts :: "(units \<Rightarrow> units option) \<Rightarrow> bool \<Rightarrow> har_post \<Rightarrow> units list option" where
  "body_parts reformat streamed post =
     (if is_json (Post_mimeType post) then
        Some (if text_of (Post_text post) = [] then []
              else [flag_quoted ''--data'' (json_or_text reformat (text_of (Post_text post)))])
      else if is_streaming (text_of (Post_mimeType post)) then
        Some [flag_quoted ''--data-binary'' (text_of (Post_text post))]
      else if Post_mimeType post = Some (units ''application/octet-stream'') then
        Some [flag_quoted ''--data-binary'' (text_of (Post_text post))]
      else if Post_mimeType post = Some (units ''application/x-www-form-urlencoded'') \<and> Post_params post \<noteq> None then
        those (map urlencoded_part (list_of (Post_params post)))
      else if is_form post \<and> Post_params post \<noteq> None then
        Some (if streamed then [units ''--data-binary @-''] else map (form_part reformat) (list_of (Post_params post)))
      else Some [flag_quoted ''--data'' (json_or_text reformat (text_of (Post_text post)))])"

definition cookie_parts :: "har_pair list option \<Rightarrow> units list option" where
  "cookie_parts cookies =
     (if list_of cookies = [] then Some []
      else map_option (\<lambda>v. [flag_quoted ''--cookie'' v]) (encoded_pairs (units ''; '') (list_of cookies)))"

text \<open>What \<open>curl\<close> would read as a glob.\<close>

definition has_glob :: "units \<Rightarrow> bool" where
  "has_glob i \<longleftrightarrow>
     (let q = (case indexOf 63 i 0 of None \<Rightarrow> [] | Some a \<Rightarrow> drop a i) in
      91 \<in> set i \<or> 93 \<in> set i \<or> 123 \<in> set q \<or> 125 \<in> set q)"

definition auth_parts :: "sample_auth option \<Rightarrow> units list" where
  "auth_parts auth =
     (case auth of
        None \<Rightarrow> []
      | Some a \<Rightarrow>
          if Auth_username a \<noteq> [] \<and> Auth_password a \<noteq> []
          then [flag_quoted ''--user'' (Auth_username a @ units '':'' @ Auth_password a)] else [])"

definition continuation :: units where "continuation = [32, 92, 10, 32, 32]"

text \<open>Headers and body of a form that is piped in; no pair for any other request.\<close>

definition streamed_form ::
  "(har_param list \<Rightarrow> units) \<Rightarrow> har_request \<Rightarrow> (har_pair list \<times> body_part list) option option" where
  "streamed_form stringify req =
     (if streams_form req then
        (case Req_postData req of
           None \<Rightarrow> Some None
         | Some post \<Rightarrow>
             let ps = list_of (Post_params post); n = multipart_boundary stringify ps
             in map_option (\<lambda>hs. Some (hs, multipart_body n ps)) (multipart_headers n req))
      else Some None)"

definition sample_headers :: "har_request \<Rightarrow> (har_pair list \<times> body_part list) option \<Rightarrow> har_pair list" where
  "sample_headers req s = (case s of Some (hs, _) \<Rightarrow> hs | None \<Rightarrow> list_of (Req_headers req))"

definition sample_boundary :: "(har_pair list \<times> body_part list) option \<Rightarrow> units option" where
  "sample_boundary s = (case s of Some (hs, body) \<Rightarrow> runtime_boundary hs body | None \<Rightarrow> None)"

definition data_parts ::
  "(units \<Rightarrow> units option) \<Rightarrow> har_request \<Rightarrow> (har_pair list \<times> body_part list) option \<Rightarrow> units list option" where
  "data_parts reformat req s =
     (case Req_postData req of None \<Rightarrow> Some [] | Some post \<Rightarrow> body_parts reformat (s \<noteq> None) post)"

text \<open>A text that cannot be encoded, with a surrogate that stands alone, makes \<open>generate\<close> throw.\<close>

definition generate_curl ::
  "(units \<Rightarrow> units option) \<Rightarrow> (har_param list \<Rightarrow> units) \<Rightarrow> har_request \<Rightarrow> sample_auth option \<Rightarrow> units option" where
  "generate_curl reformat stringify req auth =
     (let m = normalize_method (Req_method req) in
      case add_query (text_of (Req_url req)) (Req_query req) of
        None \<Rightarrow> None
      | Some i \<Rightarrow>
          (case streamed_form stringify req of
             None \<Rightarrow> None
           | Some s \<Rightarrow>
               let c = sample_boundary s in
               case (cookie_parts (Req_cookies req), data_parts reformat req s) of
                 (Some cookies, Some data) \<Rightarrow>
                   let u = join_units continuation
                         ([units ''curl '' @ address_word i] @ (if has_glob i then [units ''--globoff''] else []) @
                          (if m \<noteq> units ''GET'' then [units ''--request '' @ m] else []) @ auth_parts auth @
                          header_parts (sample_headers req s) c @ cookies @ data)
                   in Some (case s of
                        None \<Rightarrow> u
                      | Some (_, body) \<Rightarrow>
                          (if c = None then [] else boundary_assignment) @ body_group body c @ units '' | '' @ u)
               | _ \<Rightarrow> None))"

end
