(* ===== verification/Shell_Reading.thy ===== *)
theory Shell_Reading
  imports Js_Text "HOL-Library.Sublist"
begin

text \<open>
  A shell's reading of a script, for as much of the language as a script of plain commands needs: words of
  literal characters, quotes, escapes, continued lines and one variable.  Everything else that a shell
  interprets makes the reading fail, so that a script that is read runs what is read and nothing more.
\<close>

section \<open>Tokens\<close>

datatype piece = Unit nat | Boundary

datatype shell_token = Word "piece list" | Newline | Pipe

text \<open>Up to the next such unit, which is left out.\<close>

fun break_at :: "nat \<Rightarrow> units \<Rightarrow> (units \<times> units) option" where
  "break_at c [] = None"
| "break_at c (d # s) = (if d = c then Some ([], s) else map_option (map_prod ((#) d) id) (break_at c s))"

lemma break_at_length: "break_at c s = Some (q, rest) \<Longrightarrow> length rest < length s"
  by (induction s arbitrary: q) (fastforce split: if_splits)+

text \<open>What stands for itself outside of quotes; a tilde does within a word.\<close>

definition plain_unit :: "nat \<Rightarrow> bool" where
  "plain_unit u \<longleftrightarrow> letter_or_digit u \<or> u \<in> {37, 43, 44, 45, 46, 47, 58, 61, 64, 95, 123, 125, 126}"

definition word_so_far :: "piece list option \<Rightarrow> piece list" where
  "word_so_far w = (case w of None \<Rightarrow> [] | Some x \<Rightarrow> x)"

definition emit :: "piece list option \<Rightarrow> shell_token list \<Rightarrow> shell_token list" where
  "emit w ts = (case w of None \<Rightarrow> ts | Some x \<Rightarrow> Word x # ts)"

definition boundary_reference :: units where
  "boundary_reference = [34] @ units ''$boundary'' @ [34]"

function lex :: "piece list option \<Rightarrow> units \<Rightarrow> shell_token list option" where
  "lex w [] = Some (emit w [])"
| "lex w (c # s) =
     (if c = 39 then
        (case break_at 39 s of
           None \<Rightarrow> None
         | Some (q, rest) \<Rightarrow> lex (Some (word_so_far w @ map Unit q)) rest)
      else if c = 34 then
        (if starts_with boundary_reference (c # s)
         then lex (Some (word_so_far w @ [Boundary])) (drop 11 (c # s)) else None)
      else if c = 92 then
        (case s of
           [] \<Rightarrow> None
         | d # s2 \<Rightarrow> if d = 10 then lex w s2 else lex (Some (word_so_far w @ [Unit d])) s2)
      else if c = 32 then map_option (emit w) (lex None s)
      else if c = 10 then map_option (\<lambda>ts. emit w (Newline # ts)) (lex None s)
      else if c = 124 then map_option (\<lambda>ts. emit w (Pipe # ts)) (lex None s)
      else if plain_unit c \<and> (c = 126 \<longrightarrow> w \<noteq> None) then lex (Some (word_so_far w @ [Unit c])) s
      else None)"
  by pat_completeness auto
termination
  by (relation "measure (\<lambda>(_, s). length s)") (auto dest: break_at_length)

declare lex.simps(2) [simp del]

section \<open>Commands\<close>

definition expand :: "units \<Rightarrow> piece list \<Rightarrow> units" where
  "expand b ps = concat (map (\<lambda>p. case p of Unit u \<Rightarrow> [u] | Boundary \<Rightarrow> b) ps)"

text \<open>\<open>printf '%b'\<close>: a doubled backslash, or a code in octal after \<open>\0\<close>.\<close>

definition octal_digit :: "nat \<Rightarrow> bool" where
  "octal_digit u \<longleftrightarrow> 48 \<le> u \<and> u \<le> 55"

function printf_b :: "units \<Rightarrow> units option" where
  "printf_b [] = Some []"
| "printf_b (c # s) =
     (if c \<noteq> 92 then map_option ((#) c) (printf_b s)
      else if take 1 s = [92] then map_option ((#) 92) (printf_b (drop 1 s))
      else if take 1 s = [48] \<and> 4 \<le> length s \<and> list_all octal_digit (take 3 (drop 1 s))
      then map_option ((#) ((s ! 1 - 48) * 64 + (s ! 2 - 48) * 8 + (s ! 3 - 48))) (printf_b (drop 4 s))
      else None)"
  by pat_completeness auto
termination
  by (relation "measure length") auto

definition run_command :: "(units \<Rightarrow> units) \<Rightarrow> units list \<Rightarrow> units option" where
  "run_command contents ws =
     (case ws of
        [p, f, x] \<Rightarrow>
          if p = units ''printf'' \<and> f = units ''%b'' then printf_b x
          else if p = units ''printf'' \<and> f = units ''%s'' then Some x
          else if p = units ''cat'' \<and> f = units ''--'' then Some (contents x)
          else None
      | _ \<Rightarrow> None)"

text \<open>The words of a simple command and what follows them.\<close>

fun command_words :: "units \<Rightarrow> shell_token list \<Rightarrow> units list \<times> shell_token list" where
  "command_words b (Word w # ts) = (case command_words b ts of (ws, rest) \<Rightarrow> (expand b w # ws, rest))"
| "command_words b ts = ([], ts)"

lemma command_words_length: "command_words b ts = (ws, t # rest) \<Longrightarrow> length rest < length ts"
  by (induction b ts arbitrary: ws rule: command_words.induct) (fastforce split: prod.splits)+

definition writes :: "units \<Rightarrow> (units \<times> 'a) option \<Rightarrow> (units \<times> 'a) option" where
  "writes out r = map_option (\<lambda>(rest, x). (out @ rest, x)) r"

lemma writes_simps [simp]:
  "writes out None = None" "writes out (Some (rest, x)) = Some (out @ rest, x)"
  "writes out (writes out2 r) = writes (out @ out2) r"
  by (cases r; auto simp: writes_def)+

text \<open>The commands of a group, one per line, up to the closing brace: what they write.\<close>

function run_lines :: "(units \<Rightarrow> units) \<Rightarrow> units \<Rightarrow> shell_token list \<Rightarrow> (units \<times> shell_token list) option" where
  "run_lines contents b ts =
     (case command_words b ts of
        (ws, Newline # rest) \<Rightarrow>
          (case run_command contents ws of
             None \<Rightarrow> None
           | Some out \<Rightarrow> writes out (run_lines contents b rest))
      | (ws, rest) \<Rightarrow> if ws = [units ''}''] then Some ([], rest) else None)"
  by pat_completeness auto
termination
  by (relation "measure (\<lambda>(_, _, ts). length ts)") (auto dest: command_words_length[OF sym])

declare run_lines.simps [simp del]

text \<open>What a script pipes into its command, if anything, and the words of the command.\<close>

definition run_tokens :: "(units \<Rightarrow> units) \<Rightarrow> units \<Rightarrow> shell_token list \<Rightarrow> (units option \<times> units list) option" where
  "run_tokens contents b ts =
     (if take 2 ts = [Word [Unit 123], Newline] then
        (case run_lines contents b (drop 2 ts) of
           Some (out, Pipe # rest) \<Rightarrow> (case command_words b rest of (ws, []) \<Rightarrow> Some (Some out, ws) | _ \<Rightarrow> None)
         | _ \<Rightarrow> None)
      else (case command_words b ts of (ws, []) \<Rightarrow> Some (None, ws) | _ \<Rightarrow> None))"

text \<open>
  A script, which may first set the variable to a random value; \<open>b\<close> is that value.
\<close>

definition run_script :: "units \<Rightarrow> (units \<Rightarrow> units) \<Rightarrow> units \<Rightarrow> units \<Rightarrow> (units option \<times> units list) option" where
  "run_script assignment contents b s =
     (if 0 \<in> set s then None
      else Option.bind (lex None (if starts_with assignment s then drop (length assignment) s else s)) (run_tokens contents b))"

section \<open>Reading quoted texts\<close>

definition quoted :: "units \<Rightarrow> units" where
  "quoted x = [39] @ concat (map (\<lambda>c. if c = 39 then [39, 92, 39, 39] else [c]) x) @ [39]"

lemma word_so_far_simps [simp]: "word_so_far None = []" "word_so_far (Some x) = x"
  by (simp_all add: word_so_far_def)

lemma emit_simps [simp]: "emit None ts = ts" "emit (Some x) ts = Word x # ts"
  by (simp_all add: emit_def)

lemma lex_quote_unit: "c \<noteq> 39 \<Longrightarrow> lex w (39 # c # s) = lex (Some (word_so_far w @ [Unit c])) (39 # s)"
  by (cases "break_at 39 s") (auto simp: lex.simps(2))

lemma lex_quote_end: "lex w (39 # 39 # s) = lex (Some (word_so_far w)) s"
  by (simp add: lex.simps(2))

lemma lex_quote_quote: "lex w (39 # 39 # 92 # 39 # 39 # s) = lex (Some (word_so_far w @ [Unit 39])) (39 # s)"
  by (simp add: lex_quote_end) (simp add: lex.simps(2)[of _ 92])

lemma lex_quoted: "lex w (quoted x @ s) = lex (Some (word_so_far w @ map Unit x)) s"
proof (induction x arbitrary: w)
  case Nil
  then show ?case by (simp add: quoted_def lex_quote_end)
next
  case (Cons c x)
  show ?case
  proof (cases "c = 39")
    case True
    with Cons[of "Some (word_so_far w @ [Unit 39])"] show ?thesis by (simp add: quoted_def lex_quote_quote)
  next
    case False
    with Cons[of "Some (word_so_far w @ [Unit c])"] show ?thesis by (simp add: quoted_def lex_quote_unit)
  qed
qed

text \<open>Two quoted texts side by side are one.\<close>

lemma lex_plain:
  "\<forall>c \<in> set p. plain_unit c \<Longrightarrow> take 1 p \<noteq> [126] \<or> w \<noteq> None \<Longrightarrow> p \<noteq> [] \<Longrightarrow>
     lex w (p @ s) = lex (Some (word_so_far w @ map Unit p)) s"
proof (induction p arbitrary: w)
  case (Cons c p)
  then have c: "plain_unit c" "c = 126 \<longrightarrow> w \<noteq> None" by auto
  then have "c \<notin> {39, 34, 92, 32, 10, 124}" by (auto simp: plain_unit_def letter_or_digit_def)
  with c have "lex w ((c # p) @ s) = lex (Some (word_so_far w @ [Unit c])) (p @ s)" by (simp add: lex.simps(2))
  with Cons.IH[of "Some (word_so_far w @ [Unit c])"] Cons.prems(1) show ?case by (cases "p = []") auto
qed simp

lemma lex_space: "lex w (32 # s) = map_option (emit w) (lex None s)"
  by (simp add: lex.simps(2))

lemma lex_newline: "lex w (10 # s) = map_option (\<lambda>ts. emit w (Newline # ts)) (lex None s)"
  by (simp add: lex.simps(2))

lemma lex_pipe: "lex w (124 # s) = map_option (\<lambda>ts. emit w (Pipe # ts)) (lex None s)"
  by (simp add: lex.simps(2))

lemma lex_continuation: "lex w (92 # 10 # s) = lex w s"
  by (simp add: lex.simps(2))

lemma lex_boundary: "lex w (boundary_reference @ s) = lex (Some (word_so_far w @ [Boundary])) s"
  by (simp add: boundary_reference_def units_def lex.simps(2)[of _ 34] starts_with_def)

end
