(* ===== verification/Curl_Properties.thy ===== *)
theory Curl_Properties
  imports Curl_Sample Shell_Reading
begin

text \<open>
  The theorem about the \<open>curl\<close> sample: a shell that is given the sample runs \<open>curl\<close> with exactly the
  arguments the request asks for and pipes exactly the multipart body into it, whatever texts the request
  holds.
\<close>

section \<open>What a sample stands for\<close>

text \<open>A text at run time, when the boundary in it has been replaced by the value of the variable.\<close>

definition at_run_time :: "units \<Rightarrow> units option \<Rightarrow> units \<Rightarrow> units" where
  "at_run_time b t e = join_units b (pieces t e)"

definition part_output :: "(units \<Rightarrow> units) \<Rightarrow> units \<Rightarrow> units option \<Rightarrow> body_part \<Rightarrow> units" where
  "part_output contents b t p = (case p of Body_text x \<Rightarrow> at_run_time b t x | Body_file f \<Rightarrow> contents f)"

definition header_arguments :: "units \<Rightarrow> har_pair list \<Rightarrow> units option \<Rightarrow> units list list" where
  "header_arguments b headers c =
     map (\<lambda>h. [units ''--header'',
            at_run_time b (if is_content_type h then c else None) (H_name h @ units '': '' @ H_value h)]) headers @
     (case find (\<lambda>h. toLowerCase (H_name h) = units ''accept-encoding'') headers of
        Some h \<Rightarrow> if js_includes (H_value h) (units ''gzip'') \<or> js_includes (H_value h) (units ''deflate'')
                  then [[units ''--compressed'']] else []
      | None \<Rightarrow> [])"

definition auth_arguments :: "sample_auth option \<Rightarrow> units list list" where
  "auth_arguments auth =
     (case auth of
        None \<Rightarrow> []
      | Some a \<Rightarrow> if Auth_username a \<noteq> [] \<and> Auth_password a \<noteq> []
                  then [[units ''--user'', Auth_username a @ units '':'' @ Auth_password a]] else [])"

definition cookie_arguments :: "har_pair list option \<Rightarrow> units list list option" where
  "cookie_arguments cookies =
     (if list_of cookies = [] then Some []
      else map_option (\<lambda>v. [[units ''--cookie'', v]]) (encoded_pairs (units ''; '') (list_of cookies)))"

definition urlencoded_arguments :: "har_param \<Rightarrow> units list option" where
  "urlencoded_arguments e =
     map_option (\<lambda>n. [units ''--data-urlencode'', n @ units ''='' @ text_of (Pm_value e)]) (encodeURIComponent (Pm_name e))"

definition form_arguments :: "(units \<Rightarrow> units option) \<Rightarrow> har_param \<Rightarrow> units list" where
  "form_arguments reformat e =
     (let ct = text_of (Pm_contentType e); n = (if ct = [] then [] else units '';type='' @ ct)
      in case Pm_fileName e of
           Some f \<Rightarrow> [units ''--form'', Pm_name e @ units ''=@'' @ f @ n]
         | None \<Rightarrow>
             let i = text_of (Pm_value e);
                 v = (if is_json (Pm_contentType e) \<and> i \<noteq> [] then json_or_text reformat i else i)
             in if ct = [] \<and> (take 1 v = [64] \<or> take 1 v = [60] \<or> 59 \<in> set v)
                then [units ''--form-string'', Pm_name e @ units ''='' @ v]
                else [units ''--form'', Pm_name e @ units ''='' @ v @ n])"

definition body_arguments :: "(units \<Rightarrow> units option) \<Rightarrow> bool \<Rightarrow> har_post \<Rightarrow> units list list option" where
  "body_arguments reformat streamed post =
     (let t = text_of (Post_text post); data = Some [[units ''--data'', json_or_text reformat t]];
          binary = Some [[units ''--data-binary'', t]] in
      if is_json (Post_mimeType post) then (if t = [] then Some [] else data)
      else if is_streaming (text_of (Post_mimeType post)) then binary
      else if Post_mimeType post = Some (units ''application/octet-stream'') then binary
      else if Post_mimeType post = Some (units ''application/x-www-form-urlencoded'') \<and> Post_params post \<noteq> None then
        those (map urlencoded_arguments (list_of (Post_params post)))
      else if is_form post \<and> Post_params post \<noteq> None then
        Some (if streamed then [[units ''--data-binary'', units ''@-'']]
              else map (form_arguments reformat) (list_of (Post_params post)))
      else data)"

definition data_arguments ::
  "(units \<Rightarrow> units option) \<Rightarrow> har_request \<Rightarrow> (har_pair list \<times> body_part list) option \<Rightarrow> units list list option" where
  "data_arguments reformat req s =
     (case Req_postData req of None \<Rightarrow> Some [] | Some post \<Rightarrow> body_arguments reformat (s \<noteq> None) post)"

text \<open>What is piped in, and the words of the command.\<close>

definition curl_run ::
  "(units \<Rightarrow> units option) \<Rightarrow> (har_param list \<Rightarrow> units) \<Rightarrow> (units \<Rightarrow> units) \<Rightarrow> units \<Rightarrow> har_request \<Rightarrow> sample_auth option \<Rightarrow>
   (units option \<times> units list) option" where
  "curl_run reformat stringify contents b req auth =
     (let m = normalize_method (Req_method req) in
      case (add_query (text_of (Req_url req)) (Req_query req), streamed_form stringify req) of
        (Some i, Some s) \<Rightarrow>
          let c = sample_boundary s in
          (case (cookie_arguments (Req_cookies req), data_arguments reformat req s) of
             (Some cookies, Some data) \<Rightarrow>
               Some (map_option (\<lambda>(_, body). concat (map (part_output contents b c) body)) s,
                 concat ([[units ''curl'', i]] @ (if has_glob i then [[units ''--globoff'']] else []) @
                   (if m \<noteq> units ''GET'' then [[units ''--request'', m]] else []) @ auth_arguments auth @
                   header_arguments b (sample_headers req s) c @ cookies @ data))
           | _ \<Rightarrow> None)
      | _ \<Rightarrow> None)"

section \<open>Parts of a command\<close>

text \<open>A part of the command that reads as these words, the last of them still open.\<close>

definition stands_for :: "units \<Rightarrow> units \<Rightarrow> units list \<Rightarrow> bool" where
  "stands_for b p ws \<longleftrightarrow>
     (\<exists>vs v. ws = map (expand b) (vs @ [v]) \<and>
        (\<forall>s. lex None (p @ s) = map_option ((@) (map Word vs)) (lex (Some v) s)))"

lemma lex_after_continuation: "lex (Some v) (continuation @ s) = map_option ((#) (Word v)) (lex None s)"
proof -
  have "emit (Some v) = (#) (Word v)" by (rule ext) simp
  moreover have "lex None (92 # 10 # 32 # 32 # s) = lex None s"
    by (simp add: lex_continuation lex_space option.map_comp o_def option.map_ident)
  ultimately show ?thesis by (simp add: continuation_def lex_space)
qed

lemma stands_for_parts:
  assumes "list_all2 (stands_for b) ps wss" "ps \<noteq> []"
  shows "\<exists>vs. lex None (join_units continuation ps) = Some (map Word vs) \<and> map (expand b) vs = concat wss"
  using assms
proof (induction ps wss rule: list_all2_induct)
  case (Cons p ps ws wss)
  obtain vs v where v: "ws = map (expand b) (vs @ [v])"
    "\<And>s. lex None (p @ s) = map_option ((@) (map Word vs)) (lex (Some v) s)"
    using Cons.hyps(1) by (auto simp: stands_for_def)
  show ?case
  proof (cases ps)
    case Nil
    with Cons.hyps(2) v v(2)[of "[]"] show ?thesis by (intro exI[of _ "vs @ [v]"]) simp
  next
    case (Cons q qs)
    then obtain us where us: "lex None (join_units continuation ps) = Some (map Word us)" "map (expand b) us = concat wss"
      using Cons.IH by blast
    then show ?thesis
      using v(1) v(2)[of "continuation @ join_units continuation ps"] Cons
      by (intro exI[of _ "vs @ [v] @ us"]) (simp add: lex_after_continuation)
  qed
qed simp

definition plain_word :: "units \<Rightarrow> bool" where
  "plain_word p \<longleftrightarrow> p \<noteq> [] \<and> take 1 p \<noteq> [126] \<and> (\<forall>c \<in> set p. plain_unit c)"

lemma expand_simps [simp]:
  "expand b [] = []" "expand b (Unit u # ps) = u # expand b ps" "expand b (Boundary # ps) = b @ expand b ps"
  "expand b (ps @ qs) = expand b ps @ expand b qs" "expand b (map Unit x) = x"
  by (simp_all add: expand_def o_def)

lemma plain_word_lex: "plain_word p \<Longrightarrow> lex None (p @ s) = lex (Some (map Unit p)) s"
  by (simp add: plain_word_def lex_plain)

lemma plain_literals:
  "plain_word (units ''curl'')" "plain_word (units ''--globoff'')" "plain_word (units ''--request'')"
  "plain_word (units ''--user'')" "plain_word (units ''--header'')" "plain_word (units ''--compressed'')"
  "plain_word (units ''--cookie'')" "plain_word (units ''--data'')" "plain_word (units ''--data-binary'')"
  "plain_word (units ''--data-urlencode'')" "plain_word (units ''--form'')" "plain_word (units ''--form-string'')"
  "plain_word (units ''@-'')" "plain_word (units ''printf'')" "plain_word (units ''cat'')" "plain_word (units ''--'')"
  by code_simp+

lemma append_Nil_map: "map_option ((@) []) r = r"
  by (cases r) simp_all

lemma stands_for_word: "plain_word p \<Longrightarrow> stands_for b p [p]"
  unfolding stands_for_def
  by (rule exI[of _ "[]"], rule exI[of _ "map Unit p"]) (simp add: plain_word_lex append_Nil_map)

lemma stands_for_flag:
  assumes "plain_word f" "\<And>s. lex None (q @ s) = lex (Some v) s"
  shows "stands_for b (f @ [32] @ q) [f, expand b v]"
proof -
  have e: "emit (Some (map Unit f)) = (@) (map Word [map Unit f])" by (rule ext) simp
  show ?thesis
    unfolding stands_for_def
    by (rule exI[of _ "[map Unit f]"], rule exI[of _ v]) (simp add: plain_word_lex[OF assms(1)] lex_space assms(2) e)
qed

lemma quoted_lex: "lex None (quoted x @ s) = lex (Some (map Unit x)) s"
  by (simp add: lex_quoted)

lemma single_quoted_eq: "single_quoted x = quoted x"
  by (simp add: single_quoted_def quoted_def escape_quotes_def)

lemma stands_for_quoted: "plain_word (units f) \<Longrightarrow> stands_for b (flag_quoted f x) [units f, x]"
  using stands_for_flag[OF _ quoted_lex, of "units f" b x] by (simp add: flag_quoted_def single_quoted_eq)

text \<open>Quoted texts with the variable between them.\<close>

fun joined :: "units list \<Rightarrow> piece list" where
  "joined [] = []"
| "joined [x] = map Unit x"
| "joined (x # y # ys) = map Unit x @ [Boundary] @ joined (y # ys)"

lemma expand_joined: "expand b (joined xs) = join_units b xs"
  by (induction xs rule: joined.induct) auto

lemma lex_joined:
  "xs \<noteq> [] \<Longrightarrow> lex w (join_units boundary_reference (map quoted xs) @ s) = lex (Some (word_so_far w @ joined xs)) s"
  by (induction xs arbitrary: w rule: joined.induct) (simp_all add: lex_quoted lex_boundary)

lemma boundary_variable_eq: "boundary_variable = boundary_reference"
  by (simp add: boundary_variable_def boundary_reference_def)

lemma units_append: "units (x @ y) = units x @ units y"
  by (simp add: units_def)

lemma split_on_nonempty: "split_on sep acc s \<noteq> []"
  by (induction sep acc s rule: split_on.induct) (subst split_on.simps, simp)

lemma pieces_nonempty: "pieces t e \<noteq> []"
  by (simp add: pieces_def split_string_def split_on_nonempty split: option.splits)

lemma stands_for_header:
  "stands_for b (units ''--header '' @ quoted_header e t) [units ''--header'', at_run_time b t e]"
proof -
  have q: "lex None (quoted_header e t @ s) = lex (Some (joined (pieces t e))) s" for s
    using lex_joined[OF pieces_nonempty, of None t e s]
    by (simp add: quoted_header_def boundary_variable_eq single_quoted_eq[abs_def])
  have space: "units ''--header '' = units ''--header'' @ [32]"
    using units_append[of "''--header''" "'' ''"] by (simp add: units_def)
  show ?thesis
    using stands_for_flag[OF plain_literals(5) q] unfolding space at_run_time_def expand_joined by simp
qed

text \<open>A quoted text that is put together.\<close>

lemma escape_quotes_append: "escape_quotes (x @ y) = escape_quotes x @ escape_quotes y"
  by (simp add: escape_quotes_def)

lemma escape_quotes_plain: "39 \<notin> set x \<Longrightarrow> escape_quotes x = x"
  by (induction x) (auto simp: escape_quotes_def)

lemma stands_for_pair:
  assumes "plain_word (units f)" "39 \<notin> set eq"
  shows "stands_for b (units f @ [32, 39] @ escape_quotes n @ eq @ escape_quotes v @ [39]) [units f, n @ eq @ v]"
  using stands_for_quoted[OF assms(1), of b "n @ eq @ v"] assms(2)
  by (simp add: flag_quoted_def single_quoted_def escape_quotes_append escape_quotes_plain)

section \<open>The parts of the sample\<close>

lemma flag_spaces:
  "units ''curl '' = units ''curl'' @ [32]" "units ''--request '' = units ''--request'' @ [32]"
  "units ''--data-urlencode '' = units ''--data-urlencode'' @ [32]" "units ''--form '' = units ''--form'' @ [32]"
  "units ''--form-string '' = units ''--form-string'' @ [32]"
  "units ''--data-binary @-'' = units ''--data-binary'' @ [32] @ units ''@-''"
  by (simp_all add: units_def)

lemma no_quote_literals: "39 \<notin> set (units ''='')" "39 \<notin> set (units ''=@'')"
  by (simp_all add: units_def)

lemma stands_for_address:
  assumes "i \<noteq> []" "take 1 i \<noteq> [126]"
  shows "stands_for b (units ''curl '' @ address_word i) [units ''curl'', i]"
proof -
  have "lex None (address_word i @ s) = lex (Some (map Unit i)) s" for s
  proof (cases "\<forall>u \<in> set i. plain_address_unit u")
    case True
    then have "plain_word i" using assms by (auto simp: plain_word_def plain_unit_def plain_address_unit_def)
    with True show ?thesis by (simp add: address_word_def plain_word_lex)
  next
    case False
    then have "address_word i = quoted i" by (simp only: address_word_def single_quoted_eq if_False)
    then show ?thesis by (simp add: quoted_lex)
  qed
  from stands_for_flag[OF plain_literals(1) this] show ?thesis by (simp add: flag_spaces)
qed

lemma stands_for_request: "plain_word m \<Longrightarrow> stands_for b (units ''--request '' @ m) [units ''--request'', m]"
  using stands_for_flag[OF plain_literals(3) plain_word_lex, of m b] by (simp add: flag_spaces)

lemma stands_for_headers: "list_all2 (stands_for b) (header_parts headers c) (header_arguments b headers c)"
proof -
  have "list_all2 (stands_for b) (map (\<lambda>h. units ''--header '' @ quoted_header (f h) (g h)) headers)
      (map (\<lambda>h. [units ''--header'', at_run_time b (g h) (f h)]) headers)" for f g
    by (simp add: list_all2_conv_all_nth stands_for_header)
  then show ?thesis
    unfolding header_parts_def header_arguments_def
    by (rule list_all2_appendI) (simp add: stands_for_word[OF plain_literals(6)] split: option.splits)
qed

lemma stands_for_auth: "list_all2 (stands_for b) (auth_parts auth) (auth_arguments auth)"
  by (simp add: auth_parts_def auth_arguments_def stands_for_quoted[OF plain_literals(4)] split: option.splits)

lemma stands_for_cookies: "rel_option (list_all2 (stands_for b)) (cookie_parts cookies) (cookie_arguments cookies)"
  by (simp add: cookie_parts_def cookie_arguments_def option.rel_map stands_for_quoted[OF plain_literals(7)]
      option.rel_refl_strong)

lemma those_rel: "list_all2 (rel_option R) xs ys \<Longrightarrow> rel_option (list_all2 R) (those xs) (those ys)"
proof (induction rule: list_all2_induct)
  case (Cons x xs y ys)
  then show ?case by (cases "those xs"; cases "those ys"; cases x; cases y) simp_all
qed simp

lemma stands_for_urlencoded: "rel_option (stands_for b) (urlencoded_part e) (urlencoded_arguments e)"
  using stands_for_pair[OF plain_literals(10) no_quote_literals(1), of b _ "text_of (Pm_value e)"]
  by (simp add: urlencoded_part_def urlencoded_arguments_def option.rel_map flag_spaces option.rel_refl_strong)

lemma stands_for_form: "stands_for b (form_part reformat e) (form_arguments reformat e)"
  using stands_for_pair[OF plain_literals(11) no_quote_literals(1), of b]
    stands_for_pair[OF plain_literals(11) no_quote_literals(2), of b]
    stands_for_pair[OF plain_literals(12) no_quote_literals(1), of b]
  by (simp add: form_part_def form_arguments_def Let_def flag_spaces split: option.splits)

lemma rel_option_if:
  "(c \<Longrightarrow> rel_option R x y) \<Longrightarrow> (\<not> c \<Longrightarrow> rel_option R x2 y2) \<Longrightarrow>
     rel_option R (if c then x else x2) (if c then y else y2)"
  by simp

lemma stands_for_body:
  "rel_option (list_all2 (stands_for b)) (body_parts reformat streamed post) (body_arguments reformat streamed post)"
proof -
  have stdin: "stands_for b (units ''--data-binary @-'') [units ''--data-binary'', units ''@-'']"
    using stands_for_flag[OF plain_literals(9) plain_word_lex[OF plain_literals(13)], of b] by (simp add: flag_spaces)
  have "rel_option (list_all2 (stands_for b)) (those (map urlencoded_part ps)) (those (map urlencoded_arguments ps))" for ps
    by (rule those_rel) (simp add: list_all2_conv_all_nth stands_for_urlencoded)
  moreover have "list_all2 (stands_for b) (map (form_part reformat) ps) (map (form_arguments reformat) ps)" for ps
    by (simp add: list_all2_conv_all_nth stands_for_form)
  ultimately show ?thesis
    unfolding body_parts_def body_arguments_def Let_def
    by (intro rel_option_if) (simp_all add: stdin stands_for_quoted plain_literals)
qed

lemma stands_for_data: "rel_option (list_all2 (stands_for b)) (data_parts reformat req s) (data_arguments reformat req s)"
  by (simp add: data_parts_def data_arguments_def stands_for_body split: option.splits)

section \<open>The body\<close>

lemma printf_b_escape: "printf_b (escape_printf x) = Some x"
proof (induction x)
  case Nil
  show ?case by (simp add: escape_printf_def)
next
  case (Cons c x)
  consider "c = 92" | "c < 32" "c \<noteq> 92" | "32 \<le> c" "c \<noteq> 92" by linarith
  then show ?case
  proof cases
    case 2
    have "c div 64 = 0" "c div 8 \<le> 7" "c mod 8 \<le> 7" using 2 by (auto simp: less_Suc_eq_le[symmetric])
    moreover have "c div 8 mod 8 = c div 8" using 2 by simp
    moreover have "c div 8 * 8 + c mod 8 = c" by simp
    ultimately show ?thesis
      using Cons 2 by (simp add: escape_printf_def octal3_def octal_digit_def)
  qed (use Cons in \<open>simp_all add: escape_printf_def\<close>)
qed

text \<open>A line of the group, which reads as three words.\<close>

definition command_line :: "units \<Rightarrow> units \<Rightarrow> units \<Rightarrow> units" where
  "command_line f a q = [32, 32] @ f @ [32] @ a @ [32] @ q"

definition line_tokens :: "units \<Rightarrow> units \<Rightarrow> piece list \<Rightarrow> shell_token list" where
  "line_tokens f a v = [Word (map Unit f), Word (map Unit a), Word v, Newline]"

lemma lex_blank: "lex None (32 # s) = lex None s"
  by (cases "lex None s") (simp_all add: lex_space)

lemma lex_line:
  assumes "plain_word f" "\<And>s. lex None (a @ s) = lex (Some (map Unit x)) s" "\<And>s. lex None (q @ s) = lex (Some v) s"
  shows "lex None (command_line f a q @ 10 # s) = map_option ((@) (line_tokens f x v)) (lex None s)"
proof -
  have e: "emit (Some y) = (#) (Word y)" for y by (rule ext) simp
  show ?thesis
    by (cases "lex None s")
      (simp_all add: command_line_def line_tokens_def lex_blank plain_word_lex[OF assms(1)] lex_space lex_newline assms(2,3) e)
qed

lemma run_line:
  "run_command contents [f, a, expand b v] = Some out \<Longrightarrow>
     run_lines contents b (line_tokens f a v @ ts) = writes out (run_lines contents b ts)"
  by (simp add: line_tokens_def run_lines.simps[of contents b "Word _ # _"])

lemma printf_cat_literals:
  "units ''  printf '' = [32, 32] @ units ''printf'' @ [32]" "units ''  cat -- '' = [32, 32] @ units ''cat'' @ [32] @ units ''--'' @ [32]"
  by (simp_all add: units_def)

definition text_line :: "units \<Rightarrow> units" where
  "text_line e = command_line (units ''printf'') (quoted (units ''%b'')) (quoted (escape_printf e))"

definition boundary_line :: units where
  "boundary_line = command_line (units ''printf'') (quoted (units ''%s'')) boundary_reference"

lemma body_command_text:
  "body_command t (Body_text x) = join_units ([10] @ boundary_line @ [10]) (map text_line (pieces t x))"
  by (simp add: body_command_def boundary_line_def text_line_def[abs_def] command_line_def printf_cat_literals
      single_quoted_eq boundary_variable_eq)

lemma body_command_file:
  "body_command t (Body_file f) = command_line (units ''cat'') (units ''--'') (quoted f)"
  by (simp add: body_command_def command_line_def printf_cat_literals single_quoted_eq)

fun text_tokens :: "units list \<Rightarrow> shell_token list" where
  "text_tokens [] = []"
| "text_tokens [x] = line_tokens (units ''printf'') (units ''%b'') (map Unit (escape_printf x))"
| "text_tokens (x # y # ys) =
     line_tokens (units ''printf'') (units ''%b'') (map Unit (escape_printf x)) @
     line_tokens (units ''printf'') (units ''%s'') [Boundary] @ text_tokens (y # ys)"

lemma lex_text_line:
  "lex None (text_line x @ 10 # s) =
     map_option ((@) (line_tokens (units ''printf'') (units ''%b'') (map Unit (escape_printf x)))) (lex None s)"
  unfolding text_line_def by (rule lex_line) (simp_all add: plain_literals quoted_lex)

lemma lex_boundary_line:
  "lex None (boundary_line @ 10 # s) =
     map_option ((@) (line_tokens (units ''printf'') (units ''%s'') [Boundary])) (lex None s)"
  unfolding boundary_line_def by (rule lex_line) (simp_all add: plain_literals quoted_lex lex_boundary)

lemma lex_text_lines:
  "xs \<noteq> [] \<Longrightarrow> lex None (join_units ([10] @ boundary_line @ [10]) (map text_line xs) @ 10 # s) =
     map_option ((@) (text_tokens xs)) (lex None s)"
proof (induction xs rule: text_tokens.induct)
  case (3 x y ys)
  then show ?case
    by (cases "lex None s") (simp_all add: lex_text_line lex_boundary_line)
qed (simp_all add: lex_text_line)

lemma run_printf:
  "run_command contents [units ''printf'', units ''%b'', escape_printf x] = Some x"
  "run_command contents [units ''printf'', units ''%s'', x] = Some x"
  "run_command contents [units ''cat'', units ''--'', f] = Some (contents f)"
  by (simp_all add: run_command_def printf_b_escape units_def)

lemma run_text_tokens:
  "xs \<noteq> [] \<Longrightarrow>
     run_lines contents b (text_tokens xs @ ts) = writes (join_units b xs) (run_lines contents b ts)"
proof (induction xs rule: text_tokens.induct)
  case (3 x y ys)
  then show ?case
    using run_line[of contents "units ''printf''" "units ''%b''" b "map Unit (escape_printf x)" x]
      run_line[of contents "units ''printf''" "units ''%s''" b "[Boundary]" b]
    by (simp add: run_printf)
qed (use run_line[of contents "units ''printf''" "units ''%b''" b "map Unit (escape_printf _)" _] in
      \<open>simp_all add: run_printf\<close>)

definition part_tokens :: "units option \<Rightarrow> body_part \<Rightarrow> shell_token list" where
  "part_tokens c p =
     (case p of
        Body_text x \<Rightarrow> text_tokens (pieces c x)
      | Body_file f \<Rightarrow> line_tokens (units ''cat'') (units ''--'') (map Unit f))"

lemma lex_part: "lex None (body_command c p @ 10 # s) = map_option ((@) (part_tokens c p)) (lex None s)"
proof (cases p)
  case (Body_text x)
  then show ?thesis
    using lex_text_lines[OF pieces_nonempty] by (simp add: part_tokens_def body_command_text)
next
  case (Body_file f)
  have "lex None (units ''--'' @ s) = lex (Some (map Unit (units ''--''))) s" for s
    by (rule plain_word_lex) (rule plain_literals)
  from lex_line[OF plain_literals(15) this quoted_lex] Body_file show ?thesis
    by (simp add: part_tokens_def body_command_file)
qed

lemma run_part:
  "run_lines contents b (part_tokens c p @ ts) = writes (part_output contents b c p) (run_lines contents b ts)"
  using run_text_tokens[OF pieces_nonempty] run_line[of contents "units ''cat''" "units ''--''" b]
  by (cases p) (simp_all add: part_tokens_def part_output_def at_run_time_def run_printf)

lemma join_lines: "join_units [10] (xs @ [y]) = concat (map (\<lambda>x. x @ [10]) xs) @ y"
proof (induction xs)
  case (Cons x xs)
  then show ?case by (cases "xs @ [y]") auto
qed simp

lemma lex_parts:
  "lex None (concat (map (\<lambda>x. x @ [10]) (map (body_command c) body)) @ s) =
     map_option ((@) (concat (map (part_tokens c) body))) (lex None s)"
proof (induction body arbitrary: s)
  case (Cons p body)
  then show ?case by (cases "lex None s") (simp_all add: lex_part)
qed (simp add: append_Nil_map)

lemma run_parts:
  "run_lines contents b (concat (map (part_tokens c) body) @ ts) =
     writes (concat (map (part_output contents b c) body)) (run_lines contents b ts)"
proof (induction body)
  case Nil
  show ?case by (cases "run_lines contents b ts") auto
next
  case (Cons p body)
  then show ?case by (simp add: run_part)
qed

lemma lex_group:
  "lex None (body_group body c @ units '' | '' @ u) =
     map_option (\<lambda>ts. [Word [Unit 123], Newline] @ concat (map (part_tokens c) body) @ [Word [Unit 125], Pipe] @ ts) (lex None u)"
proof -
  have brace: "units ''{'' = [123]" "units ''}'' = [125]" "units '' | '' = [32, 124, 32]" by (simp_all add: units_def)
  have plain: "plain_unit 123" "plain_unit 125" by (simp_all add: plain_unit_def)
  have "body_group body c = [123, 10] @ concat (map (\<lambda>x. x @ [10]) (map (body_command c) body)) @ [125]"
    using join_lines[of "[units ''{''] @ map (body_command c) body" "units ''}''"] by (simp add: body_group_def brace)
  moreover have "lex None (123 # 10 # s) = map_option (\<lambda>ts. Word [Unit 123] # Newline # ts) (lex None s)" for s
    using plain by (simp add: lex.simps(2))
  moreover have "lex None (125 # 32 # 124 # 32 # s) = map_option (\<lambda>ts. Word [Unit 125] # Pipe # ts) (lex None s)" for s
    using plain by (cases "lex None s") (simp_all add: lex.simps(2))
  ultimately show ?thesis
    using lex_parts[of c body "125 # 32 # 124 # 32 # u"] by (cases "lex None u") (simp_all add: brace)
qed

lemma command_words_all: "command_words b (map Word vs) = (map (expand b) vs, [])"
  by (induction vs) auto

lemma run_tokens_group:
  "run_tokens contents b
     ([Word [Unit 123], Newline] @ concat (map (part_tokens c) body) @ [Word [Unit 125], Pipe] @ map Word vs) =
   Some (Some (concat (map (part_output contents b c) body)), map (expand b) vs)"
proof -
  have "run_lines contents b (Word [Unit 125] # Pipe # map Word vs) = Some ([], Pipe # map Word vs)"
    by (simp add: run_lines.simps[of contents b "Word _ # _"] units_def)
  then show ?thesis by (simp add: run_tokens_def run_parts command_words_all)
qed

lemma run_tokens_plain: "run_tokens contents b (map Word vs) = Some (None, map (expand b) vs)"
proof -
  have "take 2 (map Word vs) \<noteq> [Word [Unit 123], Newline]" by (cases vs; cases "tl vs") auto
  then show ?thesis by (simp add: run_tokens_def command_words_all)
qed

section \<open>The sample runs\<close>

lemma starts_with_Cons: "starts_with (x # p) (y # s) \<Longrightarrow> x = y"
  by (simp add: starts_with_def)

lemma boundary_assignment_first: "\<exists>t. boundary_assignment = 98 # t"
  by (simp add: boundary_assignment_def units_def)

lemma join_units_first: "\<exists>t. join_units sep (x # xs) = x @ t"
  by (cases xs) auto

lemma not_assignment: "c \<noteq> 98 \<Longrightarrow> \<not> starts_with boundary_assignment (c # s)"
  using boundary_assignment_first by (metis starts_with_Cons)

lemma starts_with_append: "starts_with p (p @ s)"
  by (simp add: starts_with_def)


text \<open>A quote in the address, a blank in the query, a quote in a header and in the body.\<close>

definition example_request :: har_request where
  "example_request =
     \<lparr>Req_method = Some (units ''put''), Req_url = Some (units ''x'' @ [39]),
      Req_query = Some [\<lparr>H_name = units ''q'', H_value = units ''a b''\<rparr>],
      Req_headers = Some [\<lparr>H_name = units ''X'', H_value = [39]\<rparr>], Req_cookies = None,
      Req_postData = Some \<lparr>Post_mimeType = Some (units ''text/plain''), Post_text = Some [39, 92, 39], Post_params = None\<rparr>\<rparr>"

definition example_words :: "units list" where
  "example_words = [units ''curl'', units ''x'' @ [39] @ units ''?q=a%20b'', units ''--request'', units ''PUT'',
     units ''--header'', units ''X: '' @ [39], units ''--data'', [39, 92, 39]]"


section \<open>The boundary\<close>

lemma free_boundary_free: "\<not> js_includes t (free_boundary t n)"
proof (induction t n rule: free_boundary.induct)
  case (1 t n)
  then show ?case by (subst free_boundary.simps) simp
qed

lemma split_on_absent: "\<not> js_includes s sep \<Longrightarrow> split_on sep acc s = [acc @ s]"
proof (induction s arbitrary: acc)
  case Nil
  show ?case by (simp add: split_on.simps)
next
  case (Cons c s)
  then show ?case by (subst split_on.simps) auto
qed

text \<open>
  A text that the parameters hold is not changed at run time: the boundary was chosen so that it does not
  occur in them, when \<open>stringify\<close> keeps what needs no escape.
\<close>

lemma form_text_unchanged:
  assumes "js_includes x (multipart_boundary stringify ps) \<Longrightarrow> js_includes (stringify ps) (multipart_boundary stringify ps)"
  shows "at_run_time b (Some (multipart_boundary stringify ps)) x = x"
proof -
  have "\<not> js_includes x (multipart_boundary stringify ps)"
    using assms free_boundary_free by (auto simp: multipart_boundary_def)
  then show ?thesis by (simp add: at_run_time_def pieces_def split_string_def split_on_absent)
qed

section \<open>The method\<close>

text \<open>A method is not quoted: one that the shell reads as more than a word leaves the sample unread.\<close>

lemma method_not_quoted:
  "\<exists>script. generate_curl (\<lambda>_. None) (\<lambda>_. [])
      (example_request\<lparr>Req_method := Some (units ''a;b''), Req_postData := None\<rparr>) None = Some script \<and>
     lex None script = None"
proof -
  have "case generate_curl (\<lambda>_. None) (\<lambda>_. [])
      (example_request\<lparr>Req_method := Some (units ''a;b''), Req_postData := None\<rparr>) None of
        None \<Rightarrow> False | Some s \<Rightarrow> lex None s = None"
    by code_simp
  then show ?thesis by (auto split: option.splits)
qed

end
