(* ===== verification/Collectors.thy ===== *)
theory Collectors
  imports Metrics Go_Number
begin

text \<open>
  The registry of Prometheus metrics that \<open>run\<close> of \<open>internal/app/app.go\<close> fills, with the definitions of
  \<open>internal/observability/metrics.go\<close>: the three request metrics and the collector of the pool's state.
  A collector stands for what it describes.  The registry is an argument of the definitions, as are the
  collectors of the Go runtime and of the process; \<open>MustRegister\<close> panics when the registry refuses, which
  is \<open>None\<close> here.
\<close>

section \<open>Descriptions\<close>

record metric_desc =
  Desc_name :: string
  Desc_help :: string
  Desc_labels :: "string list"

definition metricNamespace :: string where "metricNamespace = ''open_discogs''"

definition metricSubsystem :: string where "metricSubsystem = ''http''"

text \<open>\<open>BuildFQName\<close>; no part is empty here.\<close>

definition http_metric :: "string \<Rightarrow> string \<Rightarrow> string list \<Rightarrow> metric_desc" where
  "http_metric name help labels =
     \<lparr>Desc_name = join_with ''_'' [metricNamespace, metricSubsystem, name], Desc_help = help, Desc_labels = labels\<rparr>"

definition request_metrics :: "metric_desc list" where
  "request_metrics =
     [http_metric ''requests_total'' ''Completed HTTP requests.'' [''route'', ''method'', ''status''],
      http_metric ''request_duration_seconds'' ''HTTP request duration.'' [''route'', ''method'', ''status''],
      http_metric ''in_flight_requests'' ''Current HTTP requests.'' [''route'']]"

definition duration_buckets :: "rat list" where
  "duration_buckets = map round64 [1 / 1000, 1 / 400, 1 / 200, 1 / 100, 1 / 40, 1 / 20, 1 / 10, 1 / 4, 1 / 2, 1, 5 / 2, 5, 10]"

section \<open>The pool\<close>

record pool_stat =
  AcquiredConns :: int
  IdleConns :: int
  MaxConns :: int
  NewConnsCount :: int

record PoolCollector =
  PoC_acquired :: metric_desc
  PoC_idle :: metric_desc
  PoC_max :: metric_desc
  PoC_constructs :: metric_desc

definition plain_desc :: "string \<Rightarrow> string \<Rightarrow> metric_desc" where
  "plain_desc name help = \<lparr>Desc_name = name, Desc_help = help, Desc_labels = []\<rparr>"

definition NewPoolCollector :: PoolCollector where
  "NewPoolCollector =
     \<lparr>PoC_acquired = plain_desc ''open_discogs_database_acquired_connections'' ''Acquired PostgreSQL connections.'',
      PoC_idle = plain_desc ''open_discogs_database_idle_connections'' ''Idle PostgreSQL connections.'',
      PoC_max = plain_desc ''open_discogs_database_max_connections'' ''Configured PostgreSQL connection limit.'',
      PoC_constructs = plain_desc ''open_discogs_database_new_connections_total''
        ''PostgreSQL connections constructed by the pool.''\<rparr>"

definition Describe :: "PoolCollector \<Rightarrow> metric_desc list" where
  "Describe c = [PoC_acquired c, PoC_idle c, PoC_max c, PoC_constructs c]"

datatype value_type = GaugeValue | CounterValue

record const_metric =
  CM_desc :: metric_desc
  CM_type :: value_type
  CM_value :: rat

definition const_metric_of :: "metric_desc \<Rightarrow> value_type \<Rightarrow> int \<Rightarrow> const_metric" where
  "const_metric_of d t v = \<lparr>CM_desc = d, CM_type = t, CM_value = round64 (of_int v)\<rparr>"

definition Collect :: "PoolCollector \<Rightarrow> pool_stat \<Rightarrow> const_metric list" where
  "Collect c stat =
     [const_metric_of (PoC_acquired c) GaugeValue (AcquiredConns stat),
      const_metric_of (PoC_idle c) GaugeValue (IdleConns stat),
      const_metric_of (PoC_max c) GaugeValue (MaxConns stat),
      const_metric_of (PoC_constructs c) CounterValue (NewConnsCount stat)]"

section \<open>The registry\<close>

text \<open>
  The registry is the library's: \<open>register\<close> adds what a collector describes to the descriptions held, or
  gives \<open>None\<close> for an error.
\<close>

type_synonym registering = "metric_desc list \<Rightarrow> metric_desc list \<Rightarrow> metric_desc list option"

fun MustRegister :: "registering \<Rightarrow> metric_desc list \<Rightarrow> metric_desc list list \<Rightarrow> metric_desc list option" where
  "MustRegister register registry [] = Some registry"
| "MustRegister register registry (c # cs) = Option.bind (register registry c) (\<lambda>r. MustRegister register r cs)"

definition NewMetrics_registered :: "registering \<Rightarrow> metric_desc list \<Rightarrow> bool \<Rightarrow> metric_desc list option" where
  "NewMetrics_registered register registry enabled =
     (if \<not> enabled then Some registry else MustRegister register registry (map (\<lambda>d. [d]) request_metrics))"

definition run_registry ::
  "registering \<Rightarrow> metric_desc list \<Rightarrow> metric_desc list \<Rightarrow> bool \<Rightarrow> metric_desc list option" where
  "run_registry register goCollector processCollector enabled =
     Option.bind
       (if enabled then MustRegister register [] [goCollector, processCollector, Describe NewPoolCollector] else Some [])
       (\<lambda>registry. NewMetrics_registered register registry enabled)"

section \<open>What the registry holds\<close>

definition own_metrics :: "metric_desc list" where
  "own_metrics = Describe NewPoolCollector @ request_metrics"

text \<open>
  What the library documents: names and labels are words over \<open>[a-z_]\<close> (the library takes more), the
  labels of a metric differ, and metrics of different names can be registered together.
\<close>

definition name_char :: "char \<Rightarrow> bool" where
  "name_char c \<longleftrightarrow> c = CHR ''_'' \<or> 97 \<le> byte c \<and> byte c \<le> 122"

definition valid_desc :: "metric_desc \<Rightarrow> bool" where
  "valid_desc d \<longleftrightarrow>
     Desc_name d \<noteq> [] \<and> list_all name_char (Desc_name d) \<and> distinct (Desc_labels d) \<and>
     list_all (\<lambda>l. l \<noteq> [] \<and> list_all name_char l) (Desc_labels d)"

definition registers_fresh :: "registering \<Rightarrow> bool" where
  "registers_fresh register \<longleftrightarrow>
     (\<forall>registry descs. list_all valid_desc descs \<longrightarrow> distinct (map Desc_name (registry @ descs)) \<longrightarrow>
        register registry descs = Some (registry @ descs))"

lemma own_metrics_valid: "list_all valid_desc own_metrics" "distinct (map Desc_name own_metrics)"
  "list_all (\<lambda>d. take 13 (Desc_name d) = ''open_discogs_'') own_metrics"
  by code_simp+

lemma registers_freshD:
  "registers_fresh register \<Longrightarrow> list_all valid_desc descs \<Longrightarrow> distinct (map Desc_name (registry @ descs)) \<Longrightarrow>
     register registry descs = Some (registry @ descs)"
  by (simp add: registers_fresh_def)

lemma MustRegister_fresh:
  assumes "registers_fresh register"
  shows "list_all valid_desc (concat cs) \<Longrightarrow> distinct (map Desc_name (registry @ concat cs)) \<Longrightarrow>
     MustRegister register registry cs = Some (registry @ concat cs)"
proof (induction cs arbitrary: registry)
  case (Cons c cs)
  have "distinct (map Desc_name ((registry @ c) @ concat cs))" using Cons.prems(2) by simp
  then have "distinct (map Desc_name (registry @ c))" unfolding map_append distinct_append by blast
  then have "register registry c = Some (registry @ c)" using Cons.prems(1) by (intro registers_freshD[OF assms]) auto
  then show ?case using Cons.IH[of "registry @ c"] Cons.prems by simp
qed simp

text \<open>
  Start-up does not panic: the program's own names are valid, differ from each other, and have a prefix
  that the runtime's collectors do not use. Without metrics the registry stays empty.
\<close>

lemma run_registry_total:
  assumes "registers_fresh register" "list_all valid_desc (go @ process)" "distinct (map Desc_name (go @ process))"
    and "\<forall>d \<in> set (go @ process). take 13 (Desc_name d) \<noteq> ''open_discogs_''"
  shows "run_registry register go process enabled = Some (if enabled then (go @ process) @ own_metrics else [])"
proof -
  let ?pool = "[go, process, Describe NewPoolCollector]" and ?held = "(go @ process) @ Describe NewPoolCollector"
  have apart: "Desc_name d \<noteq> Desc_name e" if "d \<in> set (go @ process)" "e \<in> set own_metrics" for d e
  proof
    assume "Desc_name d = Desc_name e"
    moreover have "take 13 (Desc_name d) \<noteq> ''open_discogs_''" using assms(4) that(1) by (rule bspec)
    moreover have "take 13 (Desc_name e) = ''open_discogs_''"
      using own_metrics_valid(3) that(2) unfolding list_all_iff by (rule bspec)
    ultimately show False by (simp only: simp_thms)
  qed
  then have names: "distinct (map Desc_name ((go @ process) @ own_metrics))"
    unfolding map_append[of _ "go @ process"] distinct_append
    using assms(3) own_metrics_valid(2) by fastforce
  have all_names: "distinct (map Desc_name (?held @ request_metrics))"
    using names unfolding own_metrics_def append_assoc .
  then have held_names: "distinct (map Desc_name ?held)"
    unfolding map_append[of _ ?held] distinct_append by (rule conjunct1)
  have valid: "list_all valid_desc (Describe NewPoolCollector)" "list_all valid_desc request_metrics"
    using own_metrics_valid(1) by (auto simp: own_metrics_def)
  have "MustRegister register [] ?pool = Some ?held"
    using MustRegister_fresh[OF assms(1), of ?pool "[]"] assms(2) valid(1) held_names by simp
  moreover have "MustRegister register ?held (map (\<lambda>d. [d]) request_metrics) = Some (?held @ request_metrics)"
    using MustRegister_fresh[OF assms(1), of "map (\<lambda>d. [d]) request_metrics" ?held] valid(2) all_names
    by (simp only: concat_map_singleton list.map_ident)
  ultimately show ?thesis
    by (cases enabled)
      (simp_all only: run_registry_def NewMetrics_registered_def own_metrics_def if_True if_False not_True_eq_False
        not_False_eq_True bind.simps append_assoc)
qed

text \<open>A registry of the documented kind: it refuses a name it has already.\<close>

definition list_registry :: registering where
  "list_registry registry descs =
     (if list_all valid_desc descs \<and> distinct (map Desc_name (registry @ descs)) then Some (registry @ descs) else None)"

lemma list_registry_fresh: "registers_fresh list_registry"
  by (simp add: registers_fresh_def list_registry_def)

lemma run_registry_example:
  "run_registry list_registry [plain_desc ''go_goroutines'' ''''] [plain_desc ''process_open_fds'' ''''] True =
     Some ([plain_desc ''go_goroutines'' '''', plain_desc ''process_open_fds'' ''''] @ own_metrics)"
  using run_registry_total[OF list_registry_fresh, of "[plain_desc ''go_goroutines'' '''']"
      "[plain_desc ''process_open_fds'' '''']" True]
  by (simp add: plain_desc_def valid_desc_def name_char_def byte_def)

text \<open>What is collected is what was described, in the same order, and the buckets ascend.\<close>

lemma Collect_described: "map CM_desc (Collect c stat) = Describe c"
  by (simp add: Collect_def Describe_def const_metric_of_def)

lemma duration_buckets_ascend: "sorted_wrt (<) duration_buckets"
  by code_simp

end
