(* ===== verification/Spec2Isabelle.thy ===== *)
theory Spec2Isabelle
  imports Store_Properties Theme_Claims Api_Requests Page_Policy Lifecycle_Properties Event_Stream_Properties Curl_Properties Collectors
begin

text \<open>
  Verification of go-open-discogs-api, a read-only HTTP API over a PostgreSQL copy of the Discogs
  catalog, with the API reference it serves.

  The program.  A request enters \<open>Router.Handler\<close> (\<open>internal/httpapi/router.go\<close>), which sets the
  security headers, dispatches on method and path, counts the request and recovers panics.  A handler
  parses the query (\<open>pagination.go\<close>, \<open>request.go\<close>, \<open>release_lookup.go\<close>), calls the read port
  \<open>catalog.Repository\<close> once and writes JSON or a problem document through the responder
  (\<open>responder.go\<close>).  The port is implemented by \<open>internal/postgres\<close>: searches, lookups, related
  releases, details, snapshot, each one SQL statement and the scanning of its rows.  The reference
  page runs \<open>docs/reference.js\<close> against the bundle \<open>docs/scalar-1.75.0.js\<close>, whose own multi-line
  source is the theming of the page (web fonts, thirteen theme style sheets and their composition) and
  the two readers of an object of the validation library the page checks its configuration with; also
  in it, the parser of streamed answers (server-sent events) and the code samples, here that for \<open>curl\<close>.

  Around the API stands the process.  \<open>main.go\<close> calls \<open>config.Load\<close>, which
  merges default values, environment and flags and checks the result, then \<open>app.Run\<close>, which
  sets up tracing, opens the pool and runs the API server beside the management server
  (\<open>internal/management\<close>: liveness, readiness, metrics) until a signal, a failure or
  the deadline of the shutdown; it closes in the opposite order what it opened and reports an exit
  status.  \<open>internal/healthcheck\<close> is the probe of the container and asks the management server.

  The theories, in the order of the code:
    \<^item> \<open>Go_Prelude\<close>, \<open>Go_Text\<close>, \<open>Go_Strconv\<close>, \<open>Go_Base64\<close>: the Go values and the parts of its standard
      library the program uses (errors, slices, wrap-around, UTF-8, \<open>TrimSpace\<close>, \<open>strconv\<close>, base64);
    \<^item> \<open>Catalog\<close>: \<open>internal/catalog/catalog.go\<close>, the resource records and the page arithmetic;
    \<^item> \<open>Pagination\<close>, \<open>Request_Filters\<close>: the parsers of queries and path identifiers, with the bounds of
      what they accept and the round trip of cursors;
    \<^item> \<open>Json\<close>, \<open>Payloads\<close>: encoding without HTML escaping and the JSON form of every payload;
    \<^item> \<open>Responder\<close>, \<open>Responses\<close>: \<open>writeJSON\<close>, problem documents, assets, the pool of buffers, and what a
      reply looks like on the wire;
    \<^item> \<open>Handlers\<close>, \<open>Metrics\<close>, \<open>Router\<close>: the handlers, the metrics under interleaved requests, the route
      table and the instrumentation;
    \<^item> \<open>Collectors\<close>: what \<open>NewMetrics\<close>, the collector of the pool and \<open>run\<close> put into the registry, and
      that filling it does not panic;
    \<^item> \<open>Serving\<close>: the contract between the router and a handler (locale \<open>served_handler\<close>), provided by
      every handler of the route table; \<open>Api_Properties\<close>, \<open>Api_Requests\<close>: the theorems on responses,
      errors, panics, accepted requests and metrics, and requests followed down to the tables;
    \<^item> \<open>Sql\<close>, \<open>Database\<close>: three-valued logic, \<open>LIKE\<close>, \<open>ORDER BY\<close>, dates, and the tables of the importer
      with the constraints of their schema (\<open>wf_database\<close>);
    \<^item> \<open>Keyset\<close>, \<open>Client\<close>: keyset pagination as an interface (locales \<open>keyed_rows\<close>, \<open>id_pages\<close>,
      \<open>hash_pages\<close>) and the client that follows the cursors until they end;
    \<^item> \<open>Store\<close>, \<open>Search\<close>, \<open>Lookups\<close>, \<open>Related\<close>, \<open>Details\<close>, \<open>Snapshots\<close>: \<open>internal/postgres\<close>, every
      statement as a function on the tables; each listing interprets the pagination interface;
    \<^item> \<open>Example_Catalog\<close>: a small catalog for the witnesses; \<open>Store_Properties\<close>: the theorems;
    \<^item> \<open>Go_Number\<close>, \<open>Go_Flag\<close>: numbers, booleans and durations as \<open>strconv\<close> and \<open>time\<close> read them, and
      the parser of command-line flags;
    \<^item> \<open>Config\<close>, \<open>Config_Settings\<close>, \<open>Database_Url\<close>: \<open>internal/config\<close>, the merge of its layers and every
      check of \<open>validate\<close>; the table of the settings it documents; the URL of the database, written by
      the code and read by the driver; \<open>Config_Properties\<close>: the theorems;
    \<^item> \<open>Management\<close>, \<open>Telemetry\<close>: the management server with the probe that asks it, and the set-up
      and the shutdown of tracing;
    \<^item> \<open>Serve_Loop\<close>: \<open>serve\<close> of \<open>internal/app/app.go\<close> as a step relation over the servers' goroutines, the
      signal, the channel of errors and the two clocks of the shutdown; the locale \<open>bounded_system\<close> is
      the contract by which a step relation ends;
    \<^item> \<open>Lifecycle\<close>: \<open>databaseConfig\<close>, \<open>app.Run\<close> and \<open>main\<close>; \<open>Example_Process\<close>: a process for the witnesses;
      \<open>Lifecycle_Properties\<close>: the theorems;
    \<^item> \<open>Css\<close>, \<open>Css_Cascade\<close>, \<open>Css_Colours\<close>: the part of CSS the sheets use, with selector matching, the
      cascade, inheritance and the substitution of \<open>var()\<close>; the locale \<open>ranked_sheet\<close> is the contract
      under which substitution has no cycle;
    \<^item> \<open>Scalar_Fonts\<close>, \<open>Scalar_Themes_1\<close>, \<open>Scalar_Themes_2\<close>, \<open>Scalar_Themes_3\<close>: the sheets as embedded in
      the bundle, rule by rule; \<open>Scalar_Theming\<close>: the presets, \<open>Jun\<close>, the theme picker, the text of the
      \<open>style\<close> element, the configuration of \<open>reference.js\<close>; \<open>Theme_Properties\<close> and \<open>Theme_Claims\<close>: the
      theorems;
    \<^item> \<open>Zod_Object\<close>, \<open>Zod_Properties\<close>: the schema of an object in the bundle, once as the interpreter and
      once as the code it generates, and how the two relate; \<open>Page_Policy\<close>: the content security policy
      of the page as a browser reads it, which decides which of the two runs;
    \<^item> \<open>Chunked_Text\<close>: the contract of a scanner that may stop and go on (locale \<open>chunked_scanner\<close>);
      \<open>Event_Stream\<close>: the parser of server-sent events in the bundle, by index as the code has it, and a
      plain definition line by line; \<open>Event_Stream_Lines\<close>, \<open>Event_Stream_Properties\<close>: that the two agree,
      for any cutting of the text into chunks, and the bound of what is kept;
    \<^item> \<open>Js_Text\<close>: JavaScript strings by code unit and the operations on them that the bundle uses;
      \<open>Curl_Sample\<close>: the \<open>curl\<close> command shown for a request, with its quoting and its multipart body;
      \<open>Shell_Reading\<close>: what a shell makes of a script of plain commands; \<open>Curl_Properties\<close>: the theorem.

  What the theorems show.  Every response has one status line and the security headers, an error or a
  panic becomes the problem document of its class, and the answer of the release route is stated on
  the tables of the database.  A client that follows the cursors of any listing receives every matching
  row exactly once, in order, and the walk ends (the number of pages is the fuel of \<open>follow\<close>, one more
  than the number of rows is enough and proved so); which rows match is stated on the tables without
  the SQL.  Theorems about failures name the input on which the code fails.  For the themes: which
  entries of the palette a page has in every browser, the absence of reference cycles, the colours'
  form, the composition of theme, fonts and layer, and the containment of the text of the \<open>style\<close>
  element.

  For the process: an accepted configuration satisfies every limit the code states, each setting comes
  from the highest layer that gives it, and the URL assembled from the database settings is read back
  as those settings, special characters included.  Every run of \<open>serve\<close> ends, within five steps and
  seven for each server; a run that cannot go on has returned, with every goroutine finished and every
  listener closed, and without an error only when its context had ended.  Whatever happens in \<open>app.Run\<close>, what it
  opened is closed once; the servers run only under a validated configuration; the exit status is 0 after
  a signal and a clean shutdown; the probe exits with 0 exactly when a management server answers at its
  address and the database can be reached.

  For streamed answers: the calls of the event stream parser are those of reading the whole text line by
  line, however it was cut, all of them once a line break has arrived; what it keeps is bounded; and the
  case in which it withholds a complete event is exhibited.  For code samples: a shell reads the \<open>curl\<close>
  sample as one command with the arguments the request asks for, whatever its texts hold.

  The theorems of this file span the router and the reference page: what the page loads is served, and
  the policy it is served with keeps the validation library on its interpreter.

  Bounds.  Integers of the code are \<open>int\<close> with \<open>wrap64\<close> and \<open>wrap32\<close> where they can overflow.  The colour
  grammar reads \<open>color-mix()\<close> up to three levels deep, the sheets nest it once.  Loops are structural
  or have a measure; \<open>subst\<close> removes the property it expands from its list, so it ends on any sheet.
  The recursion of the schemas is on the schema.  \<open>serve\<close> has no fuel: it is a relation, with a measure
  that every step decreases.

  Assumptions.  A database satisfies \<open>wf_database\<close>, the constraints the importer's schema declares; a
  query answers the rows of one state of the database or fails with an error, which the pool carries;
  collation, \<open>lower\<close> and \<open>md5\<close> are parameters.  The engine's answers to feature and media queries are a
  parameter of the theme theorems.  \<open>url.Parse\<close> and the resolution of an address are the parameter
  \<open>Platform\<close> of the configuration; the pool's constructor, the catalogs, the outcome of \<open>serve\<close>, the
  Prometheus handler, the trace exporter and the HTTP client of the probe are fields of \<open>externals\<close>
  and arguments of the definitions that call them.  The code samples take \<open>JSON.stringify\<close> of a parsed
  text and of the form parameters as arguments.

  Not modelled: the registration with the tracing SDK and what it exports; the registry of Prometheus, an
  argument of \<open>Collectors\<close>, and the collectors of the runtime; the string of the build information; log records; the scripts; the other
  minified libraries and Vue components of the bundle, whose lines hold up to hundreds of kilobytes
  each, the generators of samples for other clients among them; the base style sheet of the bundle.
\<close>

section \<open>The reference page and its requests\<close>

lemmas route_evaluation =
  matching_routes_def route_table_def Let_def match_route_def route_defs segments_def List.map_filter_def

text \<open>
  C24. Everything the reference page loads is there: the page at \<open>/docs\<close>, with and without a slash at
  the end, the two scripts it names, and the OpenAPI document at the URL that \<open>reference.js\<close> configures,
  each with status 200 and the embedded file as its body.
\<close>

theorem reference_page_served:
  "reply_of (fst (serve rt elapsed (get ''/docs'' query) False srv)) = Some (200, documentationHTML (R_files rt)) \<and>
   reply_of (fst (serve rt elapsed (get ''/docs/'' query) False srv)) = Some (200, documentationHTML (R_files rt)) \<and>
   reply_of (fst (serve rt elapsed (get ''/docs/reference.js'' query) False srv)) =
     Some (200, documentationScript (R_files rt)) \<and>
   reply_of (fst (serve rt elapsed (get ''/docs/scalar-1.75.0.js'' query) False srv)) =
     Some (200, scalarScript (R_files rt)) \<and>
   reply_of (fst (serve rt elapsed (get (url (reference_config origin)) query) False srv)) =
     Some (200, openAPIDocument (R_files rt))"
proof (intro conjI)
  let ?page = "\<lambda>_ :: Request. DocumentationHandler_Reference (R_files rt) (R_responder rt)"
  let ?csp = "set_header HeaderCSP contentSecurityPolicy"
  have page: "?page req x = Done (Asset (R_responder rt) ContentTypeHTML (documentationHTML (R_files rt)) (?csp x))" for req x
    by (simp add: DocumentationHandler_Reference_def)
  have csp: "fresh x \<Longrightarrow> fresh (?csp x) \<and> RW_broken (raw_writer (?csp x)) = RW_broken (raw_writer x)" for x
    by (simp add: fresh_def)
  have "matching_routes (route_table rt) ''/docs'' = [(RouteDocumentation, ?page, [])]"
    by (simp add: route_evaluation)
  from serve_asset[OF this page csp]
  show "reply_of (fst (serve rt elapsed (get ''/docs'' query) False srv)) = Some (200, documentationHTML (R_files rt))" .
  have "matching_routes (route_table rt) ''/docs/'' = [(RouteDocumentationSlash, ?page, [])]"
    by (simp add: route_evaluation)
  from serve_asset[OF this page csp]
  show "reply_of (fst (serve rt elapsed (get ''/docs/'' query) False srv)) = Some (200, documentationHTML (R_files rt))" .
next
  have "matching_routes (route_table rt) ''/docs/reference.js'' =
      [(RouteDocumentationJS, \<lambda>_. DocumentationHandler_ReferenceScript (R_files rt) (R_responder rt), [])]"
    by (simp add: route_evaluation)
  from serve_asset[OF this, of _ _ _ "\<lambda>x. x"]
  show "reply_of (fst (serve rt elapsed (get ''/docs/reference.js'' query) False srv)) =
      Some (200, documentationScript (R_files rt))"
    by (simp add: DocumentationHandler_ReferenceScript_def)
next
  have "matching_routes (route_table rt) ''/docs/scalar-1.75.0.js'' =
      [(RouteScalarJS, \<lambda>_. DocumentationHandler_ScalarScript (R_files rt) (R_responder rt), [])]"
    by (simp add: route_evaluation)
  from serve_asset[OF this, of _ _ _ "\<lambda>x. x"]
  show "reply_of (fst (serve rt elapsed (get ''/docs/scalar-1.75.0.js'' query) False srv)) =
      Some (200, scalarScript (R_files rt))"
    by (simp add: DocumentationHandler_ScalarScript_def)
next
  have "matching_routes (route_table rt) ''/openapi.json'' =
      [(RouteOpenAPIJSON, \<lambda>_. DocumentationHandler_OpenAPI (R_files rt) (R_responder rt), [])]"
    by (simp add: route_evaluation)
  from serve_asset[OF this, of _ _ _ "\<lambda>x. x"]
  show "reply_of (fst (serve rt elapsed (get (url (reference_config origin)) query) False srv)) =
      Some (200, openAPIDocument (R_files rt))"
    by (simp add: DocumentationHandler_OpenAPI_def Document_def reference_config_def)
qed

text \<open>
  C26. The page that \<open>/docs\<close> serves cannot run the generated code of the validation library: the policy sent
  with it lets no script compile text, so \<open>$ZodObjectJIT\<close> gives what the interpreter gives, for every
  schema, input and mode. The policy does let the style element in that carries the theme.
\<close>

theorem reference_page_interprets:
  "\<exists>h policy. RW_sent (fst (serve rt elapsed (get ''/docs'' query) broken srv)) = Some (200, h) \<and>
     h HeaderCSP = Some policy \<and> inline_style_allowed policy \<and>
     ZodObjectJIT_parse as_object (sQt jitless cloudflare (eval_allowed policy)) sch ctx s is =
       Some (ZodObject_parse as_object sch s is)"
proof -
  let ?page = "\<lambda>_ :: Request. DocumentationHandler_Reference (R_files rt) (R_responder rt)"
  let ?x = "set_header HeaderCSP contentSecurityPolicy (started (connection broken) srv)"
  let ?doc = "documentationHTML (R_files rt)"
  let ?h = "asset_headers (R_responder rt) ContentTypeHTML (length ?doc) (RW_header (raw_writer ?x))"
  have route: "matching_routes (route_table rt) (Req_Path (get ''/docs'' query)) = [(RouteDocumentation, ?page, [])]"
    by (simp add: route_evaluation get_def)
  have "fresh ?x" using fresh_connection[of broken srv] by (simp add: fresh_def)
  from Asset_replied[OF this, of "R_responder rt" ContentTypeHTML ?doc]
  have "RW_sent (fst (serve rt elapsed (get ''/docs'' query) broken srv)) = Some (200, ?h)"
    using serve_done[OF route] by (simp add: get_def method_served_def DocumentationHandler_Reference_def)
  moreover have "?h HeaderCSP = Some contentSecurityPolicy"
    by (simp add: asset_headers_def Let_def header_name_defs)
  ultimately show ?thesis
    using contentSecurityPolicy_allows interpreted_under_policy by blast
qed

end
